(* ===== verification/Prelude.thy ===== *)
theory Prelude
  imports Main "HOL-Library.Signed_Division" "HOL-Library.While_Combinator"
    "HOL-Library.State_Monad" "HOL-Library.Char_ord" "HOL-Library.List_Lexorder"
begin

text \<open>
  Shared vocabulary of the development: the fixed-width integers and the byte strings of
  the Go code, the pieces of \<open>strings\<close> and \<open>strconv\<close> it uses, association-list
  views of Go maps, and the rules by which facts about stateful computations are composed.

  Go strings are byte strings; they are modelled as \<open>string\<close> (lists of 8-bit
  characters), so a length is a number of bytes. White space is the ASCII white space.
\<close>

named_theorems go_simps \<open>unfolding rules of the Go library functions\<close>
named_theorems io_intros \<open>composition rules for relations kept by a stateful computation\<close>

section \<open>Fixed-width integers\<close>

abbreviation max_int64 :: int where "max_int64 \<equiv> 9223372036854775807"
abbreviation min_int64 :: int where "min_int64 \<equiv> - 9223372036854775808"

definition wrap64 :: "int \<Rightarrow> int" where
  "wrap64 x = (x + 9223372036854775808) mod 18446744073709551616 - 9223372036854775808"

definition int64 :: "int \<Rightarrow> bool" where
  "int64 x \<longleftrightarrow> min_int64 \<le> x \<and> x \<le> max_int64"

lemma wrap64_id [simp]: "int64 x \<Longrightarrow> wrap64 x = x"
  by (simp add: int64_def wrap64_def)

lemma int64_wrap64 [simp]: "int64 (wrap64 x)"
  unfolding int64_def wrap64_def
  using pos_mod_bound [of "18446744073709551616" "x + 9223372036854775808"]
    pos_mod_sign [of "18446744073709551616" "x + 9223372036854775808"] by simp

lemma wrap64_over:
  assumes "max_int64 < x" "x \<le> max_int64 + 18446744073709551616"
  shows "wrap64 x = x - 18446744073709551616"
proof -
  have "(x + 9223372036854775808) mod 18446744073709551616 =
    (x - 9223372036854775808) mod 18446744073709551616"
    using mod_add_self2 [of "x - 9223372036854775808" "18446744073709551616"]
    by (simp add: algebra_simps)
  also have "\<dots> = x - 9223372036854775808"
    using assms by (simp add: mod_pos_pos_trivial)
  finally show ?thesis by (simp add: wrap64_def)
qed

text \<open>Go's integer division truncates towards zero; division by zero panics, and every
  use below is guarded as the code guards it.\<close>

definition go_quot :: "int \<Rightarrow> int \<Rightarrow> int" where
  "go_quot a b = a sdiv b"

lemma go_quot_pos [simp]: "0 \<le> a \<Longrightarrow> 0 < b \<Longrightarrow> go_quot a b = a div b"
  by (cases "a = 0") (auto simp: go_quot_def signed_divide_int_def)

lemma int_div_mult_le: "0 < e \<Longrightarrow> a div e * e \<le> (a :: int)"
  using div_mult_mod_eq [of a e] pos_mod_sign [of e a] by linarith

section \<open>Strings\<close>

fun has_prefix :: "string \<Rightarrow> string \<Rightarrow> bool" where
  "has_prefix s [] = True"
| "has_prefix [] (p # ps) = False"
| "has_prefix (c # s) (p # ps) = (c = p \<and> has_prefix s ps)"

definition trim_prefix :: "string \<Rightarrow> string \<Rightarrow> string" where
  "trim_prefix s p = (if has_prefix s p then drop (length p) s else s)"

definition has_suffix :: "string \<Rightarrow> string \<Rightarrow> bool" where
  "has_suffix s p = has_prefix (rev s) (rev p)"

definition trim_suffix :: "string \<Rightarrow> string \<Rightarrow> string" where
  "trim_suffix s p = (if has_suffix s p then take (length s - length p) s else s)"

lemma has_prefix_append [simp]: "has_prefix (p @ s) p"
  by (induction p) auto

lemma has_prefix_iff: "has_prefix s p \<longleftrightarrow> (\<exists>r. s = p @ r)"
  by (induction s p rule: has_prefix.induct) auto

lemma has_prefix_Nil [simp]: "has_prefix [] p \<longleftrightarrow> p = []"
  by (cases p) auto

lemma trim_prefix_append [simp]: "trim_prefix (p @ s) p = s"
  by (simp add: trim_prefix_def)

lemma has_suffix_append [simp]: "has_suffix (s @ p) p"
  by (simp add: has_suffix_def)

lemma trim_suffix_append [simp]: "trim_suffix (s @ p) p = s"
  by (simp add: trim_suffix_def)

definition lower_char :: "char \<Rightarrow> char" where
  "lower_char c = (let n = of_char c :: nat in
     if 65 \<le> n \<and> n \<le> 90 then char_of (n + 32) else c)"

definition to_lower :: "string \<Rightarrow> string" where
  "to_lower s = map lower_char s"

definition is_digit :: "char \<Rightarrow> bool" where
  "is_digit c = (let n = of_char c :: nat in 48 \<le> n \<and> n \<le> 57)"

definition digit_val :: "char \<Rightarrow> int" where
  "digit_val c = int (of_char c) - 48"

definition digit_char :: "int \<Rightarrow> char" where
  "digit_char d = char_of (nat d + 48)"

lemma of_char_digit_char: "0 \<le> d \<Longrightarrow> d \<le> 9 \<Longrightarrow> (of_char (digit_char d) :: nat) = nat d + 48"
  by (simp add: digit_char_def)

lemma is_digit_digit_char [simp]: "0 \<le> d \<Longrightarrow> d \<le> 9 \<Longrightarrow> is_digit (digit_char d)"
  by (auto simp: is_digit_def of_char_digit_char Let_def)

lemma digit_val_digit_char [simp]: "0 \<le> d \<Longrightarrow> d \<le> 9 \<Longrightarrow> digit_val (digit_char d) = d"
  by (simp add: digit_val_def of_char_digit_char)

definition is_space :: "char \<Rightarrow> bool" where
  "is_space c = (let n = of_char c :: nat in n = 32 \<or> (9 \<le> n \<and> n \<le> 13))"

definition trim_space :: "string \<Rightarrow> string" where
  "trim_space s = rev (dropWhile is_space (rev (dropWhile is_space s)))"

text \<open>\<open>strings.Split(s, sep)\<close> for a one-byte separator: always at least one part.\<close>

fun split_on :: "char \<Rightarrow> string \<Rightarrow> string list" where
  "split_on sep [] = [[]]"
| "split_on sep (c # s) =
     (if c = sep then [] # split_on sep s
      else (case split_on sep s of [] \<Rightarrow> [[c]] | p # ps \<Rightarrow> (c # p) # ps))"

lemma split_on_not_Nil [simp]: "split_on sep s \<noteq> []"
  by (induction s) (auto split: list.splits)

text \<open>\<open>strings.Fields\<close>: the maximal runs of non-space bytes.\<close>

fun str_fields_aux :: "string \<Rightarrow> string \<Rightarrow> string list" where
  "str_fields_aux acc [] = (if acc = [] then [] else [rev acc])"
| "str_fields_aux acc (c # s) =
     (if is_space c then (if acc = [] then str_fields_aux [] s else rev acc # str_fields_aux [] s)
      else str_fields_aux (c # acc) s)"

definition str_fields :: "string \<Rightarrow> string list" where
  "str_fields s = str_fields_aux [] s"

text \<open>\<open>strings.SplitN(s, sep, 2)\<close> and \<open>strings.Index\<close> for a one-byte separator.\<close>

definition cut_at :: "char \<Rightarrow> string \<Rightarrow> string \<times> string" where
  "cut_at sep s = (takeWhile (\<lambda>c. c \<noteq> sep) s, drop 1 (dropWhile (\<lambda>c. c \<noteq> sep) s))"

lemma cut_at_append: "sep \<notin> set a \<Longrightarrow> cut_at sep (a @ sep # b) = (a, b)"
  by (auto simp: cut_at_def takeWhile_append dropWhile_append)

fun join_with :: "string \<Rightarrow> string list \<Rightarrow> string" where
  "join_with sep [] = []"
| "join_with sep [s] = s"
| "join_with sep (s # ss) = s @ sep @ join_with sep ss"

section \<open>Decimal numbers: \<open>strconv.Atoi\<close> and \<open>strconv.Itoa\<close>\<close>

definition digits_val :: "string \<Rightarrow> int" where
  "digits_val ds = foldl (\<lambda>a c. 10 * a + digit_val c) 0 ds"

definition atoi :: "string \<Rightarrow> int option" where
  "atoi s =
     (let neg = (case s of c # _ \<Rightarrow> c = CHR ''-'' | [] \<Rightarrow> False);
          body = (case s of c # cs \<Rightarrow> if c = CHR ''-'' \<or> c = CHR ''+'' then cs else s | [] \<Rightarrow> s)
      in if body = [] \<or> \<not> list_all is_digit body then None
         else (let n = (if neg then - digits_val body else digits_val body)
               in if int64 n then Some n else None))"

fun nat_digits :: "nat \<Rightarrow> string" where
  "nat_digits n = (if n < 10 then [digit_char (int n)]
                   else nat_digits (n div 10) @ [digit_char (int (n mod 10))])"

declare nat_digits.simps [simp del]

definition itoa :: "int \<Rightarrow> string" where
  "itoa n = (if n < 0 then CHR ''-'' # nat_digits (nat (- n)) else nat_digits (nat n))"

lemma digits_val_snoc [simp]: "digits_val (ds @ [c]) = 10 * digits_val ds + digit_val c"
  by (simp add: digits_val_def)

lemma digits_val_Nil [simp]: "digits_val [] = 0"
  by (simp add: digits_val_def)

lemma nat_digits_not_Nil [simp]: "nat_digits n \<noteq> []"
  by (subst nat_digits.simps) simp

lemma nat_digits_all: "list_all is_digit (nat_digits n)"
proof (induction n rule: nat_digits.induct)
  case (1 n)
  then show ?case
    by (subst nat_digits.simps) (auto simp: list_all_iff)
qed

lemma digits_val_nat_digits [simp]: "digits_val (nat_digits n) = int n"
proof (induction n rule: nat_digits.induct)
  case (1 n)
  show ?case
  proof (cases "n < 10")
    case True
    then show ?thesis
      by (subst nat_digits.simps) (simp add: digits_val_def)
  next
    case False
    have d: "0 \<le> int n mod 10" "int n mod 10 \<le> 9"
      using pos_mod_bound [of 10 "int n"] by simp_all
    have "digits_val (nat_digits n) = 10 * int (n div 10) + digit_val (digit_char (int n mod 10))"
      using False 1 by (subst nat_digits.simps) (simp add: zmod_int)
    also have "\<dots> = 10 * int (n div 10) + int n mod 10"
      using d by simp
    finally show ?thesis by (simp add: zdiv_int)
  qed
qed

lemma nat_digits_inject [simp]: "nat_digits m = nat_digits n \<longleftrightarrow> m = n"
  by (metis digits_val_nat_digits of_nat_eq_iff)

lemma nat_digits_hd: "hd (nat_digits n) \<noteq> CHR ''-'' \<and> hd (nat_digits n) \<noteq> CHR ''+''"
proof -
  have "is_digit (hd (nat_digits n))"
    using nat_digits_all [of n] by (cases "nat_digits n") auto
  then show ?thesis by (auto simp: is_digit_def)
qed

lemma atoi_itoa [simp]: "int64 n \<Longrightarrow> atoi (itoa n) = Some n"
proof (cases "n < 0")
  case True
  assume "int64 n"
  then show ?thesis using True nat_digits_all [of "nat (- n)"]
    by (simp add: atoi_def itoa_def)
next
  case False
  assume n: "int64 n"
  obtain c cs where c: "nat_digits (nat n) = c # cs"
    by (cases "nat_digits (nat n)") auto
  with nat_digits_hd [of "nat n"] nat_digits_all [of "nat n"] False n
    digits_val_nat_digits [of "nat n"]
  show ?thesis
    by (auto simp: atoi_def itoa_def simp del: digits_val_nat_digits)
qed

section \<open>Association lists as Go maps\<close>

text \<open>A Go map whose keys the code iterates over is an association list with distinct
  keys; a map that is only looked up is a function to \<open>option\<close>.\<close>

definition lookup_or :: "'v \<Rightarrow> ('k \<rightharpoonup> 'v) \<Rightarrow> 'k \<Rightarrow> 'v" where
  "lookup_or d m k = (case m k of None \<Rightarrow> d | Some v \<Rightarrow> v)"

section \<open>Relations kept by stateful computations\<close>

text \<open>\<open>keeps R m\<close>: whatever the start state, running \<open>m\<close> ends in a state
  related to it by \<open>R\<close>. With a reflexive and transitive \<open>R\<close> this composes along
  \<open>bind\<close>, so a fact about a long handler reduces to facts about its calls.\<close>

definition keeps :: "('w \<Rightarrow> 'w \<Rightarrow> bool) \<Rightarrow> ('w, 'a) state \<Rightarrow> bool" where
  "keeps R m \<longleftrightarrow> (\<forall>w. R w (snd (run_state m w)))"

lemma keepsI: "(\<And>w a w'. run_state m w = (a, w') \<Longrightarrow> R w w') \<Longrightarrow> keeps R m"
  by (auto simp: keeps_def) (metis prod.collapse)

lemma keepsD: "keeps R m \<Longrightarrow> run_state m w = (a, w') \<Longrightarrow> R w w'"
  by (auto simp: keeps_def) (metis snd_conv)

lemma keeps_return [io_intros]: "reflp R \<Longrightarrow> keeps R (State_Monad.return x)"
  by (simp add: keeps_def reflpD)

lemma keeps_get [io_intros]: "reflp R \<Longrightarrow> keeps R State_Monad.get"
  by (simp add: keeps_def reflpD)

lemma keeps_bind [io_intros]:
  assumes "transp R" "keeps R m" "\<And>x. keeps R (f x)"
  shows "keeps R (State_Monad.bind m f)"
  using assms unfolding keeps_def by (auto split: prod.splits) (metis snd_conv transpD)

lemma keeps_if [io_intros]: "(b \<Longrightarrow> keeps R m) \<Longrightarrow> (\<not> b \<Longrightarrow> keeps R n) \<Longrightarrow> keeps R (if b then m else n)"
  by simp

lemma keeps_option [io_intros]:
  "(x = None \<Longrightarrow> keeps R m) \<Longrightarrow> (\<And>y. x = Some y \<Longrightarrow> keeps R (f y)) \<Longrightarrow>
   keeps R (case x of None \<Rightarrow> m | Some y \<Rightarrow> f y)"
  by (cases x) auto

lemma keeps_sum [io_intros]:
  "(\<And>y. x = Inl y \<Longrightarrow> keeps R (f y)) \<Longrightarrow> (\<And>y. x = Inr y \<Longrightarrow> keeps R (g y)) \<Longrightarrow>
   keeps R (case x of Inl y \<Rightarrow> f y | Inr y \<Rightarrow> g y)"
  by (cases x) auto

lemma keeps_prod [io_intros]:
  "(\<And>a b. x = (a, b) \<Longrightarrow> keeps R (f a b)) \<Longrightarrow> keeps R (case x of (a, b) \<Rightarrow> f a b)"
  by (cases x) auto

lemma keeps_let [io_intros]: "keeps R (f x) \<Longrightarrow> keeps R (Let x f)"
  by simp

lemma keeps_mono: "keeps R m \<Longrightarrow> (\<And>v w. R v w \<Longrightarrow> S v w) \<Longrightarrow> keeps S m"
  by (auto simp: keeps_def)

end
