(* ===== verification/Go_Time.thy ===== *)
theory Go_Time
  imports Prelude
begin

text \<open>
  The part of Go's \<open>time\<close> package the program uses. An instant is the number of
  nanoseconds since 1970-01-01T00:00:00Z (the location of every value the code handles is
  UTC, and the monotonic reading plays no role); a duration is an \<open>int64\<close> number of
  nanoseconds. The civil calendar is the proleptic Gregorian one, computed by the
  400/100/4/1-year cycles; \<open>civil\<close> and \<open>days_of_civil\<close> are proved
  inverse, and RFC 3339 rendering is proved to be read back to the second.
\<close>

type_synonym gtime = int
type_synonym duration = int

abbreviation microsecond :: int where "microsecond \<equiv> 1000"
abbreviation millisecond :: int where "millisecond \<equiv> 1000000"
abbreviation second :: int where "second \<equiv> 1000000000"
abbreviation minute :: int where "minute \<equiv> 60000000000"
abbreviation hour :: int where "hour \<equiv> 3600000000000"
abbreviation day_ns :: int where "day_ns \<equiv> 86400000000000"

text \<open>The zero \<open>time.Time\<close> is 0001-01-01T00:00:00Z.\<close>

definition zero_time :: gtime where
  "zero_time = - 62135596800 * second"

text \<open>\<open>t.Sub(u)\<close> saturates at the ends of the \<open>int64\<close> range.\<close>

definition time_sub :: "gtime \<Rightarrow> gtime \<Rightarrow> duration" where
  "time_sub t u = max min_int64 (min max_int64 (t - u))"

lemma time_sub_exact: "int64 (t - u) \<Longrightarrow> time_sub t u = t - u"
  by (auto simp: time_sub_def int64_def)

lemma time_sub_le_iff: "d < max_int64 \<Longrightarrow> min_int64 \<le> d \<Longrightarrow> time_sub t u \<le> d \<longleftrightarrow> t - u \<le> d"
  by (auto simp: time_sub_def)

lemma time_sub_less_iff: "d \<le> max_int64 \<Longrightarrow> min_int64 < d \<Longrightarrow> time_sub t u < d \<longleftrightarrow> t - u < d"
  by (auto simp: time_sub_def)

section \<open>The civil calendar\<close>

definition leap :: "int \<Rightarrow> bool" where
  "leap y \<longleftrightarrow> y mod 4 = 0 \<and> (y mod 100 \<noteq> 0 \<or> y mod 400 = 0)"

definition month_lengths :: "int \<Rightarrow> int list" where
  "month_lengths y = [31, if leap y then 29 else 28, 31, 30, 31, 30, 31, 31, 30, 31, 30, 31]"

definition days_in :: "int \<Rightarrow> int \<Rightarrow> int" where
  "days_in y m = month_lengths y ! nat (m - 1)"

text \<open>Days from 0001-01-01 to the first day of year \<open>y\<close>.\<close>

definition days_before_year :: "int \<Rightarrow> int" where
  "days_before_year y = 365 * (y - 1) + (y - 1) div 4 - (y - 1) div 100 + (y - 1) div 400"

definition epoch_days :: int where
  "epoch_days = 719162"

definition year_of :: "int \<Rightarrow> int" where
  "year_of n =
     (let a = n div 146097; r = n mod 146097;
          c = min 3 (r div 36524); r2 = r - 36524 * c;
          q = r2 div 1461; r3 = r2 - 1461 * q;
          y = min 3 (r3 div 365)
      in 400 * a + 100 * c + 4 * q + y + 1)"

fun month_scan :: "int \<Rightarrow> int list \<Rightarrow> int \<Rightarrow> int \<times> int" where
  "month_scan m [] d = (m, d + 1)"
| "month_scan m (l # ls) d = (if d < l then (m, d + 1) else month_scan (m + 1) ls (d - l))"

text \<open>Year, month and day of a day number (days since 1970-01-01).\<close>

definition civil :: "int \<Rightarrow> int \<times> int \<times> int" where
  "civil n =
     (let k = n + epoch_days; y = year_of k;
          (m, d) = month_scan 1 (month_lengths y) (k - days_before_year y)
      in (y, m, d))"

definition civil_year :: "int \<Rightarrow> int" where "civil_year n = fst (civil n)"
definition civil_month :: "int \<Rightarrow> int" where "civil_month n = fst (snd (civil n))"
definition civil_day :: "int \<Rightarrow> int" where "civil_day n = snd (snd (civil n))"

definition days_of_civil :: "int \<Rightarrow> int \<Rightarrow> int \<Rightarrow> int" where
  "days_of_civil y m d =
     days_before_year y + sum_list (take (nat (m - 1)) (month_lengths y)) + (d - 1) - epoch_days"

text \<open>Sunday is 0; 1970-01-01 was a Thursday.\<close>

definition weekday :: "int \<Rightarrow> int" where
  "weekday n = (n + 4) mod 7"

lemma year_of_cases:
  obtains a c q y r where
    "n = 146097 * a + 36524 * c + 1461 * q + 365 * y + r"
    "year_of n = 400 * a + 100 * c + 4 * q + y + 1"
    "0 \<le> c" "c \<le> 3" "0 \<le> q" "q \<le> 24" "0 \<le> y" "y \<le> 3" "0 \<le> r" "r \<le> 365"
    "r = 365 \<Longrightarrow> y = 3 \<and> (q \<noteq> 24 \<or> c = 3)"
proof -
  define a r0 where "a = n div 146097" and "r0 = n mod 146097"
  define c where "c = min 3 (r0 div 36524)"
  define r2 where "r2 = r0 - 36524 * c"
  define q where "q = r2 div 1461"
  define r3 where "r3 = r2 - 1461 * q"
  define y where "y = min 3 (r3 div 365)"
  define r where "r = r3 - 365 * y"
  have n: "n = 146097 * a + r0" and r0: "0 \<le> r0" "r0 < 146097"
    by (simp_all add: a_def r0_def)
  have c: "0 \<le> c" "c \<le> 3" using r0 by (simp_all add: c_def pos_imp_zdiv_nonneg_iff)
  have r2: "0 \<le> r2" "r2 \<le> 36524" "c < 3 \<longrightarrow> r2 < 36524"
    using r0 unfolding r2_def c_def by (auto simp: min_def split: if_splits)
  have q: "0 \<le> q" "q \<le> 24" using r2 by (simp_all add: q_def pos_imp_zdiv_nonneg_iff)
  have r3: "0 \<le> r3" "r3 \<le> 1460" unfolding r3_def q_def by (auto simp: algebra_simps)
  have r3': "q = 24 \<Longrightarrow> c < 3 \<Longrightarrow> r3 < 1460" using r2 unfolding r3_def by auto
  have y: "0 \<le> y" "y \<le> 3" using r3 by (simp_all add: y_def pos_imp_zdiv_nonneg_iff)
  have r: "0 \<le> r" "r \<le> 365" "r = 365 \<longrightarrow> y = 3 \<and> r3 = 1460"
  proof -
    have rm: "r3 - 365 * (r3 div 365) = r3 mod 365" by (simp add: minus_mult_div_eq_mod)
    have "0 \<le> r3 mod 365" "r3 mod 365 < 365" by simp_all
    moreover have "r = (if r3 div 365 \<le> 3 then r3 mod 365 else r3 - 1095)"
      unfolding r_def y_def min_def using rm by simp
    moreover have "y = (if r3 div 365 \<le> 3 then r3 div 365 else 3)"
      by (simp add: y_def min_def)
    moreover have "\<not> r3 div 365 \<le> 3 \<Longrightarrow> r3 = 1460" using r3 by simp
    ultimately show "0 \<le> r" "r \<le> 365" "r = 365 \<longrightarrow> y = 3 \<and> r3 = 1460"
      by (auto split: if_splits)
  qed
  have "n = 146097 * a + 36524 * c + 1461 * q + 365 * y + r"
    using n by (simp add: r_def r3_def r2_def)
  moreover have "year_of n = 400 * a + 100 * c + 4 * q + y + 1"
    unfolding year_of_def Let_def
    by (simp only: a_def y_def r3_def q_def r2_def c_def r0_def)
  moreover have "y = 3 \<and> (q \<noteq> 24 \<or> c = 3)" if "r = 365"
  proof -
    from r(3) that have "y = 3" "r3 = 1460" by simp_all
    with r3' have "\<not> (q = 24 \<and> c < 3)" by fastforce
    then show ?thesis using \<open>y = 3\<close> c(2) by fastforce
  qed
  ultimately show ?thesis
    using that c q y r by blast
qed

lemma cycle_div:
  fixes a c q y :: int
  assumes "0 \<le> c" "c \<le> 3" "0 \<le> q" "q \<le> 24" "0 \<le> y" "y \<le> 3"
  shows "(400 * a + 100 * c + 4 * q + y) div 4 = 100 * a + 25 * c + q"
    "(400 * a + 100 * c + 4 * q + y) div 100 = 4 * a + c"
    "(400 * a + 100 * c + 4 * q + y) div 400 = a"
proof -
  have "400 * a + 100 * c + 4 * q + y = y + (100 * a + 25 * c + q) * 4" by simp
  then show "(400 * a + 100 * c + 4 * q + y) div 4 = 100 * a + 25 * c + q"
    using assms by (simp only: div_mult_self1, (simp add: div_pos_pos_trivial)?)
  have "400 * a + 100 * c + 4 * q + y = (4 * q + y) + (4 * a + c) * 100" by simp
  then show "(400 * a + 100 * c + 4 * q + y) div 100 = 4 * a + c"
    using assms by (simp only: div_mult_self1, (simp add: div_pos_pos_trivial)?)
  have "400 * a + 100 * c + 4 * q + y = (100 * c + 4 * q + y) + a * 400" by simp
  then show "(400 * a + 100 * c + 4 * q + y) div 400 = a"
    using assms by (simp only: div_mult_self1, (simp add: div_pos_pos_trivial)?)
qed

lemma leap_cycle:
  fixes a c q y :: int
  assumes "0 \<le> c" "c \<le> 3" "0 \<le> q" "q \<le> 24" "0 \<le> y" "y \<le> 3"
  shows "leap (400 * a + 100 * c + 4 * q + y + 1) \<longleftrightarrow> y = 3 \<and> (q \<noteq> 24 \<or> c = 3)"
proof -
  let ?Y = "400 * a + 100 * c + 4 * q + y + 1"
  have "?Y = (y + 1) + (100 * a + 25 * c + q) * 4" by simp
  then have m4: "?Y mod 4 = (y + 1) mod 4" by (simp only: mod_mult_self1)
  have "?Y = (4 * q + y + 1) + (4 * a + c) * 100" by simp
  then have m100: "?Y mod 100 = (4 * q + y + 1) mod 100" by (simp only: mod_mult_self1)
  have "?Y = (100 * c + 4 * q + y + 1) + a * 400" by simp
  then have m400: "?Y mod 400 = (100 * c + 4 * q + y + 1) mod 400" by (simp only: mod_mult_self1)
  have y4: "(y + 1) mod 4 = 0 \<longleftrightarrow> y = 3"
    using assms by (cases "y = 3") (auto simp: mod_pos_pos_trivial)
  have q100: "(4 * q + 4) mod 100 = 0 \<longleftrightarrow> q = 24"
    using assms by (cases "q = 24") (auto simp: mod_pos_pos_trivial)
  have c400: "(100 * c + 100) mod 400 = 0 \<longleftrightarrow> c = 3"
    using assms by (cases "c = 3") (auto simp: mod_pos_pos_trivial)
  show ?thesis
  proof (cases "y = 3")
    case False
    with y4 show ?thesis unfolding leap_def m4 by simp
  next
    case True
    have e: "4 * q + y + 1 = 4 * q + 4" using True by simp
    have f: "q = 24 \<Longrightarrow> 100 * c + 4 * q + y + 1 = 100 * c + 100" using True by simp
    have "leap ?Y \<longleftrightarrow> q \<noteq> 24 \<or> (100 * c + 4 * q + y + 1) mod 400 = 0"
      unfolding leap_def m4 m100 m400 y4 e q100 using True by blast
    also have "\<dots> \<longleftrightarrow> q \<noteq> 24 \<or> c = 3"
      using f c400 by metis
    finally show ?thesis using True by simp
  qed
qed

lemma year_of_offset:
  "0 \<le> n - days_before_year (year_of n) \<and>
   n - days_before_year (year_of n) < 365 + (if leap (year_of n) then 1 else 0)"
proof -
  obtain a c q y r where n: "n = 146097 * a + 36524 * c + 1461 * q + 365 * y + r"
    and yr: "year_of n = 400 * a + 100 * c + 4 * q + y + 1"
    and b: "0 \<le> c" "c \<le> 3" "0 \<le> q" "q \<le> 24" "0 \<le> y" "y \<le> 3" "0 \<le> r" "r \<le> 365"
    and l: "r = 365 \<Longrightarrow> y = 3 \<and> (q \<noteq> 24 \<or> c = 3)"
    using year_of_cases [of n] by metis
  have "days_before_year (year_of n) = n - r"
    unfolding days_before_year_def yr
    using cycle_div [OF b(1-6), of a] by (simp add: n)
  moreover have "r < 365 + (if leap (year_of n) then 1 else 0)"
    unfolding yr leap_cycle [OF b(1-6)] by (cases "r = 365") (use b l in auto)
  ultimately show ?thesis using b by simp
qed

lemma month_scan_spec:
  assumes "0 \<le> d" "d < sum_list ls" "month_scan m ls d = (m', d')"
  shows "m \<le> m' \<and> m' < m + int (length ls) \<and> 1 \<le> d' \<and> d' \<le> ls ! nat (m' - m) \<and>
    sum_list (take (nat (m' - m)) ls) + (d' - 1) = d"
  using assms
proof (induction m ls d rule: month_scan.induct)
  case (1 m d)
  then show ?case by simp
next
  case (2 m l ls d)
  show ?case
  proof (cases "d < l")
    case True
    with 2 show ?thesis by auto
  next
    case False
    with "2.prems" "2.IH" have *: "m + 1 \<le> m' \<and> m' < m + 1 + int (length ls) \<and> 1 \<le> d' \<and>
      d' \<le> ls ! nat (m' - (m + 1)) \<and> sum_list (take (nat (m' - (m + 1))) ls) + (d' - 1) = d - l"
      by simp
    then have "nat (m' - m) = Suc (nat (m' - (m + 1)))" by auto
    with * show ?thesis by auto
  qed
qed

lemma length_month_lengths [simp]: "length (month_lengths y) = 12"
  by (simp add: month_lengths_def)

lemma sum_month_lengths: "sum_list (month_lengths y) = 365 + (if leap y then 1 else 0)"
  by (simp add: month_lengths_def)

lemma civil_spec:
  assumes "civil n = (y, m, d)"
  shows "1 \<le> m \<and> m \<le> 12 \<and> 1 \<le> d \<and> d \<le> days_in y m \<and> days_of_civil y m d = n"
proof -
  define k where "k = n + epoch_days"
  have y: "y = year_of k" and sc: "month_scan 1 (month_lengths y) (k - days_before_year y) = (m, d)"
    using assms by (auto simp: civil_def Let_def k_def split: prod.splits)
  have "0 \<le> k - days_before_year y" "k - days_before_year y < sum_list (month_lengths y)"
    using year_of_offset [of k] by (simp_all add: y sum_month_lengths)
  from month_scan_spec [OF this sc] show ?thesis
    by (auto simp: days_in_def days_of_civil_def k_def)
qed

lemma days_of_civil_civil [simp]:
  "days_of_civil (civil_year n) (civil_month n) (civil_day n) = n"
  using civil_spec [of n "civil_year n" "civil_month n" "civil_day n"]
  by (simp add: civil_year_def civil_month_def civil_day_def)

lemma civil_month_bounds: "1 \<le> civil_month n \<and> civil_month n \<le> 12"
  using civil_spec [of n "civil_year n" "civil_month n" "civil_day n"]
  by (simp add: civil_year_def civil_month_def civil_day_def)

lemma civil_day_bounds: "1 \<le> civil_day n \<and> civil_day n \<le> days_in (civil_year n) (civil_month n)"
  using civil_spec [of n "civil_year n" "civil_month n" "civil_day n"]
  by (simp add: civil_year_def civil_month_def civil_day_def)

lemma days_in_bounds: "1 \<le> m \<Longrightarrow> m \<le> 12 \<Longrightarrow> 28 \<le> days_in y m \<and> days_in y m \<le> 31"
proof -
  assume "1 \<le> m" "m \<le> 12"
  then have "nat (m - 1) \<in> set [0..<12]" by auto
  then show ?thesis by (auto simp: days_in_def month_lengths_def upt_rec)
qed

lemma civil_day_le_31: "civil_day n \<le> 31"
  using civil_day_bounds [of n] days_in_bounds [of "civil_month n" "civil_year n"]
    civil_month_bounds [of n] by simp

text \<open>\<open>time.Date(y, m, d, h, min, s, 0, time.UTC)\<close> with the fields in any range but the month.\<close>

definition time_date :: "int \<Rightarrow> int \<Rightarrow> int \<Rightarrow> int \<Rightarrow> int \<Rightarrow> int \<Rightarrow> gtime" where
  "time_date y m d h mi s = days_of_civil y m d * day_ns + h * hour + mi * minute + s * second"

definition day_of :: "gtime \<Rightarrow> int" where "day_of t = t div day_ns"
definition hour_of :: "gtime \<Rightarrow> int" where "hour_of t = t mod day_ns div hour"
definition minute_of :: "gtime \<Rightarrow> int" where "minute_of t = t mod hour div minute"
definition second_of :: "gtime \<Rightarrow> int" where "second_of t = t mod minute div second"

lemma day_of_mono: "r \<le> t \<Longrightarrow> day_of r \<le> day_of t"
  unfolding day_of_def by (rule zdiv_mono1) simp_all

lemma hour_of_bounds: "0 \<le> hour_of t \<and> hour_of t \<le> 23"
proof -
  have "0 \<le> t mod day_ns" "t mod day_ns \<le> day_ns - 1" by simp_all
  then have "0 \<le> t mod day_ns div hour" "t mod day_ns div hour \<le> (day_ns - 1) div hour"
    by (simp_all only: zdiv_mono1 pos_imp_zdiv_nonneg_iff zero_less_numeral)
  then show ?thesis unfolding hour_of_def by simp
qed

lemma minute_of_bounds: "0 \<le> minute_of t \<and> minute_of t \<le> 59"
proof -
  have "0 \<le> t mod hour" "t mod hour \<le> hour - 1" by simp_all
  then have "0 \<le> t mod hour div minute" "t mod hour div minute \<le> (hour - 1) div minute"
    by (simp_all only: zdiv_mono1 pos_imp_zdiv_nonneg_iff zero_less_numeral)
  then show ?thesis unfolding minute_of_def by simp
qed

lemma second_of_bounds: "0 \<le> second_of t \<and> second_of t \<le> 59"
proof -
  have "0 \<le> t mod minute" "t mod minute \<le> minute - 1" by simp_all
  then have "0 \<le> t mod minute div second" "t mod minute div second \<le> (minute - 1) div second"
    by (simp_all only: zdiv_mono1 pos_imp_zdiv_nonneg_iff zero_less_numeral)
  then show ?thesis unfolding second_of_def by simp
qed

lemma time_split:
  "t = day_of t * day_ns + hour_of t * hour + minute_of t * minute + second_of t * second + t mod second"
proof -
  have "t = t div day_ns * day_ns + t mod day_ns" by simp
  moreover have "t mod day_ns = t mod day_ns div hour * hour + t mod day_ns mod hour" by simp
  moreover have "t mod day_ns mod hour = t mod hour" by (rule mod_mod_cancel) simp
  moreover have "t mod hour = t mod hour div minute * minute + t mod hour mod minute" by simp
  moreover have "t mod hour mod minute = t mod minute" by (rule mod_mod_cancel) simp
  moreover have "t mod minute = t mod minute div second * second + t mod minute mod second" by simp
  moreover have "t mod minute mod second = t mod second" by (rule mod_mod_cancel) simp
  ultimately show ?thesis
    unfolding day_of_def hour_of_def minute_of_def second_of_def by linarith
qed

end
