(* ===== verification/Go_Time_Format.thy ===== *)
theory Go_Time_Format
  imports Go_Time
begin

text \<open>
  Text forms of instants and durations: \<open>Format(time.RFC3339)\<close>,
  \<open>Parse(time.RFC3339, s)\<close> and \<open>ParseDuration\<close> of the standard library, with
  the leniency of the library's parser (a one-digit hour, a fraction of a second after
  \<open>.\<close> or \<open>,\<close>). The library multiplies the fraction of a duration in
  floating point; here it is the exact quotient, rounded down.
\<close>

section \<open>RFC 3339\<close>

definition two_digits :: "int \<Rightarrow> string" where
  "two_digits n = [digit_char (n div 10), digit_char (n mod 10)]"

definition four_digits :: "int \<Rightarrow> string" where
  "four_digits n = two_digits (n div 100) @ two_digits (n mod 100)"

definition format_year :: "int \<Rightarrow> string" where
  "format_year y =
     (if 0 \<le> y \<and> y \<le> 9999 then four_digits y
      else if y < 0 then
        (let ds = nat_digits (nat (- y)) in CHR ''-'' # replicate (4 - length ds) CHR ''0'' @ ds)
      else nat_digits (nat y))"

definition format_rfc3339 :: "gtime \<Rightarrow> string" where
  "format_rfc3339 t =
     (let n = day_of t in
      format_year (civil_year n) @ ''-'' @ two_digits (civil_month n) @ ''-'' @
      two_digits (civil_day n) @ ''T'' @ two_digits (hour_of t) @ '':'' @
      two_digits (minute_of t) @ '':'' @ two_digits (second_of t) @ ''Z'')"

text \<open>\<open>getnum(s, fixed)\<close>: two digits, or one when \<open>fixed\<close> is false.\<close>

fun getnum :: "bool \<Rightarrow> string \<Rightarrow> (int \<times> string) option" where
  "getnum fixed (a # b # s) =
     (if \<not> is_digit a then None
      else if \<not> is_digit b then (if fixed then None else Some (digit_val a, b # s))
      else Some (10 * digit_val a + digit_val b, s))"
| "getnum fixed [a] = (if is_digit a \<and> \<not> fixed then Some (digit_val a, []) else None)"
| "getnum fixed [] = None"

fun getyear :: "string \<Rightarrow> (int \<times> string) option" where
  "getyear (a # b # c # d # s) =
     (if is_digit a \<and> is_digit b \<and> is_digit c \<and> is_digit d
      then Some (1000 * digit_val a + 100 * digit_val b + 10 * digit_val c + digit_val d, s)
      else None)"
| "getyear _ = None"

definition expect :: "char \<Rightarrow> string \<Rightarrow> string option" where
  "expect c s = (case s of [] \<Rightarrow> None | a # r \<Rightarrow> if a = c then Some r else None)"

text \<open>The optional fraction after the seconds: nanoseconds and the rest.\<close>

definition getfrac :: "string \<Rightarrow> int \<times> string" where
  "getfrac s =
     (case s of
        p # d # r \<Rightarrow>
          if (p = CHR ''.'' \<or> p = CHR '','') \<and> is_digit d then
            (let ds = takeWhile is_digit (d # r); rest = dropWhile is_digit (d # r);
                 n = take 9 ds
             in (digits_val n * 10 ^ (9 - length n), rest))
          else (0, s)
      | _ \<Rightarrow> (0, s))"

text \<open>The zone: \<open>Z\<close> or a signed \<open>hh:mm\<close>; seconds east of UTC.\<close>

definition getzone :: "string \<Rightarrow> (int \<times> string) option" where
  "getzone s =
     (case s of
        [] \<Rightarrow> None
      | c # r \<Rightarrow>
          if c = CHR ''Z'' then Some (0, r)
          else if c = CHR ''+'' \<or> c = CHR ''-'' then do {
            (h, r1) \<leftarrow> getnum True r;
            r2 \<leftarrow> expect CHR '':'' r1;
            (m, r3) \<leftarrow> getnum True r2;
            if h > 24 \<or> m > 60 then None
            else Some ((if c = CHR ''-'' then - 1 else 1) * (h * 60 + m) * 60, r3)
          }
          else None)"

definition parse_rfc3339 :: "string \<Rightarrow> gtime option" where
  "parse_rfc3339 s = do {
     (y, s) \<leftarrow> getyear s;
     s \<leftarrow> expect CHR ''-'' s;
     (mo, s) \<leftarrow> getnum True s;
     s \<leftarrow> expect CHR ''-'' s;
     (d, s) \<leftarrow> getnum True s;
     s \<leftarrow> expect CHR ''T'' s;
     (h, s) \<leftarrow> getnum False s;
     s \<leftarrow> expect CHR '':'' s;
     (mi, s) \<leftarrow> getnum True s;
     s \<leftarrow> expect CHR '':'' s;
     (se, s) \<leftarrow> getnum True s;
     (case getfrac s of (ns, s) \<Rightarrow> do {
       (off, s) \<leftarrow> getzone s;
       if s \<noteq> [] \<or> mo < 1 \<or> mo > 12 \<or> h \<ge> 24 \<or> mi \<ge> 60 \<or> se \<ge> 60 \<or> d < 1 \<or> d > days_in y mo
       then None
       else Some (time_date y mo d h mi se + ns - off * second)
     })
   }"

lemma is_digit_char_facts [simp]:
  "\<not> is_digit CHR ''-''" "\<not> is_digit CHR '':''" "\<not> is_digit CHR ''Z''" "\<not> is_digit CHR ''T''"
  "\<not> is_digit CHR ''.''" "\<not> is_digit CHR '',''" "\<not> is_digit CHR ''\"''"
  by (simp_all add: is_digit_def)

lemma getnum_two_digits [simp]:
  assumes "0 \<le> n" "n \<le> 99"
  shows "getnum fixed (two_digits n @ s) = Some (n, s)"
proof -
  have "0 \<le> n div 10" "n div 10 \<le> 9" "0 \<le> n mod 10" "n mod 10 \<le> 9"
    using assms pos_mod_bound [of 10 n] by (simp_all add: pos_imp_zdiv_nonneg_iff)
  then show ?thesis by (simp add: two_digits_def)
qed

lemma getyear_digit_chars:
  assumes "0 \<le> a" "a \<le> 9" "0 \<le> b" "b \<le> 9" "0 \<le> c" "c \<le> 9" "0 \<le> d" "d \<le> 9"
  shows "getyear (digit_char a # digit_char b # digit_char c # digit_char d # s) =
    Some (1000 * a + 100 * b + 10 * c + d, s)"
  using assms by simp

lemma getyear_four_digits [simp]:
  assumes "0 \<le> n" "n \<le> 9999"
  shows "getyear (four_digits n @ s) = Some (n, s)"
proof -
  have a: "0 \<le> n div 100" "n div 100 \<le> 99" "0 \<le> n mod 100" "n mod 100 \<le> 99"
    using assms pos_mod_bound [of 100 n] by (simp_all add: pos_imp_zdiv_nonneg_iff)
  then have b: "0 \<le> n div 100 div 10" "n div 100 div 10 \<le> 9" "0 \<le> n div 100 mod 10" "n div 100 mod 10 \<le> 9"
    "0 \<le> n mod 100 div 10" "n mod 100 div 10 \<le> 9" "0 \<le> n mod 100 mod 10" "n mod 100 mod 10 \<le> 9"
    using pos_mod_bound [of 10 "n div 100"] pos_mod_bound [of 10 "n mod 100"]
    by (simp_all only: pos_imp_zdiv_nonneg_iff zero_less_numeral pos_mod_sign, auto?)
  moreover have "1000 * (n div 100 div 10) + 100 * (n div 100 mod 10) +
      10 * (n mod 100 div 10) + n mod 100 mod 10 = n"
    using div_mult_mod_eq [of "n div 100" 10] div_mult_mod_eq [of "n mod 100" 10]
      div_mult_mod_eq [of n 100] by linarith
  ultimately show ?thesis
    unfolding four_digits_def two_digits_def append_Cons append_Nil
    by (simp only: getyear_digit_chars [OF b])
qed

lemma getfrac_Z [simp]: "getfrac (CHR ''Z'' # s) = (0, CHR ''Z'' # s)"
  by (simp add: getfrac_def split: list.splits)

text \<open>Rendering and reading back loses the fraction of a second and nothing else.\<close>

lemma rfc3339_roundtrip:
  assumes "0 \<le> civil_year (day_of t)" "civil_year (day_of t) \<le> 9999"
  shows "parse_rfc3339 (format_rfc3339 t) = Some (t - t mod second)"
proof -
  have m: "1 \<le> civil_month (day_of t)" "civil_month (day_of t) \<le> 12"
    using civil_month_bounds by auto
  have d: "1 \<le> civil_day (day_of t)" "civil_day (day_of t) \<le> 31"
    "civil_day (day_of t) \<le> days_in (civil_year (day_of t)) (civil_month (day_of t))"
    using civil_day_bounds civil_day_le_31 by auto
  have h: "0 \<le> hour_of t" "hour_of t \<le> 23" using hour_of_bounds by auto
  have mi: "0 \<le> minute_of t" "minute_of t \<le> 59" using minute_of_bounds by auto
  have s: "0 \<le> second_of t" "second_of t \<le> 59" using second_of_bounds by auto
  have "time_date (civil_year (day_of t)) (civil_month (day_of t)) (civil_day (day_of t))
      (hour_of t) (minute_of t) (second_of t) = t - t mod second"
    using time_split [of t] by (simp add: time_date_def)
  then show ?thesis
    using assms m d h mi s
    by (simp add: parse_rfc3339_def format_rfc3339_def format_year_def expect_def getzone_def Let_def)
qed

section \<open>Durations\<close>

definition duration_unit :: "string \<Rightarrow> int option" where
  "duration_unit u =
     (if u = ''ns'' then Some 1
      else if u = ''us'' \<or> u = [char_of (194 :: nat), char_of (181 :: nat), CHR ''s'']
              \<or> u = [char_of (206 :: nat), char_of (188 :: nat), CHR ''s''] then Some microsecond
      else if u = ''ms'' then Some millisecond
      else if u = ''s'' then Some second
      else if u = ''m'' then Some minute
      else if u = ''h'' then Some hour
      else None)"

definition num_char :: "char \<Rightarrow> bool" where
  "num_char c \<longleftrightarrow> c = CHR ''.'' \<or> is_digit c"

text \<open>One \<open>number unit\<close> group after another, summed; \<open>None\<close> is a parse error
  (bad syntax, an unknown unit, or a sum above \<open>2^63\<close>).\<close>

function duration_groups :: "int \<Rightarrow> string \<Rightarrow> int option" where
  "duration_groups d s =
     (if s = [] then Some d
      else
       (let ip = takeWhile is_digit s; s1 = dropWhile is_digit s;
            dot = (s1 \<noteq> [] \<and> hd s1 = CHR ''.'');
            fp = (if dot then takeWhile is_digit (tl s1) else []);
            s2 = (if dot then dropWhile is_digit (tl s1) else s1);
            u = takeWhile (\<lambda>c. \<not> num_char c) s2; s3 = dropWhile (\<lambda>c. \<not> num_char c) s2
        in if \<not> num_char (hd s) \<or> (ip = [] \<and> fp = []) \<or> u = [] then None
           else (case duration_unit u of
               None \<Rightarrow> None
             | Some un \<Rightarrow>
                 (let v = digits_val ip * un + digits_val fp * un div 10 ^ length fp
                  in if digits_val ip > 9223372036854775808 div un \<or> v > 9223372036854775808
                        \<or> d + v > 9223372036854775808 then None
                     else duration_groups (d + v) s3))))"
  by pat_completeness auto
termination
proof (relation "measure (\<lambda>(d, s). length s)", goal_cases)
  case 1
  then show ?case by simp
next
  case (2 d s ip s1 dot fp s2 u s3 un v)
  have "length s1 \<le> length s" unfolding 2 by (rule length_dropWhile_le)
  moreover have "length s2 \<le> length s1"
    unfolding 2 using length_dropWhile_le [of is_digit "tl (dropWhile is_digit s)"]
    by (cases "dropWhile is_digit s") auto
  moreover have "length s3 < length s2"
  proof -
    have "s2 = u @ s3" unfolding 2(7,8) by simp
    moreover have "u \<noteq> []" using 2 by blast
    ultimately show ?thesis by (cases u) auto
  qed
  ultimately show ?case by simp
qed

declare duration_groups.simps [simp del]

definition parse_duration :: "string \<Rightarrow> duration option" where
  "parse_duration s =
     (let neg = (s \<noteq> [] \<and> hd s = CHR ''-'');
          b = (if s \<noteq> [] \<and> (hd s = CHR ''-'' \<or> hd s = CHR ''+'') then tl s else s)
      in if b = ''0'' then Some 0
         else if b = [] then None
         else (case duration_groups 0 b of
             None \<Rightarrow> None
           | Some d \<Rightarrow> if neg then Some (- d) else if d > max_int64 then None else Some d))"

lemma digits_val_nonneg: "list_all is_digit ds \<Longrightarrow> 0 \<le> digits_val ds"
  by (induction ds rule: rev_induct) (auto simp: digit_val_def is_digit_def Let_def)

lemma list_all_takeWhile [simp]: "list_all p (takeWhile p xs)"
  by (auto simp: list_all_iff dest: set_takeWhileD)

lemma duration_unit_pos: "duration_unit u = Some n \<Longrightarrow> 0 < n"
  by (auto simp: duration_unit_def split: if_splits)

lemma duration_groups_bounds:
  "duration_groups d s = Some r \<Longrightarrow> 0 \<le> d \<Longrightarrow> d \<le> 9223372036854775808 \<Longrightarrow>
   0 \<le> r \<and> r \<le> 9223372036854775808"
proof (induction d s rule: duration_groups.induct)
  case (1 d s)
  show ?case
  proof (cases "s = []")
    case True
    with 1 show ?thesis by (simp add: duration_groups.simps)
  next
    case False
    define ip s1 where "ip = takeWhile is_digit s" and "s1 = dropWhile is_digit s"
    define dot where "dot = (s1 \<noteq> [] \<and> hd s1 = CHR ''.'')"
    define fp s2 where "fp = (if dot then takeWhile is_digit (tl s1) else [])"
      and "s2 = (if dot then dropWhile is_digit (tl s1) else s1)"
    define u s3 where "u = takeWhile (\<lambda>c. \<not> num_char c) s2" and "s3 = dropWhile (\<lambda>c. \<not> num_char c) s2"
    have eq: "duration_groups d s =
       (if \<not> num_char (hd s) \<or> (ip = [] \<and> fp = []) \<or> u = [] then None
        else (case duration_unit u of
            None \<Rightarrow> None
          | Some un \<Rightarrow>
              (let v = digits_val ip * un + digits_val fp * un div 10 ^ length fp
               in if digits_val ip > 9223372036854775808 div un \<or> v > 9223372036854775808
                     \<or> d + v > 9223372036854775808 then None
                  else duration_groups (d + v) s3)))"
      unfolding u_def s3_def fp_def s2_def dot_def ip_def s1_def
      by (subst duration_groups.simps) (simp only: False if_False Let_def)
    from "1.prems"(1) obtain un where un: "duration_unit u = Some un"
      and ok: "\<not> (\<not> num_char (hd s) \<or> (ip = [] \<and> fp = []) \<or> u = [])"
      by (auto simp: eq split: if_splits option.splits)
    define v where "v = digits_val ip * un + digits_val fp * un div 10 ^ length fp"
    from "1.prems"(1) have rec: "duration_groups (d + v) s3 = Some r"
      and b: "\<not> (digits_val ip > 9223372036854775808 div un \<or> v > 9223372036854775808
           \<or> d + v > 9223372036854775808)"
      by (auto simp: eq un v_def Let_def split: if_splits)
    have "0 \<le> digits_val ip" "0 \<le> digits_val fp"
      by (auto intro!: digits_val_nonneg simp: ip_def fp_def)
    with duration_unit_pos [OF un] have "0 \<le> v"
      by (auto simp: v_def pos_imp_zdiv_nonneg_iff)
    have IH: "duration_groups (d + v) s3 = Some r \<Longrightarrow> 0 \<le> d + v \<Longrightarrow> d + v \<le> 9223372036854775808 \<Longrightarrow>
        0 \<le> r \<and> r \<le> 9223372036854775808"
      using "1.IH" [OF False ip_def s1_def dot_def fp_def s2_def u_def s3_def ok un v_def] b by blast
    show ?thesis
      using IH [OF rec] \<open>0 \<le> v\<close> "1.prems"(2) b by linarith
  qed
qed

lemma parse_duration_int64: "parse_duration s = Some d \<Longrightarrow> int64 d"
  unfolding parse_duration_def
  by (auto simp: Let_def int64_def split: if_splits option.splits dest!: duration_groups_bounds)

lemma parse_duration_examples:
  "parse_duration ''12h'' = Some (12 * hour)"
  "parse_duration ''1h30m'' = Some (90 * minute)"
  "parse_duration ''5m'' = Some (5 * minute)"
  "parse_duration ''1d'' = None"
  by code_simp+

end
