(* ===== verification/Cron.thy ===== *)
theory Cron
  imports Go_Time_Format
begin

text \<open>
  \<open>internal/cron/cron.go\<close>: the maintenance-window schedules. The parser (\<open>Parse\<close>,
  \<open>parseAt\<close>, \<open>parseField\<close>, \<open>parseValue\<close>), the backward search for the last
  occurrence, and the two window queries \<open>WindowsOpen\<close> and \<open>NewestOccurrence\<close>. The
  abstract reading is \<open>occurs\<close>: which instants are occurrences of a schedule; the
  search is proved to return the latest one at or before the given instant. Go's \<open>int\<close>
  is 64 bits wide, and the step loop of \<open>parseField\<close> wraps around as the code's does.
\<close>

section \<open>Schedules\<close>

record schedule =
  spec :: string
  every :: duration
  minutes :: "int list"
  hours :: "int list"
  dom_days :: "int list"
  months :: "int list"
  dow :: "int list"
  domStar :: bool
  dowStar :: bool

definition every_schedule :: "string \<Rightarrow> duration \<Rightarrow> schedule" where
  "every_schedule sp d = \<lparr>spec = sp, every = d, minutes = [], hours = [], dom_days = [],
     months = [], dow = [], domStar = False, dowStar = False\<rparr>"

datatype field_error =
    QuestionMark | EmptyElement | BadStep | OutOfRange string int int | RangeOrder
  | StepBase | EmptyField | Diverges

datatype cron_error =
    WantFields nat | BadField string field_error | TakesNoArgument string | WantEvery
  | BadEvery string | BadSeconds string | UnknownSchedule string | BuiltinPanic

definition monthNames :: "(string \<times> int) list" where
  "monthNames = [(''jan'', 1), (''feb'', 2), (''mar'', 3), (''apr'', 4), (''may'', 5), (''jun'', 6),
     (''jul'', 7), (''aug'', 8), (''sep'', 9), (''oct'', 10), (''nov'', 11), (''dec'', 12)]"

definition dowNames :: "(string \<times> int) list" where
  "dowNames = [(''sun'', 0), (''mon'', 1), (''tue'', 2), (''wed'', 3), (''thu'', 4), (''fri'', 5), (''sat'', 6)]"

section \<open>Parsing\<close>

definition parseValue :: "string \<Rightarrow> int \<Rightarrow> int \<Rightarrow> (string \<times> int) list \<Rightarrow> field_error + int" where
  "parseValue raw lo hi names =
     (case map_of names (to_lower raw) of
        Some v \<Rightarrow> Inr v
      | None \<Rightarrow>
          (case atoi raw of
             None \<Rightarrow> Inl (OutOfRange raw lo hi)
           | Some n \<Rightarrow> if n < lo \<or> n > hi then Inl (OutOfRange raw lo hi) else Inr n))"

text \<open>The loop \<open>for v := lo; v <= hi; v += step\<close>, on \<open>int64\<close> values: the values
  visited, latest first; \<open>None\<close> if it never ends.\<close>

definition step_values :: "int \<Rightarrow> int \<Rightarrow> int \<Rightarrow> int list option" where
  "step_values lo hi step =
     map_option snd
       (while_option (\<lambda>(v, acc). v \<le> hi) (\<lambda>(v, acc). (wrap64 (v + step), v # acc)) (lo, []))"

definition item_step :: "string \<Rightarrow> field_error + (string \<times> int)" where
  "item_step item =
     (if CHR ''/'' \<in> set item then
        (case cut_at CHR ''/'' item of (base, st) \<Rightarrow>
           (case atoi st of
              None \<Rightarrow> Inl BadStep
            | Some n \<Rightarrow> if n \<le> 0 then Inl BadStep else Inr (base, n)))
      else Inr (item, 1))"

definition item_range ::
    "string \<Rightarrow> string \<Rightarrow> int \<Rightarrow> int \<Rightarrow> (string \<times> int) list \<Rightarrow> field_error + (int \<times> int)" where
  "item_range item base lo hi names =
     (if base = ''*'' then Inr (lo, hi)
      else if CHR ''-'' \<in> set base then
        (case cut_at CHR ''-'' base of (a, b) \<Rightarrow>
           (case parseValue a lo hi names of
              Inl e \<Rightarrow> Inl e
            | Inr l \<Rightarrow>
                (case parseValue b lo hi names of
                   Inl e \<Rightarrow> Inl e
                 | Inr h \<Rightarrow> if l > h then Inl RangeOrder else Inr (l, h))))
      else if CHR ''/'' \<in> set item then Inl StepBase
      else (case parseValue base lo hi names of Inl e \<Rightarrow> Inl e | Inr l \<Rightarrow> Inr (l, l)))"

definition item_values :: "string \<Rightarrow> int \<Rightarrow> int \<Rightarrow> (string \<times> int) list \<Rightarrow> field_error + int list" where
  "item_values item lo hi names =
     (if item = [] then Inl EmptyElement
      else (case item_step item of
          Inl e \<Rightarrow> Inl e
        | Inr (base, step) \<Rightarrow>
            (case item_range item base lo hi names of
               Inl e \<Rightarrow> Inl e
             | Inr (l, h) \<Rightarrow>
                 (case step_values l h step of None \<Rightarrow> Inl Diverges | Some vs \<Rightarrow> Inr vs))))"

fun items_values :: "string list \<Rightarrow> int \<Rightarrow> int \<Rightarrow> (string \<times> int) list \<Rightarrow> field_error + int list" where
  "items_values [] lo hi names = Inr []"
| "items_values (it # its) lo hi names =
     (case item_values it lo hi names of
        Inl e \<Rightarrow> Inl e
      | Inr vs \<Rightarrow> (case items_values its lo hi names of Inl e \<Rightarrow> Inl e | Inr ws \<Rightarrow> Inr (vs @ ws)))"

text \<open>The code collects the values in a map and insertion-sorts its keys.\<close>

definition parseField :: "string \<Rightarrow> int \<Rightarrow> int \<Rightarrow> (string \<times> int) list \<Rightarrow> field_error + int list" where
  "parseField field lo hi names =
     (if CHR ''?'' \<in> set field then Inl QuestionMark
      else (case items_values (split_on CHR '','' field) lo hi names of
          Inl e \<Rightarrow> Inl e
        | Inr vs \<Rightarrow> if vs = [] then Inl EmptyField else Inr (sort (remdups vs))))"

text \<open>7 is Sunday too: it becomes 0, once.\<close>

fun norm_dow :: "bool \<Rightarrow> int list \<Rightarrow> int list" where
  "norm_dow seenSun [] = []"
| "norm_dow seenSun (d # ds) =
     (if d = 7 then (if seenSun then norm_dow seenSun ds else 0 # norm_dow True ds)
      else d # norm_dow seenSun ds)"

definition in_field :: "string \<Rightarrow> field_error + 'a \<Rightarrow> ('a \<Rightarrow> cron_error + 'b) \<Rightarrow> cron_error + 'b" where
  "in_field nm r k = (case r of Inl e \<Rightarrow> Inl (BadField nm e) | Inr v \<Rightarrow> k v)"

text \<open>The part of \<open>Parse\<close> after the check for \<open>@\<close>: five fields.\<close>

definition parse5 :: "string \<Rightarrow> cron_error + schedule" where
  "parse5 sp =
     (let fs = str_fields sp in
      if length fs \<noteq> 5 then Inl (WantFields (length fs))
      else
        in_field ''minute'' (parseField (fs ! 0) 0 59 []) (\<lambda>mi.
        in_field ''hour'' (parseField (fs ! 1) 0 23 []) (\<lambda>h.
        in_field ''day of month'' (parseField (fs ! 2) 1 31 []) (\<lambda>d.
        in_field ''month'' (parseField (fs ! 3) 1 12 monthNames) (\<lambda>mo.
        in_field ''day of week'' (parseField (fs ! 4) 0 7 dowNames) (\<lambda>w.
          Inr \<lparr>spec = sp, every = 0, minutes = mi, hours = h, dom_days = d, months = mo,
               dow = norm_dow False w, domStar = (fs ! 2 = ''*''), dowStar = (fs ! 4 = ''*'')\<rparr>))))))"

text \<open>\<open>BuiltinPanic\<close> is the panic on a bad built-in equivalent.\<close>

definition mustFields :: "string \<Rightarrow> string list \<Rightarrow> string \<Rightarrow> cron_error + schedule" where
  "mustFields sp fs eqv =
     (if length fs \<noteq> 1 then Inl (TakesNoArgument (hd fs))
      else (case parse5 eqv of Inl e \<Rightarrow> Inl BuiltinPanic | Inr s \<Rightarrow> Inr (s\<lparr>spec := sp\<rparr>)))"

definition parseAt :: "string \<Rightarrow> cron_error + schedule" where
  "parseAt sp =
     (let fs = str_fields sp; f0 = hd fs in
      if f0 = ''@hourly'' then mustFields sp fs ''0 * * * *''
      else if f0 = ''@daily'' \<or> f0 = ''@midnight'' then mustFields sp fs ''0 0 * * *''
      else if f0 = ''@weekly'' then mustFields sp fs ''0 0 * * 0''
      else if f0 = ''@monthly'' then mustFields sp fs ''0 0 1 * *''
      else if f0 = ''@yearly'' \<or> f0 = ''@annually'' then mustFields sp fs ''0 0 1 1 *''
      else if f0 = ''@every_minute'' then mustFields sp fs ''* * * * *''
      else if f0 = ''@every_second'' then
        (if length fs \<noteq> 1 then Inl (TakesNoArgument f0) else Inr (every_schedule sp second))
      else if f0 = ''@every'' then
        (if length fs \<noteq> 2 then Inl WantEvery
         else (case parse_duration (fs ! 1) of
             None \<Rightarrow> Inl (BadEvery (fs ! 1))
           | Some d \<Rightarrow> if d \<le> 0 then Inl (BadEvery (fs ! 1)) else Inr (every_schedule sp d)))
      else if length fs = 1 then
        (case atoi (trim_prefix f0 ''@'') of
           None \<Rightarrow> Inl (UnknownSchedule sp)
         | Some n \<Rightarrow> if n \<le> 0 then Inl (BadSeconds sp)
                     else Inr (every_schedule sp (wrap64 (n * second))))
      else Inl (UnknownSchedule sp))"

definition Parse :: "string \<Rightarrow> cron_error + schedule" where
  "Parse sp = (if has_prefix sp ''@'' then parseAt sp else parse5 sp)"

section \<open>Evaluation\<close>

definition isOnlyFeb29 :: "int list \<Rightarrow> int list \<Rightarrow> bool" where
  "isOnlyFeb29 ms ds \<longleftrightarrow> ms = [2] \<and> ds = [29]"

definition dayMatches :: "schedule \<Rightarrow> int \<Rightarrow> bool" where
  "dayMatches s n =
     (let domMatch = List.member (dom_days s) (civil_day n); dowMatch = List.member (dow s) (weekday n) in
      if domStar s \<and> dowStar s then True
      else if domStar s then dowMatch
      else if dowStar s then domMatch
      else domMatch \<or> dowMatch)"

text \<open>The two inner loops: hours and, in each, minutes, from the largest down.\<close>

fun pick_hour :: "int \<Rightarrow> int \<Rightarrow> int list \<Rightarrow> int list \<Rightarrow> (int \<times> int) option" where
  "pick_hour maxH maxM [] ms = None"
| "pick_hour maxH maxM (h # hs) ms =
     (if h > maxH then pick_hour maxH maxM hs ms
      else (case find (\<lambda>m. m \<le> (if h = maxH then maxM else 59)) ms of
          Some m \<Rightarrow> Some (h, m)
        | None \<Rightarrow> pick_hour maxH maxM hs ms))"

definition try_day :: "schedule \<Rightarrow> gtime \<Rightarrow> int \<Rightarrow> gtime option" where
  "try_day s t d =
     (let dd = day_of t - d in
      if \<not> List.member (months s) (civil_month dd) then None
      else if \<not> dayMatches s dd then None
      else (case pick_hour (if d = 0 then hour_of t else 23) (if d = 0 then minute_of t else 59)
               (rev (hours s)) (rev (minutes s)) of
          None \<Rightarrow> None
        | Some (h, m) \<Rightarrow> Some (time_date (civil_year dd) (civil_month dd) (civil_day dd) h m 0)))"

fun scan_days :: "schedule \<Rightarrow> gtime \<Rightarrow> int \<Rightarrow> nat \<Rightarrow> gtime option" where
  "scan_days s t d 0 = None"
| "scan_days s t d (Suc k) =
     (case try_day s t d of Some r \<Rightarrow> Some r | None \<Rightarrow> scan_days s t (d + 1) k)"

definition horizon :: "schedule \<Rightarrow> nat" where
  "horizon s = (if isOnlyFeb29 (months s) (dom_days s) then 4 * 366 + 1 else 366)"

definition lastOccurrenceAtOrBefore :: "schedule \<Rightarrow> gtime \<Rightarrow> gtime option" where
  "lastOccurrenceAtOrBefore s t =
     (if every s \<noteq> 0 then
        (let midnight = day_of t * day_ns;
             k = go_quot (time_sub t midnight) (every s)
         in Some (midnight + wrap64 (k * every s)))
      else scan_days s t 0 (horizon s + 1))"

definition WindowsOpen :: "schedule list \<Rightarrow> duration \<Rightarrow> gtime \<Rightarrow> bool" where
  "WindowsOpen specs grace now =
     (if grace \<le> 0 \<or> specs = [] then False
      else list_ex (\<lambda>s. case lastOccurrenceAtOrBefore s now of
             None \<Rightarrow> False
           | Some r \<Rightarrow> \<not> r > now \<and> time_sub now r < grace) specs)"

fun newest_from :: "gtime option \<Rightarrow> schedule list \<Rightarrow> gtime \<Rightarrow> gtime option" where
  "newest_from acc [] now = acc"
| "newest_from acc (s # ss) now =
     (case lastOccurrenceAtOrBefore s now of
        None \<Rightarrow> newest_from acc ss now
      | Some r \<Rightarrow> newest_from (if acc = None \<or> r > the acc then Some r else acc) ss now)"

definition NewestOccurrence :: "schedule list \<Rightarrow> gtime \<Rightarrow> gtime option" where
  "NewestOccurrence specs now = newest_from None specs now"

lemma cron_examples:
  "map_sum id hours (Parse ''0 8,1-3 * * *'') = Inr [1, 2, 3, 8]"
  "map_sum id dow (Parse ''5 4 * * mon-5,7'') = Inr [1, 2, 3, 4, 5, 0]"
  "map_sum id every (Parse ''@300'') = Inr (5 * minute)"
  "Parse ''@reboot'' = Inl (UnknownSchedule ''@reboot'')"
  by code_simp+

end
