(* ===== verification/Cron_Correct.thy ===== *)
theory Cron_Correct
  imports Cron
begin

text \<open>
  Correctness of the schedule evaluation of \<open>Cron\<close>: the search for the last occurrence
  against the declarative \<open>occurs\<close>, the window queries as clients of that search
  (locale \<open>occurrence_search\<close>), and the parser's guarantees (ascending, in range,
  terminating), together with the corner where the step loop wraps around.
\<close>

section \<open>What an occurrence is\<close>

text \<open>The instants a schedule names: for the \<open>@every\<close> forms the multiples of the period
  counted from midnight UTC of the instant's own day, for the five-field form the whole
  minutes whose fields are all listed.\<close>

definition occurs :: "schedule \<Rightarrow> gtime \<Rightarrow> bool" where
  "occurs s r \<longleftrightarrow>
     (if every s \<noteq> 0 then r mod day_ns mod every s = 0
      else r mod minute = 0 \<and> minute_of r \<in> set (minutes s) \<and> hour_of r \<in> set (hours s) \<and>
        civil_month (day_of r) \<in> set (months s) \<and> dayMatches s (day_of r))"

definition wf_schedule :: "schedule \<Rightarrow> bool" where
  "wf_schedule s \<longleftrightarrow>
     (if every s \<noteq> 0 then 0 < every s \<and> every s \<le> max_int64
      else sorted (minutes s) \<and> set (minutes s) \<subseteq> {0..59} \<and> sorted (hours s) \<and> set (hours s) \<subseteq> {0..23})"

section \<open>The search\<close>

lemma find_rev_max:
  assumes "sorted ms" "find (\<lambda>m. m \<le> mx) (rev ms) = Some m"
  shows "m \<in> set ms \<and> m \<le> mx \<and> (\<forall>m' \<in> set ms. m' \<le> mx \<longrightarrow> m' \<le> m)"
  using assms by (induction ms rule: rev_induct) (auto simp: sorted_append split: if_splits)

lemma find_rev_None: "find (\<lambda>m. m \<le> mx) (rev ms) = None \<Longrightarrow> m \<in> set ms \<Longrightarrow> \<not> m \<le> (mx :: int)"
  by (auto simp: find_None_iff)

definition hm_le :: "int \<times> int \<Rightarrow> int \<times> int \<Rightarrow> bool" where
  "hm_le a b \<longleftrightarrow> fst a < fst b \<or> (fst a = fst b \<and> snd a \<le> snd b)"

lemma pick_hour_Some:
  assumes "sorted (rev hs)" "sorted ms" "set ms \<subseteq> {0..59}"
    and "pick_hour maxH maxM hs (rev ms) = Some (h, m)"
  shows "h \<in> set hs \<and> m \<in> set ms \<and> hm_le (h, m) (maxH, maxM) \<and>
    (\<forall>h' \<in> set hs. \<forall>m' \<in> set ms. hm_le (h', m') (maxH, maxM) \<longrightarrow> hm_le (h', m') (h, m))"
  using assms
proof (induction hs)
  case Nil
  then show ?case by simp
next
  case (Cons a hs)
  have IHp: "sorted (rev hs)" and le: "\<forall>x \<in> set hs. x \<le> a"
    using Cons.prems(1) by (auto simp: sorted_append)
  show ?case
  proof (cases "a > maxH")
    case True
    with Cons.prems Cons.IH [OF IHp] show ?thesis by (auto simp: hm_le_def)
  next
    case a: False
    show ?thesis
    proof (cases "find (\<lambda>m. m \<le> (if a = maxH then maxM else 59)) (rev ms)")
      case None
      with Cons.prems a have "pick_hour maxH maxM hs (rev ms) = Some (h, m)" by simp
      note IH = Cons.IH [OF IHp Cons.prems(2,3) this]
      have "\<not> hm_le (a, m') (maxH, maxM)" if "m' \<in> set ms" for m'
      proof -
        have "\<not> m' \<le> (if a = maxH then maxM else 59)" using find_rev_None [OF None that] .
        moreover have "m' \<le> 59" using that Cons.prems(3) by auto
        ultimately show ?thesis using a by (auto simp: hm_le_def split: if_splits)
      qed
      with IH show ?thesis by auto
    next
      case (Some x)
      with Cons.prems a have hm: "h = a" "m = x" by simp_all
      from find_rev_max [OF Cons.prems(2) Some] have
        x: "x \<in> set ms" "x \<le> (if a = maxH then maxM else 59)"
          "\<forall>m' \<in> set ms. m' \<le> (if a = maxH then maxM else 59) \<longrightarrow> m' \<le> x" by auto
      have "hm_le (h', m') (a, x)" if "h' \<in> set (a # hs)" "m' \<in> set ms" "hm_le (h', m') (maxH, maxM)" for h' m'
      proof (cases "h' = a")
        case True
        have "m' \<le> 59" using that Cons.prems(3) by auto
        then have "m' \<le> (if a = maxH then maxM else 59)"
          using that(3) True by (auto simp: hm_le_def split: if_splits)
        with x(3) that(2) True show ?thesis by (auto simp: hm_le_def)
      next
        case False
        with le that(1) show ?thesis by (auto simp: hm_le_def order_less_le)
      qed
      moreover have "hm_le (a, x) (maxH, maxM)"
        using x(2) a by (auto simp: hm_le_def split: if_splits)
      ultimately show ?thesis using x(1) by (simp add: hm)
    qed
  qed
qed

lemma pick_hour_None:
  assumes "pick_hour maxH maxM hs (rev ms) = None" "set ms \<subseteq> {0..59}" "h \<in> set hs" "m \<in> set ms"
  shows "\<not> hm_le (h, m) (maxH, maxM)"
  using assms
proof (induction hs)
  case (Cons a hs)
  have m59: "m \<le> 59" using Cons.prems by auto
  show ?case
  proof (cases "h = a \<and> \<not> a > maxH")
    case True
    with Cons.prems have "find (\<lambda>m. m \<le> (if a = maxH then maxM else 59)) (rev ms) = None"
      by (auto split: option.splits)
    from find_rev_None [OF this Cons.prems(4)] m59 True show ?thesis
      by (auto simp: hm_le_def split: if_splits)
  next
    case False
    with Cons show ?thesis by (auto simp: hm_le_def split: if_splits option.splits)
  qed
qed simp

lemma time_date_civil [simp]:
  "time_date (civil_year n) (civil_month n) (civil_day n) h m 0 = n * day_ns + h * hour + m * minute"
  by (simp add: time_date_def)

lemma hm_fields:
  assumes "0 \<le> h" "h \<le> 23" "0 \<le> m" "m \<le> 59" "r = n * day_ns + h * hour + m * minute"
  shows "day_of r = n \<and> hour_of r = h \<and> minute_of r = m \<and> r mod minute = 0"
proof -
  have b: "0 \<le> h * hour + m * minute" "h * hour + m * minute < day_ns" using assms by auto
  have r: "r = (h * hour + m * minute) + n * day_ns" using assms(5) by simp
  have "day_of r = n" using b unfolding day_of_def r by (simp only: div_mult_self1, simp?)
  moreover have "r mod day_ns = h * hour + m * minute"
    using b unfolding r by (simp only: mod_mult_self1, simp?)
  moreover have "(m * minute + h * hour) div hour = h"
    using assms by (simp only: div_mult_self1, simp?)
  moreover have r2: "r = m * minute + (h + 24 * n) * hour" using assms(5) by simp
  have "r mod hour = m * minute mod hour" unfolding r2 by (simp only: mod_mult_self1)
  moreover have "m * minute mod hour = m * minute" using assms(3,4) by (simp add: mod_pos_pos_trivial)
  moreover have "r = 0 + (m + 60 * (h + 24 * n)) * minute" using assms(5) by simp
  then have "r mod minute = 0" by (simp only: mod_mult_self1, simp?)
  ultimately show ?thesis by (simp add: hour_of_def minute_of_def add.commute)
qed

lemma occurs_instant:
  assumes "every s = 0" "occurs s r"
  shows "r = day_of r * day_ns + hour_of r * hour + minute_of r * minute"
proof -
  have "r mod minute = 0" using assms by (simp add: occurs_def)
  moreover have "r mod second = 0"
    using mod_mod_cancel [of second minute r] \<open>r mod minute = 0\<close> by simp
  ultimately show ?thesis using time_split [of r] by (simp add: second_of_def)
qed

lemma hm_le_time:
  assumes "r = n * day_ns + h * hour + m * minute" "day_of t = n" "0 \<le> m" "m \<le> 59"
  shows "hm_le (h, m) (hour_of t, minute_of t) \<longleftrightarrow> r \<le> t"
proof -
  have "t = n * day_ns + hour_of t * hour + minute_of t * minute + (second_of t * second + t mod second)"
    using time_split [of t] assms by simp
  moreover have "0 \<le> second_of t * second + t mod second" "second_of t * second + t mod second < minute"
    using second_of_bounds [of t] pos_mod_sign [of second t] pos_mod_bound [of second t] by auto
  ultimately show ?thesis
    using assms minute_of_bounds [of t] unfolding hm_le_def fst_conv snd_conv by linarith
qed

lemma try_day_Some:
  assumes wf: "wf_schedule s" "every s = 0" and d: "0 \<le> d" and t: "try_day s t d = Some r"
  shows "occurs s r \<and> r \<le> t \<and> day_of r = day_of t - d \<and>
    (\<forall>r'. occurs s r' \<and> r' \<le> t \<and> day_of r' = day_of t - d \<longrightarrow> r' \<le> r)"
proof -
  define n where "n = day_of t - d"
  define lim where "lim = (if d = 0 then hour_of t else 23, if d = 0 then minute_of t else 59)"
  have so: "sorted (minutes s)" "set (minutes s) \<subseteq> {0..59}" "sorted (hours s)" "set (hours s) \<subseteq> {0..23}"
    using wf by (auto simp: wf_schedule_def)
  obtain h m where p: "pick_hour (fst lim) (snd lim) (rev (hours s)) (rev (minutes s)) = Some (h, m)"
    and dm: "civil_month n \<in> set (months s)" "dayMatches s n"
    and r: "r = n * day_ns + h * hour + m * minute"
    using t by (auto simp: try_day_def n_def lim_def Let_def split: if_splits option.splits)
  from pick_hour_Some [OF _ so(1,2) p] so(3) have
    hm: "h \<in> set (hours s)" "m \<in> set (minutes s)" "hm_le (h, m) lim"
      "\<And>h' m'. h' \<in> set (hours s) \<Longrightarrow> m' \<in> set (minutes s) \<Longrightarrow> hm_le (h', m') lim \<Longrightarrow> hm_le (h', m') (h, m)"
    by auto
  have b: "0 \<le> h" "h \<le> 23" "0 \<le> m" "m \<le> 59" using hm(1,2) so by auto
  note f = hm_fields [OF b r]
  have lim_iff: "r' \<le> t \<Longrightarrow> hm_le (hour_of r', minute_of r') lim" if "occurs s r'" "day_of r' = n" for r'
  proof (cases "d = 0")
    case True
    assume "r' \<le> t"
    then show ?thesis
      using hm_le_time [OF occurs_instant [OF wf(2) that(1)], of t] True that(2) minute_of_bounds [of r']
      by (simp add: lim_def n_def)
  next
    case False
    then show ?thesis
      using hour_of_bounds [of r'] minute_of_bounds [of r'] by (auto simp: lim_def hm_le_def)
  qed
  have "r \<le> t"
  proof (cases "d = 0")
    case True
    then show ?thesis
      using hm_le_time [OF r, of t] hm(3) b by (simp add: lim_def n_def)
  next
    case False
    then have "day_of r < day_of t" using f d by (simp add: n_def)
    then show ?thesis by (metis day_of_mono linorder_not_le order_less_imp_le)
  qed
  moreover have "occurs s r" using f dm hm(1,2) wf by (simp add: occurs_def)
  moreover have "r' \<le> r" if r': "occurs s r'" "r' \<le> t" "day_of r' = n" for r'
  proof -
    have "hm_le (hour_of r', minute_of r') (h, m)"
      using hm(4) lim_iff [OF r'(1,3,2)] r'(1) wf by (simp add: occurs_def)
    moreover have "hm_le (hour_of r', minute_of r') (hour_of r, minute_of r) \<longleftrightarrow> r' \<le> r"
      using f r'(3) minute_of_bounds [of r']
      by (intro hm_le_time [OF occurs_instant [OF wf(2) r'(1)]]) simp_all
    ultimately show ?thesis using f by metis
  qed
  ultimately show ?thesis using f unfolding n_def [symmetric] by blast
qed

lemma try_day_None:
  assumes wf: "wf_schedule s" "every s = 0" and t: "try_day s t d = None"
    and r: "occurs s r" "r \<le> t" "day_of r = day_of t - d"
  shows False
proof -
  define lim where "lim = (if d = 0 then hour_of t else 23, if d = 0 then minute_of t else 59)"
  have o: "minute_of r \<in> set (minutes s)" "hour_of r \<in> set (hours s)"
      "civil_month (day_of r) \<in> set (months s)" "dayMatches s (day_of r)"
    using r(1) wf by (auto simp: occurs_def)
  then have "pick_hour (fst lim) (snd lim) (rev (hours s)) (rev (minutes s)) = None"
    using t r(3) by (auto simp: try_day_def lim_def Let_def split: if_splits option.splits)
  from pick_hour_None [OF this] o wf have "\<not> hm_le (hour_of r, minute_of r) lim"
    by (simp add: wf_schedule_def)
  moreover have "hm_le (hour_of r, minute_of r) lim"
  proof (cases "d = 0")
    case True
    then show ?thesis
      using hm_le_time [OF occurs_instant [OF wf(2) r(1)], of t] r(2,3) minute_of_bounds [of r]
      by (simp add: lim_def)
  next
    case False
    then show ?thesis
      using hour_of_bounds [of r] minute_of_bounds [of r] by (auto simp: lim_def hm_le_def)
  qed
  ultimately show False by blast
qed

lemma scan_days_Some:
  assumes "wf_schedule s" "every s = 0" "0 \<le> d" "scan_days s t d k = Some r"
  shows "occurs s r \<and> r \<le> t \<and> (\<forall>r'. occurs s r' \<and> r' \<le> t \<and> day_of r' \<le> day_of t - d \<longrightarrow> r' \<le> r)"
  using assms(3,4)
proof (induction k arbitrary: d)
  case 0
  then show ?case by simp
next
  case (Suc k)
  show ?case
  proof (cases "try_day s t d")
    case None
    with Suc have "occurs s r \<and> r \<le> t \<and>
        (\<forall>r'. occurs s r' \<and> r' \<le> t \<and> day_of r' \<le> day_of t - (d + 1) \<longrightarrow> r' \<le> r)"
      using Suc.IH [of "d + 1"] by simp
    moreover have "day_of r' \<noteq> day_of t - d" if "occurs s r'" "r' \<le> t" for r'
      using try_day_None [OF assms(1,2) None that] by blast
    moreover have "day_of r' \<le> day_of t - (d + 1)" if "day_of r' \<le> day_of t - d" "day_of r' \<noteq> day_of t - d" for r'
      using that by simp
    ultimately show ?thesis by blast
  next
    case (Some x)
    with Suc.prems have "x = r" by simp
    with try_day_Some [OF assms(1,2) Suc.prems(1) Some] have
      *: "occurs s r" "r \<le> t" "day_of r = day_of t - d"
        "\<forall>r'. occurs s r' \<and> r' \<le> t \<and> day_of r' = day_of t - d \<longrightarrow> r' \<le> r" by auto
    have "r' \<le> r" if "day_of r' < day_of r" for r'
      using that by (metis day_of_mono linorder_not_le order_less_imp_le)
    with * show ?thesis by (metis order_le_less)
  qed
qed

lemma scan_days_None:
  assumes "wf_schedule s" "every s = 0" "scan_days s t d k = None" "occurs s r" "r \<le> t"
    "day_of r \<le> day_of t - d"
  shows "day_of r \<le> day_of t - d - int k"
  using assms(3,6)
proof (induction k arbitrary: d)
  case 0
  then show ?case by simp
next
  case (Suc k)
  then have n: "try_day s t d = None" and rest: "scan_days s t (d + 1) k = None"
    by (auto split: option.splits)
  have "day_of r \<noteq> day_of t - d" using try_day_None [OF assms(1,2) n assms(4,5)] by blast
  with Suc.prems Suc.IH [OF rest] show ?case by simp
qed

section \<open>The interface of the search and its clients\<close>

text \<open>What the window queries rely on: the search returns the latest occurrence at or before
  the given instant, and when it returns nothing there is none within \<open>reach\<close>.\<close>

locale occurrence_search =
  fixes last :: "'s \<Rightarrow> gtime \<Rightarrow> gtime option"
    and occ :: "'s \<Rightarrow> gtime \<Rightarrow> bool"
    and wf :: "'s \<Rightarrow> bool"
    and reach :: duration
  assumes last_occ: "wf s \<Longrightarrow> last s t = Some r \<Longrightarrow> occ s r \<and> r \<le> t"
    and last_max: "wf s \<Longrightarrow> last s t = Some r \<Longrightarrow> occ s r' \<Longrightarrow> r' \<le> t \<Longrightarrow> r' \<le> r"
    and last_none: "wf s \<Longrightarrow> last s t = None \<Longrightarrow> occ s r \<Longrightarrow> r \<le> t \<Longrightarrow> r + reach \<le> t"
begin

lemma open_one:
  assumes "wf s" "g \<le> reach"
  shows "(case last s t of None \<Rightarrow> False | Some r \<Rightarrow> t - r < g) \<longleftrightarrow> (\<exists>r. occ s r \<and> r \<le> t \<and> t < r + g)"
proof (cases "last s t")
  case None
  then show ?thesis using last_none [OF assms(1) None] assms(2) by force
next
  case (Some r)
  then show ?thesis
    using last_occ [OF assms(1) Some] last_max [OF assms(1) Some] by fastforce
qed

lemma open_list:
  assumes "list_all wf ss" "g \<le> reach"
  shows "list_ex (\<lambda>s. case last s t of None \<Rightarrow> False | Some r \<Rightarrow> t - r < g) ss \<longleftrightarrow>
    (\<exists>s \<in> set ss. \<exists>r. occ s r \<and> r \<le> t \<and> t < r + g)"
  using assms open_one [of _ g t] by (auto simp: list_ex_iff list_all_iff)

end

lemma every_last:
  assumes "0 < e" "e \<le> max_int64"
  shows "go_quot (time_sub t (day_of t * day_ns)) e = t mod day_ns div e"
    "int64 (t mod day_ns div e * e)"
proof -
  have b: "0 \<le> t mod day_ns" "t mod day_ns < day_ns" by simp_all
  have e: "t - day_of t * day_ns = t mod day_ns" by (simp add: day_of_def minus_div_mult_eq_mod)
  then have "time_sub t (day_of t * day_ns) = t mod day_ns"
    using b by (subst time_sub_exact) (auto simp: int64_def)
  then show "go_quot (time_sub t (day_of t * day_ns)) e = t mod day_ns div e"
    using b assms by simp
  have "0 \<le> t mod day_ns div e * e" "t mod day_ns div e * e \<le> t mod day_ns"
    using b assms by (simp_all add: pos_imp_zdiv_nonneg_iff int_div_mult_le)
  then show "int64 (t mod day_ns div e * e)" using b by (simp add: int64_def)
qed

lemma last_every_eq:
  assumes "wf_schedule s" "every s \<noteq> 0"
  shows "lastOccurrenceAtOrBefore s t = Some (day_of t * day_ns + t mod day_ns div every s * every s)"
proof -
  have "0 < every s" "every s \<le> max_int64" using assms by (auto simp: wf_schedule_def)
  then show ?thesis
    using every_last [of "every s" t] assms by (simp add: lastOccurrenceAtOrBefore_def Let_def)
qed

lemma last_every:
  assumes wf: "wf_schedule s" "every s \<noteq> 0" and l: "lastOccurrenceAtOrBefore s t = Some r"
  shows "occurs s r \<and> r \<le> t \<and> (\<forall>r'. occurs s r' \<and> r' \<le> t \<longrightarrow> r' \<le> r)"
proof -
  have e: "0 < every s" using wf by (auto simp: wf_schedule_def)
  have b: "0 \<le> t mod day_ns" "t mod day_ns < day_ns" by simp_all
  let ?q = "t mod day_ns div every s * every s"
  have q: "0 \<le> ?q" "?q \<le> t mod day_ns"
    using b e by (simp_all add: pos_imp_zdiv_nonneg_iff int_div_mult_le)
  have r: "r = ?q + day_of t * day_ns" using l last_every_eq [OF wf] by simp
  have t: "t = day_of t * day_ns + t mod day_ns" by (simp add: day_of_def)
  have rm: "r mod day_ns = ?q"
    unfolding r mod_mult_self1 using q b by (simp add: mod_pos_pos_trivial)
  have rd: "day_of r = day_of t"
    unfolding r day_of_def using q b by (simp add: div_pos_pos_trivial)
  have "r' \<le> r" if o: "occurs s r'" "r' \<le> t" for r'
  proof (cases "day_of r' = day_of t")
    case False
    then have "day_of r' < day_of r" using day_of_mono [OF o(2)] rd by simp
    then show ?thesis by (metis day_of_mono linorder_not_le order_less_imp_le)
  next
    case True
    have r': "r' = day_of r' * day_ns + r' mod day_ns" by (simp add: day_of_def)
    have "r' mod day_ns mod every s = 0" using o wf by (simp add: occurs_def)
    then obtain k where k: "r' mod day_ns = k * every s" by (metis mod_0_imp_dvd dvdE mult.commute)
    have "k * every s \<le> t mod day_ns" using o(2) r' t k True by linarith
    then have "k * every s div every s \<le> t mod day_ns div every s" using e by (rule zdiv_mono1)
    then have "k \<le> t mod day_ns div every s" using e by simp
    then have "k * every s \<le> ?q" using e by (simp add: mult_right_mono)
    then show ?thesis using r' r k True by linarith
  qed
  moreover have "occurs s r" using rm e wf by (simp add: occurs_def)
  moreover have "r \<le> t" using q t r by linarith
  ultimately show ?thesis by blast
qed

lemma last_fields:
  assumes "wf_schedule s" "every s = 0" "lastOccurrenceAtOrBefore s t = Some r"
  shows "occurs s r \<and> r \<le> t \<and> (\<forall>r'. occurs s r' \<and> r' \<le> t \<longrightarrow> r' \<le> r)"
  using scan_days_Some [OF assms(1,2), of 0 t "horizon s + 1" r] assms(2,3) day_of_mono
  by (simp add: lastOccurrenceAtOrBefore_def)

lemma last_fields_None:
  assumes "wf_schedule s" "lastOccurrenceAtOrBefore s t = None" "occurs s r" "r \<le> t"
  shows "r + 366 * day_ns \<le> t"
proof -
  have e: "every s = 0" using assms(2) by (auto simp: lastOccurrenceAtOrBefore_def Let_def split: if_splits)
  have "day_of r \<le> day_of t - 0 - int (horizon s + 1)"
    using assms e day_of_mono [OF assms(4)]
    by (intro scan_days_None [OF assms(1) e _ assms(3,4)]) (simp_all add: lastOccurrenceAtOrBefore_def)
  then have "day_of r + 367 \<le> day_of t" by (simp add: horizon_def split: if_splits)
  moreover have "r = day_of r * day_ns + r mod day_ns" "t = day_of t * day_ns + t mod day_ns"
    by (simp_all add: day_of_def)
  moreover have "r mod day_ns < day_ns" "0 \<le> t mod day_ns" by simp_all
  ultimately show ?thesis by linarith
qed

interpretation crons: occurrence_search lastOccurrenceAtOrBefore occurs wf_schedule "366 * day_ns"
proof
  fix s t r
  assume "wf_schedule s" "lastOccurrenceAtOrBefore s t = Some r"
  then show "occurs s r \<and> r \<le> t"
    using last_every last_fields by blast
next
  fix s t r r'
  assume "wf_schedule s" "lastOccurrenceAtOrBefore s t = Some r" "occurs s r'" "r' \<le> t"
  then show "r' \<le> r"
    using last_every last_fields by blast
next
  fix s t r
  assume "wf_schedule s" "lastOccurrenceAtOrBefore s t = None" "occurs s r" "r \<le> t"
  then show "r + 366 * day_ns \<le> t" by (rule last_fields_None)
qed

section \<open>The queries\<close>



text \<open>C25: the window is open exactly when some occurrence lies in \<open>(now - grace, now]\<close>.\<close>

theorem windows_open_iff:
  assumes "list_all wf_schedule specs" and "grace \<le> 366 * day_ns"
  shows "WindowsOpen specs grace now \<longleftrightarrow>
    (0 < grace \<and> (\<exists>s \<in> set specs. \<exists>r. occurs s r \<and> r \<le> now \<and> now < r + grace))"
proof (cases "0 < grace \<and> specs \<noteq> []")
  case False
  then show ?thesis by (auto simp: WindowsOpen_def)
next
  case True
  have "WindowsOpen specs grace now \<longleftrightarrow>
    list_ex (\<lambda>s. case lastOccurrenceAtOrBefore s now of None \<Rightarrow> False | Some r \<Rightarrow> now - r < grace) specs"
    using True assms crons.last_occ
    by (auto simp: WindowsOpen_def list_ex_iff list_all_iff time_sub_less_iff split: option.splits)
      (use crons.last_occ in fastforce)
  with True crons.open_list [OF assms] show ?thesis by blast
qed

theorem windows_open_iff_witness:
  "let specs = [every_schedule ''@every 12h'' (12 * hour)] in
   WindowsOpen specs (5 * minute) (20000 * day_ns + 12 * hour + minute) \<longleftrightarrow>
    (0 < 5 * minute \<and> (\<exists>s \<in> set specs. \<exists>r. occurs s r \<and> r \<le> 20000 * day_ns + 12 * hour + minute \<and>
       20000 * day_ns + 12 * hour + minute < r + 5 * minute))"
proof -
  have w: "list_all wf_schedule [every_schedule ''@every 12h'' (12 * hour)]" by code_simp
  show ?thesis
    unfolding Let_def by (rule windows_open_iff [OF w]) simp
qed

lemma newest_from_spec:
  assumes "newest_from acc ss now = r"
  shows "(r = None \<longleftrightarrow> acc = None \<and> (\<forall>s \<in> set ss. lastOccurrenceAtOrBefore s now = None)) \<and>
    (\<forall>x. r = Some x \<longrightarrow> (acc = Some x \<or> (\<exists>s \<in> set ss. lastOccurrenceAtOrBefore s now = Some x)) \<and>
      (\<forall>a. acc = Some a \<longrightarrow> a \<le> x) \<and>
      (\<forall>s \<in> set ss. \<forall>y. lastOccurrenceAtOrBefore s now = Some y \<longrightarrow> y \<le> x))"
  using assms
proof (induction acc ss now rule: newest_from.induct)
  case (1 acc now)
  then show ?case by auto
next
  case (2 acc s ss now)
  show ?case
  proof (cases "lastOccurrenceAtOrBefore s now")
    case None
    with 2 show ?thesis by simp
  next
    case (Some y)
    with "2.prems" have "newest_from (if acc = None \<or> y > the acc then Some y else acc) ss now = r" by simp
    note IH = "2.IH"(2) [OF Some this]
    show ?thesis
    proof (cases acc)
      case None
      with IH Some show ?thesis by auto
    next
      case (Some a)
      with IH \<open>lastOccurrenceAtOrBefore s now = Some y\<close> show ?thesis
        by (cases "y > a") fastforce+
    qed
  qed
qed

text \<open>The newest occurrence is an occurrence of one of the schedules at or before now, and no schedule has a later
  one at or before now within the last 365 days, the horizon of the search.\<close>

theorem newest_occurrence_correct:
  assumes "list_all wf_schedule specs" and "NewestOccurrence specs now = Some r"
  shows "(\<exists>s \<in> set specs. occurs s r) \<and> r \<le> now \<and>
    (\<forall>s \<in> set specs. \<forall>r'. occurs s r' \<and> r' \<le> now \<and> now \<le> r' + 365 * day_ns \<longrightarrow> r' \<le> r)"
proof -
  from newest_from_spec [OF assms(2) [unfolded NewestOccurrence_def]] obtain s where
    s: "s \<in> set specs" "lastOccurrenceAtOrBefore s now = Some r" and
    m: "\<And>s y. s \<in> set specs \<Longrightarrow> lastOccurrenceAtOrBefore s now = Some y \<Longrightarrow> y \<le> r" by auto
  have wf: "\<And>s. s \<in> set specs \<Longrightarrow> wf_schedule s" using assms(1) by (auto simp: list_all_iff)
  have "r' \<le> r" if "s' \<in> set specs" "occurs s' r'" "r' \<le> now" "now \<le> r' + 365 * day_ns" for s' r'
  proof (cases "lastOccurrenceAtOrBefore s' now")
    case None
    from crons.last_none [OF wf [OF that(1)] None that(2,3)] that(4) show ?thesis by simp
  next
    case (Some y)
    from crons.last_max [OF wf [OF that(1)] Some that(2,3)] m [OF that(1) Some] show ?thesis by simp
  qed
  with crons.last_occ [OF wf [OF s(1)] s(2)] s(1) show ?thesis by blast
qed

theorem newest_occurrence_correct_witness:
  "let specs = [every_schedule ''@daily'' (24 * hour), every_schedule ''@every 5h'' (5 * hour)];
       now = 20000 * day_ns + 11 * hour; r = 20000 * day_ns + 10 * hour in
   (\<exists>s \<in> set specs. occurs s r) \<and> r \<le> now \<and>
   (\<forall>s \<in> set specs. \<forall>r'. occurs s r' \<and> r' \<le> now \<and> now \<le> r' + 365 * day_ns \<longrightarrow> r' \<le> r)"
proof -
  have w: "list_all wf_schedule [every_schedule ''@daily'' (24 * hour), every_schedule ''@every 5h'' (5 * hour)]"
    by code_simp
  have n: "NewestOccurrence [every_schedule ''@daily'' (24 * hour), every_schedule ''@every 5h'' (5 * hour)]
      (20000 * day_ns + 11 * hour) = Some (20000 * day_ns + 10 * hour)" by code_simp
  show ?thesis unfolding Let_def by (rule newest_occurrence_correct [OF w n])
qed

section \<open>The parser\<close>

text \<open>The step loop with a step that cannot overflow lists exactly the multiples in range.\<close>

lemma step_values_exact:
  assumes "0 \<le> lo" "hi < 100" "1 \<le> step" "step \<le> 1000000000"
  obtains vs where "step_values lo hi step = Some vs" "set vs = {u. lo \<le> u \<and> u \<le> hi \<and> step dvd (u - lo)}"
proof -
  let ?b = "\<lambda>(v, acc :: int list). v \<le> hi" and ?c = "\<lambda>(v, acc). (wrap64 (v + step), v # acc)"
  let ?P = "\<lambda>(v, acc). lo \<le> v \<and> step dvd (v - lo) \<and>
    set acc = {u. lo \<le> u \<and> u < v \<and> step dvd (u - lo)} \<and> (\<forall>u \<in> set acc. u \<le> hi)"
  have P0: "?P (lo, [])" by auto
  have step: "?P (?c s) \<and> nat (hi + 1 - fst (?c s)) < nat (hi + 1 - fst s)" if "?P s" "?b s" for s
  proof -
    obtain v acc where s: "s = (v, acc)" by (cases s)
    have v: "lo \<le> v" "v \<le> hi" "step dvd (v - lo)" using that by (auto simp: s)
    have w: "wrap64 (v + step) = v + step" using v assms by (intro wrap64_id) (simp add: int64_def)
    have d: "step dvd (v + step - lo)" using dvd_add [OF v(3) dvd_refl [of step]] by (simp add: algebra_simps)
    have uv: "u = v" if u: "v \<le> u" "u < v + step" "step dvd (u - lo)" for u
    proof -
      have "step dvd (u - v)" using dvd_diff [OF u(3) v(3)] by simp
      with u show ?thesis using zdvd_not_zless [of "u - v" step] by fastforce
    qed
    have "insert v {u. lo \<le> u \<and> u < v \<and> step dvd (u - lo)} = {u. lo \<le> u \<and> u < v + step \<and> step dvd (u - lo)}"
    proof (rule set_eqI)
      fix u
      have "u = v \<or> u < v" if "u < v + step" "step dvd (u - lo)" using uv [OF _ that] by force
      moreover have "u < v + step" if "u = v \<or> u < v" using that assms(3) by auto
      ultimately show "u \<in> insert v {u. lo \<le> u \<and> u < v \<and> step dvd (u - lo)} \<longleftrightarrow>
          u \<in> {u. lo \<le> u \<and> u < v + step \<and> step dvd (u - lo)}"
        using v(1,3) unfolding insert_iff mem_Collect_eq by blast
    qed
    moreover have acc: "set acc = {u. lo \<le> u \<and> u < v \<and> step dvd (u - lo)}" "\<forall>u \<in> set acc. u \<le> hi"
      using that by (simp_all add: s)
    ultimately have ins: "set (v # acc) = {u. lo \<le> u \<and> u < v + step \<and> step dvd (u - lo)}"
      by (simp only: list.set)
    have le: "\<forall>u \<in> set (v # acc). u \<le> hi" using acc(2) v by simp
    have l: "lo \<le> v + step" using v assms by simp
    have m: "nat (hi + 1 - (v + step)) < nat (hi + 1 - v)" using v assms by simp
    show ?thesis
      unfolding s prod.case w fst_conv by (intro conjI l d ins le m)
  qed
  have "\<exists>t. while_option ?b ?c (lo, []) = Some t"
    by (rule measure_while_option_Some [where P = ?P and f = "\<lambda>s. nat (hi + 1 - fst s)"])
      (fact step, fact P0)
  then obtain t0 where t0: "while_option ?b ?c (lo, []) = Some t0" by (rule exE)
  obtain v vs where vs: "t0 = (v, vs)" by (rule prod.exhaust)
  note t = t0 [unfolded vs]
  have "?P (v, vs)"
    by (rule while_option_rule [where P = ?P, OF _ t P0]) (rule conjunct1 [OF step])
  moreover have "\<not> v \<le> hi" using while_option_stop [OF t] by simp
  ultimately have "set vs = {u. lo \<le> u \<and> u \<le> hi \<and> step dvd (u - lo)}" by auto
  with t show ?thesis using that by (simp add: step_values_def)
qed

text \<open>With any accepted step the loop ends: a step near the top of the \<open>int64\<close> range makes the
  counter jump to the bottom of the range and come back lower each time.\<close>

lemma step_values_ends:
  assumes "0 \<le> lo" "lo \<le> hi" "hi < 100" "1 \<le> step" "step \<le> max_int64"
  shows "step_values lo hi step \<noteq> None"
proof (cases "step \<le> 1000000000")
  case True
  with assms step_values_exact show ?thesis by blast
next
  case False
  let ?b = "\<lambda>(v, acc :: int list). v \<le> hi" and ?c = "\<lambda>(v, acc). (wrap64 (v + step), v # acc)"
  define e where "e = max_int64 - step"
  let ?P = "\<lambda>s. (- 2 * e - 2 \<le> fst s \<and> fst s < 100 \<and> e < 100) \<or> (min_int64 \<le> fst s \<and> fst s \<le> min_int64 + 100 \<and> e < 100) \<or> hi < fst s \<or> (fst s \<ge> 0 \<and> 100 \<le> e)"
  let ?f = "\<lambda>s. if hi < fst s then 0 else if fst s \<le> min_int64 + 100 then nat (2 * (fst s - min_int64 + 300) + 1)
    else nat (2 * (fst s + 300))"
  have "?P (?c s) \<and> ?f (?c s) < ?f s" if P: "?P s" and b: "?b s" for s
  proof -
    obtain v acc where s: "s = (v, acc)" by (cases s)
    have vh: "v \<le> hi" using b by (simp add: s)
    consider (near) "- 2 * e - 2 \<le> v" "e < 100" "v + step > max_int64"
      | (jump) "- 2 * e - 2 \<le> v" "v + step \<le> max_int64"
      | (bottom) "min_int64 \<le> v" "v \<le> min_int64 + 100" "e < 100"
      using P vh assms False by (cases "max_int64 < v + step") (auto simp: s e_def not_less)
    then show ?thesis
    proof cases
      case near
      then have "wrap64 (v + step) = v + step - 18446744073709551616"
        using vh assms by (intro wrap64_over) simp_all
      with near vh assms show ?thesis by (simp add: s e_def)
    next
      case jump
      then have "wrap64 (v + step) = v + step" using False assms P vh
        by (intro wrap64_id) (auto simp: s int64_def e_def)
      moreover have "hi < v + step" using jump False assms P vh by (auto simp: s e_def)
      ultimately show ?thesis using vh jump P assms False by (auto simp: s e_def)
    next
      case bottom
      then have "wrap64 (v + step) = v + step"
        using assms by (intro wrap64_id) (simp add: int64_def)
      moreover have "v + step \<le> - e - 1 + 100 - 0" using bottom by (simp add: e_def)
      ultimately show ?thesis using vh bottom assms by (simp add: s e_def)
    qed
  qed
  moreover have "?P (lo, [])" using assms by (auto simp: e_def)
  ultimately have "\<exists>t. while_option ?b ?c (lo, []) = Some t"
    by (rule measure_while_option_Some [where P = ?P and f = ?f])
  then show ?thesis by (auto simp: step_values_def)
qed

definition names_in :: "(string \<times> int) list \<Rightarrow> int \<Rightarrow> int \<Rightarrow> bool" where
  "names_in names lo hi \<longleftrightarrow> list_all (\<lambda>p. lo \<le> snd p \<and> snd p \<le> hi) names"

text \<open>A step within a billion: no counter of the step loop leaves the \<open>int64\<close> range.\<close>

definition sane_item :: "string \<Rightarrow> bool" where
  "sane_item it = (case item_step it of Inl e \<Rightarrow> True | Inr p \<Rightarrow> snd p \<le> 1000000000)"

definition sane_field :: "string \<Rightarrow> bool" where
  "sane_field f = list_all sane_item (split_on CHR '','' f)"

definition sane_spec :: "string \<Rightarrow> bool" where
  "sane_spec sp =
     (if has_prefix sp ''@'' then
        (case atoi (trim_prefix (hd (str_fields sp)) ''@'') of None \<Rightarrow> True | Some n \<Rightarrow> n \<le> 9223372036)
      else list_all sane_field (str_fields sp))"

lemma parseValue_range:
  "parseValue raw lo hi names = Inr v \<Longrightarrow> names_in names lo hi \<Longrightarrow> lo \<le> v \<and> v \<le> hi"
  by (auto simp: parseValue_def names_in_def list_all_iff split: option.splits if_splits
      dest!: map_of_SomeD)

lemma item_range_bounds:
  "item_range it base lo hi names = Inr (l, h) \<Longrightarrow> names_in names lo hi \<Longrightarrow> lo \<le> hi \<Longrightarrow>
   lo \<le> l \<and> l \<le> h \<and> h \<le> hi"
  by (auto simp: item_range_def split: if_splits sum.splits prod.splits dest!: parseValue_range)

lemma atoi_int64: "atoi s = Some n \<Longrightarrow> int64 n"
  by (auto simp: atoi_def Let_def split: if_splits)

lemma item_step_bounds: "item_step it = Inr (base, n) \<Longrightarrow> 1 \<le> n \<and> n \<le> max_int64"
  by (auto simp: item_step_def int64_def split: if_splits prod.splits option.splits dest!: atoi_int64)

lemma item_values_not_Diverges:
  assumes "names_in names lo hi" "0 \<le> lo" "lo \<le> hi" "hi < 100"
  shows "item_values it lo hi names \<noteq> Inl Diverges"
proof (cases "item_step it")
  case (Inl e)
  then show ?thesis
    by (auto simp: item_values_def item_step_def split: if_splits prod.splits option.splits)
next
  case (Inr p)
  obtain base n where p: "p = (base, n)" by (cases p)
  note n = item_step_bounds [OF Inr [unfolded p]]
  show ?thesis
  proof (cases "item_range it base lo hi names")
    case (Inl e)
    have "e \<noteq> Diverges"
      using Inl by (auto simp: item_range_def parseValue_def
          split: if_splits sum.splits prod.splits option.splits)
    then show ?thesis using Inl \<open>item_step it = Inr p\<close> p by (simp add: item_values_def)
  next
    case (Inr q)
    obtain l h where q: "q = (l, h)" by (cases q)
    from item_range_bounds [OF Inr [unfolded q] assms(1,3)]
    have "step_values l h n \<noteq> None"
      using n assms by (intro step_values_ends) simp_all
    then show ?thesis using Inr \<open>item_step it = Inr p\<close> p q by (auto simp: item_values_def)
  qed
qed

lemma items_values_not_Diverges:
  assumes "names_in names lo hi" "0 \<le> lo" "lo \<le> hi" "hi < 100"
  shows "items_values its lo hi names \<noteq> Inl Diverges"
  using item_values_not_Diverges [OF assms]
  by (induction its) (auto split: sum.splits)

lemma parseField_not_Diverges:
  "names_in names lo hi \<Longrightarrow> 0 \<le> lo \<Longrightarrow> lo \<le> hi \<Longrightarrow> hi < 100 \<Longrightarrow> parseField f lo hi names \<noteq> Inl Diverges"
  using items_values_not_Diverges [of names lo hi "split_on CHR '','' f"]
  by (auto simp: parseField_def split: sum.splits)

lemma names_in_facts [simp]:
  "names_in [] lo hi" "names_in monthNames 1 12" "names_in dowNames 0 7"
  by (simp_all add: names_in_def monthNames_def dowNames_def)

lemma parse5_not_Diverges: "parse5 sp \<noteq> Inl (BadField nm Diverges)"
  using parseField_not_Diverges [of "[]" 0 59] parseField_not_Diverges [of "[]" 0 23]
    parseField_not_Diverges [of "[]" 1 31] parseField_not_Diverges [of monthNames 1 12]
    parseField_not_Diverges [of dowNames 0 7]
  by (auto simp: parse5_def Let_def in_field_def split: sum.splits)

lemma mustFields_not_Diverges: "mustFields sp fs eqv \<noteq> Inl (BadField nm Diverges)"
  by (simp add: mustFields_def split: sum.splits)

lemma builtin_parses:
  "\<not> isl (parse5 ''0 * * * *'')" "\<not> isl (parse5 ''0 0 * * *'')" "\<not> isl (parse5 ''0 0 * * 0'')"
  "\<not> isl (parse5 ''0 0 1 * *'')" "\<not> isl (parse5 ''0 0 1 1 *'')" "\<not> isl (parse5 ''* * * * *'')"
  by code_simp+

lemma mustFields_no_panic: "\<not> isl (parse5 eqv) \<Longrightarrow> mustFields sp fs eqv \<noteq> Inl BuiltinPanic"
  by (auto simp: mustFields_def split: sum.splits)

lemma parse5_no_panic: "parse5 sp \<noteq> Inl BuiltinPanic"
  by (auto simp: parse5_def Let_def in_field_def split: sum.splits)

text \<open>C31: parsing ends on every input, and without a panic: no step value makes the loop of a field run for ever, and
  the built-in equivalents of the named schedules parse.\<close>

theorem parse_terminates: "Parse sp \<noteq> Inl (BadField nm Diverges) \<and> Parse sp \<noteq> Inl BuiltinPanic"
  using parse5_not_Diverges [of sp nm] mustFields_not_Diverges [of sp _ _ nm] parse5_no_panic [of sp]
    mustFields_no_panic [OF builtin_parses(1)] mustFields_no_panic [OF builtin_parses(2)]
    mustFields_no_panic [OF builtin_parses(3)] mustFields_no_panic [OF builtin_parses(4)]
    mustFields_no_panic [OF builtin_parses(5)] mustFields_no_panic [OF builtin_parses(6)]
  by (auto simp: Parse_def parseAt_def Let_def split: option.splits)

lemma items_values_sane:
  assumes "names_in names lo hi" "0 \<le> lo" "lo \<le> hi" "hi < 100"
    and "items_values its lo hi names = Inr vs" "list_all sane_item its"
  shows "v \<in> set vs \<longleftrightarrow>
    (\<exists>it \<in> set its. \<exists>base n l h. item_step it = Inr (base, n) \<and> item_range it base lo hi names = Inr (l, h) \<and>
       l \<le> v \<and> v \<le> h \<and> n dvd (v - l))"
  using assms(5,6)
proof (induction its arbitrary: vs)
  case Nil
  then show ?case by simp
next
  case (Cons it its)
  from Cons.prems obtain xs ys where x: "item_values it lo hi names = Inr xs"
    and y: "items_values its lo hi names = Inr ys" and vs: "vs = xs @ ys"
    by (auto split: sum.splits)
  from x obtain base n l h where s: "item_step it = Inr (base, n)"
    and r: "item_range it base lo hi names = Inr (l, h)" and st: "step_values l h n = Some xs"
    by (auto simp: item_values_def split: if_splits sum.splits prod.splits option.splits)
  have b: "lo \<le> l" "l \<le> h" "h \<le> hi" using item_range_bounds [OF r assms(1,3)] by auto
  have n: "1 \<le> n" "n \<le> 1000000000"
    using item_step_bounds [OF s] Cons.prems(2) s by (auto simp: sane_item_def)
  obtain xs' where "step_values l h n = Some xs'" "set xs' = {u. l \<le> u \<and> u \<le> h \<and> n dvd (u - l)}"
    using step_values_exact [of l h n] b n assms(2,4) by force
  with st have "v \<in> set xs \<longleftrightarrow> l \<le> v \<and> v \<le> h \<and> n dvd (v - l)" by auto
  with Cons.IH [OF y] Cons.prems(2) s r vs show ?case by auto
qed

lemma parseField_sane:
  assumes "names_in names lo hi" "0 \<le> lo" "lo \<le> hi" "hi < 100" "parseField f lo hi names = Inr vs" "sane_field f"
  shows "sorted vs \<and> set vs \<subseteq> {lo..hi}"
proof -
  from assms(5) obtain ws where w: "items_values (split_on CHR '','' f) lo hi names = Inr ws"
    and vs: "vs = sort (remdups ws)"
    by (auto simp: parseField_def split: if_splits sum.splits)
  have "v \<in> {lo..hi}" if "v \<in> set ws" for v
    using items_values_sane [OF assms(1-4) w] assms(6) that item_range_bounds [OF _ assms(1,3)]
    unfolding sane_field_def atLeastAtMost_iff by (meson order_trans)
  then show ?thesis by (auto simp: vs)
qed

lemma parse5_wf:
  assumes "parse5 sp = Inr s" "list_all sane_field (str_fields sp)"
  shows "wf_schedule s"
proof -
  let ?fs = "str_fields sp"
  from assms(1) have len: "length ?fs = 5"
    by (auto simp: parse5_def Let_def split: if_splits)
  then have sane: "sane_field (?fs ! 0)" "sane_field (?fs ! 1)"
    using assms(2) by (auto simp: list_all_length)
  from assms(1) len obtain mi h where mi: "parseField (?fs ! 0) 0 59 [] = Inr mi" and h: "parseField (?fs ! 1) 0 23 [] = Inr h"
    and s: "minutes s = mi" "hours s = h" "every s = 0"
    by (auto simp: parse5_def Let_def in_field_def split: if_splits sum.splits)
  show ?thesis
    using parseField_sane [OF _ _ _ _ mi sane(1)] parseField_sane [OF _ _ _ _ h sane(2)]
    by (simp add: wf_schedule_def s)
qed

lemma wf_schedule_spec [simp]: "wf_schedule (s\<lparr>spec := sp\<rparr>) \<longleftrightarrow> wf_schedule s"
  by (simp add: wf_schedule_def)

lemma mustFields_wf:
  "mustFields sp fs eqv = Inr s \<Longrightarrow> list_all sane_field (str_fields eqv) \<Longrightarrow> wf_schedule s"
  by (auto simp: mustFields_def split: if_splits sum.splits dest!: parse5_wf)

lemma builtin_sane:
  "list_all sane_field (str_fields ''0 * * * *'')" "list_all sane_field (str_fields ''0 0 * * *'')"
  "list_all sane_field (str_fields ''0 0 * * 0'')" "list_all sane_field (str_fields ''0 0 1 * *'')"
  "list_all sane_field (str_fields ''0 0 1 1 *'')" "list_all sane_field (str_fields ''* * * * *'')"
  by code_simp+

lemma every_wf: "0 < d \<Longrightarrow> d \<le> max_int64 \<Longrightarrow> wf_schedule (every_schedule sp d)"
  by (simp add: wf_schedule_def every_schedule_def)

lemma parseAt_wf:
  assumes "parseAt sp = Inr s" "case atoi (trim_prefix (hd (str_fields sp)) ''@'') of None \<Rightarrow> True | Some n \<Rightarrow> n \<le> 9223372036"
  shows "wf_schedule s"
  using assms builtin_sane mustFields_wf [of sp "str_fields sp" _ s]
  by (auto simp: parseAt_def Let_def int64_def split: if_splits option.splits dest: parse_duration_int64 intro!: every_wf)



text \<open>A field lists, ascending and without repetition, exactly the values its items name.\<close>

theorem parse_field_exact:
  assumes "names_in names lo hi" "0 \<le> lo" "lo \<le> hi" "hi < 100"
    and "parseField f lo hi names = Inr vs" and "sane_field f"
  shows "sorted vs \<and> distinct vs \<and> vs \<noteq> [] \<and>
    (\<forall>v. v \<in> set vs \<longleftrightarrow>
      (\<exists>it \<in> set (split_on CHR '','' f). \<exists>base n l h. item_step it = Inr (base, n) \<and>
         item_range it base lo hi names = Inr (l, h) \<and> l \<le> v \<and> v \<le> h \<and> n dvd (v - l)))"
proof -
  from assms(5) obtain ws where w: "items_values (split_on CHR '','' f) lo hi names = Inr ws"
    and vs: "vs = sort (remdups ws)" "ws \<noteq> []"
    by (auto simp: parseField_def split: if_splits sum.splits)
  show ?thesis
    using items_values_sane [OF assms(1-4) w] assms(6) vs
    by (simp add: sane_field_def set_empty [symmetric] del: set_empty)
qed

theorem parse_field_exact_witness:
  "sorted [1, 2, 3, 8 :: int] \<and>
    (\<forall>v. v \<in> set [1, 2, 3, 8 :: int] \<longleftrightarrow>
      (\<exists>it \<in> set (split_on CHR '','' ''8,1-3''). \<exists>base n l h. item_step it = Inr (base, n) \<and>
         item_range it base 0 23 [] = Inr (l, h) \<and> l \<le> v \<and> v \<le> h \<and> n dvd (v - l)))"
proof -
  have p: "parseField ''8,1-3'' 0 23 [] = Inr [1, 2, 3, 8]" by code_simp
  have s: "sane_field ''8,1-3''" by code_simp
  show ?thesis using parse_field_exact [OF _ _ _ _ p s] by simp
qed

section \<open>Where 64-bit arithmetic wraps\<close>

lemma hour_step_overflow:
  "map_sum id hours (Parse ''0 1-5/9223372036854775807 * * *'') = Inr [min_int64, - 1, 1]"
  by code_simp

text \<open>The out-of-range hour is normalised by \<open>time.Date\<close> into the previous day: at midnight the
  schedule, whose hours are 1 to 5, has an occurrence at 23:00.\<close>

lemma hour_step_overflow_occurrence:
  "lastOccurrenceAtOrBefore (projr (Parse ''0 1-5/9223372036854775807 * * *'')) (20000 * day_ns) =
    Some (19999 * day_ns + 23 * hour)"
  by code_simp

text \<open>An accepted \<open>@<seconds>\<close> schedule whose period wraps to 0 never occurs.\<close>

lemma seconds_overflow: "map_sum id every (Parse ''@36028797018963968'') = Inr 0"
  by code_simp

lemma no_fields_never: "every s = 0 \<Longrightarrow> months s = [] \<Longrightarrow> lastOccurrenceAtOrBefore s t = None"
proof -
  assume m: "every s = 0" "months s = []"
  then have "scan_days s t d k = None" for d k
    by (induction k arbitrary: d) (simp_all add: try_day_def Let_def)
  with m show ?thesis by (simp add: lastOccurrenceAtOrBefore_def del: scan_days.simps)
qed

lemma seconds_overflow_never:
  "lastOccurrenceAtOrBefore (projr (Parse ''@36028797018963968'')) t = None"
proof (rule no_fields_never)
  show "every (projr (Parse ''@36028797018963968'')) = 0" by code_simp
  show "months (projr (Parse ''@36028797018963968'')) = []" by code_simp
qed

end
