(* ===== verification/Release.thy ===== *)
theory Release
  imports Prelude "HOL-Library.AList" "HOL-Library.Word" "HOL-Library.Multiset"
begin

text \<open>
  Releases: the names of kernels, artifacts and images (versions.go, img.go, nodectl.go, the naming
  functions of staging.go), the signed index (index.go), the choice of the newest release
  (img.go, nodectl.go, localcli.go) and the plan of a purge (purge.go).

  The regular expressions of the source are anchored and, up to their fixed parts, deterministic:
  a run of digits ends at the dot, and a run of architecture characters contains no dot. They are
  modelled by taking these runs. A Go map that is iterated over is the list of its entries
  in the order of that iteration, which Go leaves open.
\<close>

section \<open>File names\<close>

definition arch_char :: "char \<Rightarrow> bool" where
  "arch_char c = (let n = of_char c :: nat in
     (48 \<le> n \<and> n \<le> 57) \<or> (65 \<le> n \<and> n \<le> 90) \<or> (97 \<le> n \<and> n \<le> 122) \<or> n = 95 \<or> n = 45)"

text \<open>\<open>^<pre>([0-9]..)\.([A-Za-z0-9_-]+)<ext>$\<close> for one of several extensions; \<open>tsok\<close> is the
  number of digits asked for.\<close>

definition release_name :: "string \<Rightarrow> (string \<Rightarrow> bool) \<Rightarrow> string list \<Rightarrow> string \<Rightarrow> (string \<times> string) option" where
  "release_name pre tsok exts s =
     (if \<not> has_prefix s pre then None
      else (let r = drop (List.length pre) s; ts = takeWhile is_digit r
            in case dropWhile is_digit r of
                 [] \<Rightarrow> None
               | c # r' \<Rightarrow>
                   (let arch = takeWhile arch_char r'; ext = dropWhile arch_char r'
                    in if c = CHR ''.'' \<and> tsok ts \<and> arch \<noteq> [] \<and> ext \<in> set exts then Some (ts, arch) else None)))"

abbreviation (input) some_digits :: "string \<Rightarrow> bool" where "some_digits ts \<equiv> ts \<noteq> []"
abbreviation (input) stamp_digits :: "string \<Rightarrow> bool" where "stamp_digits ts \<equiv> List.length ts = 12"

definition ParseKernelRelease :: "string \<Rightarrow> (string \<times> string) option" where
  "ParseKernelRelease = release_name ''simplek8s.'' some_digits [''.efi.zst'', ''.efi.xz'']"

definition ParseStoredKernel :: "string \<Rightarrow> (string \<times> string) option" where
  "ParseStoredKernel = release_name ''simplek8s.'' some_digits [''.efi'']"

definition versionFromStoredKernel :: "string \<Rightarrow> string option" where
  "versionFromStoredKernel f = map_option fst (release_name ''simplek8s.'' some_digits [''.efi''] f)"

definition ParseImgRelease :: "string \<Rightarrow> (string \<times> string) option" where
  "ParseImgRelease = release_name ''simplek8s.'' stamp_digits [''.img.zst'']"

definition ParseNodectlRelease :: "string \<Rightarrow> (string \<times> string) option" where
  "ParseNodectlRelease = release_name ''nodectl.'' stamp_digits [[]]"

definition kernelStoredName :: "string \<Rightarrow> string \<Rightarrow> string" where
  "kernelStoredName ts arch = ''simplek8s.'' @ ts @ ''.'' @ arch @ ''.efi''"

definition kernelArtifactName :: "string \<Rightarrow> string \<Rightarrow> string" where
  "kernelArtifactName ts arch = ''simplek8s.'' @ ts @ ''.'' @ arch @ ''.efi.zst''"

definition ArtifactFileName :: "string \<Rightarrow> string \<Rightarrow> string" where
  "ArtifactFileName ts arch = kernelArtifactName ts arch"

lemma arch_char_dot [simp]: "\<not> arch_char CHR ''.''"
  by (simp add: arch_char_def)

lemma is_digit_dot [simp]: "\<not> is_digit CHR ''.''"
  by (simp add: is_digit_def)

lemma takeWhile_append_stop: "list_all P xs \<Longrightarrow> ys = [] \<or> \<not> P (hd ys) \<Longrightarrow> takeWhile P (xs @ ys) = xs"
  by (induction xs; cases ys) auto

lemma dropWhile_append_stop: "list_all P xs \<Longrightarrow> ys = [] \<or> \<not> P (hd ys) \<Longrightarrow> dropWhile P (xs @ ys) = ys"
  by (induction xs; cases ys) auto

lemma takeWhile_satisfies_all [simp]: "list_all P (takeWhile P xs)"
  by (induction xs) auto

lemma release_name_iff:
  assumes exts: "\<And>e. e \<in> set exts \<Longrightarrow> e = [] \<or> hd e = CHR ''.''"
  shows "release_name pre tsok exts s = Some (ts, a) \<longleftrightarrow>
    list_all is_digit ts \<and> tsok ts \<and> list_all arch_char a \<and> a \<noteq> [] \<and>
    (\<exists>e\<in>set exts. s = pre @ ts @ CHR ''.'' # a @ e)" (is "?l \<longleftrightarrow> ?r")
proof
  assume ?l
  then obtain r where s: "s = pre @ r" "has_prefix s pre"
    by (auto simp: release_name_def has_prefix_iff split: if_splits)
  with \<open>?l\<close> obtain r' where r': "dropWhile is_digit r = CHR ''.'' # r'" and ts: "ts = takeWhile is_digit r"
    and a: "a = takeWhile arch_char r'" "a \<noteq> []" "tsok ts" and e: "dropWhile arch_char r' \<in> set exts"
    by (auto simp: release_name_def Let_def split: list.splits if_splits)
  have "r = ts @ CHR ''.'' # a @ dropWhile arch_char r'"
    using takeWhile_dropWhile_id [of is_digit r] takeWhile_dropWhile_id [of arch_char r'] r' ts a by simp
  then show ?r using s ts a e by (auto intro!: bexI [of _ "dropWhile arch_char r'"])
next
  assume ?r
  then obtain e where *: "list_all is_digit ts" "tsok ts" "list_all arch_char a" "a \<noteq> []" "e \<in> set exts"
    "s = pre @ ts @ CHR ''.'' # a @ e" by blast
  have e: "e = [] \<or> \<not> arch_char (hd e)"
    using exts [OF \<open>e \<in> set exts\<close>] by auto
  show ?l
    using * takeWhile_append_stop [of is_digit ts "CHR ''.'' # a @ e"]
      dropWhile_append_stop [of is_digit ts "CHR ''.'' # a @ e"]
      takeWhile_append_stop [OF *(3) e] dropWhile_append_stop [OF *(3) e]
    by (simp add: release_name_def Let_def)
qed

definition wf_ts :: "string \<Rightarrow> bool" where "wf_ts ts \<longleftrightarrow> ts \<noteq> [] \<and> list_all is_digit ts"
definition wf_arch :: "string \<Rightarrow> bool" where "wf_arch a \<longleftrightarrow> a \<noteq> [] \<and> list_all arch_char a"

lemma parse_stored_iff: "ParseStoredKernel s = Some (ts, a) \<longleftrightarrow> wf_ts ts \<and> wf_arch a \<and> s = kernelStoredName ts a"
  unfolding ParseStoredKernel_def
  by (subst release_name_iff) (auto simp: wf_ts_def wf_arch_def kernelStoredName_def)

lemma parse_release_iff: "ParseKernelRelease s = Some (ts, a) \<longleftrightarrow> wf_ts ts \<and> wf_arch a \<and>
    (s = kernelArtifactName ts a \<or> s = ''simplek8s.'' @ ts @ ''.'' @ a @ ''.efi.xz'')"
  unfolding ParseKernelRelease_def
  by (subst release_name_iff) (auto simp: wf_ts_def wf_arch_def kernelArtifactName_def)

lemma parse_img_iff: "ParseImgRelease s = Some (ts, a) \<longleftrightarrow> list_all is_digit ts \<and> List.length ts = 12 \<and> wf_arch a \<and>
    s = ''simplek8s.'' @ ts @ ''.'' @ a @ ''.img.zst''"
  unfolding ParseImgRelease_def by (subst release_name_iff) (auto simp: wf_arch_def)

lemma parse_nodectl_iff: "ParseNodectlRelease s = Some (ts, a) \<longleftrightarrow> list_all is_digit ts \<and> List.length ts = 12 \<and>
    wf_arch a \<and> s = ''nodectl.'' @ ts @ ''.'' @ a"
  unfolding ParseNodectlRelease_def by (subst release_name_iff) (auto simp: wf_arch_def)

lemma version_stored_eq: "versionFromStoredKernel f = map_option fst (ParseStoredKernel f)"
  by (simp add: versionFromStoredKernel_def ParseStoredKernel_def)

section \<open>Flavors and versions\<close>

definition flavorSet :: "string list" where
  "flavorSet = [''x86-64'', ''arm64'', ''rpi4'', ''rpi5'']"

definition IsKnownFlavor :: "string \<Rightarrow> bool" where
  "IsKnownFlavor f \<longleftrightarrow> f \<in> set flavorSet"

fun ResolveFlavor :: "string list \<Rightarrow> string option" where
  "ResolveFlavor [] = None"
| "ResolveFlavor (f # files) =
     (case ParseStoredKernel f of
        Some (_, flavor) \<Rightarrow> if IsKnownFlavor flavor then Some flavor else ResolveFlavor files
      | None \<Rightarrow> ResolveFlavor files)"

text \<open>The leftmost match of \<open>simplek8s-([0-9]+)\<close>, or the empty string.\<close>

fun RunningVersion :: "string \<Rightarrow> string" where
  "RunningVersion [] = []"
| "RunningVersion (c # s) =
     (let ts = takeWhile is_digit (trim_prefix (c # s) ''simplek8s-'')
      in if has_prefix (c # s) ''simplek8s-'' \<and> ts \<noteq> [] then ts else RunningVersion s)"

definition NewerTS :: "string \<Rightarrow> string \<Rightarrow> bool" where
  "NewerTS a b =
     (case (atoi a, atoi b) of (Some na, Some nb) \<Rightarrow> na > nb | _ \<Rightarrow> False)"

definition NodectlArch :: "string \<Rightarrow> string option" where
  "NodectlArch goarch =
     (if goarch = ''amd64'' then Some ''x86-64''
      else if goarch = ''arm64'' then Some ''arm64''
      else None)"

fun str_contains :: "string \<Rightarrow> string \<Rightarrow> bool" where
  "str_contains [] p = (p = [])"
| "str_contains (c # s) p = (has_prefix (c # s) p \<or> str_contains s p)"

definition flavorFromDeviceTree :: "string \<Rightarrow> string \<Rightarrow> string option" where
  "flavorFromDeviceTree model compatible =
     (let dt = model @ [CHR 0x00] @ compatible
      in if str_contains dt ''Raspberry Pi 5'' \<or> str_contains dt ''bcm2712'' then Some ''rpi5''
         else if str_contains dt ''Raspberry Pi 4'' \<or> str_contains dt ''bcm2711'' then Some ''rpi4''
         else None)"

definition DetectArchAuto :: "string list \<Rightarrow> string \<Rightarrow> string \<Rightarrow> string \<Rightarrow> string option" where
  "DetectArchAuto staged model compatible goarch =
     (case ResolveFlavor staged of
        Some f \<Rightarrow> Some f
      | None \<Rightarrow>
          (case flavorFromDeviceTree model compatible of
             Some f \<Rightarrow> Some f
           | None \<Rightarrow> if goarch = ''amd64'' then Some ''x86-64'' else None))"

definition InstallFlavor :: "string \<Rightarrow> string \<Rightarrow> string \<Rightarrow> string option" where
  "InstallFlavor model compatible goarch =
     (case flavorFromDeviceTree model compatible of
        Some f \<Rightarrow> Some f
      | None \<Rightarrow> NodectlArch goarch)"

definition CheckVerdict :: "string \<Rightarrow> string \<Rightarrow> string \<Rightarrow> string" where
  "CheckVerdict latest running staged =
     (if latest = [] \<or> (running \<noteq> [] \<and> \<not> NewerTS latest running) then ''up-to-date''
      else if staged = latest then ''reboot to apply '' @ latest
      else ''update available '' @ latest)"

lemma ResolveFlavor_some:
  "ResolveFlavor files = Some f \<Longrightarrow>
   IsKnownFlavor f \<and> (\<exists>ts. kernelStoredName ts f \<in> set files \<and> ParseStoredKernel (kernelStoredName ts f) = Some (ts, f))"
  by (induction files) (auto split: option.splits if_splits simp: parse_stored_iff)

lemma newer_irrefl [simp]: "\<not> NewerTS a a"
  by (simp add: NewerTS_def split: option.split)

lemma newer_trans: "NewerTS a b \<Longrightarrow> NewerTS b c \<Longrightarrow> NewerTS a c"
  by (auto simp: NewerTS_def split: option.splits)

lemma newer_asym: "NewerTS a b \<Longrightarrow> \<not> NewerTS b a"
  using newer_irrefl newer_trans by blast

text \<open>A stamp of at most eighteen digits is a number that fits.\<close>

lemma digits_val_Cons: "digits_val (c # ds) = digit_val c * 10 ^ List.length ds + digits_val ds"
proof -
  have "foldl (\<lambda>a c. 10 * a + digit_val c) z ds = z * 10 ^ List.length ds + digits_val ds" for z
    by (induction ds rule: rev_induct) (simp_all add: digits_val_def algebra_simps)
  from this [of "digit_val c"] show ?thesis by (simp add: digits_val_def)
qed

lemma digit_val_bounds: "is_digit c \<Longrightarrow> 0 \<le> digit_val c \<and> digit_val c \<le> 9"
  by (simp add: is_digit_def digit_val_def Let_def)

lemma digits_val_bounds: "list_all is_digit ds \<Longrightarrow> 0 \<le> digits_val ds \<and> digits_val ds < 10 ^ List.length ds"
proof (induction ds)
  case (Cons c ds)
  then have b: "0 \<le> digit_val c" "digit_val c \<le> 9" "0 \<le> digits_val ds" "digits_val ds < 10 ^ List.length ds"
    using digit_val_bounds by auto
  have "digit_val c * 10 ^ List.length ds \<le> 9 * 10 ^ List.length ds" "0 \<le> digit_val c * 10 ^ List.length ds"
    using b by (auto intro: mult_right_mono)
  then have "0 \<le> digits_val (c # ds)" "digits_val (c # ds) < 10 * 10 ^ List.length ds"
    using b unfolding digits_val_Cons by linarith+
  then show ?case by simp
qed simp

lemma digits_val_inj:
  "list_all is_digit a \<Longrightarrow> list_all is_digit b \<Longrightarrow> List.length a = List.length b \<Longrightarrow>
   digits_val a = digits_val b \<Longrightarrow> a = b"
proof (induction a arbitrary: b)
  case (Cons c a)
  then obtain d b' where b: "b = d # b'" "List.length a = List.length b'"
    by (cases b) auto
  let ?n = "List.length a"
  have d: "is_digit c" "is_digit d" "list_all is_digit a" "list_all is_digit b'"
    using Cons.prems b by auto
  have e: "digit_val c * 10 ^ ?n + digits_val a = digit_val d * 10 ^ ?n + digits_val b'"
    using Cons.prems(4) b by (simp add: digits_val_Cons)
  have "(digit_val c * 10 ^ ?n + digits_val a) div 10 ^ ?n = digit_val c"
    "(digit_val d * 10 ^ ?n + digits_val b') div 10 ^ ?n = digit_val d"
    using digits_val_bounds [OF d(3)] digits_val_bounds [OF d(4)] b(2) by (simp_all add: div_pos_pos_trivial)
  then have cd: "digit_val c = digit_val d" using e by simp
  then have "(of_char c :: nat) = of_char d" by (simp add: digit_val_def)
  then have "c = d" by (metis char_of_char)
  then show ?case using Cons.IH [OF d(3,4) b(2)] e b by simp
qed simp

definition stamp :: "string \<Rightarrow> bool" where
  "stamp ts \<longleftrightarrow> ts \<noteq> [] \<and> list_all is_digit ts \<and> List.length ts \<le> 18"

lemma atoi_stamp: "stamp ts \<Longrightarrow> atoi ts = Some (digits_val ts)"
proof -
  assume s: "stamp ts"
  then obtain c cs where c: "ts = c # cs" by (auto simp: stamp_def neq_Nil_conv)
  have nc: "c \<noteq> CHR ''-''" "c \<noteq> CHR ''+''" using s c by (auto simp: stamp_def is_digit_def)
  have "digits_val ts < 10 ^ 18"
    using digits_val_bounds [of ts] s power_increasing [of "List.length ts" 18 "10::int"]
    by (auto simp: stamp_def)
  then show ?thesis
    using s c nc digits_val_bounds [of ts] by (simp add: atoi_def stamp_def int64_def)
qed

lemma newer_stamp: "stamp a \<Longrightarrow> stamp b \<Longrightarrow> NewerTS a b \<longleftrightarrow> digits_val b < digits_val a"
  by (simp add: NewerTS_def atoi_stamp)

section \<open>The index of checksums\<close>

abbreviation newline :: char where "newline \<equiv> CHR 0x0A"
abbreviation carriage_return :: char where "carriage_return \<equiv> CHR 0x0D"

text \<open>The lines a \<open>bufio.Scanner\<close> with a buffer of \<open>limit\<close> bytes delivers, and whether it ended
  without an error: a line that fills the buffer stops it. A last line without content is none.\<close>

fun scan_short :: "nat \<Rightarrow> string list \<Rightarrow> string list \<times> bool" where
  "scan_short limit [] = ([], True)"
| "scan_short limit (l # ls) =
     (if limit \<le> List.length l then ([], False)
      else (let (r, good) = scan_short limit ls in (trim_suffix l [carriage_return] # r, good)))"

definition scan_lines :: "nat \<Rightarrow> string \<Rightarrow> string list \<times> bool" where
  "scan_lines limit s =
     (let ls = split_on newline s
      in scan_short limit (if List.last ls = [] then butlast ls else ls))"

definition is_hex :: "char \<Rightarrow> bool" where
  "is_hex c = (let n = of_char c :: nat in (48 \<le> n \<and> n \<le> 57) \<or> (65 \<le> n \<and> n \<le> 70) \<or> (97 \<le> n \<and> n \<le> 102))"

definition sha256Line :: "string \<Rightarrow> (string \<times> string) option" where
  "sha256Line l =
     (case drop 64 l of
        sp # mode # name \<Rightarrow>
          if list_all is_hex (take 64 l) \<and> sp = CHR '' '' \<and> (mode = CHR '' '' \<or> mode = CHR ''*'') \<and> name \<noteq> []
          then Some (take 64 l, name) else None
      | _ \<Rightarrow> None)"

abbreviation max_index_line :: nat where "max_index_line \<equiv> 1024 * 1024"

definition index_line :: "(string \<times> string) list \<Rightarrow> string \<Rightarrow> (string \<times> string) list" where
  "index_line out line =
     (case sha256Line (trim_suffix line [carriage_return]) of
        None \<Rightarrow> out
      | Some (csum, name) \<Rightarrow> AList.update name (to_lower csum) out)"

definition ParseIndex :: "string \<Rightarrow> (string \<times> string) list option" where
  "ParseIndex b =
     (let (ls, good) = scan_lines max_index_line b
      in if good then Some (foldl index_line [] ls) else None)"

section \<open>The newest release of an index\<close>

definition newer_entry ::
  "(string \<Rightarrow> (string \<times> string) option) \<Rightarrow> string \<Rightarrow> (string \<times> string \<times> string) option \<Rightarrow> string \<times> string \<Rightarrow>
   (string \<times> string \<times> string) option" where
  "newer_entry parse arch best entry =
     (case entry of (file, csum) \<Rightarrow>
        (case parse file of
           None \<Rightarrow> best
         | Some (ts, fa) \<Rightarrow>
             if fa \<noteq> arch then best
             else (case best of
                     None \<Rightarrow> Some (ts, file, csum)
                   | Some (bestTS, _) \<Rightarrow> if NewerTS ts bestTS then Some (ts, file, csum) else best)))"

definition FilterImgIndex :: "(string \<times> string) list \<Rightarrow> string \<Rightarrow> (string \<times> string \<times> string) option" where
  "FilterImgIndex sums arch = foldl (newer_entry ParseImgRelease arch) None sums"

definition FilterNodectlIndex :: "(string \<times> string) list \<Rightarrow> string \<Rightarrow> (string \<times> string \<times> string) option" where
  "FilterNodectlIndex sums arch = foldl (newer_entry ParseNodectlRelease arch) None sums"

record release =
  TS :: string
  Flavor :: string
  Artifact :: string
  Checksum :: string
  EfiHash :: string

definition FilterIndexByFlavor :: "(string \<times> string) list \<Rightarrow> string \<Rightarrow> release option" where
  "FilterIndexByFlavor sums flavor =
     (case foldl (newer_entry ParseKernelRelease flavor) None sums of
        None \<Rightarrow> None
      | Some (ts, file, csum) \<Rightarrow>
          Some \<lparr> TS = ts, Flavor = flavor, Artifact = file, Checksum = csum,
                 EfiHash = lookup_or [] (map_of sums) (kernelStoredName ts flavor) \<rparr>)"

definition LookupRelease :: "(string \<times> string) list \<Rightarrow> string \<Rightarrow> string \<Rightarrow> release option" where
  "LookupRelease sums ts flavor =
     (let artifact = kernelArtifactName ts flavor
      in case map_of sums artifact of
           None \<Rightarrow> None
         | Some checksum \<Rightarrow>
             if checksum = [] then None
             else Some \<lparr> TS = ts, Flavor = flavor, Artifact = artifact, Checksum = checksum,
                         EfiHash = lookup_or [] (map_of sums) (kernelStoredName ts flavor) \<rparr>)"

text \<open>What the choice returns: an entry of the index for the architecture, with no newer one.\<close>

definition newest_in ::
  "(string \<Rightarrow> (string \<times> string) option) \<Rightarrow> string \<Rightarrow> (string \<times> string) list \<Rightarrow> string \<times> string \<times> string \<Rightarrow> bool" where
  "newest_in parse arch sums best \<longleftrightarrow>
     (case best of (ts, file, csum) \<Rightarrow>
        (file, csum) \<in> set sums \<and> parse file = Some (ts, arch) \<and>
        (\<forall>(f, s)\<in>set sums. case parse f of Some (t, a) \<Rightarrow> a = arch \<longrightarrow> \<not> NewerTS t ts | None \<Rightarrow> True))"

lemma newest_in_iff:
  "newest_in parse arch sums (ts, f, s) \<longleftrightarrow> (f, s) \<in> set sums \<and> parse f = Some (ts, arch) \<and>
     (\<forall>g r t. (g, r) \<in> set sums \<longrightarrow> parse g = Some (t, arch) \<longrightarrow> \<not> NewerTS t ts)"
  by (force simp: newest_in_def split: option.splits)

lemma newer_entry_pair:
  "newer_entry parse arch best (f, s) =
     (case parse f of
        None \<Rightarrow> best
      | Some (ts, fa) \<Rightarrow>
          if fa \<noteq> arch then best
          else (case best of
                  None \<Rightarrow> Some (ts, f, s)
                | Some (bestTS, _) \<Rightarrow> if NewerTS ts bestTS then Some (ts, f, s) else best))"
  by (simp add: newer_entry_def)

lemma newer_entry_fold:
  "(case foldl (newer_entry parse arch) None sums of
     None \<Rightarrow> \<forall>(f, s)\<in>set sums. \<forall>t. parse f \<noteq> Some (t, arch)
   | Some best \<Rightarrow> newest_in parse arch sums best)"
proof (induction sums rule: rev_induct)
  case (snoc e sums)
  obtain f s where e: "e = (f, s)" by (cases e)
  show ?case
  proof (cases "parse f")
    case None
    then show ?thesis using snoc
      by (simp add: e newer_entry_pair split: option.splits) (force simp: newest_in_iff)+
  next
    case (Some p)
    obtain t a where p: "p = (t, a)" by (cases p)
    show ?thesis
    proof (cases "foldl (newer_entry parse arch) None sums")
      case None
      then show ?thesis using snoc Some by (auto simp: e p newer_entry_pair newest_in_iff)
    next
      fix best assume b: "foldl (newer_entry parse arch) None sums = Some best"
      obtain ts fl csum where best: "best = (ts, fl, csum)" by (cases best)
      have n: "newest_in parse arch sums (ts, fl, csum)" using snoc b best by simp
      have "\<not> NewerTS t' t" if "NewerTS t ts" "\<not> NewerTS t' ts" for t'
        using newer_trans [of t' t ts] that by blast
      then show ?thesis
        using n Some b by (auto simp: e p best newer_entry_pair newest_in_iff)
    qed
  qed
qed simp

lemma newest_unique:
  assumes inj: "\<And>f g t u. parse f = Some (t, arch) \<Longrightarrow> parse g = Some (u, arch) \<Longrightarrow> \<not> NewerTS t u \<Longrightarrow> \<not> NewerTS u t \<Longrightarrow> f = g"
    and d: "distinct (map fst sums)"
    and "newest_in parse arch sums best" "newest_in parse arch sums best'"
  shows "best = best'"
proof -
  obtain ts fl csum ts' fl' csum' where b: "best = (ts, fl, csum)" "best' = (ts', fl', csum')"
    by (cases best, cases best') auto
  with assms(3,4) have *: "(fl, csum) \<in> set sums" "(fl', csum') \<in> set sums"
    "parse fl = Some (ts, arch)" "parse fl' = Some (ts', arch)" "\<not> NewerTS ts' ts" "\<not> NewerTS ts ts'"
    by (auto simp: newest_in_iff)
  then have "fl = fl'" using inj by blast
  moreover have "csum = csum'"
    using * \<open>fl = fl'\<close> eq_key_imp_eq_value [OF d] by blast
  moreover have "ts = ts'" using * \<open>fl = fl'\<close> by simp
  ultimately show ?thesis by (simp add: b)
qed

lemma ParseIndex_distinct: "ParseIndex b = Some sums \<Longrightarrow> distinct (map fst sums)"
proof -
  have "distinct (map fst out) \<Longrightarrow> distinct (map fst (foldl index_line out ls))" for out ls
    by (induction ls arbitrary: out) (auto simp: index_line_def distinct_update split: option.splits)
  then show "ParseIndex b = Some sums \<Longrightarrow> distinct (map fst sums)"
    by (auto simp: ParseIndex_def Let_def split: prod.splits if_splits)
qed

text \<open>A twelve-digit stamp determines its number, so two indexed names that are equally new are equal.\<close>

lemma stamp12: "list_all is_digit ts \<Longrightarrow> List.length ts = 12 \<Longrightarrow> stamp ts"
  by (auto simp: stamp_def)

lemma newest_image_iff:
  assumes p: "\<And>f t a. parse f = Some (t, a) \<Longrightarrow> list_all is_digit t \<and> List.length t = 12"
    and fn: "\<And>f g t a. parse f = Some (t, a) \<Longrightarrow> parse g = Some (t, a) \<Longrightarrow> f = g"
    and d: "distinct (map fst sums)" and m: "mset sums' = mset sums"
  shows "foldl (newer_entry parse arch) None sums' = Some best \<longleftrightarrow> newest_in parse arch sums best"
proof -
  have st: "stamp t" if "parse f = Some (t, a)" for f t a
    using p [OF that] stamp12 by blast
  have eq: "newest_in parse arch sums' = newest_in parse arch sums" "set sums' = set sums"
    using mset_eq_setD [OF m] by (auto simp: newest_in_iff fun_eq_iff)
  have d': "distinct (map fst sums')"
    using d m by (metis mset_eq_imp_distinct_iff mset_map)
  note f = newer_entry_fold [where parse = parse and arch = arch and sums = sums']
  have inj: "f = g" if "parse f = Some (t, arch)" "parse g = Some (u, arch)" "\<not> NewerTS t u" "\<not> NewerTS u t" for f g t u
  proof -
    have "t = u"
      using that p [OF that(1)] p [OF that(2)] digits_val_inj [of t u] newer_stamp [OF st st] by fastforce
    with that fn show ?thesis by blast
  qed
  have uniq: "c = best" if "newest_in parse arch sums c" "newest_in parse arch sums best" for c
    using newest_unique [of parse arch sums c best] inj d that by blast
  show ?thesis
  proof (cases "foldl (newer_entry parse arch) None sums'")
    case None
    then show ?thesis using f eq by (cases best) (auto simp: newest_in_iff)
  next
    case (Some b)
    then have "newest_in parse arch sums b" using f eq by simp
    with Some show ?thesis using uniq by (metis option.inject)
  qed
qed

text \<open>C39: the newest install image or command-line binary chosen from an index is the entry for the architecture
  with the greatest stamp, whatever the order in which the map is iterated; none is chosen exactly when none is
  indexed.\<close>

theorem newest_image_exact:
  assumes "distinct (map fst sums)" "mset sums' = mset sums"
  shows "(FilterImgIndex sums' arch = Some best \<longleftrightarrow> newest_in ParseImgRelease arch sums best) \<and>
    (FilterNodectlIndex sums' arch = Some best \<longleftrightarrow> newest_in ParseNodectlRelease arch sums best)"
  unfolding FilterImgIndex_def FilterNodectlIndex_def
  by (intro conjI newest_image_iff [OF _ _ assms]) (auto simp: parse_img_iff parse_nodectl_iff)

theorem newest_image_exact_witness:
  "FilterImgIndex [(''simplek8s.202608291203.rpi5.img.zst'', ''b''), (''SHA'', ''c''), (''simplek8s.202508291203.rpi5.img.zst'', ''a'')] ''rpi5''
     = Some (''202608291203'', ''simplek8s.202608291203.rpi5.img.zst'', ''b'')"
proof -
  let ?s = "[(''simplek8s.202508291203.rpi5.img.zst'', ''a''), (''simplek8s.202608291203.rpi5.img.zst'', ''b''), (''SHA'', ''c'')]"
  have "newest_in ParseImgRelease ''rpi5'' ?s (''202608291203'', ''simplek8s.202608291203.rpi5.img.zst'', ''b'')"
    by code_simp
  then show ?thesis
    by (subst newest_image_exact [where sums = ?s, THEN conjunct1]) (simp_all add: add_mset_commute)
qed

section \<open>Sorting\<close>

text \<open>\<open>sort.Slice\<close> by insertion, as Go sorts up to twelve elements: an element sinks to the left
  past those it is less than. On more elements Go leaves the order of ties open.\<close>

fun sink :: "('a \<Rightarrow> 'a \<Rightarrow> bool) \<Rightarrow> 'a \<Rightarrow> 'a list \<Rightarrow> 'a list" where
  "sink lt x [] = [x]"
| "sink lt x (y # ys) = (if lt x y then y # sink lt x ys else x # y # ys)"

definition go_sort :: "('a \<Rightarrow> 'a \<Rightarrow> bool) \<Rightarrow> 'a list \<Rightarrow> 'a list" where
  "go_sort lt xs = rev (foldl (\<lambda>sorted x. sink lt x sorted) [] xs)"

lemma mset_sink [simp]: "mset (sink lt x ys) = add_mset x (mset ys)"
  by (induction ys) auto

lemma set_sink [simp]: "set (sink lt x ys) = insert x (set ys)"
  by (induction ys) auto

lemma mset_go_sort [simp]: "mset (go_sort lt xs) = mset xs"
proof -
  have "mset (foldl (\<lambda>sorted x. sink lt x sorted) ys xs) = mset ys + mset xs" for ys
    by (induction xs arbitrary: ys) auto
  from this [of "[]"] show ?thesis by (simp add: go_sort_def)
qed

lemma set_go_sort [simp]: "set (go_sort lt xs) = set xs"
  by (rule mset_eq_setD) simp

lemma length_go_sort [simp]: "List.length (go_sort lt xs) = List.length xs"
  by (rule mset_eq_length) simp

lemma sorted_sink:
  fixes k :: "'a \<Rightarrow> 'k::linorder"
  assumes "\<And>y. y \<in> set ys \<Longrightarrow> lt x y \<longleftrightarrow> k x < k y" "sorted_wrt (\<lambda>a b. k b \<le> k a) ys"
  shows "sorted_wrt (\<lambda>a b. k b \<le> k a) (sink lt x ys)"
  using assms
proof (induction ys)
  case (Cons y ys)
  show ?case
  proof (cases "k x < k y")
    case True
    then show ?thesis using Cons by auto
  next
    case False
    then show ?thesis using Cons.prems by (force simp: not_less)
  qed
qed simp

lemma sorted_go_sort:
  fixes k :: "'a \<Rightarrow> 'k::linorder"
  assumes "\<And>x y. x \<in> set xs \<Longrightarrow> y \<in> set xs \<Longrightarrow> lt x y \<longleftrightarrow> k x < k y"
  shows "sorted (map k (go_sort lt xs))"
proof -
  have "sorted_wrt (\<lambda>a b. k b \<le> k a) (foldl (\<lambda>sorted x. sink lt x sorted) [] zs)" if "set zs \<subseteq> set xs" for zs
    using that
  proof (induction zs rule: rev_induct)
    case (snoc z zs)
    have "set (foldl (\<lambda>sorted x. sink lt x sorted) [] zs) = set zs"
      using set_go_sort [of lt zs] by (simp add: go_sort_def)
    then show ?case using snoc assms by (auto intro!: sorted_sink)
  qed simp
  then show ?thesis by (simp add: go_sort_def sorted_wrt_rev sorted_wrt_map)
qed

section \<open>The plan of a purge\<close>

record kernel_entry =
  ke_ts :: string
  ke_name :: string
  ke_size :: int

definition ownFlavorEntries :: "kernel_entry list \<Rightarrow> string \<Rightarrow> kernel_entry list" where
  "ownFlavorEntries entries flavor =
     List.filter (\<lambda>e. case ParseStoredKernel (ke_name e) of Some (_, fa) \<Rightarrow> fa = flavor | None \<Rightarrow> False) entries"

definition kept :: "kernel_entry list \<Rightarrow> string list \<Rightarrow> int \<Rightarrow> string list" where
  "kept entries protected keepNewest =
     map ke_ts (List.filter (\<lambda>e. ke_ts e \<notin> set protected)
       (take (nat keepNewest) (go_sort (\<lambda>a b. NewerTS (ke_ts a) (ke_ts b)) entries)))"

fun purge_walk :: "string list \<Rightarrow> string list \<Rightarrow> 64 word \<Rightarrow> 64 word \<Rightarrow> kernel_entry list \<Rightarrow> string list" where
  "purge_walk protected keep targetFree cur [] = []"
| "purge_walk protected keep targetFree cur (e # asc) =
     (if targetFree \<le> cur then []
      else if ke_ts e \<in> set protected \<or> ke_ts e \<in> set keep then purge_walk protected keep targetFree cur asc
      else ke_name e # purge_walk protected keep targetFree (cur + word_of_int (ke_size e)) asc)"

definition planPurge :: "kernel_entry list \<Rightarrow> string list \<Rightarrow> int \<Rightarrow> 64 word \<Rightarrow> 64 word \<Rightarrow> string list" where
  "planPurge entries protected keepNewest free targetFree =
     (if targetFree \<le> free then []
      else purge_walk protected (kept entries protected keepNewest) targetFree free
             (go_sort (\<lambda>a b. NewerTS (ke_ts b) (ke_ts a)) entries))"

definition targetFreeFromPercent :: "64 word \<Rightarrow> int \<Rightarrow> 64 word" where
  "targetFreeFromPercent tot maxPercent =
     (if maxPercent \<le> 0 \<or> 100 \<le> maxPercent then 0
      else tot * word_of_int (100 - maxPercent) div 100)"

text \<open>What may be deleted, oldest first, and the space there is after a number of deletions.\<close>

definition deletable :: "kernel_entry list \<Rightarrow> string list \<Rightarrow> int \<Rightarrow> kernel_entry list" where
  "deletable entries protected keepNewest =
     List.filter (\<lambda>e. ke_ts e \<notin> set protected \<and> ke_ts e \<notin> set (kept entries protected keepNewest))
       (go_sort (\<lambda>a b. NewerTS (ke_ts b) (ke_ts a)) entries)"

definition room :: "64 word \<Rightarrow> kernel_entry list \<Rightarrow> 64 word" where
  "room free es = foldl (\<lambda>cur e. cur + word_of_int (ke_size e)) free es"

lemma room_simps [simp]: "room free [] = free" "room free (e # es) = room (free + word_of_int (ke_size e)) es"
  by (simp_all add: room_def)

lemma purge_walk_shortest:
  fixes protected keep :: "string list"
  defines "del \<equiv> List.filter (\<lambda>e. ke_ts e \<notin> set protected \<and> ke_ts e \<notin> set keep)"
  shows "\<exists>n. purge_walk protected keep targetFree cur asc = map ke_name (take n (del asc)) \<and>
    (targetFree \<le> room cur (take n (del asc)) \<or> List.length (del asc) \<le> n) \<and>
    (\<forall>m<n. m < List.length (del asc) \<longrightarrow> room cur (take m (del asc)) < targetFree)"
proof (induction asc arbitrary: cur)
  case (Cons e asc)
  show ?case
  proof (cases "targetFree \<le> cur")
    case True
    then show ?thesis by (intro exI [of _ 0]) simp
  next
    case low: False
    show ?thesis
    proof (cases "ke_ts e \<in> set protected \<or> ke_ts e \<in> set keep")
      case True
      then show ?thesis using low Cons.IH [of cur] by (auto simp: del_def)
    next
      case False
      obtain n where n: "purge_walk protected keep targetFree (cur + word_of_int (ke_size e)) asc = map ke_name (take n (del asc))"
        "targetFree \<le> room (cur + word_of_int (ke_size e)) (take n (del asc)) \<or> List.length (del asc) \<le> n"
        "\<forall>m<n. m < List.length (del asc) \<longrightarrow> room (cur + word_of_int (ke_size e)) (take m (del asc)) < targetFree"
        using Cons.IH by blast
      have d: "del (e # asc) = e # del asc" using False by (simp add: del_def)
      have "room cur (take m (del (e # asc))) < targetFree" if "m < Suc n" "m < Suc (List.length (del asc))" for m
        using that n(3) low by (cases m) (auto simp: d)
      then show ?thesis using n low False by (intro exI [of _ "Suc n"]) (auto simp: d)
    qed
  qed
qed (auto simp: del_def)



lemma plan_purge_subset:
  assumes "n \<in> set (planPurge entries protected keepNewest free targetFree)"
  shows "\<exists>e\<in>set entries. ke_name e = n \<and> ke_ts e \<notin> set protected \<and> ke_ts e \<notin> set (kept entries protected keepNewest)"
proof -
  have "set (purge_walk protected keep targetFree cur asc) \<subseteq>
    ke_name ` {e \<in> set asc. ke_ts e \<notin> set protected \<and> ke_ts e \<notin> set keep}" for keep cur asc
    by (induction asc arbitrary: cur) auto
  then show ?thesis using assms by (fastforce simp: planPurge_def split: if_splits)
qed

text \<open>An entry with fewer than \<open>preserve\<close> newer ones on the partition survives a purge.\<close>

lemma purge_preserves_newest:
  assumes st: "\<forall>e\<in>set entries. stamp (ke_ts e)"
    and d: "distinct (map (\<lambda>e. digits_val (ke_ts e)) entries)" "distinct (map ke_name entries)"
    and e: "e \<in> set entries"
    and few: "int (List.length (List.filter (\<lambda>e'. NewerTS (ke_ts e') (ke_ts e)) entries)) < keepNewest"
  shows "ke_name e \<notin> set (planPurge entries protected keepNewest free targetFree)"
proof
  assume "ke_name e \<in> set (planPurge entries protected keepNewest free targetFree)"
  then obtain e' where "e' \<in> set entries" "ke_name e' = ke_name e" and
    u: "ke_ts e' \<notin> set protected" "ke_ts e' \<notin> set (kept entries protected keepNewest)"
    using plan_purge_subset by blast
  then have "e' = e" using d(2) e by (auto simp: distinct_map inj_on_def)
  let ?v = "\<lambda>e. - digits_val (ke_ts e)"
  define ds where "ds = go_sort (\<lambda>a b. NewerTS (ke_ts a) (ke_ts b)) entries"
  have less: "NewerTS (ke_ts x) (ke_ts y) \<longleftrightarrow> ?v x < ?v y" if "x \<in> set entries" "y \<in> set entries" for x y
    using newer_stamp st that by simp
  have s: "sorted (map ?v ds)" unfolding ds_def by (rule sorted_go_sort) (simp add: less)
  have m: "mset ds = mset entries" "set ds = set entries" by (simp_all add: ds_def)
  have "distinct (map (\<lambda>e. digits_val (ke_ts e)) ds)"
    using d(1) m(1) by (metis mset_eq_imp_distinct_iff mset_map)
  then have dd: "distinct (map ?v ds)" by (simp add: distinct_map inj_on_def)
  have ss: "sorted_wrt (<) (map ?v ds)" using s dd strict_sorted_iff by blast
  obtain i where i: "i < List.length ds" "ds ! i = e"
    using e m(2) by (metis in_set_conv_nth)
  have "List.filter (\<lambda>x. ?v x < ?v e) (take i ds) = take i ds"
    using ss i by (intro filter_True) (auto simp: sorted_wrt_iff_nth_less in_set_conv_nth)
  then have "i \<le> List.length (List.filter (\<lambda>x. ?v x < ?v e) ds)"
    using i by (subst append_take_drop_id [of i ds, symmetric], subst filter_append) (simp del: append_take_drop_id)
  also have "\<dots> = size (filter_mset (\<lambda>x. ?v x < ?v e) (mset ds))"
    by (metis mset_filter size_mset)
  also have "\<dots> = List.length (List.filter (\<lambda>x. ?v x < ?v e) entries)"
    using m(1) by (metis mset_filter size_mset)
  also have "List.filter (\<lambda>x. ?v x < ?v e) entries = List.filter (\<lambda>e'. NewerTS (ke_ts e') (ke_ts e)) entries"
    using less e by (intro filter_cong) auto
  finally have "i < nat keepNewest" using few by linarith
  then have "e \<in> set (take (nat keepNewest) ds)"
    using i by (auto simp: in_set_conv_nth intro!: exI [of _ i])
  then show False using u \<open>e' = e\<close> by (auto simp: kept_def ds_def)
qed

lemma purge_preserves_newest_witness:
  "''b'' \<notin> set (planPurge [\<lparr> ke_ts = ''202501010000'', ke_name = ''a'', ke_size = 5 \<rparr>,
     \<lparr> ke_ts = ''202401010000'', ke_name = ''b'', ke_size = 5 \<rparr>] [] 2 0 100)"
proof -
  let ?b = "\<lparr> ke_ts = ''202401010000'', ke_name = ''b'', ke_size = 5 \<rparr>"
  let ?es = "[\<lparr> ke_ts = ''202501010000'', ke_name = ''a'', ke_size = 5 \<rparr>, ?b]"
  have "ke_name ?b \<notin> set (planPurge ?es [] 2 0 100)"
    by (rule purge_preserves_newest) code_simp+
  then show ?thesis by simp
qed

lemma uint_target_free:
  assumes "0 < p" "p < 100" "uint tot * 100 < 2 ^ 64"
  shows "uint (targetFreeFromPercent tot p) = uint tot * (100 - p) div 100"
proof -
  have le: "uint tot * (100 - p) \<le> uint tot * 100" using assms by (intro mult_left_mono) auto
  then have "uint (tot * word_of_int (100 - p)) = uint tot * (100 - p)"
    using assms by (simp add: uint_word_ariths uint_word_of_int)
  then show ?thesis using assms by (simp add: targetFreeFromPercent_def uint_div)
qed

text \<open>Keeping the computed space free keeps usage at or below the configured percentage, up to the rounding to
  whole bytes, on a partition of up to \<open>2^64 / 100\<close> bytes.\<close>

lemma target_free_caps_usage:
  assumes "0 < p" "p < 100" "uint tot * 100 < 2 ^ 64" "targetFreeFromPercent tot p \<le> free" "free \<le> tot"
  shows "100 * uint (tot - free) < uint tot * p + 100"
proof -
  have "uint tot * (100 - p) div 100 \<le> uint free"
    using assms(4) uint_target_free [OF assms(1,2,3)] by (simp add: word_le_def)
  moreover have "uint (tot - free) = uint tot - uint free"
    using assms(5) by (simp add: uint_minus_simple_alt word_le_def)
  moreover have "uint tot * (100 - p) < 100 * (uint tot * (100 - p) div 100) + 100"
    by presburger
  ultimately show ?thesis by (simp add: algebra_simps)
qed

lemma target_free_caps_usage_witness:
  "100 * uint ((1001 :: 64 word) - 301) < uint (1001 :: 64 word) * 70 + 100"
  by (rule target_free_caps_usage) (simp_all add: targetFreeFromPercent_def)

text \<open>A published index, one line of hash, mode and name per entry.\<close>

definition index_text :: "(string \<times> string) list \<Rightarrow> string" where
  "index_text entries = List.concat (map (\<lambda>(name, csum). csum @ ''  '' @ name @ [newline]) entries)"

definition index_entry :: "string \<times> string \<Rightarrow> bool" where
  "index_entry e = (case e of (name, csum) \<Rightarrow>
     List.length csum = 64 \<and> list_all is_hex csum \<and> to_lower csum = csum \<and>
     name \<noteq> [] \<and> newline \<notin> set name \<and> List.last name \<noteq> carriage_return \<and> List.length name < 1048510)"

lemma split_on_append: "sep \<notin> set a \<Longrightarrow> split_on sep (a @ sep # s) = a # split_on sep s"
  by (induction a) auto

lemma trim_suffix_last: "s \<noteq> [] \<Longrightarrow> List.last s \<noteq> c \<Longrightarrow> trim_suffix s [c] = s"
  by (cases s rule: rev_cases) (auto simp: trim_suffix_def has_suffix_def)

lemma scan_short_all:
  "(\<And>l. l \<in> set ls \<Longrightarrow> List.length l < limit \<and> l \<noteq> [] \<and> List.last l \<noteq> carriage_return) \<Longrightarrow> scan_short limit ls = (ls, True)"
  by (induction ls) (simp_all add: trim_suffix_last not_le [symmetric])

lemma split_index_text:
  assumes "\<And>e. e \<in> set entries \<Longrightarrow> index_entry e"
  shows "split_on newline (index_text entries) = map (\<lambda>(name, csum). csum @ ''  '' @ name) entries @ [[]]"
  using assms
proof (induction entries)
  case (Cons e entries)
  obtain name csum where e: "e = (name, csum)" by (cases e)
  have "newline \<notin> set csum" "newline \<notin> set name"
    using Cons.prems [of e] by (auto simp: e index_entry_def list_all_iff is_hex_def)
  then have "newline \<notin> set (csum @ ''  '' @ name)" by simp
  from split_on_append [OF this] Cons show ?case
    by (simp add: e index_text_def)
qed (simp add: index_text_def)

lemma update_new: "k \<notin> fst ` set out \<Longrightarrow> AList.update k v out = out @ [(k, v)]"
  by (induction out) auto

lemma index_line_fold:
  assumes "\<And>e. e \<in> set entries \<Longrightarrow> index_entry e" "distinct (map fst (out @ entries))"
  shows "foldl index_line out (map (\<lambda>(name, csum). csum @ ''  '' @ name) entries) = out @ entries"
  using assms
proof (induction entries arbitrary: out)
  case (Cons e entries)
  obtain name csum where e: "e = (name, csum)" by (cases e)
  have w: "List.length csum = 64" "list_all is_hex csum" "to_lower csum = csum" "name \<noteq> []" "List.last name \<noteq> carriage_return"
    using Cons.prems(1) [of e] by (auto simp: e index_entry_def)
  then have "index_line out (csum @ ''  '' @ name) = out @ [e]"
    using Cons.prems(2) trim_suffix_last [of "csum @ ''  '' @ name" carriage_return]
    by (simp add: index_line_def sha256Line_def update_new e)
  then show ?case using Cons.IH [of "out @ [e]"] Cons.prems by (simp add: e)
qed simp

lemma index_reads_back:
  assumes "\<forall>e\<in>set entries. index_entry e" "distinct (map fst entries)"
  shows "ParseIndex (index_text entries) = Some entries"
proof -
  let ?ls = "map (\<lambda>(name, csum). csum @ ''  '' @ name) entries"
  have "scan_short max_index_line ?ls = (?ls, True)"
    using assms(1) by (intro scan_short_all) (auto simp: index_entry_def)
  moreover have "foldl index_line [] ?ls = entries"
    using index_line_fold [of entries "[]"] assms by simp
  ultimately show ?thesis
    using split_index_text assms(1) by (simp add: ParseIndex_def scan_lines_def Let_def)
qed

text \<open>A published index is read back entry for entry.\<close>

theorem index_round_trip:
  assumes "\<forall>e\<in>set entries. index_entry e" "distinct (map fst entries)"
  shows "ParseIndex (index_text entries) = Some entries"
  using assms by (rule index_reads_back)

theorem index_round_trip_witness:
  "ParseIndex (index_text [(''simplek8s.202608291203.rpi5.efi'', replicate 64 CHR ''a'')]) =
     Some [(''simplek8s.202608291203.rpi5.efi'', replicate 64 CHR ''a'')]"
  by (rule index_round_trip)
    (simp_all add: index_entry_def is_hex_def to_lower_def lower_char_def list_all_iff map_replicate_const)

end
