(* ===== verification/Boot_Fs.thy ===== *)
theory Boot_Fs
  imports Release "HOL-Library.State_Monad"
begin

text \<open>
  The boot partition as the code sees it: a file store addressed by paths relative to the mount
  point, and the calls of Go's \<open>os\<close> package the updater makes on it. Every call may fail: it takes
  the next event of a script (success once the script is used up), and a write that is torn leaves
  the beginning of what was written, as \<open>O_TRUNC\<close> and \<open>io.Copy\<close> do. Calls on the scratch directory
  take an event, too, but have no effect on the partition.

  The partition is a case-sensitive map of paths here; its file system (vfat) also finds a file by
  other spellings of its name.
\<close>

section \<open>Errors\<close>

datatype boot_error =
    NotExist
  | IoError
  | NoBootloaderConfig
  | NoSpace
  | DownloadFailed
  | ExtractFailed
  | HashMismatch
  | GoalAbsent
  | BootBusy
  | NoBootDevice
  | MountFailed

text \<open>\<open>if err != nil { return err }\<close>.\<close>

definition or_fail :: "('s, 'e + 'a) state \<Rightarrow> ('a \<Rightarrow> ('s, 'e + 'b) state) \<Rightarrow> ('s, 'e + 'b) state" where
  "or_fail m k = State_Monad.bind m (\<lambda>r. case r of Inl e \<Rightarrow> State_Monad.return (Inl e) | Inr x \<Rightarrow> k x)"

lemma run_or_fail:
  "run_state (or_fail m k) s =
     (case run_state m s of (Inl e, s') \<Rightarrow> (Inl e, s') | (Inr x, s') \<Rightarrow> run_state (k x) s')"
  by (auto simp: or_fail_def split: prod.splits sum.splits)

lemma keeps_or_fail [io_intros]:
  assumes "reflp R" "transp R" "keeps R m" "\<And>x. keeps R (k x)"
  shows "keeps R (or_fail m k)"
  unfolding or_fail_def using assms by (intro io_intros)

lemma or_fail_success:
  "run_state (or_fail m k) s = (Inr y, t) \<Longrightarrow>
   (\<And>x u. run_state m s = (Inr x, u) \<Longrightarrow> run_state (k x) u = (Inr y, t) \<Longrightarrow> P) \<Longrightarrow> P"
  by (auto simp: run_or_fail split: prod.splits sum.splits)

section \<open>The store\<close>

datatype io_event = Io_ok | Io_fail | Io_torn nat

record boot_fs =
  bf_files :: "(string \<times> string) list"
  bf_dirs :: "string list"
  bf_script :: "io_event list"

type_synonym 'a fs_op = "(boot_fs, 'a) state"

definition next_io :: "io_event fs_op" where
  "next_io = State (\<lambda>s. case bf_script s of
      [] \<Rightarrow> (Io_ok, s)
    | ev # evs \<Rightarrow> (ev, s\<lparr>bf_script := evs\<rparr>))"

definition file_at :: "boot_fs \<Rightarrow> string \<Rightarrow> string option" where
  "file_at s p = map_of (bf_files s) p"

definition dir_of :: "string \<Rightarrow> string" where
  "dir_of p = rev (drop 1 (dropWhile (\<lambda>c. c \<noteq> CHR ''/'') (rev p)))"

text \<open>A call that only looks: \<open>Inl\<close> of its error, or what it finds.\<close>

definition fs_look :: "(boot_fs \<Rightarrow> boot_error + 'a) \<Rightarrow> (boot_error + 'a) fs_op" where
  "fs_look g = do {
     ev \<leftarrow> next_io;
     if ev \<noteq> Io_ok then State_Monad.return (Inl IoError)
     else do { s \<leftarrow> State_Monad.get; State_Monad.return (g s) } }"

definition statSize :: "string \<Rightarrow> (boot_error + int) fs_op" where
  "statSize p = fs_look (\<lambda>s. case file_at s p of Some c \<Rightarrow> Inr (int (List.length c)) | None \<Rightarrow> Inl NotExist)"

definition fileExists :: "string \<Rightarrow> bool fs_op" where
  "fileExists p = do {
     r \<leftarrow> fs_look (\<lambda>s. if file_at s p \<noteq> None \<or> p \<in> set (bf_dirs s) then Inr () else Inl NotExist);
     State_Monad.return (case r of Inr _ \<Rightarrow> True | Inl _ \<Rightarrow> False) }"

definition is_dir :: "string \<Rightarrow> bool fs_op" where
  "is_dir p = do {
     r \<leftarrow> fs_look (\<lambda>s. if p \<in> set (bf_dirs s) then Inr () else Inl NotExist);
     State_Monad.return (case r of Inr _ \<Rightarrow> True | Inl _ \<Rightarrow> False) }"

definition fs_read :: "string \<Rightarrow> (boot_error + string) fs_op" where
  "fs_read p = fs_look (\<lambda>s. case file_at s p of Some c \<Rightarrow> Inr c | None \<Rightarrow> Inl NotExist)"

text \<open>\<open>os.ReadDir\<close>: the regular files of a directory, sorted by name.\<close>

definition files_in :: "boot_fs \<Rightarrow> string \<Rightarrow> string list" where
  "files_in s d = sort (remdups (map (\<lambda>(p, _). drop (List.length d + 1) p)
     (List.filter (\<lambda>(p, _). dir_of p = d) (bf_files s))))"

definition fs_list :: "string \<Rightarrow> (boot_error + string list) fs_op" where
  "fs_list d = fs_look (\<lambda>s. if d \<in> set (bf_dirs s) then Inr (files_in s d) else Inl NotExist)"

definition temp_io :: "(boot_error + unit) fs_op" where
  "temp_io = fs_look (\<lambda>_. Inr ())"

definition fs_mkdir :: "string \<Rightarrow> (boot_error + unit) fs_op" where
  "fs_mkdir d = do {
     ev \<leftarrow> next_io;
     if ev \<noteq> Io_ok then State_Monad.return (Inl IoError)
     else State (\<lambda>s. (Inr (), s\<lparr>bf_dirs := List.insert d (bf_dirs s)\<rparr>)) }"

definition fs_remove :: "string \<Rightarrow> (boot_error + unit) fs_op" where
  "fs_remove p = do {
     ev \<leftarrow> next_io;
     if ev \<noteq> Io_ok then State_Monad.return (Inl IoError)
     else State (\<lambda>s. if file_at s p = None then (Inl NotExist, s)
                     else (Inr (), s\<lparr>bf_files := AList.delete p (bf_files s)\<rparr>)) }"

definition fs_write :: "string \<Rightarrow> string \<Rightarrow> (boot_error + unit) fs_op" where
  "fs_write p content = do {
     ev \<leftarrow> next_io;
     State (\<lambda>s.
       if dir_of p \<noteq> [] \<and> dir_of p \<notin> set (bf_dirs s) then (Inl NotExist, s)
       else (case ev of
               Io_ok \<Rightarrow> (Inr (), s\<lparr>bf_files := AList.update p content (bf_files s)\<rparr>)
             | Io_fail \<Rightarrow> (Inl IoError, s)
             | Io_torn n \<Rightarrow> (Inl IoError, s\<lparr>bf_files := AList.update p (take n content) (bf_files s)\<rparr>))) }"

definition copyOver :: "string \<Rightarrow> string \<Rightarrow> (boot_error + unit) fs_op" where
  "copyOver content target =
     or_fail (if dir_of target = [] then State_Monad.return (Inr ()) else fs_mkdir (dir_of target))
       (\<lambda>_. fs_write target content)"

definition copyFile :: "string \<Rightarrow> string \<Rightarrow> (boot_error + unit) fs_op" where
  "copyFile content dst = or_fail temp_io (\<lambda>_. fs_write dst content)"

section \<open>What a computation may touch\<close>

text \<open>The configuration files of the boot loaders, which no operation deletes.\<close>

abbreviation grubConfigRel :: string where "grubConfigRel \<equiv> ''grub/grub.cfg''"
abbreviation syslinuxConfigRel :: string where "syslinuxConfigRel \<equiv> ''syslinux/syslinux.cfg''"
abbreviation rpiConfigRel :: string where "rpiConfigRel \<equiv> ''config.txt''"

definition config_files :: "string set" where
  "config_files = {grubConfigRel, syslinuxConfigRel, rpiConfigRel}"

text \<open>\<open>changes S\<close>: only files of \<open>S\<close> change, configuration files stay, and directories stay.\<close>

definition changes :: "string set \<Rightarrow> boot_fs \<Rightarrow> boot_fs \<Rightarrow> bool" where
  "changes S s t \<longleftrightarrow> (\<forall>p. p \<notin> S \<longrightarrow> file_at t p = file_at s p) \<and>
     (\<forall>p\<in>config_files. file_at s p \<noteq> None \<longrightarrow> file_at t p \<noteq> None) \<and> set (bf_dirs s) \<subseteq> set (bf_dirs t)"

abbreviation only :: "string set \<Rightarrow> 'a fs_op \<Rightarrow> bool" where
  "only S m \<equiv> keeps (changes S) m"

lemma reflp_changes [simp, intro]: "reflp (changes S)"
  by (simp add: reflp_def changes_def)

lemma transp_changes [simp, intro]: "transp (changes S)"
  by (rule transpI) (auto simp: changes_def)

lemma changes_mono: "changes S s t \<Longrightarrow> S \<subseteq> T \<Longrightarrow> changes T s t"
  by (auto simp: changes_def)

lemma only_mono: "only S m \<Longrightarrow> S \<subseteq> T \<Longrightarrow> only T m"
  using changes_mono keeps_mono by metis

lemma next_io_file: "run_state next_io s = (ev, t) \<Longrightarrow> file_at t = file_at s \<and> bf_dirs t = bf_dirs s"
  by (auto simp: next_io_def file_at_def fun_eq_iff split: list.splits)

lemma only_next_io [io_intros]: "only S next_io"
  by (rule keepsI) (auto dest: next_io_file simp: changes_def)

lemma only_look [io_intros]: "only S (fs_look g)"
  unfolding fs_look_def by (intro io_intros) auto

lemma only_reads [io_intros]:
  "only S (statSize p)" "only S (fileExists p)" "only S (is_dir p)" "only S (fs_read p)" "only S (fs_list p)" "only S temp_io"
  unfolding statSize_def fileExists_def is_dir_def fs_read_def fs_list_def temp_io_def
  by (intro io_intros; simp)+

lemma only_mkdir [io_intros]: "only S (fs_mkdir d)"
  unfolding fs_mkdir_def
  by (intro io_intros) (auto intro: keepsI simp: changes_def file_at_def)

lemma only_remove: "p \<in> S \<Longrightarrow> p \<notin> config_files \<Longrightarrow> only S (fs_remove p)"
  unfolding fs_remove_def
  by (intro io_intros) (auto intro!: keepsI simp: changes_def file_at_def delete_conv' split: if_splits)

lemma only_write: "p \<in> S \<Longrightarrow> only S (fs_write p c)"
  unfolding fs_write_def
  by (intro io_intros) (auto intro!: keepsI simp: changes_def file_at_def update_conv' split: if_splits io_event.splits)

lemma only_copyOver: "p \<in> S \<Longrightarrow> only S (copyOver c p)"
  unfolding copyOver_def by (intro io_intros only_write) auto

lemma only_copyFile: "p \<in> S \<Longrightarrow> only S (copyFile c p)"
  unfolding copyFile_def by (intro io_intros only_write) auto

text \<open>What a call that succeeded has done.\<close>

lemma fs_look_run:
  "run_state (fs_look g) s = (r, t) \<Longrightarrow>
   file_at t = file_at s \<and> bf_dirs t = bf_dirs s \<and> (r = Inl IoError \<or> r = g t)"
  by (auto simp: fs_look_def next_io_def file_at_def fun_eq_iff split: list.splits if_splits)

lemma fs_write_success:
  "run_state (fs_write p c) s = (Inr u, t) \<Longrightarrow> file_at t = (file_at s)(p \<mapsto> c)"
  by (auto simp: fs_write_def file_at_def update_conv' fun_eq_iff dest!: next_io_file
      split: prod.splits if_splits io_event.splits)

lemma copyOver_success:
  "run_state (copyOver c p) s = (Inr u, t) \<Longrightarrow> file_at t = (file_at s)(p \<mapsto> c)"
  unfolding copyOver_def
  by (auto elim!: or_fail_success dest!: fs_write_success next_io_file
      simp: fs_mkdir_def file_at_def fun_eq_iff split: if_splits prod.splits)

lemma copyFile_success:
  "run_state (copyFile c p) s = (Inr u, t) \<Longrightarrow> file_at t = (file_at s)(p \<mapsto> c)"
  unfolding copyFile_def temp_io_def
  by (auto elim!: or_fail_success dest!: fs_write_success fs_look_run)

end
