(* ===== verification/Bootloader.thy ===== *)
theory Bootloader
  imports Boot_Fs
begin

text \<open>
  The boot loader entry writers (bootloader.go): the default entry of syslinux, GRUB and the
  Raspberry Pi loader is read and set, and stale entries are pruned, line by line on the text of
  the configuration. The regular expressions are written out as the scan they describe; case is
  folded for ASCII letters.
\<close>

section \<open>Paths and lines\<close>

definition filepath_base :: "string \<Rightarrow> string" where
  "filepath_base p =
     (if p = [] then ''.''
      else (let q = rev (dropWhile (\<lambda>c. c = CHR ''/'') (rev p))
            in if q = [] then ''/'' else rev (takeWhile (\<lambda>c. c \<noteq> CHR ''/'') (rev q))))"

text \<open>The final extension with its dot, or nothing.\<close>

definition filepath_ext :: "string \<Rightarrow> string" where
  "filepath_ext p =
     (let b = rev (takeWhile (\<lambda>c. c \<noteq> CHR ''/'') (rev p))
      in if CHR ''.'' \<in> set b then CHR ''.'' # rev (takeWhile (\<lambda>c. c \<noteq> CHR ''.'') (rev b)) else [])"

definition kernelBasename :: "string \<Rightarrow> string" where
  "kernelBasename path = (let base = filepath_base path in trim_suffix base (filepath_ext base))"

text \<open>\<open>\s\<close> and \<open>[\w-_.]\<close> of Go's regular expressions.\<close>

definition re_space :: "char \<Rightarrow> bool" where
  "re_space c \<longleftrightarrow> (let n = of_char c :: nat in n = 9 \<or> n = 10 \<or> n = 12 \<or> n = 13 \<or> n = 32)"

definition label_char :: "char \<Rightarrow> bool" where
  "label_char c \<longleftrightarrow> arch_char c \<or> c = CHR ''.''"

definition rtrim :: "string \<Rightarrow> string" where
  "rtrim s = rev (dropWhile re_space (rev s))"

definition all_space :: "string \<Rightarrow> bool" where
  "all_space s = list_all re_space s"

text \<open>\<open>(?i)^<word>\<close>: what follows the word.\<close>

definition after_word :: "string \<Rightarrow> string \<Rightarrow> string option" where
  "after_word w l = (if has_prefix (to_lower l) w then Some (drop (List.length w) l) else None)"

text \<open>\<open>\s+\<close>: the rest after at least one space.\<close>

definition after_space :: "string \<Rightarrow> string option" where
  "after_space l = (if takeWhile re_space l = [] then None else Some (dropWhile re_space l))"

text \<open>\<open>\s*(.+?)\s*$\<close>: the trimmed rest; of white space alone the last character is matched by \<open>.+?\<close>.\<close>

definition trimmed_rest :: "string \<Rightarrow> string option" where
  "trimmed_rest l =
     (let body = dropWhile re_space l
      in if body \<noteq> [] then Some (rtrim body) else if l = [] then None else Some [List.last l])"

text \<open>\<open>strings.Trim(s, cutset)\<close> for one character.\<close>

definition trim_char :: "char \<Rightarrow> string \<Rightarrow> string" where
  "trim_char c s = rev (dropWhile (\<lambda>d. d = c) (rev (dropWhile (\<lambda>d. d = c) s)))"

definition obind :: "'a option \<Rightarrow> ('a \<Rightarrow> 'b option) \<Rightarrow> 'b option" where
  "obind x f = (case x of None \<Rightarrow> None | Some y \<Rightarrow> f y)"

fun first_some :: "('a \<Rightarrow> 'b option) \<Rightarrow> 'a list \<Rightarrow> 'b option" where
  "first_some f [] = None"
| "first_some f (x # xs) = (case f x of Some y \<Rightarrow> Some y | None \<Rightarrow> first_some f xs)"

abbreviation max_config_line :: nat where "max_config_line \<equiv> 64 * 1024"

definition unlines :: "string list \<Rightarrow> string" where
  "unlines ls = List.concat (map (\<lambda>l. l @ [newline]) ls)"

section \<open>syslinux\<close>

definition reSysDefault :: "string \<Rightarrow> bool" where
  "reSysDefault l \<longleftrightarrow> after_word ''default '' l \<noteq> None"

text \<open>\<open>(?i)^LABEL <kernelName>\<close> tests a prefix of the line only.\<close>

definition names_label :: "string \<Rightarrow> string \<Rightarrow> bool" where
  "names_label kernelName l \<longleftrightarrow> after_word (''label '' @ to_lower kernelName) l \<noteq> None"

definition syslinux_default_line :: "string \<Rightarrow> string" where
  "syslinux_default_line kernelName = ''DEFAULT '' @ kernelName"

text \<open>The entry the writer appends, with the microcode images that exist.\<close>

definition syslinux_entry :: "string \<Rightarrow> string \<Rightarrow> string list \<Rightarrow> string list" where
  "syslinux_entry kernelName relKernelPath initrds =
     [''LABEL '' @ kernelName, '' KERNEL '' @ relKernelPath] @ map (\<lambda>i. '' INITRD '' @ i) initrds @ [[]]"

definition syslinux_needs_entry :: "string \<Rightarrow> string list \<Rightarrow> bool" where
  "syslinux_needs_entry kernelName ls = (\<not> list_ex (\<lambda>l. \<not> reSysDefault l \<and> names_label kernelName l) ls)"

definition newSyslinuxConfig :: "string \<Rightarrow> string \<Rightarrow> string list \<Rightarrow> string list \<Rightarrow> string" where
  "newSyslinuxConfig kernelName relKernelPath initrds ls =
     unlines (map (\<lambda>l. if reSysDefault l then syslinux_default_line kernelName else l) ls
       @ (if list_ex reSysDefault ls then [] else [syslinux_default_line kernelName])
       @ (if syslinux_needs_entry kernelName ls then syslinux_entry kernelName relKernelPath initrds else []))"

text \<open>\<open>(?i)^<word>\s+([\w-_.]+)\<close>: the name and what follows it.\<close>

definition word_name :: "string \<Rightarrow> string \<Rightarrow> (string \<times> string) option" where
  "word_name w l = obind (obind (after_word w l) after_space) (\<lambda>r.
     if takeWhile label_char r = [] then None else Some (takeWhile label_char r, dropWhile label_char r))"

definition syslinuxLabel :: "string list \<Rightarrow> string" where
  "syslinuxLabel ls = (case first_some (\<lambda>l. map_option fst (word_name ''default'' l)) ls of Some n \<Rightarrow> n | None \<Rightarrow> [])"

definition label_line :: "string \<Rightarrow> string option" where
  "label_line l = obind (word_name ''label'' l) (\<lambda>(n, rest). if all_space rest then Some n else None)"

definition kernel_line :: "string \<Rightarrow> string option" where
  "kernel_line l = obind (after_word ''kernel'' (dropWhile re_space l)) (\<lambda>r.
     if takeWhile re_space r = [] then None
     else if dropWhile re_space r = [] then (if List.length r < 2 then None else Some [List.last r])
     else trimmed_rest r)"

fun syslinuxKernelForLabel :: "string \<Rightarrow> bool \<Rightarrow> string list \<Rightarrow> string" where
  "syslinuxKernelForLabel label inBlock [] = []"
| "syslinuxKernelForLabel label inBlock (l # ls) =
     (case label_line l of
        Some n \<Rightarrow> syslinuxKernelForLabel label (n = label) ls
      | None \<Rightarrow>
          (if inBlock then (case kernel_line l of
                              Some k \<Rightarrow> k
                            | None \<Rightarrow> syslinuxKernelForLabel label inBlock ls)
           else syslinuxKernelForLabel label inBlock ls))"

definition syslinux_default_of :: "string \<Rightarrow> string" where
  "syslinux_default_of cfg =
     (let ls = fst (scan_lines max_config_line cfg); label = syslinuxLabel ls
      in if label = [] then [] else syslinuxKernelForLabel label False ls)"

section \<open>Raspberry Pi\<close>

definition is_kernel_key :: "string \<Rightarrow> bool" where
  "is_kernel_key l \<longleftrightarrow> after_word ''kernel='' l \<noteq> None"

text \<open>The error of the scanner is not looked at: what it did not deliver is lost.\<close>

definition newRPIConfig :: "string \<Rightarrow> string \<Rightarrow> string" where
  "newRPIConfig relKernelPath cfg =
     unlines (map (\<lambda>l. if is_kernel_key l then ''kernel='' @ relKernelPath else l) (fst (scan_lines max_config_line cfg)))"

definition rpi_path_char :: "char \<Rightarrow> bool" where
  "rpi_path_char c \<longleftrightarrow> c = CHR ''/'' \<or> label_char c"

definition rpi_kernel :: "string \<Rightarrow> string option" where
  "rpi_kernel l = obind (after_word ''kernel='' l) (\<lambda>r. if r \<noteq> [] \<and> list_all rpi_path_char r then Some r else None)"

definition rpi_default_of :: "string \<Rightarrow> string" where
  "rpi_default_of cfg = (case first_some rpi_kernel (fst (scan_lines max_config_line cfg)) of Some k \<Rightarrow> k | None \<Rightarrow> [])"

section \<open>GRUB\<close>

text \<open>\<open>(?i)^\s*set\s+default\s*=\s*(.+?)\s*$\<close> and \<open>(?i)^\s*set\s+kernel_opts\s*=\<close>.\<close>

definition set_value :: "string \<Rightarrow> string \<Rightarrow> string option" where
  "set_value key l =
     obind (obind (obind (after_word ''set'' (dropWhile re_space l)) after_space) (after_word key))
       (\<lambda>r. case dropWhile re_space r of c # v \<Rightarrow> if c = CHR ''='' then Some v else None | [] \<Rightarrow> None)"

definition grub_default_value :: "string \<Rightarrow> string option" where
  "grub_default_value l = obind (set_value ''default'' l) trimmed_rest"

definition reGrubKernelOpts :: "string \<Rightarrow> bool" where
  "reGrubKernelOpts l \<longleftrightarrow> set_value ''kernel_opts'' l \<noteq> None"

text \<open>\<open>(?i)^\s*menuentry\s+(?:"([^"]+)"|'([^']+)')(.*)\{\s*$\<close>: the title.\<close>

definition quoted :: "string \<Rightarrow> (string \<times> string) option" where
  "quoted l =
     (case l of [] \<Rightarrow> None
      | q # r \<Rightarrow>
          if (q = CHR 0x22 \<or> q = CHR 0x27) \<and> takeWhile (\<lambda>c. c \<noteq> q) r \<noteq> [] \<and> q \<in> set r
          then Some (takeWhile (\<lambda>c. c \<noteq> q) r, drop 1 (dropWhile (\<lambda>c. c \<noteq> q) r)) else None)"

definition menuentry :: "string \<Rightarrow> string option" where
  "menuentry l =
     obind (obind (obind (after_word ''menuentry'' (dropWhile re_space l)) after_space) quoted)
       (\<lambda>(title, rest). if has_suffix (rtrim rest) [CHR 0x7B] then Some title else None)"

abbreviation is_menuentry :: "string \<Rightarrow> bool" where "is_menuentry l \<equiv> menuentry l \<noteq> None"

text \<open>\<open>--id[=\s]+("[^"]+"|'[^']+'|[^\s]+)\<close>, leftmost. After separators only, the last character
  class gives back an equals sign.\<close>

definition id_sep :: "char \<Rightarrow> bool" where
  "id_sep c \<longleftrightarrow> c = CHR ''='' \<or> re_space c"

definition id_value :: "string \<Rightarrow> string option" where
  "id_value r =
     (let sep = takeWhile id_sep r; v = dropWhile id_sep r
      in if sep = [] then None
         else if v = [] then (if CHR ''='' \<in> set (tl sep) then Some ''='' else None)
         else (case quoted v of
                 Some (s, _) \<Rightarrow> Some (hd v # s @ [hd v])
               | None \<Rightarrow> Some (takeWhile (\<lambda>c. \<not> re_space c) v)))"

fun grub_id :: "string \<Rightarrow> string option" where
  "grub_id [] = None"
| "grub_id (c # l) =
     (case (if has_prefix (c # l) ''--id'' then id_value (drop 4 (c # l)) else None) of
        Some v \<Rightarrow> Some v
      | None \<Rightarrow> grub_id l)"

definition stripGrubQuotes :: "string \<Rightarrow> string" where
  "stripGrubQuotes s =
     (let t = trim_space s
      in if 2 \<le> List.length t \<and> hd t = List.last t \<and> (hd t = CHR 0x22 \<or> hd t = CHR 0x27)
         then butlast (tl t) else t)"

definition grubEntryID :: "string \<Rightarrow> string" where
  "grubEntryID l = (case grub_id l of Some v \<Rightarrow> stripGrubQuotes v | None \<Rightarrow> [])"

definition grubEntryTitle :: "string \<Rightarrow> string" where
  "grubEntryTitle l = (case menuentry l of Some t \<Rightarrow> t | None \<Rightarrow> [])"

text \<open>\<open>(?i)^\s*linux\s+(\S+)\<close> and \<open>^\s*\}\s*$\<close>.\<close>

definition linux_line :: "string \<Rightarrow> string option" where
  "linux_line l = obind (obind (after_word ''linux'' (dropWhile re_space l)) after_space)
     (\<lambda>r. if r = [] then None else Some (takeWhile (\<lambda>c. \<not> re_space c) r))"

definition close_line :: "string \<Rightarrow> bool" where
  "close_line l \<longleftrightarrow> (case dropWhile re_space l of c # r \<Rightarrow> c = CHR 0x7D \<and> all_space r | [] \<Rightarrow> False)"

text \<open>A parsed block: its identifier, first linux path, title line and number of lines. \<open>ge_start\<close> is the
  index of its first line. A block ends with the closing brace, or before the next entry.\<close>

record grub_entry =
  ge_id :: string
  ge_linux :: string
  ge_start :: nat
  ge_end :: nat

fun block_length :: "string list \<Rightarrow> nat" where
  "block_length [] = 0"
| "block_length (l # ls) =
     (if is_menuentry l then 0 else if close_line l then 1 else Suc (block_length ls))"

definition grub_linux :: "string list \<Rightarrow> string" where
  "grub_linux block = (case first_some linux_line block of Some k \<Rightarrow> trim_char CHR 0x22 k | None \<Rightarrow> [])"

fun grub_entries_from :: "nat \<Rightarrow> string list \<Rightarrow> grub_entry list" where
  "grub_entries_from i [] = []"
| "grub_entries_from i (l # ls) =
     (if is_menuentry l
      then (let n = block_length ls
            in \<lparr> ge_id = grubEntryID l, ge_linux = grub_linux (l # take n ls),
                 ge_start = i, ge_end = i + n \<rparr> # grub_entries_from (Suc i) ls)
      else grub_entries_from (Suc i) ls)"

definition parseGrubEntries :: "string list \<Rightarrow> grub_entry list" where
  "parseGrubEntries ls = grub_entries_from 0 ls"

definition grub_default_name :: "string list \<Rightarrow> string" where
  "grub_default_name ls = (case first_some grub_default_value ls of Some v \<Rightarrow> stripGrubQuotes v | None \<Rightarrow> [])"

definition grub_default_of :: "string \<Rightarrow> string" where
  "grub_default_of cfg =
     (let ls = split_on newline cfg; entries = parseGrubEntries ls; val = grub_default_name ls
      in if val = [] then []
         else (case atoi val of
                 Some n \<Rightarrow> if 0 \<le> n \<and> n < int (List.length entries) then ge_linux (entries ! nat n) else []
               | None \<Rightarrow>
                   (case List.find (\<lambda>e. ge_id e \<noteq> [] \<and> ge_id e = val) entries of
                      Some e \<Rightarrow> ge_linux e
                    | None \<Rightarrow>
                        (case List.find (\<lambda>e. grubEntryTitle (ls ! ge_start e) = val) entries of
                           Some e \<Rightarrow> ge_linux e
                         | None \<Rightarrow> []))))"

definition grubMenuTitle :: "string \<Rightarrow> string" where
  "grubMenuTitle relKernelPath =
     (case ParseStoredKernel (filepath_base relKernelPath) of
        Some (ts, fa) \<Rightarrow> ''SimpleK8s '' @ ts @ '' '' @ fa
      | None \<Rightarrow> kernelBasename relKernelPath)"

definition grub_key :: "grub_entry \<Rightarrow> string" where
  "grub_key e = (if ge_id e = [] \<and> ge_linux e \<noteq> [] then kernelBasename (ge_linux e) else ge_id e)"

definition grub_block :: "string \<Rightarrow> string list" where
  "grub_block relKernelPath =
     [''menuentry '' @ [CHR 0x22] @ grubMenuTitle relKernelPath @ [CHR 0x22] @ '' --id '' @ kernelBasename relKernelPath @ '' {'',
      [CHR 0x09] @ ''linux '' @ relKernelPath @ '' ${kernel_opts}'', ''}'', []]"

definition before_first :: "(string \<Rightarrow> bool) \<Rightarrow> string list \<Rightarrow> string list \<Rightarrow> string list" where
  "before_first P new ls = takeWhile (\<lambda>l. \<not> P l) ls @ new @ dropWhile (\<lambda>l. \<not> P l) ls"

definition insert_grub_entry :: "string \<Rightarrow> string list \<Rightarrow> string list" where
  "insert_grub_entry relKernelPath ls =
     (let head = takeWhile (\<lambda>l. \<not> is_menuentry l) ls
      in before_first is_menuentry
           ((if head \<noteq> [] \<and> trim_space (List.last head) \<noteq> [] then [[]] else []) @ grub_block relKernelPath) ls)"

definition put_default :: "string \<Rightarrow> string list \<Rightarrow> string list" where
  "put_default defLine ls =
     (if list_ex (\<lambda>l. grub_default_value l \<noteq> None) ls
      then map (\<lambda>l. if grub_default_value l \<noteq> None then defLine else l) ls
      else if list_ex is_menuentry ls then before_first is_menuentry [defLine] ls
      else defLine # ls)"

definition put_kernel_opts :: "string list \<Rightarrow> string list" where
  "put_kernel_opts ls =
     (if list_ex (\<lambda>l. grub_default_value l \<noteq> None) ls
      then before_first (\<lambda>l. grub_default_value l \<noteq> None) [''set kernel_opts='' @ [CHR 0x22, CHR 0x22]] ls
      else ls)"

definition newGrubConfig :: "string \<Rightarrow> string \<Rightarrow> string" where
  "newGrubConfig relKernelPath cfg =
     (let ls = split_on newline cfg;
          ident = kernelBasename relKernelPath;
          ls1 = (if list_ex (\<lambda>e. grub_key e = ident) (parseGrubEntries ls) then ls
                 else insert_grub_entry relKernelPath ls);
          ls2 = put_default (''set default='' @ ident) ls1;
          ls3 = (if list_ex reGrubKernelOpts ls1 then ls2 else put_kernel_opts ls2)
      in join_with [newline] ls3)"

section \<open>Pruning stale entries\<close>

fun filter_op :: "('a \<Rightarrow> ('s, bool) state) \<Rightarrow> 'a list \<Rightarrow> ('s, 'a list) state" where
  "filter_op f [] = State_Monad.return []"
| "filter_op f (x # xs) = do {
     keep \<leftarrow> f x;
     rest \<leftarrow> filter_op f xs;
     State_Monad.return (if keep then x # rest else rest) }"

text \<open>Whether the file of a kernel path is one of ours, of the given flavor.\<close>

definition own_kernel :: "string \<Rightarrow> string \<Rightarrow> string option" where
  "own_kernel flavor path =
     (let base = filepath_base (trim_char CHR 0x22 path)
      in case ParseStoredKernel base of
           Some (_, fa) \<Rightarrow> if fa = flavor then Some base else None
         | None \<Rightarrow> None)"

fun sys_blocks :: "string list \<Rightarrow> string list \<times> string list list" where
  "sys_blocks [] = ([], [])"
| "sys_blocks (l # ls) =
     (case sys_blocks ls of (before, blocks) \<Rightarrow>
        if word_name ''label'' l \<noteq> None then ([], (l # before) # blocks) else (l # before, blocks))"

definition sysLabelName :: "string \<Rightarrow> string" where
  "sysLabelName l = (case word_name ''label'' l of Some (n, _) \<Rightarrow> n | None \<Rightarrow> [])"

text \<open>The kernel a block stands for, if it may be pruned when that file is gone.\<close>

definition sys_candidate :: "string \<Rightarrow> string \<Rightarrow> string list \<Rightarrow> string option" where
  "sys_candidate defLabel flavor block =
     (if to_lower (sysLabelName (hd block)) = to_lower defLabel then None
      else obind (first_some kernel_line block) (own_kernel flavor))"

definition keep_unless_gone :: "string \<Rightarrow> string option \<Rightarrow> bool fs_op" where
  "keep_unless_gone dir cand =
     (case cand of None \<Rightarrow> State_Monad.return True | Some base \<Rightarrow> fileExists (dir @ ''/'' @ base))"

definition pruneSyslinuxEntries :: "string \<Rightarrow> string \<Rightarrow> string \<Rightarrow> string \<Rightarrow> (string \<times> nat) fs_op" where
  "pruneSyslinuxEntries cfg defLabel flavor dir =
     (case sys_blocks (split_on newline cfg) of (before, blocks) \<Rightarrow> do {
        kept \<leftarrow> filter_op (\<lambda>b. keep_unless_gone dir (sys_candidate defLabel flavor b)) blocks;
        let n = List.length blocks - List.length kept;
        State_Monad.return (if n = 0 then cfg else join_with [newline] (before @ List.concat kept), n) })"

definition grub_candidate :: "string \<Rightarrow> string \<Rightarrow> grub_entry \<Rightarrow> string option" where
  "grub_candidate defID flavor e =
     (if to_lower (grub_key e) = to_lower defID \<or> ge_linux e = [] then None
      else own_kernel flavor (ge_linux e))"

text \<open>The lines of an entry, with one blank line after it.\<close>

definition entry_lines :: "string list \<Rightarrow> grub_entry \<Rightarrow> nat list" where
  "entry_lines ls e =
     (let i = Suc (ge_end e)
      in [ge_start e ..< (if i < List.length ls \<and> trim_space (ls ! i) = [] then Suc i else i)])"

definition pruneGrubEntries :: "string \<Rightarrow> string \<Rightarrow> string \<Rightarrow> string \<Rightarrow> (string \<times> nat) fs_op" where
  "pruneGrubEntries cfg defID flavor dir =
     (let ls = split_on newline cfg; entries = parseGrubEntries ls
      in do {
        stale \<leftarrow> filter_op (\<lambda>e. do { kept \<leftarrow> keep_unless_gone dir (grub_candidate defID flavor e); State_Monad.return (\<not> kept) }) entries;
        let gone = List.concat (map (entry_lines ls) stale);
        State_Monad.return
          (if stale = [] then cfg
           else join_with [newline] (map snd (List.filter (\<lambda>(i, _). i \<notin> set gone) (List.enumerate 0 ls))),
           List.length stale) })"

section \<open>The operations on the partition\<close>

text \<open>\<open>BootAuto\<close> also stands for the empty name.\<close>

datatype bootloader_type = BootAuto | BootGrub | BootSyslinux | BootRpi

definition DetectBootloader :: "(boot_error + bootloader_type) fs_op" where
  "DetectBootloader = do {
     g \<leftarrow> fileExists grubConfigRel;
     if g then State_Monad.return (Inr BootGrub) else do {
     s \<leftarrow> fileExists syslinuxConfigRel;
     if s then State_Monad.return (Inr BootSyslinux) else do {
     r \<leftarrow> fileExists rpiConfigRel;
     State_Monad.return (if r then Inr BootRpi else Inl NoBootloaderConfig) } } }"

definition ucode_images :: "string list" where
  "ucode_images = [''intel-ucode.img'', ''amd-ucode.img'']"

text \<open>The directory of the microcode images is the root at every call. A line that does not fit the
  scanner's buffer is its error.\<close>

definition writeNewSyslinuxConfig :: "string \<Rightarrow> (boot_error + string) fs_op" where
  "writeNewSyslinuxConfig relKernelPath =
     or_fail (fs_read syslinuxConfigRel) (\<lambda>cfg.
       case scan_lines max_config_line cfg of (ls, good) \<Rightarrow>
         if \<not> good then State_Monad.return (Inl IoError)
         else do {
           initrds \<leftarrow> (if syslinux_needs_entry (kernelBasename relKernelPath) ls
                      then filter_op fileExists ucode_images else State_Monad.return []);
           State_Monad.return (Inr (newSyslinuxConfig (kernelBasename relKernelPath) relKernelPath
                                      (map (\<lambda>uc. ''/'' @ uc) initrds) ls)) })"

definition setSyslinuxDefault :: "string \<Rightarrow> (boot_error + unit) fs_op" where
  "setSyslinuxDefault relKernelPath =
     or_fail temp_io (\<lambda>_. or_fail (writeNewSyslinuxConfig relKernelPath) (\<lambda>cfg. copyOver cfg syslinuxConfigRel))"

definition setGrubDefault :: "string \<Rightarrow> (boot_error + unit) fs_op" where
  "setGrubDefault relKernelPath =
     or_fail (fs_read grubConfigRel) (\<lambda>raw.
     or_fail temp_io (\<lambda>_. copyOver (newGrubConfig relKernelPath raw) grubConfigRel))"

definition setRPIDefault :: "string \<Rightarrow> (boot_error + unit) fs_op" where
  "setRPIDefault relKernelPath =
     or_fail temp_io (\<lambda>_.
     or_fail (fs_read rpiConfigRel) (\<lambda>cfg. copyOver (newRPIConfig relKernelPath cfg) rpiConfigRel))"

text \<open>The error of a read counts as an unknown default.\<close>

definition default_in :: "(string \<Rightarrow> string) \<Rightarrow> string \<Rightarrow> string fs_op" where
  "default_in parse cfgPath = do {
     r \<leftarrow> fs_read cfgPath;
     State_Monad.return (case r of Inr cfg \<Rightarrow> parse cfg | Inl _ \<Rightarrow> []) }"

definition set_default_of :: "bootloader_type \<Rightarrow> string \<Rightarrow> (boot_error + unit) fs_op" where
  "set_default_of bt relKernelPath =
     (case bt of BootGrub \<Rightarrow> setGrubDefault relKernelPath
      | BootSyslinux \<Rightarrow> setSyslinuxDefault relKernelPath
      | BootRpi \<Rightarrow> setRPIDefault relKernelPath
      | BootAuto \<Rightarrow> State_Monad.return (Inl NoBootloaderConfig))"

definition SetBootloaderDefault :: "bootloader_type \<Rightarrow> string \<Rightarrow> (boot_error + unit) fs_op" where
  "SetBootloaderDefault bt relKernelPath =
     (if bt = BootAuto then or_fail DetectBootloader (\<lambda>detected. set_default_of detected relKernelPath)
      else set_default_of bt relKernelPath)"

definition get_default_of :: "bootloader_type \<Rightarrow> string fs_op" where
  "get_default_of bt =
     (case bt of BootGrub \<Rightarrow> default_in grub_default_of grubConfigRel
      | BootSyslinux \<Rightarrow> default_in syslinux_default_of syslinuxConfigRel
      | BootRpi \<Rightarrow> default_in rpi_default_of rpiConfigRel
      | BootAuto \<Rightarrow> State_Monad.return [])"

definition GetBootloaderDefault :: "bootloader_type \<Rightarrow> string fs_op" where
  "GetBootloaderDefault bt =
     (if bt = BootAuto
      then do { d \<leftarrow> DetectBootloader; case d of Inl _ \<Rightarrow> State_Monad.return [] | Inr t \<Rightarrow> get_default_of t }
      else get_default_of bt)"

text \<open>An error while pruning is a warning only.\<close>

definition pruneSyslinuxFile :: "string \<Rightarrow> string \<Rightarrow> (boot_error + unit) fs_op" where
  "pruneSyslinuxFile dir flavor =
     or_fail DetectBootloader (\<lambda>bt.
       if bt \<noteq> BootSyslinux then State_Monad.return (Inr ())
       else or_fail (fs_read syslinuxConfigRel) (\<lambda>raw. do {
         again \<leftarrow> fs_read syslinuxConfigRel;
         let defLabel = (case again of Inr cfg \<Rightarrow> syslinuxLabel (fst (scan_lines max_config_line cfg)) | Inl _ \<Rightarrow> []);
         (rewritten, n) \<leftarrow> pruneSyslinuxEntries raw defLabel flavor dir;
         if n = 0 then State_Monad.return (Inr ())
         else or_fail temp_io (\<lambda>_. copyOver rewritten syslinuxConfigRel) }))"

definition pruneGrubFile :: "string \<Rightarrow> string \<Rightarrow> (boot_error + unit) fs_op" where
  "pruneGrubFile dir flavor =
     or_fail DetectBootloader (\<lambda>bt.
       if bt \<noteq> BootGrub then State_Monad.return (Inr ())
       else or_fail (fs_read grubConfigRel) (\<lambda>raw. do {
         def \<leftarrow> default_in grub_default_of grubConfigRel;
         (rewritten, n) \<leftarrow> pruneGrubEntries raw (if def = [] then [] else kernelBasename def) flavor dir;
         if n = 0 then State_Monad.return (Inr ())
         else or_fail temp_io (\<lambda>_. copyOver rewritten grubConfigRel) }))"

section \<open>Only the configuration is written\<close>

lemma only_filter_op [io_intros]: "(\<And>x. only S (f x)) \<Longrightarrow> only S (filter_op f xs)"
  by (induction xs) (auto intro!: io_intros)

lemma only_detect [io_intros]: "only S DetectBootloader"
  unfolding DetectBootloader_def by (intro io_intros) auto

lemma only_default_in [io_intros]: "only S (default_in parse p)"
  unfolding default_in_def by (intro io_intros) auto

lemma only_get [io_intros]: "only S (GetBootloaderDefault bt)"
  unfolding GetBootloaderDefault_def get_default_of_def
  by (auto intro!: io_intros split: sum.splits bootloader_type.splits)

lemma only_writeNew [io_intros]: "only S (writeNewSyslinuxConfig k)"
  unfolding writeNewSyslinuxConfig_def by (intro io_intros) auto

lemma only_set [io_intros]: "config_files \<subseteq> S \<Longrightarrow> only S (SetBootloaderDefault bt k)"
  unfolding SetBootloaderDefault_def set_default_of_def setGrubDefault_def setSyslinuxDefault_def setRPIDefault_def
  by (auto intro!: io_intros only_copyOver simp: config_files_def split: bootloader_type.splits)

lemma only_prune_files [io_intros]:
  assumes "config_files \<subseteq> S"
  shows "only S (pruneSyslinuxFile dir flavor)" "only S (pruneGrubFile dir flavor)"
  unfolding pruneSyslinuxFile_def pruneGrubFile_def pruneSyslinuxEntries_def pruneGrubEntries_def keep_unless_gone_def Let_def
  using assms
  by (auto intro!: io_intros only_copyOver simp: config_files_def split: option.splits)

section \<open>A default that was set is read back\<close>

text \<open>Reading back the lines that were written.\<close>

abbreviation scanned :: "string \<Rightarrow> string" where
  "scanned l \<equiv> trim_suffix l [carriage_return]"

lemma split_unlines:
  "\<forall>l\<in>set ls. newline \<notin> set l \<Longrightarrow> split_on newline (unlines ls) = ls @ [[]]"
  by (induction ls) (auto simp: unlines_def split_on_append)

lemma scan_short_ok:
  "\<forall>l\<in>set ls. List.length l < limit \<Longrightarrow> scan_short limit ls = (map scanned ls, True)"
  by (induction ls) (auto simp: not_le [symmetric])

lemma scan_unlines:
  assumes "\<forall>l\<in>set ls. newline \<notin> set l \<and> List.length l < limit"
  shows "scan_lines limit (unlines ls) = (map scanned ls, True)"
  using assms scan_short_ok [of ls limit] by (simp add: scan_lines_def split_unlines Let_def)

lemma split_on_lines: "l \<in> set (split_on sep s) \<Longrightarrow> sep \<notin> set l"
  by (induction s arbitrary: l) (auto split: list.splits if_splits)

lemma scanned_cases: "scanned l = l \<or> (\<exists>m. l = m @ [carriage_return] \<and> scanned l = m)"
  by (cases l rule: rev_cases) (auto simp: trim_suffix_def has_suffix_def)

lemma scanned_prefix: "\<exists>r. l = scanned l @ r"
  using scanned_cases [of l] by (metis append_Nil2)

lemma scan_short_lines:
  "l \<in> set (fst (scan_short limit ls)) \<Longrightarrow> \<exists>m\<in>set ls. l = scanned m \<and> List.length m < limit"
  by (induction ls) (auto split: prod.splits if_splits)

lemma scan_lines_lines:
  assumes "l \<in> set (fst (scan_lines limit s))"
  shows "newline \<notin> set l \<and> List.length l < limit"
proof -
  from assms obtain m where m: "m \<in> set (split_on newline s)" "l = scanned m" "List.length m < limit"
    unfolding scan_lines_def Let_def by (auto dest!: scan_short_lines in_set_butlastD split: if_splits)
  have "newline \<notin> set m" using split_on_lines [OF m(1)] .
  moreover have "set l \<subseteq> set m" "List.length l \<le> List.length m"
    using scanned_prefix [of m] unfolding m(2) by (metis Un_upper1 set_append, metis le_add1 length_append)
  ultimately show ?thesis using m(3) by auto
qed

lemma to_lower_append [simp]: "to_lower (a @ b) = to_lower a @ to_lower b"
  by (simp add: to_lower_def)

lemma has_prefix_app: "has_prefix (a @ b) p \<Longrightarrow> List.length p \<le> List.length a \<Longrightarrow> has_prefix a p"
  by (induction a p rule: has_prefix.induct) auto

lemma has_prefix_longer: "has_prefix a p \<Longrightarrow> has_prefix (a @ b) p"
  by (induction a p rule: has_prefix.induct) auto

lemma after_word_scanned: "after_word w l = None \<Longrightarrow> after_word w (scanned l) = None"
  using scanned_prefix [of l] has_prefix_longer [of "to_lower (scanned l)" w]
  by (auto simp: after_word_def split: if_splits) (metis to_lower_append)

lemma after_word_append: "after_word w (u @ l) = Some l" if "to_lower u = w"
  using that by (auto simp: after_word_def to_lower_def)

lemma first_some_map:
  "(\<forall>x\<in>set xs. f x = None \<or> f x = Some y) \<Longrightarrow> list_ex (\<lambda>x. f x \<noteq> None) xs \<Longrightarrow> first_some f xs = Some y"
  by (induction xs) (auto split: option.split)

lemma rpi_path_char_not: "\<not> rpi_path_char newline" "\<not> rpi_path_char carriage_return"
  by (simp_all add: rpi_path_char_def label_char_def arch_char_def)

text \<open>The Raspberry Pi loader boots the kernel it was last pointed at, as long as its configuration has a
  \<open>kernel=\<close> line to rewrite.\<close>

lemma rpi_set_then_get:
  assumes has: "list_ex is_kernel_key (fst (scan_lines max_config_line cfg))"
    and path: "path \<noteq> []" "list_all rpi_path_char path" "List.length path < 65000"
  shows "rpi_default_of (newRPIConfig path cfg) = path"
proof -
  let ?ls = "fst (scan_lines max_config_line cfg)"
  define new where "new = map (\<lambda>l. if is_kernel_key l then ''kernel='' @ path else l) ?ls"
  have p: "newline \<notin> set path" "List.last path \<noteq> carriage_return"
    using path(1,2) rpi_path_char_not by (auto simp: list_all_iff) (metis last_in_set)
  have "\<forall>l\<in>set new. newline \<notin> set l \<and> List.length l < max_config_line"
  proof
    fix l assume "l \<in> set new"
    then consider "l = ''kernel='' @ path" | "l \<in> set ?ls" by (auto simp: new_def split: if_splits)
    then show "newline \<notin> set l \<and> List.length l < max_config_line"
    proof cases
      case 1
      then show ?thesis using p(1) path(3) by simp
    qed (rule scan_lines_lines)
  qed
  then have "scan_lines max_config_line (unlines new) = (map scanned new, True)"
    by (rule scan_unlines)
  moreover have "first_some rpi_kernel (map scanned new) = Some path"
  proof (rule first_some_map)
    have k: "rpi_kernel (scanned (''kernel='' @ path)) = Some path"
      using path p trim_suffix_last [of "''kernel='' @ path" carriage_return]
      by (simp add: rpi_kernel_def after_word_def obind_def to_lower_def lower_char_def)
    have "rpi_kernel (scanned l) = None" if "\<not> is_kernel_key l" for l
      using that after_word_scanned [of "''kernel=''" l] by (simp add: is_kernel_key_def rpi_kernel_def obind_def)
    then show "\<forall>l\<in>set (map scanned new). rpi_kernel l = None \<or> rpi_kernel l = Some path"
      using k by (auto simp: new_def)
    show "list_ex (\<lambda>l. rpi_kernel l \<noteq> None) (map scanned new)"
      using has k by (auto simp: new_def list_ex_iff)
  qed
  ultimately show ?thesis by (simp add: rpi_default_of_def newRPIConfig_def new_def)
qed

text \<open>The syslinux reader on the lines the writer produces.\<close>

lemma first_some_append:
  "first_some f (xs @ ys) = (case first_some f xs of None \<Rightarrow> first_some f ys | Some y \<Rightarrow> Some y)"
  by (induction xs) (auto split: option.split)

lemma kernel_for_label_skip:
  "(\<forall>l\<in>set xs. label_line l \<noteq> Some n) \<Longrightarrow>
   syslinuxKernelForLabel n False (xs @ ys) = syslinuxKernelForLabel n False ys"
  by (induction xs) (auto split: option.split)

lemma label_char_space: "label_char c \<Longrightarrow> \<not> re_space c"
  by (auto simp: label_char_def arch_char_def re_space_def Let_def)

lemma rpi_path_char_space: "rpi_path_char c \<Longrightarrow> \<not> re_space c"
  by (auto simp: rpi_path_char_def label_char_space) (simp add: re_space_def)

lemma dropWhile_space_append:
  "list_all (\<lambda>c. \<not> re_space c) n \<Longrightarrow> n \<noteq> [] \<Longrightarrow> takeWhile re_space (n @ s) = [] \<and> dropWhile re_space (n @ s) = n @ s"
  by (cases n) auto

lemma re_space_blank [simp]: "re_space CHR '' ''"
  by (simp add: re_space_def)

lemma rtrim_name: "list_all (\<lambda>c. \<not> re_space c) n \<Longrightarrow> rtrim n = n"
  by (cases n rule: rev_cases) (auto simp: rtrim_def)

definition name_ok :: "string \<Rightarrow> bool" where
  "name_ok n \<longleftrightarrow> n \<noteq> [] \<and> list_all label_char n"

definition path_ok :: "string \<Rightarrow> bool" where
  "path_ok p \<longleftrightarrow> p \<noteq> [] \<and> list_all rpi_path_char p"

lemma name_ok_facts:
  assumes "name_ok n"
  shows "n \<noteq> []" "takeWhile label_char n = n" "dropWhile label_char n = []" "takeWhile re_space n = []" "dropWhile re_space n = n"
  using assms label_char_space by (cases n; force simp: name_ok_def list_all_iff takeWhile_eq_all_conv)+

lemma path_ok_facts:
  assumes "path_ok p"
  shows "p \<noteq> []" "takeWhile re_space p = []" "dropWhile re_space p = p" "rtrim p = p"
  using assms rpi_path_char_space by (cases p; force simp: path_ok_def list_all_iff intro!: rtrim_name)+

lemma lower_CHR:
  "lower_char CHR ''D'' = CHR ''d''" "lower_char CHR ''E'' = CHR ''e''" "lower_char CHR ''F'' = CHR ''f''"
  "lower_char CHR ''A'' = CHR ''a''" "lower_char CHR ''U'' = CHR ''u''" "lower_char CHR ''L'' = CHR ''l''"
  "lower_char CHR ''T'' = CHR ''t''" "lower_char CHR ''B'' = CHR ''b''" "lower_char CHR ''K'' = CHR ''k''"
  "lower_char CHR ''R'' = CHR ''r''" "lower_char CHR ''N'' = CHR ''n''" "lower_char CHR '' '' = CHR '' ''"
  by code_simp+

lemma word_name_default: "name_ok n \<Longrightarrow> word_name ''default'' (''DEFAULT '' @ n) = Some (n, [])"
  by (simp add: word_name_def after_word_def after_space_def obind_def to_lower_def lower_CHR name_ok_facts)

lemma label_line_label: "name_ok n \<Longrightarrow> label_line (''LABEL '' @ n) = Some n"
  by (simp add: label_line_def word_name_def after_word_def after_space_def obind_def to_lower_def lower_CHR
      all_space_def name_ok_facts)

lemma label_line_other: "label_line (''DEFAULT '' @ n) = None" "label_line ('' KERNEL '' @ p) = None"
  by (simp_all add: label_line_def word_name_def after_word_def obind_def to_lower_def lower_CHR)

lemma kernel_line_kernel: "path_ok p \<Longrightarrow> kernel_line ('' KERNEL '' @ p) = Some p"
  by (simp add: kernel_line_def trimmed_rest_def after_word_def obind_def to_lower_def lower_CHR path_ok_facts
      re_space_def [of "CHR ''K''"])

text \<open>A configuration the writer extends: no doubled carriage returns, \<open>DEFAULT\<close> followed by a
  blank, and no entry for the kernel yet.\<close>

definition syslinux_fresh :: "string \<Rightarrow> string list \<Rightarrow> bool" where
  "syslinux_fresh name ls \<longleftrightarrow>
     syslinux_needs_entry name ls \<and>
     (\<forall>l\<in>set ls. scanned l = l \<and> newline \<notin> set l \<and> List.length l < max_config_line \<and>
        label_line l \<noteq> Some name \<and> (word_name ''default'' l \<noteq> None \<longrightarrow> reSysDefault l))"

definition plain_line :: "string \<Rightarrow> bool" where
  "plain_line l \<longleftrightarrow> newline \<notin> set l \<and> List.length l < max_config_line \<and> scanned l = l"

lemma scan_plain: "list_all plain_line ls \<Longrightarrow> scan_lines max_config_line (unlines ls) = (ls, True)"
proof -
  assume p: "list_all plain_line ls"
  then have "map scanned ls = ls"
    by (induction ls) (auto simp: plain_line_def)
  moreover have "\<forall>l\<in>set ls. newline \<notin> set l \<and> List.length l < max_config_line"
    using p by (simp add: plain_line_def list_all_iff)
  ultimately show ?thesis using scan_unlines by metis
qed

lemma path_chars:
  assumes "list_all rpi_path_char p"
  shows "newline \<notin> set p" "p \<noteq> [] \<Longrightarrow> List.last p \<noteq> carriage_return"
  using assms rpi_path_char_not by (auto simp: list_all_iff) (metis last_in_set)

lemma plain_path_line:
  assumes "path_ok p" "List.length (u @ p) < max_config_line" "newline \<notin> set u"
  shows "plain_line (u @ p)"
  using assms path_chars [of p] trim_suffix_last [of "u @ p" carriage_return]
  by (auto simp: plain_line_def path_ok_def)

lemma name_ok_path: "name_ok n \<Longrightarrow> path_ok n"
  by (auto simp: name_ok_def path_ok_def list_all_iff rpi_path_char_def)

lemma syslinux_set_then_get:
  assumes fresh: "syslinux_fresh name ls" and n: "name_ok name" "List.length name < 60000"
    and p: "path_ok path" "List.length path < 60000"
    and i: "\<forall>i\<in>set initrds. path_ok i \<and> List.length i < 60000"
  shows "syslinux_default_of (newSyslinuxConfig name path initrds ls) = path"
proof -
  define A where "A = map (\<lambda>l. if reSysDefault l then syslinux_default_line name else l) ls
     @ (if list_ex reSysDefault ls then [] else [syslinux_default_line name])"
  define E where "E = map (\<lambda>i. '' INITRD '' @ i) initrds @ [[]]"
  let ?new = "A @ (''LABEL '' @ name) # ('' KERNEL '' @ path) # E"
  have new: "newSyslinuxConfig name path initrds ls = unlines ?new"
    using fresh by (simp add: newSyslinuxConfig_def syslinux_fresh_def A_def E_def syslinux_entry_def)
  have d: "plain_line (syslinux_default_line name)"
    unfolding syslinux_default_line_def using n name_ok_path by (intro plain_path_line) auto
  have l: "plain_line (''LABEL '' @ name)" "plain_line ('' KERNEL '' @ path)"
    using n p name_ok_path by (intro plain_path_line; simp)+
  have "list_all plain_line (map (\<lambda>i. '' INITRD '' @ i) initrds)"
    using i by (auto simp: list_all_iff simp del: append.simps intro!: plain_path_line)
  then have e: "list_all plain_line E" by (simp add: E_def plain_line_def trim_suffix_def has_suffix_def)
  have a: "list_all plain_line A"
    using d fresh by (auto simp: A_def list_all_iff syslinux_fresh_def plain_line_def)
  have "list_all plain_line ?new" using a l e by simp
  then have scan: "scan_lines max_config_line (unlines ?new) = (?new, True)" by (rule scan_plain)
  have "first_some (\<lambda>l. map_option fst (word_name ''default'' l)) A = Some name"
  proof (rule first_some_map)
    show "\<forall>l\<in>set A. map_option fst (word_name ''default'' l) = None \<or> map_option fst (word_name ''default'' l) = Some name"
      using fresh word_name_default [OF n(1)] by (auto simp: A_def syslinux_fresh_def syslinux_default_line_def)
    show "list_ex (\<lambda>l. map_option fst (word_name ''default'' l) \<noteq> None) A"
      using word_name_default [OF n(1)] by (auto simp: A_def list_ex_iff syslinux_default_line_def)
  qed
  then have label: "syslinuxLabel ?new = name"
    by (simp add: syslinuxLabel_def first_some_append)
  have "\<forall>l\<in>set A. label_line l \<noteq> Some name"
    using fresh label_line_other(1) [of name] by (auto simp: A_def syslinux_fresh_def syslinux_default_line_def)
  then have "syslinuxKernelForLabel name False ?new = path"
    using kernel_for_label_skip [of A name] label_line_label [OF n(1)] label_line_other(2) [of path] kernel_line_kernel [OF p(1)]
    by simp
  then show ?thesis using scan label n(1) by (simp add: syslinux_default_of_def new name_ok_def)
qed

subsection \<open>GRUB\<close>

definition kernel_path :: "string \<Rightarrow> string \<Rightarrow> string \<Rightarrow> string" where
  "kernel_path dir ts fa = ''/'' @ dir @ ''/'' @ kernelStoredName ts fa"

definition kernel_ident :: "string \<Rightarrow> string \<Rightarrow> string" where
  "kernel_ident ts fa = ''simplek8s.'' @ ts @ ''.'' @ fa"

lemma takeWhile_stop: "x \<notin> set n \<Longrightarrow> takeWhile (\<lambda>c. c \<noteq> x) (n @ x # r) = n"
  by (induction n) auto

lemma dropWhile_stop: "x \<notin> set n \<Longrightarrow> dropWhile (\<lambda>c. c \<noteq> x) (n @ x # r) = x # r"
  by (induction n) auto

lemma base_path: "CHR ''/'' \<notin> set n \<Longrightarrow> n \<noteq> [] \<Longrightarrow> filepath_base (d @ CHR ''/'' # n) = n"
  using takeWhile_stop [of "CHR ''/''" "rev n" "rev d"]
  by (cases n rule: rev_cases) (auto simp: filepath_base_def Let_def)

lemma known_flavor_cases: "IsKnownFlavor fa \<longleftrightarrow> fa = ''x86-64'' \<or> fa = ''arm64'' \<or> fa = ''rpi4'' \<or> fa = ''rpi5''"
  by (auto simp: IsKnownFlavor_def flavorSet_def)

lemma known_flavor_arch: "IsKnownFlavor fa \<Longrightarrow> wf_arch fa"
  by (auto simp: known_flavor_cases wf_arch_def arch_char_def)

lemma digit_arch: "is_digit c \<Longrightarrow> arch_char c"
  by (simp add: is_digit_def arch_char_def Let_def)

lemma ident_ok: "wf_ts ts \<Longrightarrow> wf_arch fa \<Longrightarrow> name_ok (kernel_ident ts fa)"
  by (auto simp: name_ok_def kernel_ident_def wf_ts_def wf_arch_def list_all_iff label_char_def digit_arch)
    (simp_all add: arch_char_def)

lemma stored_ok: "wf_ts ts \<Longrightarrow> wf_arch fa \<Longrightarrow> name_ok (kernelStoredName ts fa)"
  by (auto simp: name_ok_def kernelStoredName_def wf_ts_def wf_arch_def list_all_iff label_char_def digit_arch)
    (simp_all add: arch_char_def)

lemma label_char_slash [simp]: "\<not> label_char CHR ''/''"
  by (simp add: label_char_def arch_char_def)

lemma stored_no_slash: "wf_ts ts \<Longrightarrow> wf_arch fa \<Longrightarrow> CHR ''/'' \<notin> set (kernelStoredName ts fa)"
  using stored_ok [of ts fa] label_char_slash unfolding name_ok_def list_all_iff by blast

lemma stored_base: "wf_ts ts \<Longrightarrow> wf_arch fa \<Longrightarrow> filepath_base (kernel_path dir ts fa) = kernelStoredName ts fa"
  using stored_no_slash [of ts fa] base_path [of "kernelStoredName ts fa" "''/'' @ dir"]
  by (simp add: kernel_path_def kernelStoredName_def)

lemma kernelBasename_path: "wf_ts ts \<Longrightarrow> wf_arch fa \<Longrightarrow> kernelBasename (kernel_path dir ts fa) = kernel_ident ts fa"
proof -
  assume w: "wf_ts ts" "wf_arch fa"
  have s: "kernelStoredName ts fa = kernel_ident ts fa @ ''.efi''"
    by (simp add: kernelStoredName_def kernel_ident_def)
  have "CHR ''/'' \<notin> set (kernelStoredName ts fa)"
    using stored_no_slash [OF w] .
  then have "takeWhile (\<lambda>c. c \<noteq> CHR ''/'') (rev (kernelStoredName ts fa)) = rev (kernelStoredName ts fa)"
    by (simp add: takeWhile_eq_all_conv) metis
  then have "filepath_ext (kernelStoredName ts fa) = ''.efi''"
    by (simp add: filepath_ext_def Let_def) (simp add: s)
  then show ?thesis using stored_base [OF w] trim_suffix_append [of "kernel_ident ts fa" "''.efi''"]
    by (simp add: kernelBasename_def Let_def s)
qed

lemma kernel_path_ok: "wf_ts ts \<Longrightarrow> wf_arch fa \<Longrightarrow> name_ok dir \<Longrightarrow> path_ok (kernel_path dir ts fa)"
  using stored_ok [of ts fa] by (auto simp: path_ok_def kernel_path_def name_ok_def list_all_iff rpi_path_char_def)

lemma quoted_title: "q = CHR 0x22 \<Longrightarrow> q \<notin> set t \<Longrightarrow> t \<noteq> [] \<Longrightarrow> quoted (q # t @ q # r) = Some (t, r)"
  using takeWhile_stop [of q t r] dropWhile_stop [of q t r] by (simp add: quoted_def)

lemma grub_id_skip: "CHR ''-'' \<notin> set a \<Longrightarrow> grub_id (a @ b) = grub_id b"
  by (induction a) auto

lemma grub_id_found: "id_value r = Some v \<Longrightarrow> grub_id (''--id'' @ r) = Some v"
  by simp

text \<open>The lines the writer produces, as the reader sees them.\<close>

definition menu_line :: "string \<Rightarrow> string \<Rightarrow> string" where
  "menu_line ts fa = ''menuentry '' @ CHR 0x22 # (''SimpleK8s '' @ ts @ '' '' @ fa) @ CHR 0x22 # '' --id '' @ kernel_ident ts fa @ '' {''"

definition boot_line :: "string \<Rightarrow> string" where
  "boot_line path = CHR 0x09 # ''linux '' @ path @ '' ${kernel_opts}''"

lemma grub_block_eq:
  "wf_ts ts \<Longrightarrow> wf_arch fa \<Longrightarrow>
   grub_block (kernel_path dir ts fa) = [menu_line ts fa, boot_line (kernel_path dir ts fa), ''}'', []]"
  using parse_stored_iff [of "kernelStoredName ts fa" ts fa]
  by (simp add: grub_block_def menu_line_def boot_line_def grubMenuTitle_def stored_base kernelBasename_path)

lemma wf_chars:
  "wf_ts ts \<Longrightarrow> CHR 0x22 \<notin> set ts" "wf_ts ts \<Longrightarrow> CHR ''-'' \<notin> set ts" "wf_ts ts \<Longrightarrow> newline \<notin> set ts"
  by (auto simp: wf_ts_def list_all_iff is_digit_def)

lemma lower_menu [simp]:
  "lower_char CHR ''m'' = CHR ''m''" "lower_char CHR ''e'' = CHR ''e''" "lower_char CHR ''n'' = CHR ''n''"
  "lower_char CHR ''u'' = CHR ''u''" "lower_char CHR ''t'' = CHR ''t''" "lower_char CHR ''r'' = CHR ''r''"
  "lower_char CHR ''y'' = CHR ''y''" "lower_char CHR ''s'' = CHR ''s''" "lower_char CHR ''d'' = CHR ''d''"
  "lower_char CHR ''f'' = CHR ''f''" "lower_char CHR ''a'' = CHR ''a''" "lower_char CHR ''l'' = CHR ''l''"
  "lower_char CHR ''i'' = CHR ''i''" "lower_char CHR ''x'' = CHR ''x''" "lower_char CHR ''k'' = CHR ''k''"
  "lower_char CHR ''o'' = CHR ''o''" "lower_char CHR ''p'' = CHR ''p''" "lower_char CHR ''_'' = CHR ''_''"
  "lower_char CHR ''='' = CHR ''=''" "lower_char CHR 0x7D = CHR 0x7D"
  by code_simp+

lemma re_space_chars [simp]:
  "\<not> re_space CHR ''m''" "\<not> re_space CHR ''s''" "\<not> re_space CHR ''d''" "\<not> re_space CHR ''l''" "\<not> re_space CHR 0x22"
  "\<not> re_space CHR 0x7D" "\<not> re_space CHR 0x7B" "re_space CHR 0x09" "\<not> re_space CHR ''/''" "\<not> re_space CHR ''k''"
  "\<not> re_space CHR ''=''" "\<not> re_space CHR ''-''"
  by code_simp+

lemma dropWhile_none: "\<forall>c\<in>set p. \<not> P c \<Longrightarrow> dropWhile P p = p"
  by (cases p) auto

lemma rtrim_brace: "rtrim (x @ [CHR 0x7B]) = x @ [CHR 0x7B]"
  by (simp add: rtrim_def)

lemma menuentry_menu_line:
  assumes "wf_ts ts" "IsKnownFlavor fa"
  shows "menuentry (menu_line ts fa) = Some (''SimpleK8s '' @ ts @ '' '' @ fa)"
proof -
  let ?t = "''SimpleK8s '' @ ts @ '' '' @ fa"
  let ?r = "'' --id '' @ kernel_ident ts fa @ '' {''"
  have "quoted (CHR 0x22 # ?t @ CHR 0x22 # ?r) = Some (?t, ?r)"
    using wf_chars [OF assms(1)] assms(2) by (intro quoted_title) (auto simp: known_flavor_cases)
  moreover have "has_suffix (rtrim ?r) [CHR 0x7B]"
    using rtrim_brace [of "'' --id '' @ kernel_ident ts fa @ '' ''"] has_suffix_append [of "'' --id '' @ kernel_ident ts fa @ '' ''" "[CHR 0x7B]"]
    by simp
  ultimately show ?thesis
    by (simp add: menuentry_def menu_line_def after_word_def after_space_def obind_def to_lower_def)
qed

lemma strip_ident: "stripGrubQuotes (kernel_ident ts fa) = kernel_ident ts fa" if "wf_ts ts" "wf_arch fa"
proof -
  have "\<forall>c\<in>set (kernel_ident ts fa). \<not> is_space c"
    using ident_ok [OF that] by (auto simp: name_ok_def list_all_iff label_char_def arch_char_def is_space_def Let_def)
  then have "trim_space (kernel_ident ts fa) = kernel_ident ts fa"
    by (simp add: trim_space_def dropWhile_none)
  then show ?thesis by (simp add: stripGrubQuotes_def kernel_ident_def)
qed

lemma ident_run: "wf_ts ts \<Longrightarrow> wf_arch fa \<Longrightarrow> takeWhile (\<lambda>c. \<not> re_space c) (kernel_ident ts fa @ CHR '' '' # r) = kernel_ident ts fa"
  using ident_ok [of ts fa] label_char_space
  by (intro takeWhile_append_stop) (auto simp: name_ok_def list_all_iff)

lemma id_menu_line:
  assumes "wf_ts ts" "IsKnownFlavor fa"
  shows "grubEntryID (menu_line ts fa) = kernel_ident ts fa"
proof -
  note w = assms(1) known_flavor_arch [OF assms(2)]
  have v: "id_value ('' '' @ kernel_ident ts fa @ '' {'') = Some (kernel_ident ts fa)"
    using ident_run [OF w, of "''{''"] by (simp add: id_value_def id_sep_def quoted_def kernel_ident_def)
  have "grub_id (menu_line ts fa) = grub_id ('' '' @ fa @ CHR 0x22 # '' --id '' @ kernel_ident ts fa @ '' {'')"
    using grub_id_skip [of "''menuentry '' @ CHR 0x22 # ''SimpleK8s '' @ ts"] wf_chars [OF assms(1)]
    by (simp add: menu_line_def)
  also have "\<dots> = Some (kernel_ident ts fa)"
    using assms(2) v by (auto simp: known_flavor_cases)
  finally show ?thesis using strip_ident [OF w] by (simp add: grubEntryID_def)
qed

lemma linux_boot_line:
  assumes "path_ok p"
  shows "linux_line (boot_line p) = Some p" "linux_line (menu_line ts fa) = None"
proof -
  have "takeWhile (\<lambda>c. \<not> re_space c) (p @ '' ${kernel_opts}'') = p"
    using assms rpi_path_char_space by (intro takeWhile_append_stop) (auto simp: path_ok_def list_all_iff)
  moreover have "dropWhile re_space (p @ '' ${kernel_opts}'') = p @ '' ${kernel_opts}''"
    using path_ok_facts [OF assms] by (cases p) (auto split: if_splits)
  ultimately show "linux_line (boot_line p) = Some p"
    by (simp add: linux_line_def boot_line_def after_word_def after_space_def obind_def to_lower_def)
  show "linux_line (menu_line ts fa) = None"
    by (simp add: linux_line_def menu_line_def after_word_def obind_def to_lower_def)
qed

lemma trim_char_path: "path_ok p \<Longrightarrow> trim_char CHR 0x22 p = p"
proof -
  assume "path_ok p"
  moreover have "\<not> rpi_path_char CHR 0x22" by code_simp
  ultimately have "CHR 0x22 \<notin> set p" by (auto simp: path_ok_def list_all_iff)
  then have "dropWhile (\<lambda>d. d = CHR 0x22) p = p" "dropWhile (\<lambda>d. d = CHR 0x22) (rev p) = rev p"
    by (auto intro!: dropWhile_none)
  then show ?thesis by (simp add: trim_char_def)
qed

lemma other_lines:
  "menuentry (boot_line p) = None" "\<not> close_line (boot_line p)" "menuentry ''}'' = None" "close_line ''}''"
  "menuentry (''set default='' @ i) = None" "menuentry (''set kernel_opts='' @ q) = None" "menuentry [] = None"
  "grub_default_value (boot_line p) = None" "grub_default_value (menu_line ts fa) = None" "grub_default_value ''}'' = None"
  "grub_default_value (''set kernel_opts='' @ q) = None" "grub_default_value [] = None"
  by (simp_all add: menuentry_def grub_default_value_def set_value_def boot_line_def menu_line_def close_line_def
      after_word_def after_space_def obind_def to_lower_def all_space_def)

lemma default_line_value: "name_ok i \<Longrightarrow> grub_default_value (''set default='' @ i) = Some i"
  by (simp add: grub_default_value_def set_value_def trimmed_rest_def after_word_def after_space_def obind_def to_lower_def
      name_ok_facts path_ok_facts(4) [OF name_ok_path])

lemma menuentry_no_default: "is_menuentry l \<Longrightarrow> grub_default_value l = None"
  by (cases "dropWhile re_space l")
    (auto simp: menuentry_def grub_default_value_def set_value_def after_word_def obind_def to_lower_def split: if_splits)

text \<open>The new entry is the first one.\<close>

definition leads :: "string list \<Rightarrow> string list \<Rightarrow> bool" where
  "leads block ls \<longleftrightarrow> (\<exists>A B. ls = A @ block @ B \<and> (\<forall>l\<in>set A. \<not> is_menuentry l))"

lemma split_on_single: "sep \<notin> set s \<Longrightarrow> split_on sep s = [s]"
  by (induction s) auto

lemma split_join:
  "xs \<noteq> [] \<Longrightarrow> \<forall>l\<in>set xs. newline \<notin> set l \<Longrightarrow> split_on newline (join_with [newline] xs) = xs"
proof (induction xs)
  case (Cons x xs)
  then show ?case by (cases xs) (auto simp: split_on_append split_on_single)
qed simp

lemma set_before_first: "set (before_first P new ls) = set ls \<union> set new"
  using takeWhile_dropWhile_id [of "\<lambda>l. \<not> P l" ls] unfolding before_first_def by (metis Un_commute Un_left_commute set_append)

lemma leads_insert:
  assumes "wf_ts ts" "wf_arch fa" and p: "p = kernel_path dir ts fa"
  shows "leads [menu_line ts fa, boot_line p, ''}''] (insert_grub_entry p ls)"
proof -
  let ?head = "takeWhile (\<lambda>l. \<not> is_menuentry l) ls"
  let ?gap = "if ?head \<noteq> [] \<and> trim_space (List.last ?head) \<noteq> [] then [[]] else []"
  have "insert_grub_entry p ls = (?head @ ?gap) @ [menu_line ts fa, boot_line p, ''}''] @ [] # dropWhile (\<lambda>l. \<not> is_menuentry l) ls"
    unfolding insert_grub_entry_def before_first_def Let_def p grub_block_eq [OF assms(1,2)] by simp
  moreover have "\<forall>l\<in>set (?head @ ?gap). \<not> is_menuentry l"
    using other_lines(7) by (auto dest: set_takeWhileD)
  ultimately show ?thesis unfolding leads_def by metis
qed

lemma leads_before_first:
  assumes l: "leads block ls" and new: "\<forall>l\<in>set new. \<not> is_menuentry l"
    and P: "\<forall>l\<in>set (tl block). \<not> P l" "block \<noteq> []"
    and hd: "\<not> P (hd block) \<or> P = (\<lambda>l. is_menuentry l)"
    and m: "is_menuentry (hd block)"
  shows "leads block (before_first P new ls)"
proof -
  from l obtain A B where ls: "ls = A @ block @ B" and A: "\<forall>l\<in>set A. \<not> is_menuentry l"
    unfolding leads_def by blast
  show ?thesis
  proof (cases "\<forall>l\<in>set A. \<not> P l")
    case False
    then have "takeWhile (\<lambda>l. \<not> P l) ls = takeWhile (\<lambda>l. \<not> P l) A"
      "dropWhile (\<lambda>l. \<not> P l) ls = dropWhile (\<lambda>l. \<not> P l) A @ block @ B"
      unfolding ls by (auto simp: takeWhile_append dropWhile_append)
    moreover have "set (takeWhile (\<lambda>l. \<not> P l) A) \<subseteq> set A" "set (dropWhile (\<lambda>l. \<not> P l) A) \<subseteq> set A"
      by (auto dest: set_takeWhileD set_dropWhileD)
    ultimately show ?thesis using A new unfolding leads_def before_first_def
      by (intro exI [of _ "takeWhile (\<lambda>l. \<not> P l) A @ new @ dropWhile (\<lambda>l. \<not> P l) A"] exI [of _ B]) auto
  next
    case True
    show ?thesis
    proof (cases "P (hd block)")
      case ph: True
      then have "before_first P new ls = (A @ new) @ block @ B"
        using True P(2) unfolding before_first_def ls
        by (cases block) (auto simp: takeWhile_append2 dropWhile_append2)
      then show ?thesis using A new unfolding leads_def by (intro exI [of _ "A @ new"] exI [of _ B]) auto
    next
      case ph: False
      then have nb: "\<forall>l\<in>set (A @ block). \<not> P l" using True P by (cases block) auto
      then have "takeWhile (\<lambda>l. \<not> P l) ((A @ block) @ B) = (A @ block) @ takeWhile (\<lambda>l. \<not> P l) B"
        "dropWhile (\<lambda>l. \<not> P l) ((A @ block) @ B) = dropWhile (\<lambda>l. \<not> P l) B"
        by (auto intro: takeWhile_append2 dropWhile_append2)
      then have "before_first P new ls = A @ block @ takeWhile (\<lambda>l. \<not> P l) B @ new @ dropWhile (\<lambda>l. \<not> P l) B"
        unfolding before_first_def ls by simp
      then show ?thesis using A unfolding leads_def by blast
    qed
  qed
qed

lemma leads_map:
  assumes "leads block ls" "map f block = block" "\<And>l. \<not> is_menuentry l \<Longrightarrow> \<not> is_menuentry (f l)"
  shows "leads block (map f ls)"
proof -
  from assms(1) obtain A B where "ls = A @ block @ B" "\<forall>l\<in>set A. \<not> is_menuentry l"
    unfolding leads_def by blast
  then show ?thesis using assms(2,3) unfolding leads_def
    by (intro exI [of _ "map f A"] exI [of _ "map f B"]) auto
qed

lemma grub_entries_skip:
  "\<forall>l\<in>set A. \<not> is_menuentry l \<Longrightarrow> grub_entries_from i (A @ ls) = grub_entries_from (i + List.length A) ls"
  by (induction A arbitrary: i) auto

lemma leads_default:
  assumes w: "wf_ts ts" "IsKnownFlavor fa" and p: "p = kernel_path dir ts fa" "name_ok dir"
    and l: "leads [menu_line ts fa, boot_line p, ''}''] ls"
    and d: "grub_default_name ls = kernel_ident ts fa" "\<forall>l\<in>set ls. newline \<notin> set l"
  shows "grub_default_of (join_with [newline] ls) = p"
proof -
  note wa = known_flavor_arch [OF w(2)]
  have po: "path_ok p" using kernel_path_ok w(1) wa p by simp
  from l obtain A B where ls: "ls = A @ [menu_line ts fa, boot_line p, ''}''] @ B" and A: "\<forall>l\<in>set A. \<not> is_menuentry l"
    unfolding leads_def by blast
  have m: "is_menuentry (menu_line ts fa)" using menuentry_menu_line [OF w] by simp
  have blk: "block_length (boot_line p # ''}'' # B) = 2"
    using other_lines(1,2) [of p] other_lines(3,4) by simp
  have "parseGrubEntries ls = \<lparr> ge_id = kernel_ident ts fa, ge_linux = p, ge_start = List.length A, ge_end = List.length A + 2 \<rparr>
      # grub_entries_from (Suc (List.length A)) (boot_line p # ''}'' # B)" (is "_ = ?e # ?rest")
    using A m blk id_menu_line [OF w] linux_boot_line [OF po] trim_char_path [OF po]
    by (simp add: parseGrubEntries_def ls grub_entries_skip grub_linux_def Let_def numeral_2_eq_2 del: block_length.simps)
  moreover have "atoi (kernel_ident ts fa) = None"
    by (simp add: atoi_def kernel_ident_def is_digit_def)
  moreover have "kernel_ident ts fa \<noteq> []" by (simp add: kernel_ident_def)
  ultimately show ?thesis
    using split_join [of ls] d by (simp add: grub_default_of_def ls Let_def)
qed

text \<open>The configuration after the writer has run.\<close>

lemma grub_set_then_get:
  assumes w: "wf_ts ts" "IsKnownFlavor fa" "name_ok dir"
    and fresh: "\<forall>e\<in>set (parseGrubEntries (split_on newline cfg)). grub_key e \<noteq> kernel_ident ts fa"
  shows "grub_default_of (newGrubConfig (kernel_path dir ts fa) cfg) = kernel_path dir ts fa"
proof -
  note wa = known_flavor_arch [OF w(2)]
  let ?p = "kernel_path dir ts fa" and ?id = "kernel_ident ts fa"
  let ?block = "[menu_line ts fa, boot_line ?p, ''}'']"
  let ?def = "\<lambda>l. grub_default_value l \<noteq> None"
  define line where "line = ''set default='' @ ?id"
  define opts where "opts = ''set kernel_opts='' @ [CHR 0x22, CHR 0x22]"
  define ls1 where "ls1 = insert_grub_entry ?p (split_on newline cfg)"
  define ls2 where "ls2 = put_default line ls1"
  define ls3 where "ls3 = (if list_ex reGrubKernelOpts ls1 then ls2 else put_kernel_opts ls2)"
  have new: "newGrubConfig ?p cfg = join_with [newline] ls3"
    using fresh by (simp add: newGrubConfig_def ls1_def ls2_def ls3_def Let_def kernelBasename_path w(1) wa list_ex_iff line_def)
  have m: "is_menuentry (menu_line ts fa)" using menuentry_menu_line [OF w(1,2)] by simp
  have dl: "grub_default_value line = Some ?id" "\<not> is_menuentry line"
    unfolding line_def using default_line_value [OF ident_ok [OF w(1) wa]] other_lines(5) [of ?id] by (simp_all only: not_not)
  have ol: "\<not> is_menuentry opts" "grub_default_value opts = None"
    unfolding opts_def using other_lines(6,11) [of "[CHR 0x22, CHR 0x22]"] by (simp_all only: not_not)
  have l1: "leads ?block ls1" unfolding ls1_def by (rule leads_insert [OF w(1) wa refl])
  have l2: "leads ?block ls2"
  proof (cases "list_ex ?def ls1")
    case True
    have "leads ?block (map (\<lambda>l. if ?def l then line else l) ls1)"
      using l1 other_lines dl by (intro leads_map) auto
    then show ?thesis using True by (simp add: ls2_def put_default_def)
  next
    case False
    moreover have "list_ex is_menuentry ls1" using l1 m by (auto simp: leads_def list_ex_iff)
    moreover have "leads ?block (before_first is_menuentry [line] ls1)"
      using l1 other_lines m dl by (intro leads_before_first) auto
    ultimately show ?thesis by (simp add: ls2_def put_default_def)
  qed
  have l3: "leads ?block ls3"
    using l2 leads_before_first [OF l2, of "[opts]" ?def] other_lines m ol
    by (simp add: ls3_def put_kernel_opts_def opts_def [symmetric, simplified])
  have ex: "list_ex ?def ls2" "\<forall>l\<in>set ls2. grub_default_value l = None \<or> grub_default_value l = Some ?id"
    using dl by (auto simp: ls2_def put_default_def list_ex_iff set_before_first)
  have "list_ex ?def ls3 \<and> (\<forall>l\<in>set ls3. grub_default_value l = None \<or> grub_default_value l = Some ?id)"
    using ex ol
    by (auto simp: ls3_def opts_def [symmetric, simplified] put_kernel_opts_def list_ex_iff set_before_first)
  then have "grub_default_name ls3 = ?id"
    using first_some_map [of ls3 grub_default_value ?id] strip_ident [OF w(1) wa] by (simp add: grub_default_name_def)
  moreover have "\<forall>l\<in>set ls3. newline \<notin> set l"
  proof -
    have "set ls1 \<subseteq> set (split_on newline cfg) \<union> set ?block \<union> {[]}"
      unfolding ls1_def insert_grub_entry_def before_first_def Let_def grub_block_eq [OF w(1) wa]
      by (auto dest: set_takeWhileD set_dropWhileD)
    moreover have "set ls2 \<subseteq> set ls1 \<union> {line}"
      by (auto simp: ls2_def put_default_def set_before_first line_def [symmetric, simplified])
    moreover have "set ls3 \<subseteq> set ls2 \<union> {opts}"
      by (auto simp: ls3_def put_kernel_opts_def set_before_first opts_def [symmetric, simplified])
    moreover have "\<forall>l\<in>set ?block \<union> {[], line, opts}. newline \<notin> set l"
      using path_chars(1) kernel_path_ok [OF w(1) wa w(3)] name_ok_path [OF ident_ok [OF w(1) wa]] wf_chars(3) [OF w(1)] w(2)
      by (auto simp: line_def opts_def menu_line_def boot_line_def path_ok_def known_flavor_cases)
    ultimately show ?thesis using split_on_lines [of _ newline cfg] by blast
  qed
  ultimately show ?thesis unfolding new by (rule leads_default [OF w(1,2) refl w(3) l3])
qed



end
