(* ===== verification/Staging.thy ===== *)
theory Staging
  imports Bootloader
begin

text \<open>
  Staging a release onto the boot partition and purging old ones (staging.go, purge.go, disk.go,
  download.go, extract.go, and the purge of localcli.go), as computations over the partition. The
  transfer, the hash and the decompression are parameters; the scratch directory holds
  only values that are local to a call.
\<close>

section \<open>Environment\<close>

record statfs =
  Frsize :: "64 word"
  Blocks :: "64 word"
  Bfree :: "64 word"
  Bavail :: "64 word"

text \<open>\<open>be_fetch\<close>: the body of a reply with status 200. \<open>be_sha256\<close> gives lower-case hex digits.\<close>

record boot_env =
  be_statfs :: "boot_fs \<Rightarrow> statfs"
  be_fetch :: "string \<Rightarrow> string option"
  be_sha256 :: "string \<Rightarrow> string"
  be_unzstd :: "string \<Rightarrow> string option"

text \<open>Total, free and used bytes; the arithmetic is that of \<open>uint64\<close>.\<close>

definition path_info :: "statfs \<Rightarrow> 64 word \<times> 64 word \<times> 64 word" where
  "path_info st =
     (let reserved = (if Blocks st < Bfree st - Bavail st then Blocks st else Bfree st - Bavail st);
          tot = Frsize st * (Blocks st - reserved);
          free = Frsize st * Bavail st
      in (tot, free, tot - free))"

definition PathInfo :: "boot_env \<Rightarrow> (boot_error + 64 word \<times> 64 word \<times> 64 word) fs_op" where
  "PathInfo env = fs_look (\<lambda>s. Inr (path_info (be_statfs env s)))"

section \<open>Download and extraction\<close>

definition limit_reader :: "int \<Rightarrow> string \<Rightarrow> string" where
  "limit_reader n body = (if int (List.length body) \<le> n then body else take (nat n) body)"

abbreviation maxArtifactBytes :: int where "maxArtifactBytes \<equiv> 1073741824"

definition downloadAndVerify :: "boot_env \<Rightarrow> string \<Rightarrow> string \<Rightarrow> (boot_error + string) fs_op" where
  "downloadAndVerify env url want =
     (case be_fetch env url of
        None \<Rightarrow> State_Monad.return (Inl DownloadFailed)
      | Some body \<Rightarrow>
          or_fail temp_io (\<lambda>_.
            let got = limit_reader maxArtifactBytes body
            in if be_sha256 env got \<noteq> want then State_Monad.return (Inl HashMismatch)
               else or_fail temp_io (\<lambda>_. State_Monad.return (Inr got))))"

definition extractZstd :: "boot_env \<Rightarrow> string \<Rightarrow> (boot_error + string) fs_op" where
  "extractZstd env artifact =
     or_fail temp_io (\<lambda>_.
       case be_unzstd env artifact of
         None \<Rightarrow> State_Monad.return (Inl ExtractFailed)
       | Some c \<Rightarrow> or_fail temp_io (\<lambda>_. State_Monad.return (Inr c)))"

section \<open>Stored kernels\<close>

fun map_op :: "('a \<Rightarrow> ('s, 'b) state) \<Rightarrow> 'a list \<Rightarrow> ('s, 'b list) state" where
  "map_op f [] = State_Monad.return []"
| "map_op f (x # xs) = do { y \<leftarrow> f x; ys \<leftarrow> map_op f xs; State_Monad.return (y # ys) }"

text \<open>A size that cannot be read counts as zero.\<close>

definition sized_kernel :: "string \<Rightarrow> string \<Rightarrow> kernel_entry fs_op" where
  "sized_kernel dir name = do {
     sz \<leftarrow> statSize (dir @ ''/'' @ name);
     State_Monad.return \<lparr> ke_ts = (case versionFromStoredKernel name of Some ts \<Rightarrow> ts | None \<Rightarrow> []), ke_name = name,
                          ke_size = (case sz of Inr n \<Rightarrow> n | Inl _ \<Rightarrow> 0) \<rparr> }"

definition listKernels :: "string \<Rightarrow> (boot_error + kernel_entry list) fs_op" where
  "listKernels dir =
     or_fail (fs_list dir) (\<lambda>names. do {
       out \<leftarrow> map_op (sized_kernel dir) (List.filter (\<lambda>n. versionFromStoredKernel n \<noteq> None) names);
       State_Monad.return (Inr out) })"

definition listPartitionVersions :: "string \<Rightarrow> (boot_error + string list) fs_op" where
  "listPartitionVersions dir =
     or_fail (listKernels dir) (\<lambda>entries.
       State_Monad.return (Inr (go_sort (\<lambda>a b. NewerTS b a) (map ke_ts entries))))"

definition ListPartitionKernels :: "string \<Rightarrow> (boot_error + string list) fs_op" where
  "ListPartitionKernels dir = or_fail (listKernels dir) (\<lambda>entries. State_Monad.return (Inr (map ke_name entries)))"

section \<open>Purging\<close>

text \<open>A file that is gone already is no error.\<close>

fun applyPurge :: "string \<Rightarrow> string list \<Rightarrow> (boot_error + unit) fs_op" where
  "applyPurge dir [] = State_Monad.return (Inr ())"
| "applyPurge dir (n # names) = do {
     r \<leftarrow> fs_remove (dir @ ''/'' @ n);
     case r of
       Inl e \<Rightarrow> if e = NotExist then applyPurge dir names else State_Monad.return (Inl e)
     | Inr _ \<Rightarrow> applyPurge dir names }"

text \<open>Pruning only logs its errors.\<close>

definition purgeAndPrune ::
  "boot_env \<Rightarrow> string \<Rightarrow> string \<Rightarrow> int \<Rightarrow> int \<Rightarrow> string list \<Rightarrow> (boot_error + string list) fs_op" where
  "purgeAndPrune env dir flavor preserve maxPercent protected =
     or_fail (PathInfo env) (\<lambda>(tot, free, _). do {
       r \<leftarrow> listKernels dir;
       case r of
         Inl e \<Rightarrow> State_Monad.return (if e = NotExist then Inr [] else Inl e)
       | Inr entries \<Rightarrow>
           (let deleted = planPurge (ownFlavorEntries entries flavor) protected preserve free (targetFreeFromPercent tot maxPercent)
            in or_fail (applyPurge dir deleted) (\<lambda>_. do {
                 _ \<leftarrow> (if deleted \<noteq> [] then do { _ \<leftarrow> pruneGrubFile dir flavor; pruneSyslinuxFile dir flavor }
                       else State_Monad.return (Inr ()));
                 State_Monad.return (Inr deleted) })) })"

text \<open>The version of the current default; unknown if the configuration cannot be read.\<close>

definition default_version :: "bootloader_type \<Rightarrow> string list fs_op" where
  "default_version bt = do {
     def \<leftarrow> GetBootloaderDefault bt;
     State_Monad.return (if def = [] then []
       else (case versionFromStoredKernel (filepath_base def) of Some ts \<Rightarrow> [ts] | None \<Rightarrow> [])) }"

definition purgeProtected :: "string \<Rightarrow> bootloader_type \<Rightarrow> string list fs_op" where
  "purgeProtected running bt = do {
     d \<leftarrow> default_version bt;
     State_Monad.return ((if running = [] then [] else [running]) @ d) }"

definition PurgePartition ::
  "boot_env \<Rightarrow> string \<Rightarrow> string \<Rightarrow> int \<Rightarrow> int \<Rightarrow> string \<Rightarrow> bootloader_type \<Rightarrow> (boot_error + string list) fs_op" where
  "PurgePartition env dir flavor preserve maxPercent running bt = do {
     protected \<leftarrow> purgeProtected running bt;
     purgeAndPrune env dir flavor preserve maxPercent protected }"

definition PreviewPurge ::
  "boot_env \<Rightarrow> string \<Rightarrow> string \<Rightarrow> int \<Rightarrow> int \<Rightarrow> string \<Rightarrow> bootloader_type \<Rightarrow> (boot_error + string list) fs_op" where
  "PreviewPurge env dir flavor preserve maxPercent running bt =
     or_fail (PathInfo env) (\<lambda>(tot, free, _). do {
       r \<leftarrow> listKernels dir;
       case r of
         Inl e \<Rightarrow> State_Monad.return (if e = NotExist then Inr [] else Inl e)
       | Inr entries \<Rightarrow> do {
           protected \<leftarrow> purgeProtected running bt;
           State_Monad.return (Inr (planPurge (ownFlavorEntries entries flavor) protected preserve free
                                      (targetFreeFromPercent tot maxPercent))) } })"

section \<open>Staging\<close>

record stage_request =
  sr_Version :: string
  sr_Arch :: string
  sr_Checksum :: string
  sr_ArtifactFile :: string
  sr_RepoBase :: string
  sr_Preserve :: int
  sr_MaxPercentUsage :: int
  sr_Running :: string
  sr_Bootloader :: bootloader_type
  sr_EfiChecksum :: string
  sr_NoRepoint :: bool
  sr_DryRun :: bool

definition protectedSet :: "stage_request \<Rightarrow> string list fs_op" where
  "protectedSet req = do {
     d \<leftarrow> default_version (sr_Bootloader req);
     State_Monad.return ((if sr_Running req = [] then [] else [sr_Running req]) @
       (if sr_Version req = [] then [] else [sr_Version req]) @ d) }"

text \<open>The dry run only looks and logs.\<close>

definition stageDryRun :: "boot_env \<Rightarrow> stage_request \<Rightarrow> string \<Rightarrow> int \<Rightarrow> (boot_error + string list \<times> string list) fs_op" where
  "stageDryRun env req dir extSize =
     or_fail (PathInfo env) (\<lambda>(tot, free, _). do {
       r \<leftarrow> listKernels dir;
       case (case r of Inl e \<Rightarrow> if e = NotExist then Inr [] else Inl e | Inr entries \<Rightarrow> Inr entries) of
         Inl e \<Rightarrow> State_Monad.return (Inl e)
       | Inr entries \<Rightarrow> do {
           protected \<leftarrow> protectedSet req;
           let own = ownFlavorEntries entries (sr_Arch req);
           State_Monad.return (Inr
             (planPurge own protected 0 free (word_of_int extSize),
              planPurge own protected (sr_Preserve req) free (targetFreeFromPercent tot (sr_MaxPercentUsage req)))) } })"

text \<open>Idempotency: an existing file is accepted by its name, or by its hash where one is given.\<close>

definition already_staged :: "boot_env \<Rightarrow> stage_request \<Rightarrow> string \<Rightarrow> bool fs_op" where
  "already_staged env req storedPath = do {
     e \<leftarrow> fileExists storedPath;
     if \<not> e then State_Monad.return False
     else if sr_EfiChecksum req = [] then State_Monad.return True
     else do {
       c \<leftarrow> fs_read storedPath;
       State_Monad.return (case c of
           Inr c \<Rightarrow> to_lower (be_sha256 env c) = to_lower (sr_EfiChecksum req)
         | Inl _ \<Rightarrow> False) } }"

definition fetch_kernel :: "boot_env \<Rightarrow> stage_request \<Rightarrow> (boot_error + string) fs_op" where
  "fetch_kernel env req =
     (let artifact = (if sr_ArtifactFile req = [] then kernelArtifactName (sr_Version req) (sr_Arch req) else sr_ArtifactFile req);
          url = trim_suffix (sr_RepoBase req) ''/'' @ ''/'' @ artifact
      in or_fail (downloadAndVerify env url (sr_Checksum req)) (\<lambda>art.
         or_fail (extractZstd env art) (\<lambda>ext.
         or_fail temp_io (\<lambda>_.
           if sr_EfiChecksum req = [] then State_Monad.return (Inr ext)
           else or_fail temp_io (\<lambda>_.
             if to_lower (be_sha256 env ext) \<noteq> to_lower (sr_EfiChecksum req) then State_Monad.return (Inl HashMismatch)
             else State_Monad.return (Inr ext))))))"

text \<open>The capacity check: old versions make room.\<close>

definition make_room :: "boot_env \<Rightarrow> stage_request \<Rightarrow> string \<Rightarrow> string list \<Rightarrow> int \<Rightarrow> (boot_error + unit) fs_op" where
  "make_room env req dir protected extSize =
     or_fail (PathInfo env) (\<lambda>(_, free, _).
       if word_of_int extSize \<le> free then State_Monad.return (Inr ())
       else or_fail (listKernels dir) (\<lambda>entries.
         or_fail (applyPurge dir (planPurge (ownFlavorEntries entries (sr_Arch req)) protected 0 free (word_of_int extSize))) (\<lambda>_.
         or_fail (PathInfo env) (\<lambda>(_, free', _).
           State_Monad.return (if free' < word_of_int extSize then Inl NoSpace else Inr ())))))"

definition stagePartition :: "boot_env \<Rightarrow> stage_request \<Rightarrow> string \<Rightarrow> (boot_error + unit) fs_op" where
  "stagePartition env req dir =
     (let stored = kernelStoredName (sr_Version req) (sr_Arch req); storedPath = dir @ ''/'' @ stored
      in do {
        done \<leftarrow> already_staged env req storedPath;
        if done then State_Monad.return (Inr ())
        else or_fail (fetch_kernel env req) (\<lambda>ext.
          let extSize = int (List.length ext)
          in if sr_DryRun req then or_fail (stageDryRun env req dir extSize) (\<lambda>_. State_Monad.return (Inr ()))
          else do {
            protected \<leftarrow> protectedSet req;
            or_fail (make_room env req dir protected extSize) (\<lambda>_.
            or_fail (fs_mkdir dir) (\<lambda>_.
            or_fail (copyFile ext storedPath) (\<lambda>_.
            or_fail (if sr_NoRepoint req then State_Monad.return (Inr ())
                     else SetBootloaderDefault (sr_Bootloader req) (''/'' @ dir @ ''/'' @ stored)) (\<lambda>_.
            or_fail (purgeAndPrune env dir (sr_Arch req) (sr_Preserve req) (sr_MaxPercentUsage req) protected) (\<lambda>_.
              State_Monad.return (Inr ())))))) }) })"

section \<open>What staging may touch\<close>

text \<open>\<open>yields P m\<close>: the result of \<open>m\<close> satisfies \<open>P\<close>, from every state.\<close>

definition yields :: "('a \<Rightarrow> bool) \<Rightarrow> ('s, 'a) state \<Rightarrow> bool" where
  "yields P m \<longleftrightarrow> (\<forall>s. P (fst (run_state m s)))"

lemma yieldsD: "yields P m \<Longrightarrow> run_state m s = (r, t) \<Longrightarrow> P r"
  unfolding yields_def by (metis fst_conv)

lemma keeps_bind_yields:
  assumes "transp R" "keeps R m" "yields P m" "\<And>x. P x \<Longrightarrow> keeps R (f x)"
  shows "keeps R (State_Monad.bind m f)"
  using assms(1,2) yieldsD [OF assms(3)] assms(4) unfolding keeps_def
  by (auto split: prod.splits) (metis snd_conv transpD)

lemma yields_return: "P x \<Longrightarrow> yields P (State_Monad.return x)"
  by (simp add: yields_def)

lemma yields_bind: "yields Q m \<Longrightarrow> (\<And>x. Q x \<Longrightarrow> yields P (f x)) \<Longrightarrow> yields P (State_Monad.bind m f)"
  unfolding yields_def by (auto split: prod.splits) (metis fst_conv)

abbreviation good_entry :: "kernel_entry \<Rightarrow> bool" where
  "good_entry e \<equiv> versionFromStoredKernel (ke_name e) = Some (ke_ts e)"

lemma yields_map_op: "(\<And>x. x \<in> set xs \<Longrightarrow> yields Q (f x)) \<Longrightarrow> yields (list_all Q) (map_op f xs)"
  by (induction xs) (auto intro!: yields_return yields_bind [where Q = Q] yields_bind [where Q = "list_all Q"])

lemma yields_listKernels: "yields (\<lambda>r. \<forall>es. r = Inr es \<longrightarrow> list_all good_entry es) (listKernels dir)"
proof -
  have "yields good_entry (sized_kernel dir n)" if "versionFromStoredKernel n \<noteq> None" for n
    using that unfolding sized_kernel_def
    by (auto intro!: yields_bind [where Q = "\<lambda>_. True"] yields_return) (simp add: yields_def)
  then show ?thesis unfolding listKernels_def or_fail_def
    by (auto intro!: yields_bind [where Q = "\<lambda>_. True"] yields_bind [where Q = "list_all good_entry"] yields_return yields_map_op
        split: sum.splits) (auto simp: yields_def)
qed

lemma only_map_op [io_intros]: "(\<And>x. only S (f x)) \<Longrightarrow> only S (map_op f xs)"
  by (induction xs) (auto intro!: io_intros)

lemma only_listKernels [io_intros]: "only S (listKernels dir)"
  unfolding listKernels_def sized_kernel_def by (intro io_intros) auto

lemma only_PathInfo [io_intros]: "only S (PathInfo env)"
  unfolding PathInfo_def by (intro io_intros)

lemma only_default_version [io_intros]: "only S (default_version bt)" "only S (protectedSet req)" "only S (purgeProtected run bt)"
  unfolding default_version_def protectedSet_def purgeProtected_def by (intro io_intros; simp)+

lemma only_fetch [io_intros]: "only S (fetch_kernel env req)" "only S (already_staged env req p)"
  unfolding fetch_kernel_def downloadAndVerify_def extractZstd_def already_staged_def Let_def
  by (auto intro!: io_intros split: option.splits)

lemma only_dry_run [io_intros]: "only S (stageDryRun env req dir n)"
  unfolding stageDryRun_def Let_def by (auto intro!: io_intros split: sum.splits)

lemma efi_not_config: "dir @ ''/'' @ x @ ''.efi'' \<notin> config_files"
proof
  have e: "rev (dir @ ''/'' @ x @ ''.efi'') = ''ife.'' @ rev (dir @ ''/'' @ x)" by simp
  assume "dir @ ''/'' @ x @ ''.efi'' \<in> config_files"
  then have "rev (dir @ ''/'' @ x @ ''.efi'') \<in> rev ` config_files" by (rule imageI)
  then show False unfolding e by (auto simp: config_files_def)
qed

lemma stored_not_config: "dir @ ''/'' @ kernelStoredName ts fa \<notin> config_files"
  using efi_not_config [of dir "''simplek8s.'' @ ts @ ''.'' @ fa"] by (simp add: kernelStoredName_def)

text \<open>The files of an architecture whose version is not one of \<open>prot\<close>.\<close>

definition purgeable :: "string \<Rightarrow> string \<Rightarrow> string list \<Rightarrow> string set" where
  "purgeable dir arch prot = {dir @ ''/'' @ n | n ts. ParseStoredKernel n = Some (ts, arch) \<and> ts \<notin> set prot}"

lemma only_applyPurge: "\<forall>n\<in>set names. dir @ ''/'' @ n \<in> S - config_files \<Longrightarrow> only S (applyPurge dir names)"
  by (induction names) (auto intro!: io_intros only_remove split: sum.splits)

lemma plan_purgeable:
  assumes "list_all good_entry es" "set prot \<subseteq> set protected" "purgeable dir arch prot \<subseteq> S"
    "n \<in> set (planPurge (ownFlavorEntries es arch) protected k free target)"
  shows "dir @ ''/'' @ n \<in> S - config_files"
proof -
  obtain e where e: "e \<in> set (ownFlavorEntries es arch)" "ke_name e = n" "ke_ts e \<notin> set protected"
    using plan_purge_subset [OF assms(4)] by blast
  then have "good_entry e" using assms(1) by (auto simp: ownFlavorEntries_def list_all_iff)
  then have "ParseStoredKernel n = Some (ke_ts e, arch)"
    using e by (auto simp: ownFlavorEntries_def version_stored_eq split: option.splits)
  then show ?thesis using assms(2,3) e stored_not_config [of dir]
    by (auto simp: purgeable_def parse_stored_iff)
qed

lemma only_apply_plan:
  assumes "list_all good_entry es" "set prot \<subseteq> set protected" "purgeable dir arch prot \<subseteq> S"
  shows "only S (applyPurge dir (planPurge (ownFlavorEntries es arch) protected k free target))"
  by (rule only_applyPurge) (blast dest: plan_purgeable [OF assms])

lemma only_purgeAndPrune:
  assumes "config_files \<subseteq> S" "set prot \<subseteq> set protected" "purgeable dir arch prot \<subseteq> S"
  shows "only S (purgeAndPrune env dir arch k m protected)"
  unfolding purgeAndPrune_def Let_def
  by (auto intro!: io_intros keeps_bind_yields [OF _ _ yields_listKernels] only_apply_plan [OF _ assms(2,3)]
      intro: subsetD [OF assms(1)] split: sum.splits prod.splits)

lemma only_make_room:
  assumes "set prot \<subseteq> set protected" "purgeable dir (sr_Arch req) prot \<subseteq> S"
  shows "only S (make_room env req dir protected n)"
  unfolding make_room_def or_fail_def [of "listKernels dir"]
  by (auto intro!: io_intros keeps_bind_yields [OF _ _ yields_listKernels] only_apply_plan [OF _ assms] split: sum.splits prod.splits)
definition stored_path :: "stage_request \<Rightarrow> string \<Rightarrow> string" where
  "stored_path req dir = dir @ ''/'' @ kernelStoredName (sr_Version req) (sr_Arch req)"

definition stage_writes :: "stage_request \<Rightarrow> string \<Rightarrow> string set" where
  "stage_writes req dir =
     insert (stored_path req dir) (config_files \<union> purgeable dir (sr_Arch req) [sr_Running req, sr_Version req])"

lemma yields_protected: "yields (\<lambda>ps. set [sr_Running req, sr_Version req] \<subseteq> insert [] (set ps)) (protectedSet req)"
  unfolding protectedSet_def by (intro yields_bind [where Q = "\<lambda>_. True"] yields_return) (auto simp: yields_def)

lemma purgeable_nonempty: "purgeable dir arch prot = purgeable dir arch (List.filter (\<lambda>ts. ts \<noteq> []) prot)"
  by (auto simp: purgeable_def parse_stored_iff wf_ts_def)

lemma only_stagePartition: "only (stage_writes req dir) (stagePartition env req dir)"
proof -
  let ?prot = "List.filter (\<lambda>ts. ts \<noteq> []) [sr_Running req, sr_Version req]"
  have p: "set ?prot \<subseteq> set ps" if "set [sr_Running req, sr_Version req] \<subseteq> insert [] (set ps)" for ps
    using that by auto
  have S: "purgeable dir (sr_Arch req) ?prot \<subseteq> stage_writes req dir" "config_files \<subseteq> stage_writes req dir"
    "stored_path req dir \<in> stage_writes req dir"
    unfolding purgeable_nonempty [symmetric] by (auto simp: stage_writes_def)
  show ?thesis
    unfolding stagePartition_def Let_def stored_path_def [symmetric]
    using S by (auto intro!: io_intros keeps_bind_yields [OF _ _ yields_protected] only_copyFile
        intro: only_make_room [OF p S(1)] only_purgeAndPrune [OF S(2) p S(1)])
qed

lemma stored_path_kept: "stored_path req dir \<notin> config_files \<union> purgeable dir (sr_Arch req) [sr_Running req, sr_Version req]"
  using stored_not_config [of dir] by (auto simp: stored_path_def purgeable_def parse_stored_iff kernelStoredName_def)

lemma fetched_kernel:
  assumes "run_state (fetch_kernel env req) s = (Inr c, t)"
  shows "(\<exists>a. be_sha256 env a = sr_Checksum req \<and> be_unzstd env a = Some c) \<and>
    (sr_EfiChecksum req \<noteq> [] \<longrightarrow> to_lower (be_sha256 env c) = to_lower (sr_EfiChecksum req))"
  using assms unfolding fetch_kernel_def downloadAndVerify_def extractZstd_def Let_def
  by (auto elim!: or_fail_success split: option.splits if_splits; blast)

lemma stored_name_inject:
  assumes "ParseStoredKernel (kernelStoredName ts fa) = Some (ts, fa)" "kernelStoredName ts fa = kernelStoredName ts' fa'"
  shows "ts = ts'"
proof -
  have "CHR ''.'' \<notin> set ts" "CHR ''.'' \<notin> set fa"
    using assms(1) by (auto simp: parse_stored_iff wf_ts_def wf_arch_def list_all_iff)
  moreover have "ts @ CHR ''.'' # fa = ts' @ CHR ''.'' # fa'"
    using assms(2) by (simp add: kernelStoredName_def)
  ultimately show ?thesis by (simp add: append_Cons_eq_iff)
qed

lemma staged_already:
  assumes "run_state (already_staged env req p) s = (True, t)" "p \<notin> set (bf_dirs s)"
  shows "\<exists>c. file_at s p = Some c \<and> (sr_EfiChecksum req \<noteq> [] \<longrightarrow> to_lower (be_sha256 env c) = to_lower (sr_EfiChecksum req))"
  using assms unfolding already_staged_def fileExists_def fs_read_def
  by (auto split: prod.splits sum.splits if_splits option.splits dest!: fs_look_run)

lemma staged_content:
  assumes run: "run_state (stagePartition env req dir) s = (Inr (), t)" and nd: "\<not> sr_DryRun req"
    and dirs: "stored_path req dir \<notin> set (bf_dirs s)"
  shows "\<exists>c. file_at t (stored_path req dir) = Some c \<and>
      (sr_EfiChecksum req \<noteq> [] \<longrightarrow> to_lower (be_sha256 env c) = to_lower (sr_EfiChecksum req)) \<and>
      (file_at s (stored_path req dir) = Some c \<or> (\<exists>a. be_sha256 env a = sr_Checksum req \<and> be_unzstd env a = Some c))"
proof -
  obtain b s1 where b: "run_state (already_staged env req (stored_path req dir)) s = (b, s1)"
    by (cases "run_state (already_staged env req (stored_path req dir)) s")
  show ?thesis
  proof (cases b)
    case True
    then have "t = s1" using run b by (simp add: stagePartition_def Let_def stored_path_def)
    moreover have "changes {} s s1" using keepsD [OF only_fetch(2) b] .
    ultimately show ?thesis using staged_already [of env req "stored_path req dir" s s1] b dirs True
      by (auto simp: changes_def)
  next
    case False
    define finish where "finish prot = or_fail (if sr_NoRepoint req then State_Monad.return (Inr ())
         else SetBootloaderDefault (sr_Bootloader req) (''/'' @ dir @ ''/'' @ kernelStoredName (sr_Version req) (sr_Arch req)))
       (\<lambda>_. or_fail (purgeAndPrune env dir (sr_Arch req) (sr_Preserve req) (sr_MaxPercentUsage req) prot)
         (\<lambda>_. State_Monad.return (Inr ())))" for prot
    let ?rest = "\<lambda>ext prot. or_fail (make_room env req dir prot (int (List.length ext))) (\<lambda>_. or_fail (fs_mkdir dir) (\<lambda>_.
       or_fail (copyFile ext (stored_path req dir)) (\<lambda>_. finish prot)))"
    have "run_state (or_fail (fetch_kernel env req) (\<lambda>ext. do { prot \<leftarrow> protectedSet req; ?rest ext prot })) s1 = (Inr (), t)"
      using run b False nd by (simp add: stagePartition_def Let_def stored_path_def finish_def)
    then obtain ext s2 where f: "run_state (fetch_kernel env req) s1 = (Inr ext, s2)"
      and rest: "run_state (do { prot \<leftarrow> protectedSet req; ?rest ext prot }) s2 = (Inr (), t)"
      by (rule or_fail_success)
    obtain prot s3 where pr: "run_state (protectedSet req) s2 = (prot, s3)" by (cases "run_state (protectedSet req) s2")
    with rest have "run_state (?rest ext prot) s3 = (Inr (), t)" by simp
    then obtain u1 v1 where "run_state (or_fail (fs_mkdir dir) (\<lambda>_. or_fail (copyFile ext (stored_path req dir)) (\<lambda>_. finish prot))) v1 = (Inr (), t)"
      by (rule or_fail_success)
    then obtain u2 v2 where "run_state (or_fail (copyFile ext (stored_path req dir)) (\<lambda>_. finish prot)) v2 = (Inr (), t)"
      by (rule or_fail_success)
    then obtain u3 s5 where c: "run_state (copyFile ext (stored_path req dir)) v2 = (Inr u3, s5)"
      and e: "run_state (finish prot) s5 = (Inr (), t)"
      by (rule or_fail_success)
    let ?prot = "List.filter (\<lambda>ts. ts \<noteq> []) [sr_Running req, sr_Version req]"
    let ?S = "config_files \<union> purgeable dir (sr_Arch req) ?prot"
    have "set ?prot \<subseteq> set prot" using yieldsD [OF yields_protected pr] by auto
    then have "only ?S (finish prot)"
      unfolding finish_def by (auto intro!: io_intros intro: only_purgeAndPrune [where prot = ?prot])
    then have "changes ?S s5 t" using e by (rule keepsD)
    moreover have "stored_path req dir \<notin> ?S"
      using stored_path_kept [of req dir] unfolding purgeable_nonempty [symmetric] .
    ultimately have "file_at t (stored_path req dir) = Some ext"
      using copyFile_success [OF c] by (simp add: changes_def)
    then show ?thesis using fetched_kernel [OF f] by blast
  qed
qed


definition sample_env :: boot_env where
  "sample_env = \<lparr> be_statfs = (\<lambda>_. \<lparr> Frsize = 4096, Blocks = 1000, Bfree = 500, Bavail = 500 \<rparr>),
     be_fetch = (\<lambda>_. Some ''zst''), be_sha256 = (\<lambda>c. ''sha '' @ c), be_unzstd = (\<lambda>c. Some (''efi '' @ c)) \<rparr>"

definition sample_request :: stage_request where
  "sample_request = \<lparr> sr_Version = ''202608291203'', sr_Arch = ''rpi5'', sr_Checksum = ''sha zst'', sr_ArtifactFile = [],
     sr_RepoBase = ''http://repo/'', sr_Preserve = 2, sr_MaxPercentUsage = 80, sr_Running = ''202508291203'',
     sr_Bootloader = BootAuto, sr_EfiChecksum = [], sr_NoRepoint = False, sr_DryRun = False \<rparr>"

definition sample_fs :: boot_fs where
  "sample_fs = \<lparr> bf_files = [(''config.txt'', ''kernel=/simplek8s/simplek8s.202508291203.rpi5.efi'' @ [newline]),
       (''simplek8s/simplek8s.202508291203.rpi5.efi'', ''old'')],
     bf_dirs = [''simplek8s''], bf_script = [] \<rparr>"


end
