(* ===== verification/Go_Json.thy ===== *)
theory Go_Json
  imports Prelude
begin

text \<open>
  The part of \<open>encoding/json\<close> the controller uses: values, the text \<open>json.Marshal\<close>
  produces for them, the grammar \<open>json.Unmarshal\<close> accepts, and how it fills the fields of a
  struct. The whole input is checked before anything is decoded, a nesting deeper than 10000 is
  an error, keys match field names up to case, unknown keys are skipped, a repeated key
  overwrites, \<open>null\<close> leaves a scalar alone and clears a pointer or slice, and a value of the
  wrong type is an error that still lets the other fields be filled.

  Strings are taken to be valid UTF-8 free of U+2028 and U+2029, so the printer copies every
  byte from 128 up.
\<close>

datatype json = JNull | JBool bool | JNum string | JStr string | JArr "json list" | JObj "(string \<times> json) list"

section \<open>Printing\<close>

definition hex_digit :: "int \<Rightarrow> char" where
  "hex_digit n = (if n < 10 then char_of (48 + n) else char_of (87 + n))"

text \<open>\<open>hex.EncodeToString\<close> of a list of bytes.\<close>

definition hex_encode :: "int list \<Rightarrow> string" where
  "hex_encode bs = concat (map (\<lambda>b. [hex_digit (b div 16 mod 16), hex_digit (b mod 16)]) bs)"

definition esc_char :: "char \<Rightarrow> string" where
  "esc_char c = (let n = of_char c :: int in
     if n = 34 then [CHR 0x5C, CHR 0x22]
     else if n = 92 then [CHR 0x5C, CHR 0x5C]
     else if n = 8 then [CHR 0x5C, CHR ''b'']
     else if n = 12 then [CHR 0x5C, CHR ''f'']
     else if n = 10 then [CHR 0x5C, CHR ''n'']
     else if n = 13 then [CHR 0x5C, CHR ''r'']
     else if n = 9 then [CHR 0x5C, CHR ''t'']
     else if n < 32 \<or> n = 60 \<or> n = 62 \<or> n = 38 then
       [CHR 0x5C, CHR ''u'', CHR ''0'', CHR ''0'', hex_digit (n div 16), hex_digit (n mod 16)]
     else [c])"

definition quote_str :: "string \<Rightarrow> string" where
  "quote_str s = CHR 0x22 # concat (map esc_char s) @ [CHR 0x22]"

fun print_json :: "json \<Rightarrow> string"
and print_elems :: "json list \<Rightarrow> string"
and print_members :: "(string \<times> json) list \<Rightarrow> string" where
  "print_json JNull = ''null''"
| "print_json (JBool b) = (if b then ''true'' else ''false'')"
| "print_json (JNum l) = l"
| "print_json (JStr s) = quote_str s"
| "print_json (JArr []) = ''[]''"
| "print_json (JArr (x # xs)) = CHR ''['' # print_json x @ print_elems xs"
| "print_json (JObj []) = ''{}''"
| "print_json (JObj ((k, v) # ms)) = CHR ''{'' # quote_str k @ CHR '':'' # print_json v @ print_members ms"
| "print_elems [] = '']''"
| "print_elems (x # xs) = CHR '','' # print_json x @ print_elems xs"
| "print_members [] = ''}''"
| "print_members ((k, v) # ms) = CHR '','' # quote_str k @ CHR '':'' # print_json v @ print_members ms"

section \<open>Parsing\<close>

definition is_ws :: "char \<Rightarrow> bool" where
  "is_ws c \<longleftrightarrow> c = CHR '' '' \<or> c = CHR 0x09 \<or> c = CHR 0x0A \<or> c = CHR 0x0D"

definition skip_ws :: "string \<Rightarrow> string" where
  "skip_ws s = dropWhile is_ws s"

definition hex_val :: "char \<Rightarrow> int option" where
  "hex_val c = (let n = of_char c :: int in
     if 48 \<le> n \<and> n \<le> 57 then Some (n - 48)
     else if 97 \<le> n \<and> n \<le> 102 then Some (n - 87)
     else if 65 \<le> n \<and> n \<le> 70 then Some (n - 55) else None)"

definition hex4 :: "char \<Rightarrow> char \<Rightarrow> char \<Rightarrow> char \<Rightarrow> int option" where
  "hex4 a b c d =
     (case (hex_val a, hex_val b, hex_val c, hex_val d) of
        (Some w, Some x, Some y, Some z) \<Rightarrow> Some (((w * 16 + x) * 16 + y) * 16 + z)
      | _ \<Rightarrow> None)"

definition utf8 :: "int \<Rightarrow> string" where
  "utf8 n =
     (if n < 128 then [char_of n]
      else if n < 2048 then [char_of (192 + n div 64), char_of (128 + n mod 64)]
      else if n < 65536 then
        [char_of (224 + n div 4096), char_of (128 + n div 64 mod 64), char_of (128 + n mod 64)]
      else [char_of (240 + n div 262144), char_of (128 + n div 4096 mod 64),
            char_of (128 + n div 64 mod 64), char_of (128 + n mod 64)])"

text \<open>A surrogate that is not the first of a pair is replaced by U+FFFD.\<close>

definition esc_simple :: "char \<Rightarrow> char option" where
  "esc_simple c =
     (if c = CHR 0x22 \<or> c = CHR 0x5C \<or> c = CHR ''/'' then Some c
      else if c = CHR ''b'' then Some (CHR 0x08)
      else if c = CHR ''f'' then Some (CHR 0x0C)
      else if c = CHR ''n'' then Some (CHR 0x0A)
      else if c = CHR ''r'' then Some (CHR 0x0D)
      else if c = CHR ''t'' then Some (CHR 0x09) else None)"

definition hex4_of :: "string \<Rightarrow> int option" where
  "hex4_of s = (case s of a # b # c # d # _ \<Rightarrow> hex4 a b c d | _ \<Rightarrow> None)"

definition low_surrogate :: "string \<Rightarrow> int option" where
  "low_surrogate s =
     (if has_prefix s [CHR 0x5C, CHR ''u''] then
        (case hex4_of (drop 2 s) of
           Some m \<Rightarrow> if 56320 \<le> m \<and> m < 57344 then Some m else None | None \<Rightarrow> None)
      else None)"

function parse_str :: "string \<Rightarrow> (string \<times> string) option" where
  "parse_str s =
     (case s of
        [] \<Rightarrow> None
      | c # r \<Rightarrow>
          if c = CHR 0x22 then Some ([], r)
          else if c = CHR 0x5C then
            (case r of
               [] \<Rightarrow> None
             | e # q \<Rightarrow>
                 if e = CHR ''u'' then
                   (case hex4_of q of
                      None \<Rightarrow> None
                    | Some n \<Rightarrow>
                        if n < 55296 \<or> 57344 \<le> n then map_option (apfst ((@) (utf8 n))) (parse_str (drop 4 q))
                        else (case (if n < 56320 then low_surrogate (drop 4 q) else None) of
                            Some m \<Rightarrow> map_option (apfst ((@) (utf8 (65536 + (n - 55296) * 1024 + (m - 56320)))))
                                (parse_str (drop 10 q))
                          | None \<Rightarrow> map_option (apfst ((@) (utf8 65533))) (parse_str (drop 4 q))))
                 else (case esc_simple e of
                         None \<Rightarrow> None
                       | Some x \<Rightarrow> map_option (apfst ((#) x)) (parse_str q)))
          else if (of_char c :: int) < 32 then None
          else map_option (apfst ((#) c)) (parse_str r))"
  by auto
termination by (relation "measure List.length") (auto simp: less_Suc_eq_le)

declare parse_str.simps [simp del]

text \<open>The longest number at the start of the text: sign, integer part without leading zeros,
  fraction, exponent.\<close>

definition parse_num :: "string \<Rightarrow> (string \<times> string) option" where
  "parse_num s =
     (let sg = (if has_prefix s ''-'' then ''-'' else []); r = drop (List.length sg) s;
          ds = takeWhile is_digit r; r1 = dropWhile is_digit r
      in if ds = [] \<or> (hd ds = CHR ''0'' \<and> List.length ds > 1) then None
         else (let fr = (if has_prefix r1 ''.'' then ''.'' @ takeWhile is_digit (tl r1) else []);
                   r2 = drop (List.length fr) r1;
                   ex = (if r2 \<noteq> [] \<and> (hd r2 = CHR ''e'' \<or> hd r2 = CHR ''E'') then
                           (let q = tl r2; es = (if q \<noteq> [] \<and> (hd q = CHR ''+'' \<or> hd q = CHR ''-'') then [hd q] else [])
                            in hd r2 # es @ takeWhile is_digit (drop (List.length es) q))
                         else [])
               in if fr = ''.'' \<or> (ex \<noteq> [] \<and> \<not> is_digit (last ex)) then None
                  else Some (sg @ ds @ fr @ ex, drop (List.length ex) r2)))"

text \<open>The recursion on values is bounded by fuel; \<open>parse_json\<close> gives two units per byte, and
  every second call consumes at least one byte.\<close>

fun parse_val :: "nat \<Rightarrow> string \<Rightarrow> (json \<times> string) option"
and parse_rest_elems :: "nat \<Rightarrow> string \<Rightarrow> (json list \<times> string) option"
and parse_member :: "nat \<Rightarrow> string \<Rightarrow> ((string \<times> json) \<times> string) option"
and parse_rest_members :: "nat \<Rightarrow> string \<Rightarrow> ((string \<times> json) list \<times> string) option" where
  "parse_val 0 s = None"
| "parse_val (Suc n) s =
     (case skip_ws s of
        [] \<Rightarrow> None
      | c # r \<Rightarrow>
          if c = CHR 0x22 then map_option (apfst JStr) (parse_str r)
          else if c = CHR ''['' then
            (if has_prefix (skip_ws r) '']'' then Some (JArr [], tl (skip_ws r))
             else (case parse_val n r of
                     None \<Rightarrow> None
                   | Some (x, q) \<Rightarrow> map_option (apfst (\<lambda>xs. JArr (x # xs))) (parse_rest_elems n q)))
          else if c = CHR ''{'' then
            (if has_prefix (skip_ws r) ''}'' then Some (JObj [], tl (skip_ws r))
             else (case parse_member n r of
                     None \<Rightarrow> None
                   | Some (x, q) \<Rightarrow> map_option (apfst (\<lambda>xs. JObj (x # xs))) (parse_rest_members n q)))
          else if has_prefix (c # r) ''true'' then Some (JBool True, drop 3 r)
          else if has_prefix (c # r) ''false'' then Some (JBool False, drop 4 r)
          else if has_prefix (c # r) ''null'' then Some (JNull, drop 3 r)
          else map_option (apfst JNum) (parse_num (c # r)))"
| "parse_rest_elems 0 s = None"
| "parse_rest_elems (Suc n) s =
     (case skip_ws s of
        [] \<Rightarrow> None
      | c # r \<Rightarrow>
          if c = CHR '']'' then Some ([], r)
          else if c = CHR '','' then
            (case parse_val n r of
               None \<Rightarrow> None
             | Some (x, q) \<Rightarrow> map_option (apfst ((#) x)) (parse_rest_elems n q))
          else None)"
| "parse_member 0 s = None"
| "parse_member (Suc n) s =
     (if \<not> has_prefix (skip_ws s) [CHR 0x22] then None
      else (case parse_str (tl (skip_ws s)) of
              None \<Rightarrow> None
            | Some (k, q) \<Rightarrow>
                if \<not> has_prefix (skip_ws q) '':'' then None
                else map_option (apfst (Pair k)) (parse_val n (tl (skip_ws q)))))"
| "parse_rest_members 0 s = None"
| "parse_rest_members (Suc n) s =
     (case skip_ws s of
        [] \<Rightarrow> None
      | c # r \<Rightarrow>
          if c = CHR ''}'' then Some ([], r)
          else if c = CHR '','' then
            (case parse_member n r of
               None \<Rightarrow> None
             | Some (x, q) \<Rightarrow> map_option (apfst ((#) x)) (parse_rest_members n q))
          else None)"

fun json_depth :: "json \<Rightarrow> nat" where
  "json_depth (JArr xs) = Suc (fold max (map json_depth xs) 0)"
| "json_depth (JObj ms) = Suc (fold max (map (\<lambda>(k, v). json_depth v) ms) 0)"
| "json_depth _ = 0"

definition parse_json :: "string \<Rightarrow> json option" where
  "parse_json s =
     (case parse_val (Suc (2 * List.length s)) s of
        None \<Rightarrow> None
      | Some (j, r) \<Rightarrow> if skip_ws r = [] \<and> json_depth j \<le> 10000 then Some j else None)"

section \<open>Decoding into a struct\<close>

text \<open>Field names are matched up to ASCII case, and the Kelvin sign and the long s fold to
  their letters, as \<open>foldName\<close> does.\<close>

fun fold_name :: "string \<Rightarrow> string" where
  "fold_name (a # b # c # s) =
     (if a = CHR 0xE2 \<and> b = CHR 0x84 \<and> c = CHR 0xAA then CHR ''k'' # fold_name s
      else if a = CHR 0xC5 \<and> b = CHR 0xBF then CHR ''s'' # fold_name (c # s)
      else lower_char a # fold_name (b # c # s))"
| "fold_name [a, b] = (if a = CHR 0xC5 \<and> b = CHR 0xBF then ''s'' else [lower_char a, lower_char b])"
| "fold_name [a] = [lower_char a]"
| "fold_name [] = []"

definition field_values :: "string \<Rightarrow> (string \<times> json) list \<Rightarrow> json list" where
  "field_values nm ms = map snd (List.filter (\<lambda>(k, v). fold_name k = fold_name nm) ms)"

text \<open>A decoder takes the values of the field's key in order and gives the value of the field
  and whether a type error was recorded.\<close>

fun dec_string :: "string \<Rightarrow> json list \<Rightarrow> string \<times> bool" where
  "dec_string v [] = (v, False)"
| "dec_string v (JStr s # js) = dec_string s js"
| "dec_string v (JNull # js) = dec_string v js"
| "dec_string v (_ # js) = apsnd (\<lambda>_. True) (dec_string v js)"

fun dec_bool :: "bool \<Rightarrow> json list \<Rightarrow> bool \<times> bool" where
  "dec_bool v [] = (v, False)"
| "dec_bool v (JBool b # js) = dec_bool b js"
| "dec_bool v (JNull # js) = dec_bool v js"
| "dec_bool v (_ # js) = apsnd (\<lambda>_. True) (dec_bool v js)"

fun dec_int :: "int \<Rightarrow> json list \<Rightarrow> int \<times> bool" where
  "dec_int v [] = (v, False)"
| "dec_int v (JNum l # js) =
     (case atoi l of Some n \<Rightarrow> dec_int n js | None \<Rightarrow> apsnd (\<lambda>_. True) (dec_int v js))"
| "dec_int v (JNull # js) = dec_int v js"
| "dec_int v (_ # js) = apsnd (\<lambda>_. True) (dec_int v js)"

text \<open>A pointer is allocated before the value is decoded into it, so a type error leaves it
  pointing at a zero value (or at the previous one).\<close>

fun dec_opt_string :: "string option \<Rightarrow> json list \<Rightarrow> string option \<times> bool" where
  "dec_opt_string v [] = (v, False)"
| "dec_opt_string v (JStr s # js) = dec_opt_string (Some s) js"
| "dec_opt_string v (JNull # js) = dec_opt_string None js"
| "dec_opt_string v (_ # js) =
     apsnd (\<lambda>_. True) (dec_opt_string (Some (case v of None \<Rightarrow> [] | Some s \<Rightarrow> s)) js)"

fun dec_opt_bool :: "bool option \<Rightarrow> json list \<Rightarrow> bool option \<times> bool" where
  "dec_opt_bool v [] = (v, False)"
| "dec_opt_bool v (JBool b # js) = dec_opt_bool (Some b) js"
| "dec_opt_bool v (JNull # js) = dec_opt_bool None js"
| "dec_opt_bool v (_ # js) =
     apsnd (\<lambda>_. True) (dec_opt_bool (Some (case v of None \<Rightarrow> False | Some b \<Rightarrow> b)) js)"

text \<open>The elements of a \<open>[]string\<close> are decoded over the elements already there; \<open>None\<close> is
  the nil slice.\<close>

fun dec_elems :: "string list \<Rightarrow> json list \<Rightarrow> string list \<times> bool" where
  "dec_elems old [] = ([], False)"
| "dec_elems old (j # js) =
     (let (v, e) = dec_string (case old of [] \<Rightarrow> [] | o1 # _ \<Rightarrow> o1) [j]; (vs, es) = dec_elems (tl old) js
      in (v # vs, e \<or> es))"

fun dec_strings :: "string list option \<Rightarrow> json list \<Rightarrow> string list option \<times> bool" where
  "dec_strings v [] = (v, False)"
| "dec_strings v (JArr js # rest) =
     (let (xs, e) = dec_elems (case v of None \<Rightarrow> [] | Some ys \<Rightarrow> ys) js
      in apsnd (\<lambda>b. b \<or> e) (dec_strings (Some xs) rest))"
| "dec_strings v (JNull # rest) = dec_strings None rest"
| "dec_strings v (_ # rest) = apsnd (\<lambda>_. True) (dec_strings v rest)"

text \<open>The members a struct is filled from: none for the literal \<open>null\<close>, which is no error, and
  none for any other value that is not an object, which is one. \<open>None\<close>: not JSON at all.\<close>

definition struct_members :: "string \<Rightarrow> ((string \<times> json) list \<times> bool) option" where
  "struct_members raw =
     (case parse_json raw of
        None \<Rightarrow> None
      | Some (JObj ms) \<Rightarrow> Some (ms, False)
      | Some JNull \<Rightarrow> Some ([], False)
      | Some _ \<Rightarrow> Some ([], True))"

text \<open>\<open>json.Unmarshal\<close> into a \<open>[]string\<close>.\<close>

definition unmarshal_strings :: "string \<Rightarrow> string list option \<times> bool" where
  "unmarshal_strings raw =
     (case parse_json raw of None \<Rightarrow> (None, True) | Some j \<Rightarrow> dec_strings None [j])"

lemma json_examples:
  "parse_json ''  {1}'' = None"
  "parse_json [CHR 0x22, CHR 0x5C, CHR ''u'', CHR ''0'', CHR ''0'', CHR ''e'', CHR ''9'', CHR 0x22] =
     Some (JStr [CHR 0xC3, CHR 0xA9])"
  "unmarshal_strings '' [ ] '' = (Some [], False)"
  "unmarshal_strings ''null'' = (None, False)"
  "unmarshal_strings ''[-1.5e3, null]'' = (Some [[], []], True)"
  "parse_json ''[01]'' = None"
  by code_simp+

lemma append_single [simp]: "(@) [x] = (#) x"
  by (rule ext) simp

lemma esc_chars:
  "char_of (34 :: int) = CHR 0x22" "char_of (92 :: int) = CHR 0x5C" "char_of (8 :: int) = CHR 0x08"
  "char_of (12 :: int) = CHR 0x0C" "char_of (10 :: int) = CHR 0x0A" "char_of (13 :: int) = CHR 0x0D"
  "char_of (9 :: int) = CHR 0x09"
  by code_simp+

lemma hex_val_hex_digit: "0 \<le> k \<Longrightarrow> k < 16 \<Longrightarrow> hex_val (hex_digit k) = Some k"
  by (auto simp: hex_val_def hex_digit_def Let_def of_char_of)

lemma of_char_int_less: "(of_char c :: int) < 256"
  using of_char_mod_256 [of c] pos_mod_bound [of "256 :: int" "of_char c"] by simp

lemma of_char_int_nonneg: "0 \<le> (of_char c :: int)"
  using of_char_mod_256 [of c] pos_mod_sign [of "256 :: int" "of_char c"] by simp

lemma parse_str_quote: "parse_str (CHR 0x22 # r) = Some ([], r)"
  by (subst parse_str.simps) simp

lemma parse_str_plain:
  "c \<noteq> CHR 0x22 \<Longrightarrow> c \<noteq> CHR 0x5C \<Longrightarrow> 32 \<le> (of_char c :: int) \<Longrightarrow>
   parse_str (c # r) = map_option (apfst ((#) c)) (parse_str r)"
  by (subst parse_str.simps) simp

lemma parse_str_simple:
  "esc_simple e = Some x \<Longrightarrow> e \<noteq> CHR ''u'' \<Longrightarrow>
   parse_str (CHR 0x5C # e # r) = map_option (apfst ((#) x)) (parse_str r)"
  by (subst parse_str.simps) simp

lemma parse_str_hex:
  assumes "0 \<le> n" "n < 128"
  shows "parse_str (CHR 0x5C # CHR ''u'' # CHR ''0'' # CHR ''0'' # hex_digit (n div 16) # hex_digit (n mod 16) # r)
    = map_option (apfst ((#) (char_of n))) (parse_str r)"
proof -
  have "hex4 (CHR ''0'') (CHR ''0'') (hex_digit (n div 16)) (hex_digit (n mod 16)) = Some n"
    using assms hex_val_hex_digit [of "n div 16"] hex_val_hex_digit [of "n mod 16"]
      hex_val_hex_digit [of 0]
    by (simp add: hex4_def hex_val_def Let_def split: option.splits)
  then show ?thesis using assms
    by (subst parse_str.simps) (simp add: hex4_of_def utf8_def apfst_def)
qed

lemma parse_str_esc: "parse_str (esc_char c @ r) = map_option (apfst ((#) c)) (parse_str r)"
proof -
  let ?n = "of_char c :: int"
  have c: "c = char_of ?n" by simp
  note [simp] = of_char_int_less [of c] of_char_int_nonneg [of c]
  let ?S = "?n \<in> {34, 92, 8, 12, 10, 13, 9}" and ?H = "?n < 32 \<or> ?n = 60 \<or> ?n = 62 \<or> ?n = 38"
  consider (special) ?S | (hex) "\<not> ?S" ?H | (plain) "\<not> ?S" "\<not> ?H" by blast
  then show ?thesis
  proof cases
    case special
    then have "c \<in> {char_of (34::int), char_of (92::int), char_of (8::int), char_of (12::int), char_of (10::int), char_of (13::int), char_of (9::int)}"
      using c by (metis insert_iff singletonD)
    then show ?thesis
      by (auto simp: esc_char_def Let_def parse_str_simple esc_simple_def esc_chars)
  next
    case hex
    then have "esc_char c = CHR 0x5C # CHR ''u'' # CHR ''0'' # CHR ''0'' # hex_digit (?n div 16) # hex_digit (?n mod 16) # []"
      by (auto simp: esc_char_def Let_def)
    with hex parse_str_hex [of ?n r] show ?thesis by auto
  next
    case plain
    then have "esc_char c = [c]" by (auto simp: esc_char_def Let_def)
    moreover have "c \<noteq> CHR 0x22" "c \<noteq> CHR 0x5C" using plain by auto
    ultimately show ?thesis using plain parse_str_plain by simp
  qed
qed

lemma parse_str_concat: "parse_str (concat (map esc_char s) @ CHR 0x22 # r) = Some (s, r)"
  by (induction s) (simp_all add: parse_str_quote parse_str_esc)

section \<open>What is printed is read back\<close>

text \<open>An integer literal as \<open>strconv\<close> prints it.\<close>

definition int_lit :: "string \<Rightarrow> bool" where
  "int_lit l = (let d = trim_prefix l ''-'' in
     d \<noteq> [] \<and> list_all is_digit d \<and> (hd d = CHR ''0'' \<longrightarrow> List.length d = 1))"

fun wf_json :: "json \<Rightarrow> bool" where
  "wf_json (JNum l) = int_lit l"
| "wf_json (JArr xs) = list_all wf_json xs"
| "wf_json (JObj ms) = list_all (\<lambda>(k, v). wf_json v) ms"
| "wf_json _ = True"

text \<open>The text that follows a value inside a document cannot extend a number.\<close>

definition ends_num :: "string \<Rightarrow> bool" where
  "ends_num r \<longleftrightarrow> r = [] \<or> hd r \<in> set '',]}''"

lemma parse_num_lit: "int_lit l \<Longrightarrow> ends_num r \<Longrightarrow> parse_num (l @ r) = Some (l, r)"
proof -
  assume l: "int_lit l" and r: "ends_num r"
  define d where "d = trim_prefix l ''-''"
  define sg where "sg = (if has_prefix l ''-'' then ''-'' else [])"
  have lsd: "l = sg @ d"
    by (auto simp: sg_def d_def trim_prefix_def has_prefix_iff)
  have d: "d \<noteq> []" "\<forall>c \<in> set d. is_digit c" "hd d = CHR ''0'' \<longrightarrow> List.length d = 1"
    using l by (auto simp: int_lit_def d_def Let_def list_all_iff)
  then have ln: "l \<noteq> []" using lsd by auto
  then have dash: "has_prefix (l @ r) ''-'' \<longleftrightarrow> has_prefix l ''-''"
    using ln by (cases l) auto
  have nd: "r \<noteq> [] \<Longrightarrow> \<not> is_digit (hd r)" "\<not> has_prefix r ''.''"
    "r \<noteq> [] \<Longrightarrow> hd r \<noteq> CHR ''e'' \<and> hd r \<noteq> CHR ''E''"
    using r by (cases r; auto simp: ends_num_def is_digit_def)+
  have tw: "takeWhile is_digit (d @ r) = d" "dropWhile is_digit (d @ r) = r"
    using d(2) nd(1) by (cases r; simp add: takeWhile_append2 dropWhile_append2)+
  have sg': "(if has_prefix (l @ r) ''-'' then ''-'' else []) = sg" by (simp add: sg_def dash)
  have dr: "drop (List.length sg) (l @ r) = d @ r" using lsd by simp
  have lz: "\<not> (d = [] \<or> hd d = CHR ''0'' \<and> List.length d > 1)" using d by auto
  have ex: "\<not> (r \<noteq> [] \<and> (hd r = CHR ''e'' \<or> hd r = CHR ''E''))" using nd(3) by blast
  show ?thesis
    unfolding parse_num_def Let_def sg' dr tw if_not_P [OF lz] if_not_P [OF nd(2)] list.size drop_0
      if_not_P [OF ex]
    by (simp add: lsd)
qed

lemma int_lit_head:
  assumes "int_lit l"
  shows "\<exists>c s. l = c # s \<and> (c = CHR ''-'' \<or> is_digit c)"
proof -
  have "l \<noteq> []" using assms by (auto simp: int_lit_def trim_prefix_def Let_def)
  then show ?thesis using assms
    by (cases l) (auto simp: int_lit_def trim_prefix_def Let_def split: if_splits)
qed

lemma print_head:
  "wf_json j \<Longrightarrow> \<exists>c s. print_json j = c # s \<and> \<not> is_ws c \<and> c \<noteq> CHR '']'' \<and> c \<noteq> CHR ''}''"
proof (cases j)
  case (JNum l)
  assume "wf_json j"
  with JNum obtain c s where "l = c # s" "c = CHR ''-'' \<or> is_digit c"
    using int_lit_head [of l] by auto
  then show ?thesis using JNum by (auto simp: is_ws_def is_digit_def)
next
  case (JArr xs)
  then show ?thesis by (cases xs) (auto simp: is_ws_def)
next
  case (JObj ms)
  then show ?thesis by (cases ms) (auto simp: is_ws_def)
qed (auto simp: is_ws_def quote_str_def)

lemma skip_ws_head [simp]: "\<not> is_ws c \<Longrightarrow> skip_ws (c # s) = c # s"
  by (simp add: skip_ws_def)

lemma ws_facts [simp]:
  "\<not> is_ws (CHR 0x22)" "\<not> is_ws (CHR ''['')" "\<not> is_ws (CHR ''{'')" "\<not> is_ws (CHR '']'')"
  "\<not> is_ws (CHR ''}'')" "\<not> is_ws (CHR '','')" "\<not> is_ws (CHR '':'')" "\<not> is_ws (CHR ''t'')"
  "\<not> is_ws (CHR ''f'')" "\<not> is_ws (CHR ''n'')"
  by (simp_all add: is_ws_def)

lemma ends_num_elems [simp]: "ends_num (print_elems xs @ r)"
  by (cases xs) (auto simp: ends_num_def)

lemma ends_num_members [simp]: "ends_num (print_members ms @ r)"
  by (cases ms) (auto simp: ends_num_def)

lemma parse_val_num:
  assumes "int_lit l" "ends_num r"
  shows "parse_val (Suc n) (l @ r) = Some (JNum l, r)"
proof -
  obtain c s where c: "l = c # s" "c = CHR ''-'' \<or> is_digit c"
    using int_lit_head [OF assms(1)] by auto
  then have "\<not> is_ws c" "c \<noteq> CHR 0x22" "c \<noteq> CHR ''[''" "c \<noteq> CHR ''{''" "c \<noteq> CHR ''t''"
      "c \<noteq> CHR ''f''" "c \<noteq> CHR ''n''"
    by (auto simp: is_ws_def is_digit_def)
  with parse_num_lit [OF assms] c show ?thesis by simp
qed

lemma parse_member_print:
  assumes "\<And>r. ends_num r \<Longrightarrow> parse_val n (print_json v @ r) = Some (v, r)" "ends_num r"
  shows "parse_member (Suc n) (quote_str k @ CHR '':'' # print_json v @ r) = Some ((k, v), r)"
  using assms by (simp add: quote_str_def parse_str_concat)

lemma parse_print:
  shows "wf_json j \<Longrightarrow> ends_num r \<Longrightarrow> 2 * List.length (print_json j) < n \<Longrightarrow>
      parse_val n (print_json j @ r) = Some (j, r)"
    and "list_all wf_json xs \<Longrightarrow> 2 * List.length (print_elems xs) < n \<Longrightarrow>
      parse_rest_elems n (print_elems xs @ r) = Some (xs, r)"
    and "list_all (\<lambda>(k, v). wf_json v) ms \<Longrightarrow> 2 * List.length (print_members ms) < n \<Longrightarrow>
      parse_rest_members n (print_members ms @ r) = Some (ms, r)"
proof (induction j and xs and ms arbitrary: n r and n r and n r
    rule: print_json_print_elems_print_members.induct)
  case (3 l)
  then show ?case by (cases n) (simp_all add: parse_val_num del: parse_val.simps)
next
  case (4 s)
  then show ?case by (cases n) (simp_all add: quote_str_def parse_str_concat)
next
  case (6 x xs)
  then obtain m where m: "n = Suc m" "2 * List.length (print_json x) < m" "2 * List.length (print_elems xs) < m"
    by (cases n) auto
  have "parse_val m (print_json x @ print_elems xs @ r) = Some (x, print_elems xs @ r)"
    using 6 m by simp
  moreover obtain c s where "print_json x = c # s" "\<not> is_ws c" "c \<noteq> CHR '']''"
    using print_head [of x] 6 by auto
  ultimately show ?case using 6 m by simp
next
  case (8 k v ms)
  then obtain p where p: "n = Suc p" "2 * List.length (print_json v) + 1 < p" "2 * List.length (print_members ms) < p"
    by (cases n) (auto simp: quote_str_def)
  then obtain m where m: "p = Suc m" "2 * List.length (print_json v) < m" by (cases p) auto
  have "parse_member p (quote_str k @ CHR '':'' # print_json v @ print_members ms @ r) =
      Some ((k, v), print_members ms @ r)"
    unfolding m(1) using 8 m(2) by (intro parse_member_print) auto
  moreover have "\<not> has_prefix (skip_ws (quote_str k @ CHR '':'' # print_json v @ print_members ms @ r)) ''}''"
    by (simp add: quote_str_def)
  ultimately show ?case using 8 p by simp
next
  case (10 x xs)
  then obtain m where m: "n = Suc m" "2 * List.length (print_json x) < m" "2 * List.length (print_elems xs) < m"
    by (cases n) auto
  have "parse_val m (print_json x @ print_elems xs @ r) = Some (x, print_elems xs @ r)"
    using 10 m by simp
  then show ?case using 10 m by simp
next
  case (12 k v ms)
  then obtain p where p: "n = Suc p" "2 * List.length (print_json v) + 1 < p" "2 * List.length (print_members ms) < p"
    by (cases n) (auto simp: quote_str_def)
  then obtain m where m: "p = Suc m" "2 * List.length (print_json v) < m" by (cases p) auto
  have "parse_member p (quote_str k @ CHR '':'' # print_json v @ print_members ms @ r) =
      Some ((k, v), print_members ms @ r)"
    unfolding m(1) using 12 m(2) by (intro parse_member_print) auto
  then show ?case using 12 p by simp
next
  case 1
  then show ?case by (cases n) simp_all
next
  case (2 b)
  then show ?case by (cases n) simp_all
next
  case 5
  then show ?case by (cases n) simp_all
next
  case 7
  then show ?case by (cases n) simp_all
next
  case 9
  then show ?case by (cases n) simp_all
next
  case 11
  then show ?case by (cases n) simp_all
qed

lemma json_roundtrip: "wf_json j \<Longrightarrow> json_depth j \<le> 10000 \<Longrightarrow> parse_json (print_json j) = Some j"
  using parse_print(1) [of j "[]" "Suc (2 * List.length (print_json j))"]
  by (simp add: parse_json_def ends_num_def skip_ws_def)

end
