(* ===== verification/Kube_Types.thy ===== *)
theory Kube_Types
  imports Go_Time_Format Go_Json
begin

text \<open>
  \<open>internal/kube/types.go\<close>: the minimal Kubernetes objects, their predicates and label
  selectors. Label and annotation maps that are only looked up are functions to \<open>option\<close>;
  \<open>MatchLabels\<close>, which the code iterates over, is an association list. A nil pointer is
  \<open>None\<close>.
\<close>

section \<open>Objects\<close>

record owner_reference =
  owner_Kind :: string
  owner_Name :: string

record object_meta =
  Name :: string
  Namespace :: string
  GenerateName :: string
  UID :: string
  ResourceVersion :: string
  Annotations :: "string \<rightharpoonup> string"
  Labels :: "string \<rightharpoonup> string"
  OwnerReferences :: "owner_reference list"
  DeletionTimestamp :: "gtime option"

definition empty_meta :: object_meta where
  "empty_meta = \<lparr> Name = [], Namespace = [], GenerateName = [], UID = [], ResourceVersion = [],
     Annotations = Map.empty, Labels = Map.empty, OwnerReferences = [], DeletionTimestamp = None \<rparr>"

definition Terminating :: "object_meta \<Rightarrow> bool" where
  "Terminating m \<longleftrightarrow> DeletionTimestamp m \<noteq> None"

record node_condition =
  cond_Type :: string
  cond_Status :: string
  LastTransitionTime :: string

record node =
  Metadata :: object_meta
  Unschedulable :: bool
  Conditions :: "node_condition list"
  KernelVersion :: string
  Architecture :: string

definition Ready :: "node \<Rightarrow> bool" where
  "Ready n = (case find (\<lambda>c. cond_Type c = ''Ready'') (Conditions n) of
     None \<Rightarrow> False | Some c \<Rightarrow> cond_Status c = ''True'')"

definition IsControlPlane :: "node \<Rightarrow> bool" where
  "IsControlPlane n \<longleftrightarrow> Labels (Metadata n) ''node-role.kubernetes.io/control-plane'' \<noteq> None"

record pod =
  pod_Metadata :: object_meta
  NodeName :: string
  TerminationGracePeriodSeconds :: int
  Phase :: string

definition Running :: "pod \<Rightarrow> bool" where
  "Running p \<longleftrightarrow> Phase p = ''Running''"

section \<open>Label selectors\<close>

record selector_req =
  Key :: string
  Operator :: string
  Values :: "string list"

record label_selector =
  MatchLabels :: "(string \<times> string) list"
  MatchExpressions :: "selector_req list"

record pod_disruption_budget =
  pdb_Metadata :: object_meta
  Selector :: "label_selector option"
  DisruptionsAllowed :: int

text \<open>\<open>None\<close> is the run-time panic of indexing an empty \<open>Values\<close>.\<close>

definition matchRequirement :: "selector_req \<Rightarrow> (string \<rightharpoonup> string) \<Rightarrow> bool option" where
  "matchRequirement r labels =
     (let v = lookup_or [] labels (Key r); present = (labels (Key r) \<noteq> None) in
      if Operator r = ''In'' then Some (present \<and> v \<in> set (Values r))
      else if Operator r = ''NotIn'' then Some (\<not> present \<or> v \<notin> set (Values r))
      else if Operator r = ''Exists'' then Some present
      else if Operator r = ''DoesNotExist'' then Some (\<not> present)
      else if Operator r = ''NotEquals'' then
        (case Values r of [] \<Rightarrow> None | w # _ \<Rightarrow> Some (v \<noteq> w))
      else (case Values r of [] \<Rightarrow> Some False | w # _ \<Rightarrow> Some (present \<and> v = w)))"

fun match_all :: "selector_req list \<Rightarrow> (string \<rightharpoonup> string) \<Rightarrow> bool option" where
  "match_all [] labels = Some True"
| "match_all (r # rs) labels =
     (case matchRequirement r labels of
        None \<Rightarrow> None
      | Some False \<Rightarrow> Some False
      | Some True \<Rightarrow> match_all rs labels)"

definition Matches :: "label_selector option \<Rightarrow> (string \<rightharpoonup> string) \<Rightarrow> bool option" where
  "Matches sel labels =
     (case sel of
        None \<Rightarrow> Some True
      | Some s \<Rightarrow>
          if list_ex (\<lambda>(k, v). lookup_or [] labels k \<noteq> v) (MatchLabels s) then Some False
          else match_all (MatchExpressions s) labels)"

text \<open>What the selector language means, requirement by requirement, and that a selector is the
  conjunction of its requirements whenever none of them indexes an empty list.\<close>

definition req_safe :: "selector_req \<Rightarrow> bool" where
  "req_safe r \<longleftrightarrow> Operator r = ''NotEquals'' \<longrightarrow> Values r \<noteq> []"

lemma matchRequirement_safe: "matchRequirement r labels \<noteq> None \<longleftrightarrow> req_safe r"
  by (auto simp: matchRequirement_def req_safe_def Let_def split: list.splits)

lemma match_all_safe:
  "list_all req_safe rs \<Longrightarrow> match_all rs labels = Some (list_all (\<lambda>r. matchRequirement r labels = Some True) rs)"
proof (induction rs)
  case (Cons r rs)
  then obtain b where "matchRequirement r labels = Some b"
    using matchRequirement_safe [of r labels] by auto
  with Cons show ?case by (cases b) simp_all
qed simp

lemma Matches_conj:
  assumes "list_all req_safe (MatchExpressions s)"
  shows "Matches (Some s) labels = Some
    (list_all (\<lambda>(k, v). lookup_or [] labels k = v) (MatchLabels s) \<and>
     list_all (\<lambda>r. matchRequirement r labels = Some True) (MatchExpressions s))"
  using match_all_safe [OF assms, of labels]
  by (auto simp: Matches_def list_all_iff list_ex_iff split_beta)

text \<open>Where the code panics: \<open>NotEquals\<close> without values.\<close>

lemma Matches_panics:
  "Matches (Some \<lparr> MatchLabels = [], MatchExpressions = [\<lparr> Key = ''a'', Operator = ''NotEquals'', Values = [] \<rparr>] \<rparr>)
    labels = None"
  by (simp add: Matches_def matchRequirement_def)

text \<open>A required empty label value is met by a pod without the label.\<close>

lemma Matches_empty_value:
  "Matches (Some \<lparr> MatchLabels = [(''a'', [])], MatchExpressions = [] \<rparr>) Map.empty = Some True"
  by (simp add: Matches_def lookup_or_def)

section \<open>Leases, ConfigMaps and events\<close>

record lease =
  lease_Metadata :: object_meta
  HolderIdentity :: string
  RenewTime :: "gtime option"

record config_map =
  cm_Metadata :: object_meta
  Data :: "(string \<times> string) list"

record event =
  event_Namespace :: string
  event_GenerateName :: string
  InvolvedName :: string
  InvolvedUID :: string
  Reason :: string
  Message :: string
  Component :: string
  event_Type :: string
  FirstTimestamp :: gtime
  LastTimestamp :: gtime
  Count :: int

section \<open>Times on the wire\<close>

text \<open>\<open>MicroTime\<close> is written with six fractional digits; both time types read anything
  RFC 3339, the empty string and \<open>null\<close>. The zero time is written as \<open>null\<close>.\<close>

definition six_digits :: "int \<Rightarrow> string" where
  "six_digits n = two_digits (n div 10000) @ two_digits (n div 100 mod 100) @ two_digits (n mod 100)"

definition format_micro :: "gtime \<Rightarrow> string" where
  "format_micro t = butlast (format_rfc3339 t) @ ''.'' @ six_digits (t mod second div 1000) @ ''Z''"

definition MicroTime_MarshalJSON :: "gtime \<Rightarrow> string" where
  "MicroTime_MarshalJSON t =
     (if t = zero_time then ''null'' else [CHR 0x22] @ format_micro t @ [CHR 0x22])"

definition Time_MarshalJSON :: "gtime \<Rightarrow> string" where
  "Time_MarshalJSON t =
     (if t = zero_time then ''null'' else [CHR 0x22] @ format_rfc3339 t @ [CHR 0x22])"

definition unquote_time :: "string \<Rightarrow> string" where
  "unquote_time b =
     (if List.length b \<ge> 2 \<and> hd b = CHR 0x22 \<and> last b = CHR 0x22 then butlast (tl b) else b)"

definition Time_UnmarshalJSON :: "string \<Rightarrow> gtime option" where
  "Time_UnmarshalJSON b =
     (let s = unquote_time b in if s = ''null'' \<or> s = [] then Some zero_time else parse_rfc3339 s)"

definition MicroTime_UnmarshalJSON :: "string \<Rightarrow> gtime option" where
  "MicroTime_UnmarshalJSON b =
     (let s = unquote_time b in if s = ''null'' \<or> s = [] then Some zero_time else parse_rfc3339 s)"

lemma getnum_six_digits:
  assumes "0 \<le> n" "n < 1000000"
  shows "list_all is_digit (six_digits n) \<and> List.length (six_digits n) = 6 \<and> digits_val (six_digits n) = n"
proof -
  have b: "0 \<le> n div 10000" "n div 10000 \<le> 99" "0 \<le> n div 100 mod 100" "n div 100 mod 100 \<le> 99"
    "0 \<le> n mod 100" "n mod 100 \<le> 99"
    using assms pos_mod_bound [of 100 n] pos_mod_bound [of 100 "n div 100"]
    by (simp_all add: pos_imp_zdiv_nonneg_iff)
  have two: "list_all is_digit (two_digits k)" "digits_val (xs @ two_digits k) = 100 * digits_val xs + k"
    if "0 \<le> k" "k \<le> 99" for k xs
  proof -
    have k: "0 \<le> k div 10" "k div 10 \<le> 9" "0 \<le> k mod 10" "k mod 10 \<le> 9"
      using that pos_mod_bound [of 10 k] by (simp_all add: pos_imp_zdiv_nonneg_iff)
    then show "list_all is_digit (two_digits k)" by (simp add: two_digits_def)
    show "digits_val (xs @ two_digits k) = 100 * digits_val xs + k"
      using k div_mult_mod_eq [of k 10] digits_val_snoc [of "xs @ [digit_char (k div 10)]" "digit_char (k mod 10)"]
      by (simp add: two_digits_def algebra_simps)
  qed
  have "digits_val (six_digits n) = 100 * (100 * (n div 10000) + n div 100 mod 100) + n mod 100"
    using two(2) [OF b(1,2), of "[]"] two(2) [OF b(3,4), of "two_digits (n div 10000)"]
      two(2) [OF b(5,6), of "two_digits (n div 10000) @ two_digits (n div 100 mod 100)"]
    by (simp add: six_digits_def)
  also have "\<dots> = n"
    using div_mult_mod_eq [of n 100] div_mult_mod_eq [of "n div 100" 100]
      zdiv_zmult2_eq [of 100 n 100] by simp
  finally have "digits_val (six_digits n) = n" .
  moreover have "List.length (two_digits k) = 2" for k by (simp add: two_digits_def)
  ultimately show ?thesis
    by (simp add: six_digits_def two(1) [OF b(1,2)] two(1) [OF b(3,4)] two(1) [OF b(5,6)])
qed

lemma getfrac_six:
  assumes "list_all is_digit ds" "List.length ds = 6" "r = [] \<or> \<not> is_digit (hd r)"
  shows "getfrac (''.'' @ ds @ r) = (digits_val ds * 1000, r)"
proof -
  obtain d ds' where d: "ds = d # ds'" using assms(2) by (cases ds) auto
  have "takeWhile is_digit (ds @ r) = ds" "dropWhile is_digit (ds @ r) = r"
    using assms(1,3) by (cases r; simp add: takeWhile_append2 dropWhile_append2 list_all_iff)+
  with assms(1,2) d show ?thesis by (simp add: getfrac_def)
qed

text \<open>A lease's renew time survives the wire up to the microsecond, for every instant of the years 0 to 9999.\<close>

theorem microtime_roundtrip:
  assumes "0 \<le> civil_year (day_of t)" "civil_year (day_of t) \<le> 9999"
  shows "MicroTime_UnmarshalJSON (MicroTime_MarshalJSON t) = Some (t - t mod 1000)"
proof (cases "t = zero_time")
  case True
  then show ?thesis by (simp add: MicroTime_MarshalJSON_def MicroTime_UnmarshalJSON_def unquote_time_def zero_time_def)
next
  case False
  have m: "1 \<le> civil_month (day_of t)" "civil_month (day_of t) \<le> 12"
    using civil_month_bounds by auto
  have d: "1 \<le> civil_day (day_of t)" "civil_day (day_of t) \<le> 31"
    "civil_day (day_of t) \<le> days_in (civil_year (day_of t)) (civil_month (day_of t))"
    using civil_day_bounds civil_day_le_31 by auto
  have h: "0 \<le> hour_of t" "hour_of t \<le> 23" using hour_of_bounds by auto
  have mi: "0 \<le> minute_of t" "minute_of t \<le> 59" using minute_of_bounds by auto
  have s: "0 \<le> second_of t" "second_of t \<le> 59" using second_of_bounds by auto
  have td: "time_date (civil_year (day_of t)) (civil_month (day_of t)) (civil_day (day_of t))
      (hour_of t) (minute_of t) (second_of t) = t - t mod second"
    using time_split [of t] by (simp add: time_date_def)
  let ?k = "t mod second div 1000"
  have k: "0 \<le> ?k" "?k < 1000000"
    using pos_mod_bound [of second t] pos_mod_sign [of second t] by (simp_all add: pos_imp_zdiv_nonneg_iff)
  note six = getnum_six_digits [OF k]
  have "t mod second = ?k * 1000 + t mod second mod 1000" by simp
  moreover have "t mod second mod 1000 = t mod 1000" by (rule mod_mod_cancel) simp
  ultimately have kt: "t - t mod second + ?k * 1000 = t - t mod 1000" by linarith
  let ?base = "butlast (format_rfc3339 t)"
  have fr: "getfrac (''.'' @ six_digits ?k @ ''Z'') = (?k * 1000, ''Z'')"
    using six by (subst getfrac_six) simp_all
  have "parse_rfc3339 (format_micro t) = Some (t - t mod second + ?k * 1000)"
    using assms m d h mi s td fr
    by (simp add: parse_rfc3339_def format_micro_def format_rfc3339_def format_year_def expect_def
        getzone_def Let_def butlast_append)
  moreover have "unquote_time ([CHR 0x22] @ format_micro t @ [CHR 0x22]) = format_micro t"
    by (simp add: unquote_time_def butlast_append)
  moreover have "format_micro t \<noteq> ''null''" "format_micro t \<noteq> []"
    using six by (auto simp: format_micro_def dest: arg_cong [where f = last])
  ultimately show ?thesis using False kt
    by (simp add: MicroTime_UnmarshalJSON_def MicroTime_MarshalJSON_def)
qed

theorem microtime_roundtrip_witness:
  "MicroTime_UnmarshalJSON (MicroTime_MarshalJSON 1700000000123456789) = Some 1700000000123456000"
proof -
  have "0 \<le> civil_year (day_of 1700000000123456789)" "civil_year (day_of 1700000000123456789) \<le> 9999"
    by code_simp+
  note microtime_roundtrip [OF this]
  then show ?thesis by simp
qed

end
