(* ===== verification/Release_Check.thy ===== *)
theory Release_Check
  imports Staging Kube_Types
begin

text \<open>
  The release check: fetching the index of checksums and its detached signature (\<open>index.go\<close>),
  keyrings and verification (\<open>gpg.go\<close>, \<open>localcli.go\<close>), and the check of the update feature
  (\<open>features/update/check.go\<close>). The HTTP exchange, the files of the keyrings and the OpenPGP
  library are parameters (\<open>release_host\<close>). Proved: a check that succeeds rests on an index whose
  signature the library has accepted, expiry apart, and reports the newest kernel in it.
\<close>

section \<open>The host\<close>

text \<open>\<open>HttpReply\<close>: the status and the body, \<open>None\<close> when reading it fails. An entity of a keyring is
  opaque. The verdicts of \<open>CheckDetachedSignature\<close> are those the code tells apart.\<close>

datatype http_reply = HttpFailed | HttpReply int "string option"

datatype signature_verdict = SigGood | SigKeyExpired | SigExpired | SigBad

record 'w release_host =
  rh_get :: "string \<Rightarrow> ('w, http_reply) state"
  rh_exists :: "string \<Rightarrow> ('w, bool) state"
  rh_read :: "string \<Rightarrow> ('w, string option) state"
  rh_rewind :: "string \<Rightarrow> ('w, bool) state"
  rh_armored :: "string \<Rightarrow> string list option"
  rh_binary :: "string \<Rightarrow> string list option"
  rh_dearmor :: "string \<Rightarrow> string option"
  rh_check :: "string list \<Rightarrow> string \<Rightarrow> string \<Rightarrow> signature_verdict"

datatype release_error =
    NoRepoURL
  | UnresolvedFlavor
  | HttpError string
  | HttpStatus int string
  | NoKeyring
  | KeyringUnreadable string
  | KeyringEmpty
  | SignatureRejected
  | IndexUnparsable
  | IndexRejected release_error

abbreviation IndexFile :: string where "IndexFile \<equiv> ''SHA256SUMS''"
abbreviation IndexSignature :: string where "IndexSignature \<equiv> ''SHA256SUMS.gpg''"
abbreviation maxIndexBytes :: int where "maxIndexBytes \<equiv> 8388608"

section \<open>Fetching\<close>

definition httpGet :: "'w release_host \<Rightarrow> string \<Rightarrow> ('w, release_error + string) state" where
  "httpGet host url = do {
     r \<leftarrow> rh_get host url;
     State_Monad.return (case r of
         HttpFailed \<Rightarrow> Inl (HttpError url)
       | HttpReply code body \<Rightarrow>
           if code \<noteq> 200 then Inl (HttpStatus code url)
           else (case body of None \<Rightarrow> Inl (HttpError url) | Some b \<Rightarrow> Inr (limit_reader maxIndexBytes b))) }"

definition fetch_index :: "'w release_host \<Rightarrow> string \<Rightarrow> ('w, release_error + string \<times> string) state" where
  "fetch_index host url =
     (let base = trim_suffix url ''/''
      in or_fail (httpGet host (base @ ''/'' @ IndexFile)) (\<lambda>indexBytes.
         or_fail (httpGet host (base @ ''/'' @ IndexSignature)) (\<lambda>sigBytes.
         State_Monad.return (Inr (indexBytes, sigBytes)))))"

section \<open>Keyrings and signatures\<close>

definition ResolveKeyring :: "'w release_host \<Rightarrow> string \<Rightarrow> string \<Rightarrow> ('w, release_error + string) state" where
  "ResolveKeyring host custom embedded = do {
     c \<leftarrow> rh_exists host custom;
     if c then State_Monad.return (Inr custom)
     else do {
       e \<leftarrow> rh_exists host embedded;
       State_Monad.return (if e then Inr embedded else Inl NoKeyring) } }"

definition nonempty_keyring :: "string list \<Rightarrow> release_error + string list" where
  "nonempty_keyring el = (if el = [] then Inl KeyringEmpty else Inr el)"

definition LoadKeyring :: "'w release_host \<Rightarrow> string \<Rightarrow> ('w, release_error + string list) state" where
  "LoadKeyring host path = do {
     r \<leftarrow> rh_read host path;
     case r of
       None \<Rightarrow> State_Monad.return (Inl (KeyringUnreadable path))
     | Some b \<Rightarrow>
         (case rh_armored host b of
            Some el \<Rightarrow> State_Monad.return (nonempty_keyring el)
          | None \<Rightarrow> do {
              again \<leftarrow> rh_rewind host path;
              State_Monad.return (if \<not> again then Inl (KeyringUnreadable path)
                else (case rh_binary host b of
                        None \<Rightarrow> Inl (KeyringUnreadable path)
                      | Some el \<Rightarrow> nonempty_keyring el)) }) }"

definition LoadKeyringBytes :: "'w release_host \<Rightarrow> string \<Rightarrow> release_error + string list" where
  "LoadKeyringBytes host b =
     (case rh_armored host b of
        Some el \<Rightarrow> nonempty_keyring el
      | None \<Rightarrow>
          (case rh_binary host b of
             Some el \<Rightarrow> nonempty_keyring el
           | None \<Rightarrow> Inl (KeyringUnreadable [])))"

definition detachedSignatureReader :: "'w release_host \<Rightarrow> string \<Rightarrow> string" where
  "detachedSignatureReader host b = (case rh_dearmor host b of Some body \<Rightarrow> body | None \<Rightarrow> b)"

text \<open>Expiry, of the key or of the signature, is not an error.\<close>

definition VerifyIndex :: "'w release_host \<Rightarrow> string list \<Rightarrow> string \<Rightarrow> string \<Rightarrow> release_error + unit" where
  "VerifyIndex host keyring index signature =
     (case rh_check host keyring index (detachedSignatureReader host signature) of
        SigGood \<Rightarrow> Inr ()
      | SigKeyExpired \<Rightarrow> Inr ()
      | SigExpired \<Rightarrow> Inr ()
      | SigBad \<Rightarrow> Inl SignatureRejected)"

definition parsed_index :: "string \<Rightarrow> release_error + (string \<times> string) list" where
  "parsed_index b = (case ParseIndex b of None \<Rightarrow> Inl IndexUnparsable | Some sums \<Rightarrow> Inr sums)"

text \<open>\<open>FetchVerifiedIndex\<close> of the command-line tool: the key path \<open>/dev/null\<close> switches the verification
  off, and every later failure is wrapped in \<open>ErrIndexRejected\<close>.\<close>

definition rejected :: "release_error + 'a \<Rightarrow> release_error + 'a" where
  "rejected r = (case r of Inl e \<Rightarrow> Inl (IndexRejected e) | Inr x \<Rightarrow> Inr x)"

definition FetchVerifiedIndex ::
  "'w release_host \<Rightarrow> string \<Rightarrow> string \<Rightarrow> string \<Rightarrow> ('w, release_error + (string \<times> string) list) state" where
  "FetchVerifiedIndex host baseURL keyringPath embedded =
     or_fail (fetch_index host baseURL) (\<lambda>(indexBytes, sigBytes).
       if keyringPath = ''/dev/null'' then State_Monad.return (rejected (parsed_index indexBytes))
       else do {
         r \<leftarrow> (if keyringPath \<noteq> [] then LoadKeyring host keyringPath
               else State_Monad.return (LoadKeyringBytes host embedded));
         State_Monad.return (rejected (case r of
             Inl e \<Rightarrow> Inl e
           | Inr el \<Rightarrow> (case VerifyIndex host el indexBytes sigBytes of
                          Inl e \<Rightarrow> Inl e | Inr _ \<Rightarrow> parsed_index indexBytes))) })"

section \<open>The check of the update feature\<close>

record check_result =
  cr_URL :: string
  cr_Arch :: string
  cr_Latest :: string
  cr_Running :: string
  cr_Available :: bool
  cr_Artifact :: string
  cr_Checksum :: string
  cr_Sums :: "(string \<times> string) list"

definition newer_kernel :: "string \<Rightarrow> string \<Rightarrow> string \<times> string \<Rightarrow> string" where
  "newer_kernel arch latest entry =
     (case ParseKernelRelease (fst entry) of
        None \<Rightarrow> latest
      | Some (ts, fileArch) \<Rightarrow>
          if fileArch \<noteq> arch then latest
          else if latest = [] \<or> NewerTS ts latest then ts else latest)"

definition check_of :: "string \<Rightarrow> node \<Rightarrow> string \<Rightarrow> (string \<times> string) list \<Rightarrow> check_result" where
  "check_of repoURL nd flavor sums =
     (let latest = foldl (newer_kernel flavor) [] sums;
          running = RunningVersion (KernelVersion nd);
          artifact = ArtifactFileName latest flavor
      in \<lparr> cr_URL = repoURL, cr_Arch = flavor, cr_Latest = latest, cr_Running = running,
           cr_Available = (latest \<noteq> [] \<and> (running = [] \<or> NewerTS latest running)),
           cr_Artifact = (if latest \<noteq> [] then artifact else []),
           cr_Checksum = (if latest \<noteq> [] then lookup_or [] (map_of sums) artifact else []),
           cr_Sums = sums \<rparr>)"

definition Check ::
  "'w release_host \<Rightarrow> string \<Rightarrow> string \<Rightarrow> node \<Rightarrow> string \<Rightarrow> string \<Rightarrow> ('w, release_error + check_result) state" where
  "Check host custom embedded nd repoURL flavor =
     (if repoURL = [] then State_Monad.return (Inl NoRepoURL)
      else if flavor = [] then State_Monad.return (Inl UnresolvedFlavor)
      else or_fail (fetch_index host repoURL) (\<lambda>(indexBytes, sigBytes).
        or_fail (ResolveKeyring host custom embedded) (\<lambda>path.
        or_fail (LoadKeyring host path) (\<lambda>keyring.
        State_Monad.return (case VerifyIndex host keyring indexBytes sigBytes of
            Inl e \<Rightarrow> Inl e
          | Inr _ \<Rightarrow>
              (case parsed_index indexBytes of
                 Inl e \<Rightarrow> Inl e
               | Inr sums \<Rightarrow> Inr (check_of repoURL nd flavor sums)))))))"

section \<open>The newest kernel\<close>

text \<open>The check and the command-line tool choose alike.\<close>

lemma newer_kernel_fold:
  "foldl (newer_kernel fl) [] sums = (case FilterIndexByFlavor sums fl of None \<Rightarrow> [] | Some r \<Rightarrow> TS r)"
proof -
  have "foldl (newer_kernel fl) [] sums =
    (case foldl (newer_entry ParseKernelRelease fl) None sums of None \<Rightarrow> [] | Some (ts, _) \<Rightarrow> ts)"
  proof (induction sums rule: rev_induct)
    case (snoc e sums)
    obtain f s where e: "e = (f, s)" by (cases e)
    have ne: "ts \<noteq> []" if "foldl (newer_entry ParseKernelRelease fl) None sums = Some (ts, r)" for ts r
      using newer_entry_fold [where parse = ParseKernelRelease and arch = fl and sums = sums] that
      by (auto simp: newest_in_def parse_release_iff wf_ts_def split: prod.splits)
    show ?case using snoc ne
      by (auto simp: e newer_kernel_def newer_entry_pair split: option.splits prod.splits)
  qed simp
  then show ?thesis by (auto simp: FilterIndexByFlavor_def split: option.splits)
qed

definition newest_kernel :: "string \<Rightarrow> (string \<times> string) list \<Rightarrow> string \<Rightarrow> bool" where
  "newest_kernel fl sums ts \<longleftrightarrow>
     (if ts = [] then \<forall>(f, s)\<in>set sums. \<forall>t. ParseKernelRelease f \<noteq> Some (t, fl)
      else \<exists>(f, s)\<in>set sums. newest_in ParseKernelRelease fl sums (ts, f, s))"

lemma newest_kernel_fold: "newest_kernel fl sums (foldl (newer_kernel fl) [] sums)"
proof (cases "foldl (newer_entry ParseKernelRelease fl) None sums")
  case None
  then show ?thesis
    using newer_entry_fold [where parse = ParseKernelRelease and arch = fl and sums = sums]
    by (auto simp: newest_kernel_def newer_kernel_fold FilterIndexByFlavor_def)
next
  case (Some best)
  obtain ts f c where best: "best = (ts, f, c)" by (cases best)
  have n: "newest_in ParseKernelRelease fl sums (ts, f, c)"
    using newer_entry_fold [where parse = ParseKernelRelease and arch = fl and sums = sums] Some best by simp
  then have "(f, c) \<in> set sums" "ts \<noteq> []" by (auto simp: newest_in_iff parse_release_iff wf_ts_def)
  with n Some best show ?thesis
    unfolding newest_kernel_def newer_kernel_fold FilterIndexByFlavor_def by (auto intro: bexI [of _ "(f, c)"])
qed

section \<open>What a check rests on\<close>

text \<open>\<open>trusted\<close>: the library has accepted the signature over these very bytes, up to expiry.\<close>

definition trusted :: "'w release_host \<Rightarrow> string list \<Rightarrow> string \<Rightarrow> string \<Rightarrow> bool" where
  "trusted host keyring index signature \<longleftrightarrow> keyring \<noteq> [] \<and>
     rh_check host keyring index (detachedSignatureReader host signature) \<in> {SigGood, SigKeyExpired, SigExpired}"

lemma verify_trusted: "keyring \<noteq> [] \<Longrightarrow> VerifyIndex host keyring index signature = Inr u \<longleftrightarrow> trusted host keyring index signature"
  by (auto simp: VerifyIndex_def trusted_def split: signature_verdict.splits)

definition served :: "'w release_host \<Rightarrow> string \<Rightarrow> string \<Rightarrow> bool" where
  "served host url b \<longleftrightarrow> (\<exists>w w' body. run_state (rh_get host url) w = (HttpReply 200 (Some body), w') \<and>
     b = limit_reader maxIndexBytes body)"

lemma httpGet_served: "run_state (httpGet host url) w = (Inr b, w') \<Longrightarrow> served host url b"
  by (auto simp: httpGet_def served_def split: prod.splits http_reply.splits if_splits option.splits)

lemma fetch_served:
  "run_state (fetch_index host url) w = (Inr (i, s), w') \<Longrightarrow>
   served host (trim_suffix url ''/'' @ ''/SHA256SUMS'') i \<and> served host (trim_suffix url ''/'' @ ''/SHA256SUMS.gpg'') s"
  unfolding fetch_index_def Let_def by (auto elim!: or_fail_success dest!: httpGet_served)

lemma nonempty_keyring_iff: "nonempty_keyring el = Inr k \<longleftrightarrow> k = el \<and> el \<noteq> []"
  by (auto simp: nonempty_keyring_def)

lemma load_nonempty: "run_state (LoadKeyring host path) w = (Inr k, w') \<Longrightarrow> k \<noteq> []"
  by (auto simp: LoadKeyring_def nonempty_keyring_iff split: prod.splits option.splits if_splits)

lemma load_bytes_nonempty: "LoadKeyringBytes host b = Inr k \<Longrightarrow> k \<noteq> []"
  by (auto simp: LoadKeyringBytes_def nonempty_keyring_iff split: option.splits)

text \<open>C8: a release check that succeeds rests on the two files the repository has served under the given URL and
  on a non-empty keyring under which the index's signature is good, expiry apart; what it reports is what
  that index says: its checksums, the newest kernel of the node's flavor (none only if there is none), and
  that a release is available exactly if this kernel is newer than the one running.\<close>

theorem check_verified:
  assumes "run_state (Check host custom embedded nd url flavor) w = (Inr res, w')"
  shows "\<exists>index signature keyring.
    served host (trim_suffix url ''/'' @ ''/SHA256SUMS'') index \<and>
    served host (trim_suffix url ''/'' @ ''/SHA256SUMS.gpg'') signature \<and>
    trusted host keyring index signature \<and> ParseIndex index = Some (cr_Sums res) \<and>
    newest_kernel flavor (cr_Sums res) (cr_Latest res) \<and>
    (cr_Available res \<longleftrightarrow> cr_Latest res \<noteq> [] \<and>
       (RunningVersion (KernelVersion nd) = [] \<or> NewerTS (cr_Latest res) (RunningVersion (KernelVersion nd))))"
proof -
  from assms have u: "url \<noteq> []" "flavor \<noteq> []" by (auto simp: Check_def split: if_splits)
  note run = assms [unfolded Check_def if_not_P [OF u(1)] if_not_P [OF u(2)]]
  from run obtain p w1 where f: "run_state (fetch_index host url) w = (Inr p, w1)"
    and r1: "run_state (case p of (indexBytes, sigBytes) \<Rightarrow>
        or_fail (ResolveKeyring host custom embedded) (\<lambda>path. or_fail (LoadKeyring host path) (\<lambda>keyring.
        State_Monad.return (case VerifyIndex host keyring indexBytes sigBytes of
            Inl e \<Rightarrow> Inl e
          | Inr _ \<Rightarrow> (case parsed_index indexBytes of
                 Inl e \<Rightarrow> Inl e | Inr sums \<Rightarrow> Inr (check_of url nd flavor sums)))))) w1 = (Inr res, w')"
    by (rule or_fail_success)
  obtain i s where p: "p = (i, s)" by (cases p)
  from r1 [unfolded p prod.case] obtain path w2 where
    r2: "run_state (or_fail (LoadKeyring host path) (\<lambda>keyring.
        State_Monad.return (case VerifyIndex host keyring i s of
            Inl e \<Rightarrow> Inl e
          | Inr _ \<Rightarrow> (case parsed_index i of
                 Inl e \<Rightarrow> Inl e | Inr sums \<Rightarrow> Inr (check_of url nd flavor sums))))) w2 = (Inr res, w')"
    by (rule or_fail_success)
  from r2 obtain k w3 where k: "run_state (LoadKeyring host path) w2 = (Inr k, w3)"
    and r3: "(case VerifyIndex host k i s of Inl e \<Rightarrow> Inl e
          | Inr _ \<Rightarrow> (case parsed_index i of
                 Inl e \<Rightarrow> Inl e | Inr sums \<Rightarrow> Inr (check_of url nd flavor sums))) = Inr res"
    by (rule or_fail_success) simp
  from r3 obtain sums where "VerifyIndex host k i s = Inr ()" and sums: "ParseIndex i = Some sums"
    and res: "res = check_of url nd flavor sums"
    by (auto simp: parsed_index_def split: sum.splits option.splits)
  then have "trusted host k i s" using load_nonempty [OF k] by (simp add: verify_trusted)
  moreover have "newest_kernel flavor (cr_Sums res) (cr_Latest res)"
    using newest_kernel_fold by (simp add: res check_of_def Let_def)
  ultimately show ?thesis
    using fetch_served [OF f [unfolded p]] sums by (auto simp: res check_of_def Let_def)
qed

lemma fetch_verified:
  assumes "run_state (FetchVerifiedIndex host url keyringPath embedded) w = (Inr sums, w')" "keyringPath \<noteq> ''/dev/null''"
  shows "\<exists>index signature keyring. trusted host keyring index signature \<and> ParseIndex index = Some sums \<and>
    served host (trim_suffix url ''/'' @ ''/SHA256SUMS'') index"
proof -
  from assms(1) obtain p w1 where f: "run_state (fetch_index host url) w = (Inr p, w1)"
    and r: "run_state (case p of (i, s) \<Rightarrow>
       if keyringPath = ''/dev/null'' then State_Monad.return (rejected (parsed_index i))
       else do {
         r \<leftarrow> (if keyringPath \<noteq> [] then LoadKeyring host keyringPath
               else State_Monad.return (LoadKeyringBytes host embedded));
         State_Monad.return (rejected (case r of
             Inl e \<Rightarrow> Inl e
           | Inr el \<Rightarrow> (case VerifyIndex host el i s of Inl e \<Rightarrow> Inl e | Inr _ \<Rightarrow> parsed_index i))) }) w1 = (Inr sums, w')"
    unfolding FetchVerifiedIndex_def by (rule or_fail_success)
  obtain i s where p: "p = (i, s)" by (cases p)
  from r obtain k where "k \<noteq> []" "VerifyIndex host k i s = Inr ()" "parsed_index i = Inr sums"
    using assms(2)
    by (auto simp: p rejected_def split: prod.splits sum.splits if_splits dest!: load_nonempty load_bytes_nonempty)
  then show ?thesis
    using fetch_served [OF f [unfolded p]]
    by (auto simp: verify_trusted parsed_index_def split: option.splits)
qed

text \<open>A repository that signs with an expired key.\<close>

definition sample_sums :: "(string \<times> string) list" where
  "sample_sums = [(''simplek8s.202608291203.x86-64.efi.zst'', replicate 64 CHR ''a''),
     (''simplek8s.202609291203.rpi4.efi.zst'', replicate 64 CHR ''b'')]"

definition sample_host :: "unit release_host" where
  "sample_host =
     \<lparr> rh_get = (\<lambda>url. State_Monad.return (if url = ''https://r/SHA256SUMS'' then HttpReply 200 (Some (index_text sample_sums))
         else if url = ''https://r/SHA256SUMS.gpg'' then HttpReply 200 (Some ''sig'') else HttpReply 404 (Some []))),
       rh_exists = (\<lambda>p. State_Monad.return (p = ''/etc/simplek8s/pubring.gpg'')),
       rh_read = (\<lambda>p. State_Monad.return (Some ''ring'')), rh_rewind = (\<lambda>p. State_Monad.return True),
       rh_armored = (\<lambda>b. None), rh_binary = (\<lambda>b. Some [''key'']), rh_dearmor = (\<lambda>b. None),
       rh_check = (\<lambda>ks i s. if s = ''sig'' then SigKeyExpired else SigBad) \<rparr>"

definition sample_node :: node where
  "sample_node = \<lparr> Metadata = empty_meta, Unschedulable = False, Conditions = [],
     KernelVersion = ''6.1-simplek8s-202601010000'', Architecture = ''amd64'' \<rparr>"

lemma sample_index: "ParseIndex (index_text sample_sums) = Some sample_sums"
  by (rule index_reads_back)
    (simp_all add: sample_sums_def index_entry_def is_hex_def to_lower_def lower_char_def list_all_iff map_replicate_const)

lemma sample_short: "limit_reader maxIndexBytes (index_text sample_sums) = index_text sample_sums"
  by (simp add: limit_reader_def index_text_def sample_sums_def)

lemma release_sample_run: "run_state (Check sample_host ''/c'' ''/etc/simplek8s/pubring.gpg'' sample_node ''https://r/'' ''x86-64'') () =
  (Inr (check_of ''https://r/'' sample_node ''x86-64'' sample_sums), ())"
proof -
  have t: "trim_suffix ''https://r/'' ''/'' = ''https://r''" by code_simp
  have f: "run_state (fetch_index sample_host ''https://r/'') () = (Inr (index_text sample_sums, ''sig''), ())"
    unfolding fetch_index_def t Let_def
    by (simp add: run_or_fail httpGet_def sample_host_def sample_short) (simp add: limit_reader_def)
  have v: "VerifyIndex sample_host [''key''] (index_text sample_sums) ''sig'' = Inr ()"
    by (simp add: VerifyIndex_def sample_host_def detachedSignatureReader_def)
  have k: "run_state (LoadKeyring sample_host ''/etc/simplek8s/pubring.gpg'') () = (Inr [''key''], ())"
    by (simp add: LoadKeyring_def sample_host_def nonempty_keyring_def)
  have r: "run_state (ResolveKeyring sample_host ''/c'' ''/etc/simplek8s/pubring.gpg'') () = (Inr ''/etc/simplek8s/pubring.gpg'', ())"
    by (simp add: ResolveKeyring_def sample_host_def)
  show ?thesis unfolding Check_def by (simp add: run_or_fail f r k v parsed_index_def sample_index)
qed

theorem check_verified_witness:
  "\<exists>index. trusted sample_host [''key''] index ''sig'' \<and> ParseIndex index = Some sample_sums \<and>
     newest_kernel ''x86-64'' sample_sums (cr_Latest (check_of ''https://r/'' sample_node ''x86-64'' sample_sums))"
proof -
  have "cr_Sums (check_of ''https://r/'' sample_node ''x86-64'' sample_sums) = sample_sums" by (simp add: check_of_def Let_def)
  with check_verified [OF release_sample_run] show ?thesis
    by (auto simp: sample_host_def trusted_def detachedSignatureReader_def split: if_splits)
qed

end
