(* ===== verification/Config.thy ===== *)
theory Config
  imports Cron_Correct Go_Json
begin

text \<open>
  \<open>internal/config\<close>: the feature settings resolved from the flat ConfigMap. \<open>url.Parse\<close> is a
  parameter that gives the scheme and host of a text it accepts. Proved: resolving equals the
  field-by-field reading (a valid value wins, anything else keeps the previous one), and the
  ranges of the settings are an invariant of resolving.
\<close>

record config =
  MaxConcurrentReboots :: int
  OnRebootFailure :: string
  RebootDrainTimeout :: duration
  RebootIssueGrace :: duration
  RebootWindows :: "schedule list"
  RebootWindowGrace :: duration
  UpdateURL :: string
  UpdatePreserve :: int
  UpdateMaxPercentUsage :: int
  UpdateWindows :: "schedule list"
  UpdateWindowGrace :: duration

type_synonym url_parse = "string \<Rightarrow> (string \<times> string) option"

section \<open>Values\<close>

definition parseDuration :: "string \<Rightarrow> duration option" where
  "parseDuration raw =
     (case parse_duration raw of None \<Rightarrow> None | Some d \<Rightarrow> if d \<le> 0 then None else Some d)"

fun parse_schedules :: "string list \<Rightarrow> schedule list option" where
  "parse_schedules [] = Some []"
| "parse_schedules (s # ss) =
     (case Cron.Parse s of
        Inl e \<Rightarrow> None
      | Inr p \<Rightarrow> map_option ((#) p) (parse_schedules ss))"

definition parseScheduleList :: "string \<Rightarrow> schedule list option" where
  "parseScheduleList raw =
     (case unmarshal_strings raw of
        (strs, err) \<Rightarrow> if err then None else parse_schedules (case strs of None \<Rightarrow> [] | Some ss \<Rightarrow> ss))"

definition parseMinInt :: "string \<Rightarrow> int \<Rightarrow> int option" where
  "parseMinInt raw mn = (case atoi raw of None \<Rightarrow> None | Some n \<Rightarrow> if n < mn then None else Some n)"

definition parseRangeInt :: "string \<Rightarrow> int \<Rightarrow> int \<Rightarrow> int option" where
  "parseRangeInt raw mn mx =
     (case atoi raw of None \<Rightarrow> None | Some n \<Rightarrow> if n < mn \<or> n > mx then None else Some n)"

definition parseEnum :: "string \<Rightarrow> string list \<Rightarrow> string option" where
  "parseEnum raw allowed = find (\<lambda>a. raw = a) allowed"

definition parseURL :: "url_parse \<Rightarrow> string \<Rightarrow> string option" where
  "parseURL up raw =
     (case up raw of
        None \<Rightarrow> None
      | Some (scheme, host) \<Rightarrow>
          if host = [] then None
          else if scheme \<noteq> ''http'' \<and> scheme \<noteq> ''https'' then None
          else Some raw)"

section \<open>Resolving\<close>

text \<open>\<open>None\<close> is the panic on a bad built-in default.\<close>

definition Defaults :: "config option" where
  "Defaults =
     (case parseScheduleList (''['' @ [CHR 0x22] @ ''@every 12h'' @ [CHR 0x22] @ '']'') of
        None \<Rightarrow> None
      | Some ws \<Rightarrow> Some
          \<lparr> MaxConcurrentReboots = 1, OnRebootFailure = ''pause'',
            RebootDrainTimeout = 10 * minute, RebootIssueGrace = 15 * minute,
            RebootWindows = [], RebootWindowGrace = 5 * minute,
            UpdateURL = ''https://dl.simplek8s.org/simplek8s/stable'',
            UpdatePreserve = 3, UpdateMaxPercentUsage = 75,
            UpdateWindows = ws, UpdateWindowGrace = 5 * minute \<rparr>)"

datatype config_warning = UnknownKey string | InvalidValue string string

datatype key_result = NoSuchKey | Rejected | Accepted config

definition set_key :: "('v \<Rightarrow> config) \<Rightarrow> 'v option \<Rightarrow> key_result" where
  "set_key f r = (case r of None \<Rightarrow> Rejected | Some v \<Rightarrow> Accepted (f v))"

definition apply_key :: "url_parse \<Rightarrow> config \<Rightarrow> string \<Rightarrow> string \<Rightarrow> key_result" where
  "apply_key up out k raw =
     (if k = ''reboots.max-concurrent'' then
        set_key (\<lambda>v. out\<lparr>MaxConcurrentReboots := v\<rparr>) (parseMinInt raw 0)
      else if k = ''reboots.on-failure'' then
        set_key (\<lambda>v. out\<lparr>OnRebootFailure := v\<rparr>) (parseEnum raw [''pause'', ''continue''])
      else if k = ''reboots.drain-timeout'' then
        set_key (\<lambda>v. out\<lparr>RebootDrainTimeout := v\<rparr>) (parseDuration raw)
      else if k = ''reboots.issue-grace'' then
        set_key (\<lambda>v. out\<lparr>RebootIssueGrace := v\<rparr>) (parseDuration raw)
      else if k = ''reboots.windows'' then
        set_key (\<lambda>v. out\<lparr>RebootWindows := v\<rparr>) (parseScheduleList raw)
      else if k = ''reboots.window-grace'' then
        set_key (\<lambda>v. out\<lparr>RebootWindowGrace := v\<rparr>) (parseDuration raw)
      else if k = ''updates.url'' then
        set_key (\<lambda>v. out\<lparr>UpdateURL := v\<rparr>) (parseURL up raw)
      else if k = ''updates.preserve'' then
        set_key (\<lambda>v. out\<lparr>UpdatePreserve := v\<rparr>) (parseMinInt raw 1)
      else if k = ''updates.max-percent-usage'' then
        set_key (\<lambda>v. out\<lparr>UpdateMaxPercentUsage := v\<rparr>) (parseRangeInt raw 1 100)
      else if k = ''updates.windows'' then
        set_key (\<lambda>v. out\<lparr>UpdateWindows := v\<rparr>) (parseScheduleList raw)
      else if k = ''updates.window-grace'' then
        set_key (\<lambda>v. out\<lparr>UpdateWindowGrace := v\<rparr>) (parseDuration raw)
      else NoSuchKey)"

definition config_step ::
  "url_parse \<Rightarrow> (string \<rightharpoonup> string) \<Rightarrow> string \<Rightarrow> config \<times> config_warning list \<Rightarrow> config \<times> config_warning list" where
  "config_step up data k = (\<lambda>(out, warns).
     (let raw = lookup_or [] data k in
      case apply_key up out k raw of
        NoSuchKey \<Rightarrow> (out, warns @ [UnknownKey k])
      | Rejected \<Rightarrow> (out, warns @ [InvalidValue k raw])
      | Accepted out' \<Rightarrow> (out', warns)))"

definition Parse :: "url_parse \<Rightarrow> config \<Rightarrow> (string \<times> string) list \<Rightarrow> config \<times> config_warning list" where
  "Parse up base data =
     (if data = [] then (base, [])
      else fold (config_step up (map_of data)) (sort (map fst data)) (base, []))"

section \<open>Field by field\<close>

text \<open>The reference: a field takes the value of its key if the key is present and valid.\<close>

definition setting :: "(string \<rightharpoonup> string) \<Rightarrow> string \<Rightarrow> (string \<Rightarrow> 'v option) \<Rightarrow> 'v \<Rightarrow> 'v" where
  "setting data k parse old =
     (case data k of None \<Rightarrow> old | Some raw \<Rightarrow> (case parse raw of None \<Rightarrow> old | Some v \<Rightarrow> v))"

definition resolved :: "url_parse \<Rightarrow> config \<Rightarrow> (string \<rightharpoonup> string) \<Rightarrow> config" where
  "resolved up base data =
     \<lparr> MaxConcurrentReboots = setting data ''reboots.max-concurrent'' (\<lambda>r. parseMinInt r 0) (MaxConcurrentReboots base),
       OnRebootFailure = setting data ''reboots.on-failure'' (\<lambda>r. parseEnum r [''pause'', ''continue'']) (OnRebootFailure base),
       RebootDrainTimeout = setting data ''reboots.drain-timeout'' parseDuration (RebootDrainTimeout base),
       RebootIssueGrace = setting data ''reboots.issue-grace'' parseDuration (RebootIssueGrace base),
       RebootWindows = setting data ''reboots.windows'' parseScheduleList (RebootWindows base),
       RebootWindowGrace = setting data ''reboots.window-grace'' parseDuration (RebootWindowGrace base),
       UpdateURL = setting data ''updates.url'' (parseURL up) (UpdateURL base),
       UpdatePreserve = setting data ''updates.preserve'' (\<lambda>r. parseMinInt r 1) (UpdatePreserve base),
       UpdateMaxPercentUsage = setting data ''updates.max-percent-usage'' (\<lambda>r. parseRangeInt r 1 100) (UpdateMaxPercentUsage base),
       UpdateWindows = setting data ''updates.windows'' parseScheduleList (UpdateWindows base),
       UpdateWindowGrace = setting data ''updates.window-grace'' parseDuration (UpdateWindowGrace base) \<rparr>"

definition key_warning :: "url_parse \<Rightarrow> (string \<rightharpoonup> string) \<Rightarrow> config \<Rightarrow> string \<Rightarrow> config_warning list" where
  "key_warning up data base k =
     (case apply_key up base k (lookup_or [] data k) of
        NoSuchKey \<Rightarrow> [UnknownKey k]
      | Rejected \<Rightarrow> [InvalidValue k (lookup_or [] data k)]
      | Accepted _ \<Rightarrow> [])"

lemma fold_field:
  assumes "\<And>k s. get (step k s) = (if k = K then g (get s) else get s)" "distinct ks"
  shows "get (fold step ks s) = (if K \<in> set ks then g (get s) else get s)"
  using assms(2) by (induction ks arbitrary: s) (auto simp: assms(1))

lemma fst_config_step:
  "fst (config_step up data k s) =
     (case apply_key up (fst s) k (lookup_or [] data k) of Accepted c \<Rightarrow> c | _ \<Rightarrow> fst s)"
  by (auto simp: config_step_def Let_def split: prod.splits key_result.splits)

lemma snd_config_step: "snd (config_step up data k s) = snd s @ key_warning up data (fst s) k"
  by (auto simp: config_step_def key_warning_def Let_def split: prod.splits key_result.splits)

lemma set_key_simps [simp]:
  "(case set_key f r of NoSuchKey \<Rightarrow> a | Rejected \<Rightarrow> b | Accepted c \<Rightarrow> d c) =
   (case r of None \<Rightarrow> b | Some v \<Rightarrow> d (f v))"
  by (cases r) (simp_all add: set_key_def)

text \<open>What a field is after one key: the rules follow the branches of \<open>apply_key\<close>.\<close>

definition field_is :: "(config \<Rightarrow> 'v) \<Rightarrow> config \<Rightarrow> key_result \<Rightarrow> 'v \<Rightarrow> bool" where
  "field_is get out r v \<longleftrightarrow> get (case r of Accepted c \<Rightarrow> c | _ \<Rightarrow> out) = v"

lemma field_is_if:
  "(b \<Longrightarrow> field_is get out x v) \<Longrightarrow> (\<not> b \<Longrightarrow> field_is get out y v) \<Longrightarrow> field_is get out (if b then x else y) v"
  by simp

lemma field_is_set:
  "(case r of None \<Rightarrow> get out | Some x \<Rightarrow> get (f x)) = v \<Longrightarrow> field_is get out (set_key f r) v"
  by (cases r) (simp_all add: field_is_def set_key_def)

lemma field_is_none: "get out = v \<Longrightarrow> field_is get out NoSuchKey v"
  by (simp add: field_is_def)

lemma case_option_same [simp]: "(case r of None \<Rightarrow> x | Some v \<Rightarrow> x) = x"
  by (cases r) simp_all

lemma apply_key_fields:
  fixes out :: config
  shows "field_is MaxConcurrentReboots out (apply_key up out k raw)
      (if k = ''reboots.max-concurrent'' then case_option (MaxConcurrentReboots out) id (parseMinInt raw 0) else MaxConcurrentReboots out)"
    "field_is OnRebootFailure out (apply_key up out k raw)
      (if k = ''reboots.on-failure'' then case_option (OnRebootFailure out) id (parseEnum raw [''pause'', ''continue'']) else OnRebootFailure out)"
    "field_is RebootDrainTimeout out (apply_key up out k raw)
      (if k = ''reboots.drain-timeout'' then case_option (RebootDrainTimeout out) id (parseDuration raw) else RebootDrainTimeout out)"
    "field_is RebootIssueGrace out (apply_key up out k raw)
      (if k = ''reboots.issue-grace'' then case_option (RebootIssueGrace out) id (parseDuration raw) else RebootIssueGrace out)"
    "field_is RebootWindows out (apply_key up out k raw)
      (if k = ''reboots.windows'' then case_option (RebootWindows out) id (parseScheduleList raw) else RebootWindows out)"
    "field_is RebootWindowGrace out (apply_key up out k raw)
      (if k = ''reboots.window-grace'' then case_option (RebootWindowGrace out) id (parseDuration raw) else RebootWindowGrace out)"
    "field_is UpdateURL out (apply_key up out k raw)
      (if k = ''updates.url'' then case_option (UpdateURL out) id (parseURL up raw) else UpdateURL out)"
    "field_is UpdatePreserve out (apply_key up out k raw)
      (if k = ''updates.preserve'' then case_option (UpdatePreserve out) id (parseMinInt raw 1) else UpdatePreserve out)"
    "field_is UpdateMaxPercentUsage out (apply_key up out k raw)
      (if k = ''updates.max-percent-usage'' then case_option (UpdateMaxPercentUsage out) id (parseRangeInt raw 1 100) else UpdateMaxPercentUsage out)"
    "field_is UpdateWindows out (apply_key up out k raw)
      (if k = ''updates.windows'' then case_option (UpdateWindows out) id (parseScheduleList raw) else UpdateWindows out)"
    "field_is UpdateWindowGrace out (apply_key up out k raw)
      (if k = ''updates.window-grace'' then case_option (UpdateWindowGrace out) id (parseDuration raw) else UpdateWindowGrace out)"
  unfolding apply_key_def
  by (intro field_is_if field_is_set field_is_none; simp cong: option.case_cong)+

text \<open>Whether a key is known and its value valid does not depend on the previous settings.\<close>

definition same_kind :: "key_result \<Rightarrow> key_result \<Rightarrow> bool" where
  "same_kind r r' \<longleftrightarrow> (r = NoSuchKey \<longleftrightarrow> r' = NoSuchKey) \<and> (r = Rejected \<longleftrightarrow> r' = Rejected)"

lemma same_kind_if:
  "same_kind x x' \<Longrightarrow> same_kind y y' \<Longrightarrow> same_kind (if b then x else y) (if b then x' else y')"
  by simp

lemma same_kind_set: "same_kind (set_key f r) (set_key g r)"
  by (cases r) (simp_all add: same_kind_def set_key_def)

lemma apply_key_same_kind: "same_kind (apply_key up out k raw) (apply_key up out' k raw)"
  unfolding apply_key_def by (intro same_kind_if same_kind_set) (simp add: same_kind_def)

lemma key_warning_base: "key_warning up data out k = key_warning up data out' k"
  using apply_key_same_kind [of up out k "lookup_or [] data k" out']
  by (auto simp: key_warning_def same_kind_def split: key_result.splits)

lemma fold_warnings:
  "snd (fold (config_step up data) ks s) = snd s @ concat (map (key_warning up data base) ks)"
proof (induction ks arbitrary: s)
  case (Cons k ks)
  then show ?case
    by (simp add: snd_config_step key_warning_base [of up data "fst s" k base])
qed simp

lemma config_step_field:
  assumes "\<And>out k raw. field_is get out (apply_key up out k raw)
    (if k = K then case_option (get out) id (parse raw) else get out)"
  shows "get (fst (config_step up data k s)) =
    (if k = K then case_option (get (fst s)) id (parse (lookup_or [] data K)) else get (fst s))"
  using assms [of "fst s" k "lookup_or [] data k"] by (auto simp: field_is_def fst_config_step)

lemma fold_setting:
  assumes "\<And>out k raw. field_is get out (apply_key up out k raw)
      (if k = K then case_option (get out) id (parse raw) else get out)"
    and "distinct ks" "set ks = dom data"
  shows "get (fst (fold (config_step up data) ks s)) = setting data K parse (get (fst s))"
  using fold_field [of "\<lambda>s. get (fst s)" "config_step up data" K
      "\<lambda>old. case_option old id (parse (lookup_or [] data K))", OF config_step_field [OF assms(1)] assms(2), of s]
    assms(3)
  by (auto simp: setting_def lookup_or_def split: option.splits)

lemma Parse_resolved:
  assumes "distinct (map fst data)"
  shows "Parse up base data =
    (resolved up base (map_of data), concat (map (key_warning up (map_of data) base) (sort (map fst data))))"
proof (cases "data = []")
  case True
  then show ?thesis by (simp add: Parse_def resolved_def setting_def)
next
  case False
  let ?ks = "sort (map fst data)" and ?m = "map_of data"
  have ks: "distinct ?ks" "set ?ks = dom ?m"
    using assms by (simp_all add: dom_map_of_conv_image_fst)
  note fields_of = apply_key_fields [of _ up] and set = fold_setting [OF _ ks, of _ up]
  have "fst (fold (config_step up ?m) ?ks (base, [])) = resolved up base ?m"
    unfolding resolved_def
    by (rule config.equality)
       (simp_all add: set [OF fields_of(1)] set [OF fields_of(2)] set [OF fields_of(3)]
          set [OF fields_of(4)] set [OF fields_of(5)] set [OF fields_of(6)] set [OF fields_of(7)]
          set [OF fields_of(8)] set [OF fields_of(9)] set [OF fields_of(10)] set [OF fields_of(11)])
  then show ?thesis
    using False fold_warnings [of up ?m ?ks "(base, [])" base]
    by (simp add: Parse_def prod_eq_iff)
qed

text \<open>C26: resolving the ConfigMap is reading each setting on its own: the value of its key if that key is present
  and valid, otherwise the previous value; and each key that is unknown or invalid gives one
  warning, in ascending order of the keys.\<close>

theorem config_parse_fieldwise:
  assumes "distinct (map fst data)"
  shows "Parse up base data =
    (resolved up base (map_of data), concat (map (key_warning up (map_of data) base) (sort (map fst data))))"
  using assms by (rule Parse_resolved)

lemma defaults_ok: "Defaults \<noteq> None"
  by code_simp

theorem config_parse_fieldwise_witness:
  "MaxConcurrentReboots (fst (Parse (\<lambda>_. None) (the Defaults)
      [(''updates.url'', ''x''), (''reboots.max-concurrent'', ''2''), (''foo'', ''y'')])) = 2 \<and>
   snd (Parse (\<lambda>_. None) (the Defaults)
      [(''updates.url'', ''x''), (''reboots.max-concurrent'', ''2''), (''foo'', ''y'')]) =
    [UnknownKey ''foo'', InvalidValue ''updates.url'' ''x'']"
proof -
  have d: "distinct (map fst [(''updates.url'', ''x''), (''reboots.max-concurrent'', ''2''), (''foo'', ''y'')])"
    by code_simp
  show ?thesis unfolding config_parse_fieldwise [OF d] by code_simp
qed

section \<open>Ranges\<close>

definition valid_config :: "config \<Rightarrow> bool" where
  "valid_config c \<longleftrightarrow>
     0 \<le> MaxConcurrentReboots c \<and> OnRebootFailure c \<in> {''pause'', ''continue''} \<and>
     0 < RebootDrainTimeout c \<and> 0 < RebootIssueGrace c \<and> 0 < RebootWindowGrace c \<and>
     0 < UpdateWindowGrace c \<and> 1 \<le> UpdatePreserve c \<and>
     1 \<le> UpdateMaxPercentUsage c \<and> UpdateMaxPercentUsage c \<le> 100"

lemma value_ranges:
  "parseMinInt raw mn = Some v \<Longrightarrow> mn \<le> v"
  "parseRangeInt raw lo hi = Some v \<Longrightarrow> lo \<le> v \<and> v \<le> hi"
  "parseDuration raw = Some d \<Longrightarrow> 0 < d"
  "parseEnum raw allowed = Some a \<Longrightarrow> a \<in> set allowed"
  by (auto simp: parseMinInt_def parseRangeInt_def parseDuration_def parseEnum_def find_Some_iff
      split: option.splits if_splits)

lemma apply_key_valid:
  assumes "valid_config out" "apply_key up out k raw = Accepted c"
  shows "valid_config c"
proof -
  have enum: "parseEnum raw [''pause'', ''continue''] = Some a \<Longrightarrow> a = ''pause'' \<or> a = ''continue''" for a
    by (auto dest: value_ranges)
  have set: "set_key f r = Accepted c \<Longrightarrow> \<exists>v. r = Some v \<and> c = f v" for f :: "'v \<Rightarrow> config" and r
    by (cases r) (auto simp: set_key_def)
  show ?thesis
    using assms unfolding apply_key_def
    by (auto simp: valid_config_def split: if_splits dest!: set dest: value_ranges enum)
qed

lemma Parse_keeps_valid:
  assumes "valid_config base"
  shows "valid_config (fst (Parse up base data))"
proof -
  have "valid_config (fst (fold (config_step up m) ks s))" if "valid_config (fst s)" for ks s m
    using that
  proof (induction ks arbitrary: s)
    case (Cons k ks)
    have "valid_config (fst (config_step up m k s))"
      using Cons.prems apply_key_valid [of "fst s"]
      by (auto simp: config_step_def Let_def split: prod.splits key_result.splits)
    from Cons.IH [OF this] show ?case by simp
  qed simp
  then show ?thesis using assms by (simp add: Parse_def)
qed

text \<open>C28: no ConfigMap, however wrong, takes the settings out of their ranges: from valid settings (as the
  built-in ones are), resolving gives valid settings.\<close>

theorem config_parse_valid:
  assumes "valid_config base"
  shows "valid_config (fst (Parse up base data))"
  using assms by (rule Parse_keeps_valid)

theorem config_parse_valid_witness:
  "valid_config (fst (Parse (\<lambda>_. None) (the Defaults) [(''updates.preserve'', ''0'')]))"
proof (rule config_parse_valid)
  show "valid_config (the Defaults)" by code_simp
qed
end
