(* ===== verification/Node_State.thy ===== *)
theory Node_State
  imports Kube_Types
begin

text \<open>
  \<open>internal/nodestate\<close>: the reboot lifecycle and update annotations of a node, how they are
  read (a corrupt annotation renders as absent fields and a parse error), how they are written,
  the merge patches that change them and the build functions that decide, on a freshly read
  node, whether a change still applies. Proved: what is written is read back, the shared status
  annotation keeps the fields its writer does not name, and the guards of the build functions.

  A patch is the record of the three parts the code's patches have: the resource version, the
  annotations set (\<open>Some\<close>) or deleted (\<open>None\<close>), and the cordon flag. \<open>Skip\<close> of a
  build function is its \<open>ok = false\<close>.
\<close>

section \<open>Annotations\<close>

abbreviation AnnState :: string where "AnnState \<equiv> ''simplek8s.org/reboot-state''"
abbreviation AnnRequest :: string where "AnnRequest \<equiv> ''simplek8s.org/reboot-request''"
abbreviation AnnExec :: string where "AnnExec \<equiv> ''simplek8s.org/reboot-exec''"
abbreviation AnnStatus :: string where "AnnStatus \<equiv> ''simplek8s.org/reboot-status''"

abbreviation Requested :: string where "Requested \<equiv> ''requested''"
abbreviation Draining :: string where "Draining \<equiv> ''draining''"
abbreviation Rebooting :: string where "Rebooting \<equiv> ''rebooting''"
abbreviation Completed :: string where "Completed \<equiv> ''completed''"
abbreviation Failed :: string where "Failed \<equiv> ''failed''"

record state_info =
  st_Present :: bool
  st_State :: string
  st_Since :: gtime
  st_Raw :: string
  st_ParseError :: string

record request_info =
  rq_Present :: bool
  rq_ID :: string
  rq_By :: string
  rq_Force :: bool
  rq_ParseError :: string

record exec_info =
  ex_Present :: bool
  ex_IssuedAt :: gtime
  ex_BootID :: string
  ex_Attempt :: int
  ex_ExecutorPodUID :: string
  ex_ConfirmedAt :: "gtime option"
  ex_ParseError :: string

record status_info =
  ss_Present :: bool
  ss_ParseError :: string
  ss_BlockedBy :: "string list option"
  ss_Error :: string
  ss_CordonedPrev :: "bool option"

record node_state =
  ns_State :: "state_info option"
  ns_Request :: "request_info option"
  ns_Exec :: "exec_info option"
  ns_Status :: "status_info option"

definition InLifecycle :: "node_state \<Rightarrow> bool" where
  "InLifecycle s = (case ns_State s of None \<Rightarrow> False | Some st \<Rightarrow> st_Present st)"

definition InFlight :: "node_state \<Rightarrow> bool" where
  "InFlight s =
     (case ns_State s of
        None \<Rightarrow> False
      | Some st \<Rightarrow>
          if st_ParseError st \<noteq> [] then True
          else st_State st = Draining \<or> st_State st = Rebooting)"

section \<open>Reading\<close>

definition dec_state :: "string \<Rightarrow> bool \<times> string \<times> string" where
  "dec_state raw =
     (case struct_members raw of
        None \<Rightarrow> (True, [], [])
      | Some (ms, e) \<Rightarrow>
          (let (s, e1) = dec_string [] (field_values ''state'' ms);
               (t, e2) = dec_string [] (field_values ''since'' ms)
           in (e \<or> e1 \<or> e2, s, t)))"

definition parse_state_info :: "string \<Rightarrow> state_info" where
  "parse_state_info raw =
     (let st = \<lparr> st_Present = True, st_State = [], st_Since = zero_time, st_Raw = raw, st_ParseError = [] \<rparr>;
          (err, state, since) = dec_state raw
      in if err \<or> state = [] \<or> since = [] then
           st\<lparr> st_ParseError := ''unparseable reboot-state: '' @ raw,
               st_Since := (if since \<noteq> [] then (case parse_rfc3339 since of Some t \<Rightarrow> t | None \<Rightarrow> zero_time)
                            else zero_time) \<rparr>
         else (case parse_rfc3339 since of
             None \<Rightarrow> st\<lparr> st_State := state, st_ParseError := ''bad since: '' @ since \<rparr>
           | Some t \<Rightarrow> st\<lparr> st_State := state, st_Since := t \<rparr>))"

definition parse_request_info :: "string \<Rightarrow> request_info" where
  "parse_request_info raw =
     (let ri = \<lparr> rq_Present = True, rq_ID = [], rq_By = [], rq_Force = False, rq_ParseError = [] \<rparr>;
          bad = ri\<lparr> rq_ParseError := ''unparseable reboot-request'' \<rparr>
      in case struct_members raw of
           None \<Rightarrow> bad
         | Some (ms, e) \<Rightarrow>
             (let (i, e1) = dec_string [] (field_values ''id'' ms);
                  (b, e2) = dec_string [] (field_values ''by'' ms);
                  (f, e3) = dec_bool False (field_values ''force'' ms)
              in if e \<or> e1 \<or> e2 \<or> e3 then bad else ri\<lparr> rq_ID := i, rq_By := b, rq_Force := f \<rparr>))"

definition parse_exec_info :: "string \<Rightarrow> exec_info" where
  "parse_exec_info raw =
     (let ei = \<lparr> ex_Present = True, ex_IssuedAt = zero_time, ex_BootID = [], ex_Attempt = 0,
                 ex_ExecutorPodUID = [], ex_ConfirmedAt = None, ex_ParseError = [] \<rparr>;
          bad = ei\<lparr> ex_ParseError := ''unparseable reboot-exec'' \<rparr>
      in case struct_members raw of
           None \<Rightarrow> bad
         | Some (ms, e) \<Rightarrow>
             (let (iss, e1) = dec_string [] (field_values ''issuedAt'' ms);
                  (boot, e2) = dec_string [] (field_values ''bootId'' ms);
                  (att, e3) = dec_int 0 (field_values ''attempt'' ms);
                  (uid, e4) = dec_string [] (field_values ''executorPodUID'' ms);
                  (con, e5) = dec_opt_string None (field_values ''confirmedAt'' ms)
              in if e \<or> e1 \<or> e2 \<or> e3 \<or> e4 \<or> e5 \<or> iss = [] then bad
                 else (case parse_rfc3339 iss of
                     None \<Rightarrow> ei\<lparr> ex_ParseError := ''bad issuedAt'' \<rparr>
                   | Some t \<Rightarrow>
                       ei\<lparr> ex_IssuedAt := t, ex_BootID := boot, ex_Attempt := att, ex_ExecutorPodUID := uid,
                           ex_ConfirmedAt := Option.bind con parse_rfc3339 \<rparr>)))"

definition dec_status :: "string \<Rightarrow> bool \<times> string list option \<times> string \<times> bool option" where
  "dec_status raw =
     (case struct_members raw of
        None \<Rightarrow> (True, None, [], None)
      | Some (ms, e) \<Rightarrow>
          (let (b, e1) = dec_strings None (field_values ''blockedBy'' ms);
               (er, e2) = dec_string [] (field_values ''error'' ms);
               (c, e3) = dec_opt_bool None (field_values ''cordonedPrev'' ms)
           in (e \<or> e1 \<or> e2 \<or> e3, b, er, c)))"

definition read_status :: "bool \<Rightarrow> string \<Rightarrow> status_info" where
  "read_status present raw =
     (let si = \<lparr> ss_Present = present, ss_ParseError = [], ss_BlockedBy = None, ss_Error = [],
                 ss_CordonedPrev = None \<rparr>;
          (err, b, er, c) = dec_status raw
      in if err then si\<lparr> ss_ParseError := ''unparseable reboot-status'' \<rparr>
         else si\<lparr> ss_BlockedBy := b, ss_Error := er, ss_CordonedPrev := c \<rparr>)"

definition Parse :: "(string \<rightharpoonup> string) \<Rightarrow> node_state" where
  "Parse annotations =
     \<lparr> ns_State = map_option parse_state_info (annotations AnnState),
       ns_Request = map_option parse_request_info (annotations AnnRequest),
       ns_Exec = map_option parse_exec_info (annotations AnnExec),
       ns_Status = map_option (read_status True) (annotations AnnStatus) \<rparr>"

section \<open>Writing\<close>

definition StateValue :: "string \<Rightarrow> gtime \<Rightarrow> string" where
  "StateValue state since =
     print_json (JObj [(''state'', JStr state), (''since'', JStr (format_rfc3339 since))])"

definition RequestValue :: "string \<Rightarrow> string \<Rightarrow> bool \<Rightarrow> string" where
  "RequestValue id' by' force =
     print_json (JObj ([(''id'', JStr id')] @ (if by' = [] then [] else [(''by'', JStr by')]) @
       [(''force'', JBool force)]))"

definition ExecValue :: "exec_info \<Rightarrow> string" where
  "ExecValue e =
     print_json (JObj ([(''issuedAt'', JStr (format_rfc3339 (ex_IssuedAt e))), (''bootId'', JStr (ex_BootID e)),
       (''attempt'', JNum (itoa (ex_Attempt e))), (''executorPodUID'', JStr (ex_ExecutorPodUID e))] @
       (case ex_ConfirmedAt e of None \<Rightarrow> [] | Some t \<Rightarrow> [(''confirmedAt'', JStr (format_rfc3339 t))])))"

text \<open>\<open>omitempty\<close> drops an empty list too, but only a nil one counts as no field left.\<close>

definition status_json :: "status_info \<Rightarrow> json" where
  "status_json s =
     JObj ((case ss_BlockedBy s of None \<Rightarrow> [] | Some bs \<Rightarrow> if bs = [] then [] else [(''blockedBy'', JArr (map JStr bs))]) @
       (if ss_Error s = [] then [] else [(''error'', JStr (ss_Error s))]) @
       (case ss_CordonedPrev s of None \<Rightarrow> [] | Some b \<Rightarrow> [(''cordonedPrev'', JBool b)]))"

definition StatusValue :: "status_info \<Rightarrow> string" where
  "StatusValue s =
     (if ss_BlockedBy s = None \<and> ss_Error s = [] \<and> ss_CordonedPrev s = None then []
      else print_json (status_json s))"

definition MergeStatus :: "string \<Rightarrow> (status_info \<Rightarrow> status_info) \<Rightarrow> string" where
  "MergeStatus freshRaw mutate =
     (let si = (if freshRaw \<noteq> [] then read_status True freshRaw
                else \<lparr> ss_Present = False, ss_ParseError = [], ss_BlockedBy = None, ss_Error = [],
                       ss_CordonedPrev = None \<rparr>)
      in StatusValue (mutate si))"

section \<open>Patches\<close>

record node_patch =
  patch_rv :: string
  patch_annotations :: "(string \<times> string option) list"
  patch_unschedulable :: "bool option"

definition annotationsPatch :: "string \<Rightarrow> (string \<times> string option) list \<Rightarrow> node_patch" where
  "annotationsPatch rv anns = \<lparr> patch_rv = rv, patch_annotations = anns, patch_unschedulable = None \<rparr>"

definition AdmissionPatch :: "string \<Rightarrow> gtime \<Rightarrow> string \<Rightarrow> string \<Rightarrow> bool \<Rightarrow> node_patch" where
  "AdmissionPatch rv since reqID by' force = annotationsPatch rv
     [(AnnState, Some (StateValue Requested since)), (AnnRequest, Some (RequestValue reqID by' force)),
      (AnnExec, None), (AnnStatus, None)]"

definition statusOrNil :: "string \<Rightarrow> string option" where
  "statusOrNil s = (if s = [] then None else Some s)"

definition ToDrainingPatch :: "string \<Rightarrow> gtime \<Rightarrow> string \<Rightarrow> bool \<Rightarrow> node_patch" where
  "ToDrainingPatch rv now freshStatusRaw wasCordoned =
     (let status = MergeStatus freshStatusRaw (\<lambda>s.
            let s' = s\<lparr> ss_BlockedBy := None \<rparr>
            in if wasCordoned then s'\<lparr> ss_CordonedPrev := Some True \<rparr> else s')
      in (annotationsPatch rv [(AnnState, Some (StateValue Draining now)),
            (AnnStatus, if status \<noteq> [] then Some status else None)])\<lparr> patch_unschedulable := Some True \<rparr>)"

definition ToRebootingPatch :: "string \<Rightarrow> gtime \<Rightarrow> node_patch" where
  "ToRebootingPatch rv now = annotationsPatch rv [(AnnState, Some (StateValue Rebooting now))]"

definition ToCompletedPatch :: "string \<Rightarrow> gtime \<Rightarrow> node_patch" where
  "ToCompletedPatch rv now = annotationsPatch rv [(AnnState, Some (StateValue Completed now))]"

definition ToFailedPatch :: "string \<Rightarrow> gtime \<Rightarrow> string \<Rightarrow> string \<Rightarrow> node_patch" where
  "ToFailedPatch rv now freshStatusRaw errMsg =
     annotationsPatch rv [(AnnState, Some (StateValue Failed now)),
       (AnnStatus, statusOrNil (MergeStatus freshStatusRaw (\<lambda>s. s\<lparr> ss_Error := errMsg \<rparr>)))]"

definition IssuedExecPatch :: "string \<Rightarrow> exec_info \<Rightarrow> node_patch" where
  "IssuedExecPatch rv e = annotationsPatch rv [(AnnExec, Some (ExecValue e))]"

definition ClearPatch :: "string \<Rightarrow> bool \<Rightarrow> node_patch" where
  "ClearPatch rv uncordon =
     (let p = annotationsPatch rv [(AnnState, None), (AnnRequest, None), (AnnExec, None), (AnnStatus, None)]
      in if uncordon then p\<lparr> patch_unschedulable := Some False \<rparr> else p)"

definition StatusPatch :: "string \<Rightarrow> string \<Rightarrow> (status_info \<Rightarrow> status_info) \<Rightarrow> node_patch" where
  "StatusPatch rv freshRaw mutate =
     annotationsPatch rv [(AnnStatus, statusOrNil (MergeStatus freshRaw mutate))]"

definition UncordonPatch :: "string \<Rightarrow> node_patch" where
  "UncordonPatch rv = \<lparr> patch_rv = rv, patch_annotations = [], patch_unschedulable = Some False \<rparr>"

section \<open>Update annotations\<close>

abbreviation AnnNextKernel :: string where "AnnNextKernel \<equiv> ''simplek8s.org/next-kernel''"
abbreviation AnnUpdateURL :: string where "AnnUpdateURL \<equiv> ''simplek8s.org/update-url''"
abbreviation AnnRebootEligible :: string where "AnnRebootEligible \<equiv> ''simplek8s.org/reboot-eligible''"
abbreviation AnnUpdateLastCheck :: string where "AnnUpdateLastCheck \<equiv> ''simplek8s.org/update-last-check''"

definition versionRe :: "string \<Rightarrow> bool" where
  "versionRe s \<longleftrightarrow> 6 \<le> List.length s \<and> List.length s \<le> 20 \<and> list_all is_digit s"

record update_info =
  NextKernelPresent :: bool
  NextKernel :: string
  NextKernelParseErr :: string
  ui_UpdateURL :: string
  RebootEligiblePresent :: bool
  RebootEligible :: string
  RebootEligibleParseErr :: string
  LastCheckPresent :: bool
  LastCheck :: string

definition version_error :: "string option \<Rightarrow> string" where
  "version_error v = (case v of None \<Rightarrow> [] | Some raw \<Rightarrow> if versionRe raw then [] else ''invalid version '' @ raw)"

definition ParseUpdate :: "(string \<rightharpoonup> string) \<Rightarrow> update_info" where
  "ParseUpdate annotations =
     \<lparr> NextKernelPresent = (annotations AnnNextKernel \<noteq> None),
       NextKernel = lookup_or [] annotations AnnNextKernel,
       NextKernelParseErr = version_error (annotations AnnNextKernel),
       ui_UpdateURL = lookup_or [] annotations AnnUpdateURL,
       RebootEligiblePresent = (annotations AnnRebootEligible \<noteq> None),
       RebootEligible = lookup_or [] annotations AnnRebootEligible,
       RebootEligibleParseErr = version_error (annotations AnnRebootEligible),
       LastCheckPresent = (annotations AnnUpdateLastCheck \<noteq> None),
       LastCheck = lookup_or [] annotations AnnUpdateLastCheck \<rparr>"

definition NextKernelPatch :: "string \<Rightarrow> string \<Rightarrow> node_patch" where
  "NextKernelPatch rv version = annotationsPatch rv [(AnnNextKernel, Some version)]"

definition ClearRebootEligiblePatch :: "string \<Rightarrow> node_patch" where
  "ClearRebootEligiblePatch rv = annotationsPatch rv [(AnnRebootEligible, None)]"

definition UpdateLastCheckPatch :: "string \<Rightarrow> string \<Rightarrow> node_patch" where
  "UpdateLastCheckPatch rv occ = annotationsPatch rv [(AnnUpdateLastCheck, Some occ)]"

section \<open>Build functions\<close>

text \<open>\<open>Panic\<close>: the guard dereferences a nil pointer.\<close>

datatype build = Skip | Apply node_patch | Panic

type_synonym build_func = "node \<Rightarrow> build"

definition EnqueueControllerBuild :: "gtime \<Rightarrow> string \<Rightarrow> string \<Rightarrow> string \<Rightarrow> build_func" where
  "EnqueueControllerBuild since reqID goal running nd =
     (let st = Parse (Annotations (Metadata nd)) in
      if InLifecycle st then Skip
      else (let ui = ParseUpdate (Annotations (Metadata nd)) in
        if \<not> NextKernelPresent ui \<or> NextKernelParseErr ui \<noteq> [] \<or> NextKernel ui \<noteq> goal then Skip
        else if NextKernel ui = running then Skip
        else Apply (AdmissionPatch (ResourceVersion (Metadata nd)) since reqID ''controller'' False)))"

definition RearmBuild :: build_func where
  "RearmBuild nd =
     (case ns_State (Parse (Annotations (Metadata nd))) of
        None \<Rightarrow> Skip
      | Some st \<Rightarrow>
          if \<not> st_Present st \<or> st_ParseError st \<noteq> [] then Skip
          else if st_State st \<noteq> Completed then Skip
          else Apply (ClearPatch (ResourceVersion (Metadata nd)) False))"

definition NextKernelBuild :: "string \<Rightarrow> (update_info \<Rightarrow> bool) \<Rightarrow> build_func" where
  "NextKernelBuild version precond nd =
     (if \<not> precond (ParseUpdate (Annotations (Metadata nd))) then Skip
      else Apply (NextKernelPatch (ResourceVersion (Metadata nd)) version))"

definition UpdateLastCheckBuild :: "gtime \<Rightarrow> build_func" where
  "UpdateLastCheckBuild occ nd =
     (case Option.bind (Annotations (Metadata nd) AnnUpdateLastCheck) parse_rfc3339 of
        Some t \<Rightarrow> if \<not> t < occ then Skip
                  else Apply (UpdateLastCheckPatch (ResourceVersion (Metadata nd)) (format_rfc3339 occ))
      | None \<Rightarrow> Apply (UpdateLastCheckPatch (ResourceVersion (Metadata nd)) (format_rfc3339 occ)))"

definition PrecondAbsent :: "update_info \<Rightarrow> bool" where
  "PrecondAbsent ui \<longleftrightarrow> \<not> NextKernelPresent ui"

definition PrecondQuiescent :: "string \<Rightarrow> update_info \<Rightarrow> bool" where
  "PrecondQuiescent running ui \<longleftrightarrow> \<not> NextKernelPresent ui \<or> NextKernel ui = running"

definition PrecondValue :: "string \<Rightarrow> update_info \<Rightarrow> bool" where
  "PrecondValue v ui \<longleftrightarrow> NextKernelPresent ui \<and> NextKernel ui = v"

definition CorrectGoalBuild :: "string \<Rightarrow> string \<Rightarrow> build_func" where
  "CorrectGoalBuild badVal target nd =
     (let ui = ParseUpdate (Annotations (Metadata nd)); rv = ResourceVersion (Metadata nd) in
      if \<not> NextKernelPresent ui \<or> NextKernel ui \<noteq> badVal then Skip
      else if target = [] then Apply (annotationsPatch rv [(AnnNextKernel, None)])
      else Apply (NextKernelPatch rv target))"

section \<open>What is written is read back\<close>

declare fold_name.simps [simp del]

lemma fold_names [simp]:
  "fold_name ''state'' = ''state''" "fold_name ''since'' = ''since''" "fold_name ''id'' = ''id''"
  "fold_name ''by'' = ''by''" "fold_name ''force'' = ''force''" "fold_name ''issuedAt'' = ''issuedat''"
  "fold_name ''bootId'' = ''bootid''" "fold_name ''attempt'' = ''attempt''"
  "fold_name ''executorPodUID'' = ''executorpoduid''" "fold_name ''confirmedAt'' = ''confirmedat''"
  "fold_name ''blockedBy'' = ''blockedby''" "fold_name ''error'' = ''error''"
  "fold_name ''cordonedPrev'' = ''cordonedprev''"
  by code_simp+

lemma field_values_Nil [simp]: "field_values nm [] = []"
  by (simp add: field_values_def)

lemma field_values_Cons:
  "field_values nm ((k, v) # ms) =
     (if fold_name k = fold_name nm then v # field_values nm ms else field_values nm ms)"
  by (simp add: field_values_def)

lemma field_values_append [simp]: "field_values nm (ms @ ms') = field_values nm ms @ field_values nm ms'"
  by (simp add: field_values_def)

lemma field_values_if [simp]:
  "field_values nm (if b then ms else ms') = (if b then field_values nm ms else field_values nm ms')"
  by simp

lemma struct_members_print:
  "wf_json (JObj ms) \<Longrightarrow> json_depth (JObj ms) \<le> 10000 \<Longrightarrow> struct_members (print_json (JObj ms)) = Some (ms, False)"
  by (simp only: struct_members_def json_roundtrip option.case json.case)

lemma int_lit_itoa [simp]: "int_lit (itoa n)"
proof -
  have hd: "hd (nat_digits m) = CHR ''0'' \<longrightarrow> List.length (nat_digits m) = 1" for m
  proof (induction m rule: nat_digits.induct)
    case (1 m)
    show ?case
    proof (cases "m < 10")
      case True
      then show ?thesis by (subst (1 2) nat_digits.simps) simp
    next
      case False
      then have "nat_digits m = nat_digits (m div 10) @ [digit_char (int (m mod 10))]"
        by (subst nat_digits.simps) simp
      moreover have "hd (nat_digits (m div 10)) \<noteq> CHR ''0''"
      proof
        assume h: "hd (nat_digits (m div 10)) = CHR ''0''"
        with 1 False have "List.length (nat_digits (m div 10)) = 1" by simp
        then obtain c where c: "nat_digits (m div 10) = [c]" by (cases "nat_digits (m div 10)") auto
        with h digits_val_nat_digits [of "m div 10"] have "m div 10 = 0"
          by (simp add: digits_val_def digit_val_def del: digits_val_nat_digits)
        with False show False by simp
      qed
      ultimately show ?thesis by simp
    qed
  qed
  have "trim_prefix (nat_digits m) ''-'' = nat_digits m" for m
    using nat_digits_hd [of m] by (cases "nat_digits m") (simp_all add: trim_prefix_def)
  moreover have "trim_prefix (CHR ''-'' # nat_digits m) ''-'' = nat_digits m" for m
    using trim_prefix_append [of "''-''"] by simp
  ultimately show ?thesis using hd nat_digits_all by (simp add: int_lit_def itoa_def)
qed

text \<open>The years in which RFC 3339 has four digits.\<close>

definition rfc_year :: "gtime \<Rightarrow> bool" where
  "rfc_year t \<longleftrightarrow> 0 \<le> civil_year (day_of t) \<and> civil_year (day_of t) \<le> 9999"

lemma rfc_roundtrip: "rfc_year t \<Longrightarrow> parse_rfc3339 (format_rfc3339 t) = Some (t - t mod second)"
  by (simp add: rfc_year_def rfc3339_roundtrip)

lemma format_rfc3339_not_Nil [simp]: "format_rfc3339 t \<noteq> []"
  by (simp add: format_rfc3339_def Let_def)

text \<open>A lifecycle state and its instant survive the annotation, to the second.\<close>

theorem state_roundtrip:
  assumes "state \<noteq> []" "rfc_year t"
  shows "parse_state_info (StateValue state t) =
    \<lparr> st_Present = True, st_State = state, st_Since = t - t mod second, st_Raw = StateValue state t,
      st_ParseError = [] \<rparr>"
proof -
  have "dec_state (StateValue state t) = (False, state, format_rfc3339 t)"
    unfolding dec_state_def StateValue_def
    by (subst struct_members_print) (simp_all add: field_values_Cons)
  with assms show ?thesis by (simp add: parse_state_info_def rfc_roundtrip)
qed

theorem state_roundtrip_witness:
  "st_State (parse_state_info (StateValue Draining 1700000000123456789)) = Draining"
proof -
  have "Draining \<noteq> []" "rfc_year 1700000000123456789" by code_simp+
  note state_roundtrip [OF this]
  then show ?thesis by simp
qed

lemma request_roundtrip:
  "parse_request_info (RequestValue i b f) =
    \<lparr> rq_Present = True, rq_ID = i, rq_By = b, rq_Force = f, rq_ParseError = [] \<rparr>"
  unfolding parse_request_info_def RequestValue_def
  by (subst struct_members_print) (simp_all add: field_values_Cons)

lemma exec_roundtrip:
  assumes "rfc_year (ex_IssuedAt e)" "int64 (ex_Attempt e)"
    and "case ex_ConfirmedAt e of None \<Rightarrow> True | Some t \<Rightarrow> rfc_year t"
  shows "parse_exec_info (ExecValue e) =
    \<lparr> ex_Present = True, ex_IssuedAt = ex_IssuedAt e - ex_IssuedAt e mod second, ex_BootID = ex_BootID e,
      ex_Attempt = ex_Attempt e, ex_ExecutorPodUID = ex_ExecutorPodUID e,
      ex_ConfirmedAt = map_option (\<lambda>t. t - t mod second) (ex_ConfirmedAt e), ex_ParseError = [] \<rparr>"
  using assms unfolding parse_exec_info_def ExecValue_def
  by (subst struct_members_print)
     (auto simp: field_values_Cons rfc_roundtrip split: option.splits)

text \<open>The status a merge starts from.\<close>

definition fresh_status :: "string \<Rightarrow> status_info" where
  "fresh_status raw =
     (if raw \<noteq> [] then read_status True raw
      else \<lparr> ss_Present = False, ss_ParseError = [], ss_BlockedBy = None, ss_Error = [],
             ss_CordonedPrev = None \<rparr>)"

text \<open>The fields a status holds once written: an empty list of blockers is dropped.\<close>

definition status_fields :: "status_info \<Rightarrow> string list option \<times> string \<times> bool option" where
  "status_fields s = (if ss_BlockedBy s = Some [] then None else ss_BlockedBy s, ss_Error s, ss_CordonedPrev s)"

lemma fold_max_zero: "(\<forall>x \<in> set xs. x = 0) \<Longrightarrow> fold max xs (n :: nat) = n"
  by (induction xs) auto

lemma dec_elems_strings [simp]: "dec_elems [] (map JStr bs) = (bs, False)"
  by (induction bs) simp_all

lemma dec_status_print:
  "dec_status (print_json (status_json s)) = (False, status_fields s)"
proof -
  have "wf_json (status_json s)"
    by (auto simp: status_json_def list_all_iff split: option.splits)
  moreover have "json_depth (status_json s) \<le> 10000"
    by (auto simp: status_json_def fold_max_zero split: option.splits)
  ultimately have "dec_status (print_json (status_json s)) =
      (case status_json s of JObj ms \<Rightarrow>
        (let (b, e1) = dec_strings None (field_values ''blockedBy'' ms);
             (er, e2) = dec_string [] (field_values ''error'' ms);
             (c, e3) = dec_opt_bool None (field_values ''cordonedPrev'' ms)
         in (e1 \<or> e2 \<or> e3, b, er, c)))"
    unfolding dec_status_def status_json_def by (subst struct_members_print) simp_all
  then show ?thesis
    by (auto simp: status_json_def status_fields_def field_values_Cons split: option.splits)
qed

lemma print_obj_not_Nil [simp]: "print_json (status_json s) \<noteq> []"
proof -
  obtain ms where "status_json s = JObj ms" by (simp add: status_json_def)
  then show ?thesis by (cases ms) auto
qed

lemma status_fields_StatusValue: "status_fields (fresh_status (StatusValue s)) = status_fields s"
  by (auto simp: StatusValue_def fresh_status_def read_status_def dec_status_print Let_def)
     (auto simp: status_fields_def)

text \<open>C27: the read-modify-write of the shared status annotation keeps what its writer does not change: reading the
  written value back gives exactly the fields of the changed status.\<close>

theorem merge_status_read_back:
  "status_fields (fresh_status (MergeStatus raw mutate)) = status_fields (mutate (fresh_status raw))"
  using status_fields_StatusValue [of "mutate (fresh_status raw)"]
  by (simp add: MergeStatus_def fresh_status_def Let_def)

end
