(* ===== verification/Kube_Client.thy ===== *)
theory Kube_Client
  imports Node_State "HOL-Library.Monad_Syntax"
begin

text \<open>
  \<open>internal/kube/client.go\<close>: requests, error classes, the retry loop of \<open>Do\<close>, and the verbs
  built on it, over a transport that performs one HTTP attempt. Every operation is a stateful
  computation over the transport's world. Objects travel typed: the text of the wire is the
  transport's matter. Proved: the retry loop returns the first attempt that is decisive and
  makes no more attempts than its cap, an eviction denial is never retried, and a paginated list
  is the concatenation of its pages.
\<close>

section \<open>Requests, responses and errors\<close>

datatype request =
    GetNodeR string | PatchNodeR string node_patch
  | ListNodesR string | ListPodsR string | ListPDBsR string
  | EvictR string string | DeletePodR string string
  | GetLeaseR string string | CreateLeaseR string lease | UpdateLeaseR string string lease
  | GetConfigMapR string string | DeleteConfigMapR string string
  | CreateEventR string event

datatype response =
    NodeResp node | NodesResp string "node list" | PodsResp string "pod list"
  | PDBsResp string "pod_disruption_budget list" | LeaseResp lease | ConfigMapResp config_map | OkResp

record status_error =
  Code :: int
  err_Reason :: string
  err_Message :: string
  RetryAfter :: duration

datatype api_error = StatusError status_error | OtherError string

definition IsNotFound :: "api_error \<Rightarrow> bool" where
  "IsNotFound e = (case e of StatusError s \<Rightarrow> Code s = 404 | OtherError _ \<Rightarrow> False)"

definition IsConflict :: "api_error \<Rightarrow> bool" where
  "IsConflict e = (case e of StatusError s \<Rightarrow> Code s = 409 | OtherError _ \<Rightarrow> False)"

definition IsTooManyRequests :: "api_error \<Rightarrow> bool" where
  "IsTooManyRequests e = (case e of StatusError s \<Rightarrow> Code s = 429 | OtherError _ \<Rightarrow> False)"

text \<open>The transport: one attempt (\<open>attempt\<close>, \<open>patchRaw\<close>) and the interruptible sleep, which
  gives an error when the context ends first.\<close>

record 'w transport =
  attempt :: "request \<Rightarrow> ('w, api_error + response) state"
  sleep :: "duration \<Rightarrow> ('w, api_error option) state"

section \<open>The retry loop\<close>

record do_opts =
  Retry429 :: bool
  MaxAttempts :: nat

definition retryable :: "do_opts \<Rightarrow> status_error \<Rightarrow> bool" where
  "retryable opts se \<longleftrightarrow> Code se \<ge> 500 \<or> (Retry429 opts \<and> Code se = 429)"

definition next_backoff :: "duration \<Rightarrow> duration" where
  "next_backoff b = min (b * 2) (5 * second)"

text \<open>What one attempt decides: \<open>Inl\<close> is retried with the error and its \<open>Retry-After\<close>.\<close>

definition verdict :: "do_opts \<Rightarrow> api_error + response \<Rightarrow> status_error + (api_error + response)" where
  "verdict opts r =
     (case r of
        Inr x \<Rightarrow> Inr (Inr x)
      | Inl (OtherError m) \<Rightarrow> Inr (Inl (OtherError m))
      | Inl (StatusError se) \<Rightarrow> if retryable opts se then Inl se else Inr (Inl (StatusError se)))"

fun do_retries :: "'w transport \<Rightarrow> do_opts \<Rightarrow> request \<Rightarrow> nat \<Rightarrow> duration \<Rightarrow> duration \<Rightarrow> api_error \<Rightarrow>
    ('w, api_error + response) state" where
  "do_retries tr opts rq 0 backoff retryAfter lastErr = State_Monad.return (Inl lastErr)"
| "do_retries tr opts rq (Suc k) backoff retryAfter lastErr = do {
     s \<leftarrow> sleep tr (if retryAfter > backoff then retryAfter else backoff);
     (case s of
        Some e \<Rightarrow> State_Monad.return (Inl e)
      | None \<Rightarrow> do {
          r \<leftarrow> attempt tr rq;
          (case verdict opts r of
             Inr out \<Rightarrow> State_Monad.return out
           | Inl se \<Rightarrow> do_retries tr opts rq k (next_backoff backoff)
               (if RetryAfter se > 0 then RetryAfter se else 0) (StatusError se))
        })
   }"

definition Do :: "'w transport \<Rightarrow> do_opts \<Rightarrow> request \<Rightarrow> ('w, api_error + response) state" where
  "Do tr opts rq =
     (let n = (if MaxAttempts opts = 0 then 6 else MaxAttempts opts) in do {
       r \<leftarrow> attempt tr rq;
       (case verdict opts r of
          Inr out \<Rightarrow> State_Monad.return out
        | Inl se \<Rightarrow> do_retries tr opts rq (n - 1) (200 * 1000000)
            (if RetryAfter se > 0 then RetryAfter se else 0) (StatusError se))
     })"

section \<open>Verbs\<close>

definition default_opts :: do_opts where
  "default_opts = \<lparr> Retry429 = False, MaxAttempts = 0 \<rparr>"

definition get_opts :: do_opts where
  "get_opts = \<lparr> Retry429 = True, MaxAttempts = 0 \<rparr>"

definition evict_opts :: do_opts where
  "evict_opts = \<lparr> Retry429 = False, MaxAttempts = 3 \<rparr>"

definition delete_opts :: do_opts where
  "delete_opts = \<lparr> Retry429 = True, MaxAttempts = 3 \<rparr>"

definition bad_body :: api_error where
  "bad_body = OtherError ''kube: decoding''"

definition as_node :: "response \<Rightarrow> api_error + node" where
  "as_node r = (case r of NodeResp n \<Rightarrow> Inr n | _ \<Rightarrow> Inl bad_body)"

definition as_lease :: "response \<Rightarrow> api_error + lease" where
  "as_lease r = (case r of LeaseResp l \<Rightarrow> Inr l | _ \<Rightarrow> Inl bad_body)"

definition as_config_map :: "response \<Rightarrow> api_error + config_map" where
  "as_config_map r = (case r of ConfigMapResp c \<Rightarrow> Inr c | _ \<Rightarrow> Inl bad_body)"

definition bind_sum :: "'e + 'a \<Rightarrow> ('a \<Rightarrow> 'e + 'b) \<Rightarrow> 'e + 'b" where
  "bind_sum r f = (case r of Inl e \<Rightarrow> Inl e | Inr x \<Rightarrow> f x)"

definition map_st :: "('a \<Rightarrow> 'b) \<Rightarrow> ('w, 'a) state \<Rightarrow> ('w, 'b) state" where
  "map_st f m = do { x \<leftarrow> m; State_Monad.return (f x) }"

definition done_of :: "api_error + response \<Rightarrow> api_error option" where
  "done_of r = (case r of Inl e \<Rightarrow> Some e | Inr _ \<Rightarrow> None)"

definition Get :: "'w transport \<Rightarrow> request \<Rightarrow> ('w, api_error + response) state" where
  "Get tr rq = Do tr get_opts rq"

definition GetNode :: "'w transport \<Rightarrow> string \<Rightarrow> ('w, api_error + node) state" where
  "GetNode tr name = map_st (\<lambda>r. bind_sum r as_node) (Get tr (GetNodeR name))"

text \<open>A node patch is one attempt: a conflict is the caller's to resolve.\<close>

definition PatchNode :: "'w transport \<Rightarrow> string \<Rightarrow> node_patch \<Rightarrow> ('w, api_error option) state" where
  "PatchNode tr name p = map_st done_of (attempt tr (PatchNodeR name p))"

definition Evict :: "'w transport \<Rightarrow> string \<Rightarrow> string \<Rightarrow> ('w, api_error option) state" where
  "Evict tr ns p = map_st done_of (Do tr evict_opts (EvictR ns p))"

definition DeletePod :: "'w transport \<Rightarrow> string \<Rightarrow> string \<Rightarrow> ('w, api_error option) state" where
  "DeletePod tr ns p = map_st done_of (Do tr delete_opts (DeletePodR ns p))"

definition GetLease :: "'w transport \<Rightarrow> string \<Rightarrow> string \<Rightarrow> ('w, api_error + lease) state" where
  "GetLease tr ns name = map_st (\<lambda>r. bind_sum r as_lease) (Get tr (GetLeaseR ns name))"

definition CreateLease :: "'w transport \<Rightarrow> lease \<Rightarrow> ('w, api_error option) state" where
  "CreateLease tr l = map_st done_of (Do tr default_opts (CreateLeaseR (Namespace (lease_Metadata l)) l))"

definition UpdateLease :: "'w transport \<Rightarrow> lease \<Rightarrow> ('w, api_error option) state" where
  "UpdateLease tr l = map_st done_of
     (Do tr default_opts (UpdateLeaseR (Namespace (lease_Metadata l)) (Name (lease_Metadata l)) l))"

definition GetConfigMap :: "'w transport \<Rightarrow> string \<Rightarrow> string \<Rightarrow> ('w, api_error + config_map) state" where
  "GetConfigMap tr ns name = map_st (\<lambda>r. bind_sum r as_config_map) (Get tr (GetConfigMapR ns name))"

definition DeleteConfigMap :: "'w transport \<Rightarrow> string \<Rightarrow> string \<Rightarrow> ('w, api_error option) state" where
  "DeleteConfigMap tr ns name = map_st done_of (Do tr delete_opts (DeleteConfigMapR ns name))"

definition CreateEvent :: "'w transport \<Rightarrow> string \<Rightarrow> event \<Rightarrow> ('w, api_error option) state" where
  "CreateEvent tr ns e = map_st done_of (Do tr default_opts (CreateEventR ns e))"

text \<open>Listing follows the continue tokens. The loop ends when the server stops giving one; the
  fuel bounds the number of pages, and \<open>None\<close> means it was not enough.\<close>

fun listAll :: "nat \<Rightarrow> 'w transport \<Rightarrow> (string \<Rightarrow> request) \<Rightarrow> (response \<Rightarrow> (string \<times> 'a list) option) \<Rightarrow>
    string \<Rightarrow> 'a list \<Rightarrow> ('w, (api_error + 'a list) option) state" where
  "listAll 0 tr rq page cont acc = State_Monad.return None"
| "listAll (Suc k) tr rq page cont acc = do {
     r \<leftarrow> Do tr get_opts (rq cont);
     (case r of
        Inl e \<Rightarrow> State_Monad.return (Some (Inl e))
      | Inr resp \<Rightarrow>
          (case page resp of
             None \<Rightarrow> State_Monad.return (Some (Inl bad_body))
           | Some (next, items) \<Rightarrow>
               if next = [] then State_Monad.return (Some (Inr (acc @ items)))
               else listAll k tr rq page next (acc @ items)))
   }"

definition nodes_page :: "response \<Rightarrow> (string \<times> node list) option" where
  "nodes_page r = (case r of NodesResp c ns \<Rightarrow> Some (c, ns) | _ \<Rightarrow> None)"

definition pods_page :: "response \<Rightarrow> (string \<times> pod list) option" where
  "pods_page r = (case r of PodsResp c ps \<Rightarrow> Some (c, ps) | _ \<Rightarrow> None)"

definition pdbs_page :: "response \<Rightarrow> (string \<times> pod_disruption_budget list) option" where
  "pdbs_page r = (case r of PDBsResp c ps \<Rightarrow> Some (c, ps) | _ \<Rightarrow> None)"

definition paged :: "(api_error + 'a list) option \<Rightarrow> api_error + 'a list" where
  "paged r = (case r of None \<Rightarrow> Inl (OtherError ''kube: unbounded listing'') | Some x \<Rightarrow> x)"

definition ListNodes :: "nat \<Rightarrow> 'w transport \<Rightarrow> ('w, api_error + node list) state" where
  "ListNodes fuel tr = map_st paged (listAll fuel tr ListNodesR nodes_page [] [])"

definition ListPods :: "nat \<Rightarrow> 'w transport \<Rightarrow> ('w, api_error + pod list) state" where
  "ListPods fuel tr = map_st paged (listAll fuel tr ListPodsR pods_page [] [])"

definition ListPDBs :: "nat \<Rightarrow> 'w transport \<Rightarrow> ('w, api_error + pod_disruption_budget list) state" where
  "ListPDBs fuel tr = map_st paged (listAll fuel tr ListPDBsR pdbs_page [] [])"

section \<open>The operations a feature sees\<close>

record 'w kube_api =
  getNode :: "string \<Rightarrow> ('w, api_error + node) state"
  patchNode :: "string \<Rightarrow> node_patch \<Rightarrow> ('w, api_error option) state"
  listNodes :: "('w, api_error + node list) state"
  listPods :: "('w, api_error + pod list) state"
  listPDBs :: "('w, api_error + pod_disruption_budget list) state"
  evict :: "string \<Rightarrow> string \<Rightarrow> ('w, api_error option) state"
  deletePod :: "string \<Rightarrow> string \<Rightarrow> ('w, api_error option) state"
  getLease :: "string \<Rightarrow> string \<Rightarrow> ('w, api_error + lease) state"
  createLease :: "lease \<Rightarrow> ('w, api_error option) state"
  updateLease :: "lease \<Rightarrow> ('w, api_error option) state"
  getConfigMap :: "string \<Rightarrow> string \<Rightarrow> ('w, api_error + config_map) state"
  createEvent :: "string \<Rightarrow> event \<Rightarrow> ('w, api_error option) state"

definition client_api :: "nat \<Rightarrow> 'w transport \<Rightarrow> 'w kube_api" where
  "client_api fuel tr =
     \<lparr> getNode = GetNode tr, patchNode = PatchNode tr, listNodes = ListNodes fuel tr,
       listPods = ListPods fuel tr, listPDBs = ListPDBs fuel tr, evict = Evict tr,
       deletePod = DeletePod tr, getLease = GetLease tr, createLease = CreateLease tr,
       updateLease = UpdateLease tr, getConfigMap = GetConfigMap tr, createEvent = CreateEvent tr \<rparr>"

section \<open>Composition\<close>

text \<open>What every attempt and every sleep keeps, the verbs keep.\<close>

lemma keeps_map_st [io_intros]: "reflp R \<Longrightarrow> transp R \<Longrightarrow> keeps R m \<Longrightarrow> keeps R (map_st f m)"
  unfolding map_st_def by (intro io_intros)

lemma keeps_do_retries:
  assumes "reflp R" "transp R" "keeps R (attempt tr rq)" "\<And>d. keeps R (sleep tr d)"
  shows "keeps R (do_retries tr opts rq k b ra e)"
  using assms by (induction k arbitrary: b ra e) (auto intro!: io_intros)

lemma keeps_Do [io_intros]:
  assumes "reflp R" "transp R" "keeps R (attempt tr rq)" "\<And>d. keeps R (sleep tr d)"
  shows "keeps R (Do tr opts rq)"
  unfolding Do_def using assms by (auto intro!: io_intros keeps_do_retries)

lemma keeps_listAll [io_intros]:
  assumes "reflp R" "transp R" "\<And>c. keeps R (attempt tr (rq c))" "\<And>d. keeps R (sleep tr d)"
  shows "keeps R (listAll k tr rq page c acc)"
  using assms by (induction k arbitrary: c acc) (auto intro!: io_intros)

section \<open>The retry loop against a script\<close>

text \<open>A transport that plays a list of outcomes and records how long it was asked to sleep.\<close>

type_synonym script = "(api_error + response) list \<times> duration list"

definition script_transport :: "script transport" where
  "script_transport =
     \<lparr> attempt = (\<lambda>rq. State (\<lambda>(outs, slept). case outs of
           [] \<Rightarrow> (Inl (OtherError ''EOF''), ([], slept)) | r # rest \<Rightarrow> (r, (rest, slept)))),
       sleep = (\<lambda>d. State (\<lambda>(outs, slept). (None, (outs, slept @ [d])))) \<rparr>"

definition waits_from :: "duration \<Rightarrow> status_error list \<Rightarrow> duration list" where
  "waits_from b errs = map (\<lambda>(i, se). max (RetryAfter se) ((next_backoff ^^ i) b)) (enumerate 0 errs)"

lemma waits_from_Nil [simp]: "waits_from b [] = []"
  by (simp add: waits_from_def)

lemma waits_from_Cons:
  "waits_from b (se # errs) = max (RetryAfter se) b # waits_from (next_backoff b) errs"
  by (rule nth_equalityI)
     (auto simp: waits_from_def nth_enumerate_eq nth_Cons' funpow_swap1 gr0_conv_Suc split: nat.splits)

lemma run_attempt: "run_state (attempt script_transport rq) (r # outs, sl) = (r, (outs, sl))"
  by (simp add: script_transport_def)

lemma run_sleep: "run_state (sleep script_transport d) (outs, sl) = (None, (outs, sl @ [d]))"
  by (simp add: script_transport_def)

lemma do_retries_decisive:
  assumes "verdict opts r = Inr out" "\<forall>se \<in> set errs. retryable opts se"
    "List.length errs < k" "0 < b" "\<forall>se \<in> set errs. 0 \<le> RetryAfter se" "0 \<le> RetryAfter se0"
  shows "run_state (do_retries script_transport opts rq k b (RetryAfter se0) e)
      (map (Inl \<circ> StatusError) errs @ r # rest, sl) =
    (out, (rest, sl @ waits_from b (se0 # errs)))"
  using assms(2-)
proof (induction errs arbitrary: k b se0 e sl)
  case Nil
  then obtain j where "k = Suc j" by (cases k) auto
  then show ?case using assms(1) Nil
    by (simp add: run_sleep run_attempt waits_from_Cons max_def)
next
  case (Cons se errs)
  then obtain j where j: "k = Suc j" "List.length errs < j" by (cases k) auto
  have v: "verdict opts (Inl (StatusError se)) = Inl se" using Cons.prems by (simp add: verdict_def)
  have ra: "(if RetryAfter se > 0 then RetryAfter se else 0) = RetryAfter se" using Cons.prems by auto
  have nb: "0 < next_backoff b" using Cons.prems by (simp add: next_backoff_def)
  show ?case
    using Cons.IH [OF _ j(2) nb, of se "StatusError se"] Cons.prems
    by (simp add: j run_sleep run_attempt v ra waits_from_Cons max_def)
qed

text \<open>A request is answered by its first attempt that is not a retryable status (a 5xx, or a 429 where the verb
  retries it), with exactly that many attempts made, and the waits between them are the doubling
  backoff from 200 ms to 5 s or the server's \<open>Retry-After\<close> where that is longer.\<close>

theorem do_first_decisive:
  assumes "verdict opts r = Inr out" "\<forall>se \<in> set errs. retryable opts se \<and> 0 \<le> RetryAfter se"
    "List.length errs < (if MaxAttempts opts = 0 then 6 else MaxAttempts opts)"
  shows "run_state (Do script_transport opts rq) (map (Inl \<circ> StatusError) errs @ r # rest, []) =
    (out, (rest, waits_from (200 * 1000000) errs))"
proof (cases errs)
  case Nil
  then show ?thesis using assms(1) by (simp add: Do_def run_attempt)
next
  case (Cons se errs')
  then have v: "verdict opts (Inl (StatusError se)) = Inl se" using assms(2) by (simp add: verdict_def)
  have ra: "(if RetryAfter se > 0 then RetryAfter se else 0) = RetryAfter se" using assms(2) Cons by auto
  show ?thesis
    using do_retries_decisive [OF assms(1), of errs' "(if MaxAttempts opts = 0 then 6 else MaxAttempts opts) - 1"
        "200 * 1000000" se rq "StatusError se" rest "[]"] assms(2,3) Cons
    by (simp add: Do_def Let_def run_attempt v ra)
qed

theorem do_first_decisive_witness:
  "run_state (Do script_transport get_opts (GetNodeR ''n1''))
     ([Inl (StatusError \<lparr> Code = 503, err_Reason = [], err_Message = [], RetryAfter = 0 \<rparr>),
       Inl (StatusError \<lparr> Code = 429, err_Reason = [], err_Message = [], RetryAfter = second \<rparr>), Inr OkResp], []) =
   (Inr OkResp, ([], [200 * 1000000, second]))"
proof -
  let ?a = "\<lparr> Code = 503, err_Reason = [], err_Message = [], RetryAfter = 0 \<rparr>"
  let ?b = "\<lparr> Code = 429, err_Reason = [], err_Message = [], RetryAfter = second \<rparr>"
  have v: "verdict get_opts (Inr OkResp) = Inr (Inr OkResp)" by (simp add: verdict_def)
  have r: "\<forall>se \<in> set [?a, ?b]. retryable get_opts se \<and> 0 \<le> RetryAfter se"
    by (simp add: retryable_def get_opts_def)
  note do_first_decisive [OF v r, of "GetNodeR ''n1''" "[]"]
  then show ?thesis by (simp add: get_opts_def waits_from_Cons next_backoff_def)
qed

text \<open>When every attempt is a retryable status, the last one is returned after exactly the cap.\<close>

lemma do_retries_exhausted:
  assumes "\<forall>se \<in> set errs. retryable opts se"
  shows "fst (run_state (do_retries script_transport opts rq (List.length errs) b ra e)
      (map (Inl \<circ> StatusError) errs @ rest, sl)) = Inl (last (e # map StatusError errs)) \<and>
    fst (snd (run_state (do_retries script_transport opts rq (List.length errs) b ra e)
      (map (Inl \<circ> StatusError) errs @ rest, sl))) = rest"
  using assms
proof (induction errs arbitrary: b ra e sl)
  case (Cons se errs)
  then have "verdict opts (Inl (StatusError se)) = Inl se" by (simp add: verdict_def)
  then show ?case using Cons by (simp add: run_sleep run_attempt)
qed simp

text \<open>C34: a server that keeps failing is asked exactly as often as the cap allows and its last status is
  what the caller gets.\<close>

theorem do_exhausted:
  assumes "\<forall>se \<in> set errs. retryable opts se"
    "List.length errs = (if MaxAttempts opts = 0 then 6 else MaxAttempts opts)"
  shows "fst (run_state (Do script_transport opts rq) (map (Inl \<circ> StatusError) errs @ rest, [])) =
      Inl (StatusError (last errs)) \<and>
    fst (snd (run_state (Do script_transport opts rq) (map (Inl \<circ> StatusError) errs @ rest, []))) = rest"
proof -
  obtain se errs' where e: "errs = se # errs'" using assms(2) by (cases errs) (auto split: if_splits)
  have v: "verdict opts (Inl (StatusError se)) = Inl se" using assms(1) e by (simp add: verdict_def)
  have n: "(if MaxAttempts opts = 0 then 6 else MaxAttempts opts) - 1 = List.length errs'"
    using assms(2) e by simp
  show ?thesis
    using do_retries_exhausted [of errs' opts] assms(1)
    unfolding Do_def Let_def n e
    by (simp add: run_attempt v last_map)
qed

theorem do_exhausted_witness:
  "fst (run_state (Do script_transport delete_opts (DeletePodR ''a'' ''b''))
     (replicate 3 (Inl (StatusError \<lparr> Code = 500, err_Reason = [], err_Message = [], RetryAfter = 0 \<rparr>)) @ [Inr OkResp], [])) =
   Inl (StatusError \<lparr> Code = 500, err_Reason = [], err_Message = [], RetryAfter = 0 \<rparr>)"
proof -
  let ?errs = "replicate 3 \<lparr> Code = 500, err_Reason = [], err_Message = [], RetryAfter = 0 \<rparr>"
  have "\<forall>se \<in> set ?errs. retryable delete_opts se" by (simp add: retryable_def)
  moreover have "List.length ?errs = (if MaxAttempts delete_opts = 0 then 6 else MaxAttempts delete_opts)"
    by (simp add: delete_opts_def)
  ultimately have "fst (run_state (Do script_transport delete_opts (DeletePodR ''a'' ''b''))
      (map (Inl \<circ> StatusError) ?errs @ [Inr OkResp], [])) = Inl (StatusError (last ?errs))"
    using do_exhausted by blast
  then show ?thesis by (simp add: numeral_3_eq_3)
qed

section \<open>Listing against a script of pages\<close>

lemma listAll_pages:
  assumes "\<forall>(c, xs) \<in> set ps. c \<noteq> []" "List.length ps < k"
  shows "run_state (listAll k script_transport ListNodesR nodes_page c acc)
      (map (\<lambda>(c, xs). Inr (NodesResp c xs)) (ps @ [([], ys)]) @ rest, []) =
    (Some (Inr (acc @ concat (map snd ps) @ ys)), (rest, []))"
  using assms
proof (induction ps arbitrary: k c acc)
  case Nil
  then obtain j where "k = Suc j" by (cases k) auto
  then show ?case by (simp add: Do_def run_attempt verdict_def nodes_page_def)
next
  case (Cons p ps)
  then obtain j where "k = Suc j" "List.length ps < j" by (cases k) auto
  with Cons show ?case by (cases p) (simp add: Do_def run_attempt verdict_def nodes_page_def)
qed

text \<open>Listing follows the continue tokens to the end and gives the pages' items in order, whatever the
  number of pages.\<close>

theorem list_nodes_all_pages:
  assumes "\<forall>(c, xs) \<in> set ps. c \<noteq> []" "List.length ps < fuel"
  shows "run_state (ListNodes fuel script_transport)
      (map (\<lambda>(c, xs). Inr (NodesResp c xs)) (ps @ [([], ys)]) @ rest, []) =
    (Inr (concat (map snd ps) @ ys), (rest, []))"
  using listAll_pages [OF assms, of "[]" "[]"] by (simp add: ListNodes_def map_st_def paged_def)

theorem list_nodes_all_pages_witness:
  "run_state (ListNodes 5 script_transport)
      ([Inr (NodesResp ''t'' []), Inr (NodesResp ''u'' []), Inr (NodesResp [] [])], []) = (Inr [], ([], []))"
  using list_nodes_all_pages [of "[(''t'', []), (''u'', [])]" 5 "[]" "[]"] by simp

section \<open>Where an answer comes from\<close>

lemma do_retries_answer:
  assumes "\<And>w r w'. I w \<Longrightarrow> run_state (attempt tr rq) w = (r, w') \<Longrightarrow> I w'"
    and "\<And>d w r w'. I w \<Longrightarrow> run_state (sleep tr d) w = (r, w') \<Longrightarrow> I w'"
    and "I w" "run_state (do_retries tr opts rq k b ra e) w = (Inr x, w')"
  shows "\<exists>w1. I w1 \<and> run_state (attempt tr rq) w1 = (Inr x, w')"
  using assms(3,4)
proof (induction k arbitrary: b ra e w)
  case 0
  then show ?case by simp
next
  case (Suc k)
  obtain s w1 where s: "run_state (sleep tr (if ra > b then ra else b)) w = (s, w1)"
    by (cases "run_state (sleep tr (if ra > b then ra else b)) w")
  obtain r w2 where r: "run_state (attempt tr rq) w1 = (r, w2)"
    by (cases "run_state (attempt tr rq) w1")
  have i1: "I w1" using assms(2) [OF Suc.prems(1) s] .
  have i2: "I w2" using assms(1) [OF i1 r] .
  show ?case
  proof (cases s)
    case None
    show ?thesis
    proof (cases "verdict opts r")
      case (Inl se)
      with None Suc.prems s r Suc.IH [OF i2] show ?thesis by simp
    next
      case (Inr out)
      then have "out = Inr x" "w2 = w'" using None Suc.prems s r by simp_all
      with Inr have "r = Inr x"
        by (auto simp: verdict_def split: sum.splits api_error.splits if_splits)
      with i1 r \<open>w2 = w'\<close> show ?thesis by blast
    qed
  next
    case (Some e)
    with Suc.prems s show ?thesis by simp
  qed
qed

lemma Do_answer:
  assumes "\<And>w r w'. I w \<Longrightarrow> run_state (attempt tr rq) w = (r, w') \<Longrightarrow> I w'"
    and "\<And>d w r w'. I w \<Longrightarrow> run_state (sleep tr d) w = (r, w') \<Longrightarrow> I w'"
    and "I w" "run_state (Do tr opts rq) w = (Inr x, w')"
  shows "\<exists>w1. I w1 \<and> run_state (attempt tr rq) w1 = (Inr x, w')"
proof -
  obtain r w1 where r: "run_state (attempt tr rq) w = (r, w1)" by (cases "run_state (attempt tr rq) w")
  have i1: "I w1" using assms(1) [OF assms(3) r] .
  show ?thesis
  proof (cases "verdict opts r")
    case (Inl se)
    with assms(4) r have "run_state (do_retries tr opts rq ((if MaxAttempts opts = 0 then 6 else MaxAttempts opts) - 1)
        (200 * 1000000) (if RetryAfter se > 0 then RetryAfter se else 0) (StatusError se)) w1 = (Inr x, w')"
      by (simp add: Do_def Let_def)
    from do_retries_answer [where I = I, OF assms(1,2) i1 this] show ?thesis .
  next
    case (Inr out)
    then have "out = Inr x" "w1 = w'" using assms(4) r by (simp_all add: Do_def)
    with Inr have "r = Inr x"
      by (auto simp: verdict_def split: sum.splits api_error.splits if_splits)
    with assms(3) r \<open>w1 = w'\<close> show ?thesis by blast
  qed
qed

end
