(* ===== verification/Transition.thy ===== *)
theory Transition
  imports Kube_Client
begin

text \<open>
  \<open>nodestate.PatchTransition\<close> and the interface it relies on. The API server is shared with
  other controllers and with the operator, so the interface (locale \<open>api_server\<close>) says nothing
  about what the server holds between two of our requests; it promises that a node read is a
  version the node has had, that a patch is accepted only on the version it names, and that a
  version number names one content. From that alone every accepted patch was computed by its
  build function from exactly the content it was merged into (\<open>transition_spec\<close>), and facts
  about a single build function extend to whole handlers (\<open>extends\<close>).
\<close>

section \<open>What the client does to the world\<close>

text \<open>The log: the accepted node patches with the content they met, and the reboots started.\<close>

datatype log_entry = Patched string node node_patch | RebootStarted

record 'w world_view =
  ok :: "'w \<Rightarrow> bool"
  seen :: "'w \<Rightarrow> string \<Rightarrow> node \<Rightarrow> bool"
  log :: "'w \<Rightarrow> log_entry list"

text \<open>\<open>extends V P\<close>: the world stays well-formed, no version is forgotten, and everything added to
  the log satisfies \<open>P\<close>.\<close>

definition extends :: "'w world_view \<Rightarrow> (log_entry \<Rightarrow> bool) \<Rightarrow> 'w \<Rightarrow> 'w \<Rightarrow> bool" where
  "extends V P w w' \<longleftrightarrow>
     (ok V w \<longrightarrow> ok V w' \<and> (\<forall>nm n. seen V w nm n \<longrightarrow> seen V w' nm n) \<and>
       (\<exists>es. log V w' = log V w @ es \<and> list_all P es))"

lemma extends_refl [simp]: "reflp (extends V P)"
  by (auto simp: reflp_def extends_def)

lemma extends_trans [simp]: "transp (extends V P)"
proof (rule transpI)
  fix x y z
  assume "extends V P x y" "extends V P y z"
  then show "extends V P x z"
    unfolding extends_def by (metis append.assoc list_all_append)
qed

lemma extends_mono: "extends V P w w' \<Longrightarrow> (\<And>e. P e \<Longrightarrow> Q e) \<Longrightarrow> extends V Q w w'"
  by (auto simp: extends_def list_all_iff)

lemma keeps_extends_mono:
  "keeps (extends V P) m \<Longrightarrow> (\<And>e. P e \<Longrightarrow> Q e) \<Longrightarrow> keeps (extends V Q) m"
  by (erule keeps_mono) (rule extends_mono)

section \<open>The interface\<close>

abbreviation quiet :: "'w world_view \<Rightarrow> ('w, 'a) state \<Rightarrow> bool" where
  "quiet V m \<equiv> keeps (extends V (\<lambda>_. False)) m"

locale api_server =
  fixes api :: "'w kube_api" and V :: "'w world_view"
  assumes get_quiet: "quiet V (getNode api nm)"
    and get_seen: "ok V w \<Longrightarrow> run_state (getNode api nm) w = (Inr n, w') \<Longrightarrow> seen V w' nm n"
    and patch_accepted: "ok V w \<Longrightarrow> run_state (patchNode api nm p) w = (r, w') \<Longrightarrow>
        seen V w nm m \<Longrightarrow> ResourceVersion (Metadata m) = patch_rv p \<Longrightarrow>
        ok V w' \<and> (\<forall>x y. seen V w x y \<longrightarrow> seen V w' x y) \<and>
        (log V w' = log V w @ [Patched nm m p] \<and> (case r of None \<Rightarrow> True | Some e \<Rightarrow> \<not> IsConflict e) \<or>
         log V w' = log V w \<and> r \<noteq> None)"
    and list_quiet: "quiet V (listNodes api)" "quiet V (listPods api)" "quiet V (listPDBs api)"
    and pod_quiet: "quiet V (evict api ns pd)" "quiet V (deletePod api ns pd)"
    and lease_quiet: "quiet V (getLease api ns nm)" "quiet V (createLease api l)" "quiet V (updateLease api l)"
    and config_quiet: "quiet V (getConfigMap api ns nm)"
    and event_quiet: "quiet V (createEvent api ns ev)"

section \<open>The transition\<close>

datatype transition_error = Aborted | Exhausted | Crashed | ApiFailed api_error

text \<open>The remaining attempts are the fuel; \<open>None\<close> is success. A build function of the code may read
  more than the node it is given (the clock): \<open>rd\<close> is what it reads each time it is called, and
  \<open>build\<close> what it computes from that.\<close>

fun patch_attempts :: "'w kube_api \<Rightarrow> string \<Rightarrow> ('w, 'x) state \<Rightarrow> ('x \<Rightarrow> build_func) \<Rightarrow> nat \<Rightarrow>
    ('w, transition_error option) state" where
  "patch_attempts api nodeName rd bld 0 = State_Monad.return (Some Exhausted)"
| "patch_attempts api nodeName rd bld (Suc k) = do {
     r \<leftarrow> getNode api nodeName;
     (case r of
        Inl e \<Rightarrow> State_Monad.return (Some (ApiFailed e))
      | Inr nd \<Rightarrow> do {
          x \<leftarrow> rd;
          (case bld x nd of
             Panic \<Rightarrow> State_Monad.return (Some Crashed)
           | Skip \<Rightarrow> State_Monad.return (Some Aborted)
           | Apply patch \<Rightarrow> do {
               r \<leftarrow> patchNode api nodeName patch;
               (case r of
                  None \<Rightarrow> State_Monad.return None
                | Some e \<Rightarrow> if IsConflict e then patch_attempts api nodeName rd bld k
                           else State_Monad.return (Some (ApiFailed e)))
             })
        })
   }"

definition PatchTransitionReading :: "'w kube_api \<Rightarrow> string \<Rightarrow> nat \<Rightarrow> ('w, 'x) state \<Rightarrow> ('x \<Rightarrow> build_func) \<Rightarrow>
    ('w, transition_error option) state" where
  "PatchTransitionReading api nodeName maxAttempts rd bld =
     patch_attempts api nodeName rd bld (if maxAttempts = 0 then 3 else maxAttempts)"

definition PatchTransition :: "'w kube_api \<Rightarrow> string \<Rightarrow> nat \<Rightarrow> build_func \<Rightarrow> ('w, transition_error option) state" where
  "PatchTransition api nodeName maxAttempts bld =
     PatchTransitionReading api nodeName maxAttempts (State_Monad.return ()) (\<lambda>_. bld)"

text \<open>A build function carries the version it was given.\<close>

definition versioned :: "build_func \<Rightarrow> bool" where
  "versioned bld \<longleftrightarrow> (\<forall>n p. bld n = Apply p \<longrightarrow> patch_rv p = ResourceVersion (Metadata n))"

lemma versionedD: "versioned bld \<Longrightarrow> bld n = Apply p \<Longrightarrow> patch_rv p = ResourceVersion (Metadata n)"
  by (auto simp: versioned_def)

text \<open>Whether an error can hide an accepted patch: only an answer other than a conflict can.\<close>

definition hides :: "transition_error \<Rightarrow> bool" where
  "hides e = (case e of ApiFailed x \<Rightarrow> \<not> IsConflict x | _ \<Rightarrow> False)"

context api_server
begin

lemma quiet_log:
  assumes "quiet V m" "ok V w" "run_state m w = (r, w')"
  shows "ok V w' \<and> (\<forall>x y. seen V w x y \<longrightarrow> seen V w' x y) \<and> log V w' = log V w"
  using keepsD [OF assms(1,3)] assms(2) by (auto simp: extends_def list_all_iff)

lemmas get_log = quiet_log [OF get_quiet]

lemma quiet_return: "quiet V (State_Monad.return x)"
  by (rule keepsI) (auto simp: extends_def)

text \<open>What an attempt has read when it comes to the build function.\<close>

lemma attempt_reads:
  assumes "quiet V rd" "ok V w" "run_state (getNode api nm) w = (Inr n, w1)" "run_state rd w1 = (x, w2)"
  shows "ok V w2 \<and> seen V w2 nm n \<and> (\<forall>x y. seen V w x y \<longrightarrow> seen V w2 x y) \<and> log V w2 = log V w"
  using get_log [OF assms(2,3)] quiet_log [OF assms(1) _ assms(4)] get_seen [OF assms(2,3)] by auto

text \<open>Success is one accepted patch, computed from the very content it met; failure is none,
  unless the answer was lost.\<close>

lemma transition_log:
  assumes "\<And>x. versioned (bld x)" "quiet V rd" "ok V w" "run_state (patch_attempts api nm rd bld k) w = (r, w')"
  shows "ok V w' \<and> (\<forall>x y. seen V w x y \<longrightarrow> seen V w' x y) \<and>
    ((\<exists>n p x. log V w' = log V w @ [Patched nm n p] \<and> bld x n = Apply p \<and> (case r of None \<Rightarrow> True | Some e \<Rightarrow> hides e)) \<or>
     log V w' = log V w \<and> r \<noteq> None)"
  using assms(3,4)
proof (induction k arbitrary: w)
  case 0
  then show ?case by auto
next
  case (Suc k)
  obtain r1 w1 where g: "run_state (getNode api nm) w = (r1, w1)" by (cases "run_state (getNode api nm) w")
  show ?case
  proof (cases r1)
    case (Inl e)
    then show ?thesis using Suc.prems g get_log [OF Suc.prems(1) g] by auto
  next
    case (Inr n)
    obtain x w2 where rd: "run_state rd w1 = (x, w2)" by (cases "run_state rd w1")
    note g2 = attempt_reads [OF assms(2) Suc.prems(1) g [unfolded Inr] rd]
    show ?thesis
    proof (cases "bld x n")
      case (Apply p)
      obtain r2 w3 where pt: "run_state (patchNode api nm p) w2 = (r2, w3)"
        by (cases "run_state (patchNode api nm p) w2")
      note pl = patch_accepted [OF _ pt _ versionedD [OF assms(1) Apply, symmetric]]
      show ?thesis
      proof (cases "case r2 of None \<Rightarrow> False | Some e \<Rightarrow> IsConflict e")
        case True
        then obtain e where e: "r2 = Some e" "IsConflict e" by (cases r2) auto
        have "run_state (patch_attempts api nm rd bld k) w3 = (r, w')"
          using Suc.prems(2) g Inr rd Apply pt e by simp
        from Suc.IH [OF _ this] pl g2 e show ?thesis by auto
      next
        case False
        then show ?thesis
          using Suc.prems g Inr rd Apply pt pl g2
          by (cases r2) (auto simp: hides_def)
      qed
    next
      case Skip
      then show ?thesis using Suc.prems g g2 Inr rd by auto
    next
      case Panic
      then show ?thesis using Suc.prems g g2 Inr rd by auto
    qed
  qed
qed

lemma transition_spec:
  assumes "versioned bld" "ok V w" "run_state (PatchTransition api nm k bld) w = (r, w')"
  shows "ok V w' \<and>
    ((\<exists>n p. log V w' = log V w @ [Patched nm n p] \<and> bld n = Apply p \<and> (case r of None \<Rightarrow> True | Some e \<Rightarrow> hides e)) \<or>
     log V w' = log V w \<and> r \<noteq> None)"
  using transition_log [OF assms(1) quiet_return assms(2) assms(3) [unfolded PatchTransition_def PatchTransitionReading_def]]
  by blast

lemma keeps_transition:
  assumes "versioned bld" "\<And>n p. bld n = Apply p \<Longrightarrow> P (Patched nm n p)"
  shows "keeps (extends V P) (PatchTransition api nm k bld)"
proof (rule keepsI)
  fix w r w'
  assume "run_state (PatchTransition api nm k bld) w = (r, w')"
  then show "extends V P w w'"
    using transition_spec [OF assms(1)] assms(2) transition_log [OF assms(1) quiet_return]
    unfolding extends_def PatchTransition_def PatchTransitionReading_def by fastforce
qed

lemma keeps_quiet: "quiet V m \<Longrightarrow> keeps (extends V P) m"
  by (erule keeps_extends_mono) simp

lemmas api_keeps [io_intros] =
  get_quiet [THEN keeps_quiet] list_quiet [THEN keeps_quiet] pod_quiet [THEN keeps_quiet]
  lease_quiet [THEN keeps_quiet] config_quiet [THEN keeps_quiet] event_quiet [THEN keeps_quiet]

end

text \<open>A server whose answers are not lost: an error means that nothing was merged.\<close>

locale reliable_api_server = api_server +
  assumes patch_refused: "ok V w \<Longrightarrow> run_state (patchNode api nm p) w = (Some e, w') \<Longrightarrow> log V w' = log V w"
begin

lemma transition_exact:
  assumes "\<And>x. versioned (bld x)" "quiet V rd" "ok V w" "run_state (patch_attempts api nm rd bld k) w = (r, w')"
  shows "ok V w' \<and>
    (case r of
       None \<Rightarrow> \<exists>n p x. log V w' = log V w @ [Patched nm n p] \<and> bld x n = Apply p
     | Some e \<Rightarrow> log V w' = log V w)"
  using assms(3,4)
proof (induction k arbitrary: w)
  case 0
  then show ?case by auto
next
  case (Suc k)
  obtain r1 w1 where g: "run_state (getNode api nm) w = (r1, w1)" by (cases "run_state (getNode api nm) w")
  show ?case
  proof (cases r1)
    case (Inl e)
    then show ?thesis using Suc.prems g get_log [OF Suc.prems(1) g] by auto
  next
    case (Inr n)
    obtain x w2 where rd: "run_state rd w1 = (x, w2)" by (cases "run_state rd w1")
    note g2 = attempt_reads [OF assms(2) Suc.prems(1) g [unfolded Inr] rd]
    show ?thesis
    proof (cases "\<exists>p. bld x n = Apply p")
      case False
      then show ?thesis using Suc.prems(2) g g2 rd Inr by (auto split: build.splits)
    next
      case True
      then obtain p where p: "bld x n = Apply p" by blast
      obtain r2 w3 where pt: "run_state (patchNode api nm p) w2 = (r2, w3)"
        by (cases "run_state (patchNode api nm p) w2")
      note pl = patch_accepted [OF _ pt _ versionedD [OF assms(1) p, symmetric]]
      show ?thesis
      proof (cases r2)
        case None
        then show ?thesis using Suc.prems(2) g Inr rd p pt pl g2 by auto
      next
        case (Some e)
        then have same: "ok V w3" "log V w3 = log V w" using pl g2 patch_refused [of w2 nm p e w3] pt by auto
        show ?thesis
        proof (cases "IsConflict e")
          case True
          then have "run_state (patch_attempts api nm rd bld k) w3 = (r, w')"
            using Suc.prems(2) g Inr rd p pt Some by simp
          from Suc.IH [OF same(1) this] show ?thesis unfolding same(2) .
        next
          case False
          then show ?thesis using Suc.prems(2) g Inr rd p pt Some same by auto
        qed
      qed
    qed
  qed
qed

end

end
