(* ===== verification/Handlers.thy ===== *)
theory Handlers
  imports Transition
begin

text \<open>
  Handlers: computations over the memory of a component and the world. A handler is specified by
  what it adds to the log (\<open>emits\<close>: the accepted patches and started reboots, as a predicate of its
  result), and the rules follow the structure of a handler.
\<close>

section \<open>Memory and world\<close>

definition in_world :: "('w, 'a) state \<Rightarrow> ('m \<times> 'w, 'a) state" where
  "in_world m = State (\<lambda>(f, w). case run_state m w of (a, w') \<Rightarrow> (a, (f, w')))"

definition in_mem :: "('m \<Rightarrow> 'a \<times> 'm) \<Rightarrow> ('m \<times> 'w, 'a) state" where
  "in_mem g = State (\<lambda>(f, w). case g f of (a, f') \<Rightarrow> (a, (f', w)))"

fun for_each :: "('a \<Rightarrow> ('s, unit) state) \<Rightarrow> 'a list \<Rightarrow> ('s, unit) state" where
  "for_each f [] = State_Monad.return ()"
| "for_each f (x # xs) = do { _ \<leftarrow> f x; for_each f xs }"

text \<open>The end of a step of the process: a run-time panic takes the process down.\<close>

datatype outcome = Finished | Panicked

section \<open>What a computation adds to the log\<close>

definition emits :: "'w world_view \<Rightarrow> ('a \<Rightarrow> log_entry list \<Rightarrow> bool) \<Rightarrow> ('m \<times> 'w, 'a) state \<Rightarrow> bool" where
  "emits V S m \<longleftrightarrow>
     (\<forall>f w r f' w'. ok V w \<longrightarrow> run_state m (f, w) = (r, (f', w')) \<longrightarrow>
        ok V w' \<and> (\<exists>es. log V w' = log V w @ es \<and> S r es))"

lemma emitsD:
  "emits V S m \<Longrightarrow> ok V w \<Longrightarrow> run_state m (f, w) = (r, (f', w')) \<Longrightarrow>
   ok V w' \<and> (\<exists>es. log V w' = log V w @ es \<and> S r es)"
  by (auto simp: emits_def)

lemma emits_weaken: "emits V S m \<Longrightarrow> (\<And>r es. S r es \<Longrightarrow> T r es) \<Longrightarrow> emits V T m"
  unfolding emits_def by blast

lemma emits_return: "S x [] \<Longrightarrow> emits V S (State_Monad.return x)"
  by (simp add: emits_def)

lemma emits_bind:
  assumes "emits V S m" "\<And>x. emits V (T x) (k x)"
    and "\<And>x y es es'. S x es \<Longrightarrow> T x y es' \<Longrightarrow> U y (es @ es')"
  shows "emits V U (State_Monad.bind m k)"
  unfolding emits_def
proof (intro allI impI)
  fix f w r f' w'
  assume "ok V w" and run: "run_state (State_Monad.bind m k) (f, w) = (r, (f', w'))"
  obtain x f1 w1 where m: "run_state m (f, w) = (x, (f1, w1))"
    by (cases "run_state m (f, w)") (auto simp: prod_eq_iff)
  with run have k: "run_state (k x) (f1, w1) = (r, (f', w'))" by simp
  from emitsD [OF assms(1) \<open>ok V w\<close> m] obtain es where
    a: "ok V w1" "log V w1 = log V w @ es" "S x es" by blast
  from emitsD [OF assms(2) a(1) k] obtain es' where
    b: "ok V w'" "log V w' = log V w1 @ es'" "T x r es'" by blast
  show "ok V w' \<and> (\<exists>es. log V w' = log V w @ es \<and> U r es)"
    using a b assms(3) by (auto intro!: exI [of _ "es @ es'"])
qed

lemma emits_if: "(b \<Longrightarrow> emits V S m) \<Longrightarrow> (\<not> b \<Longrightarrow> emits V S n) \<Longrightarrow> emits V S (if b then m else n)"
  by simp

lemma emits_mem: "(\<And>x. S x []) \<Longrightarrow> emits V S (in_mem g)"
  by (auto simp: emits_def in_mem_def split: prod.splits)

lemma emits_world:
  assumes "\<And>w r w'. ok V w \<Longrightarrow> run_state m w = (r, w') \<Longrightarrow> ok V w' \<and> (\<exists>es. log V w' = log V w @ es \<and> S r es)"
  shows "emits V S (in_world m)"
  using assms by (auto simp: emits_def in_world_def split: prod.splits)

lemma emits_quiet: "quiet V m \<Longrightarrow> (\<And>r. S r []) \<Longrightarrow> emits V S (in_world m)"
  by (rule emits_world) (drule keepsD, assumption, auto simp: extends_def list_all_iff)

subsection \<open>Entries that all satisfy a predicate\<close>

abbreviation emits_all :: "'w world_view \<Rightarrow> (log_entry \<Rightarrow> bool) \<Rightarrow> ('m \<times> 'w, 'a) state \<Rightarrow> bool" where
  "emits_all V P m \<equiv> emits V (\<lambda>_. list_all P) m"

named_theorems all_intros \<open>rules for \<open>emits_all\<close>\<close>

lemma all_return [all_intros]: "emits_all V P (State_Monad.return x)"
  by (simp add: emits_return)

lemma all_bind [all_intros]:
  "emits_all V P m \<Longrightarrow> (\<And>x. emits_all V P (k x)) \<Longrightarrow> emits_all V P (State_Monad.bind m k)"
  by (rule emits_bind [where S = "\<lambda>_. list_all P" and T = "\<lambda>_ _. list_all P"]) auto

lemma all_mem [all_intros]: "emits_all V P (in_mem g)"
  by (simp add: emits_mem)

lemma all_quiet: "quiet V m \<Longrightarrow> emits_all V P (in_world m)"
  by (simp add: emits_quiet)

lemma all_mono: "emits_all V P m \<Longrightarrow> (\<And>e. P e \<Longrightarrow> Q e) \<Longrightarrow> emits_all V Q m"
  by (erule emits_weaken) (auto simp: list_all_iff)

lemma all_for_each [all_intros]: "(\<And>x. emits_all V P (g x)) \<Longrightarrow> emits_all V P (for_each g xs)"
  by (induction xs) (auto intro: all_intros)

lemmas all_cases [all_intros] = emits_if

lemma all_option [all_intros]:
  "(x = None \<Longrightarrow> emits_all V P m) \<Longrightarrow> (\<And>y. x = Some y \<Longrightarrow> emits_all V P (g y)) \<Longrightarrow>
   emits_all V P (case x of None \<Rightarrow> m | Some y \<Rightarrow> g y)"
  by (cases x) auto

lemma all_sum [all_intros]:
  "(\<And>y. x = Inl y \<Longrightarrow> emits_all V P (g y)) \<Longrightarrow> (\<And>y. x = Inr y \<Longrightarrow> emits_all V P (h y)) \<Longrightarrow>
   emits_all V P (case x of Inl y \<Rightarrow> g y | Inr y \<Rightarrow> h y)"
  by (cases x) auto

lemma all_let [all_intros]: "emits_all V P (g x) \<Longrightarrow> emits_all V P (Let x g)"
  by simp

lemma all_prod [all_intros]: "(\<And>a b. x = (a, b) \<Longrightarrow> emits_all V P (g a b)) \<Longrightarrow> emits_all V P (case x of (a, b) \<Rightarrow> g a b)"
  by (cases x) auto

text \<open>The one place where patches enter the log.\<close>

definition transition_entries :: "string \<Rightarrow> build_func \<Rightarrow> transition_error option \<Rightarrow> log_entry list \<Rightarrow> bool" where
  "transition_entries nm bld r es \<longleftrightarrow>
     (case r of None \<Rightarrow> \<exists>n p. es = [Patched nm n p] \<and> bld n = Apply p | Some e \<Rightarrow> es = [])"

context reliable_api_server
begin

lemma reading_emits:
  assumes "\<And>x. versioned (bld x)" "quiet V rd"
  shows "emits V (\<lambda>r es. \<exists>x. transition_entries nm (bld x) r es) (in_world (patch_attempts api nm rd bld k))"
proof (rule emits_world)
  fix w r w'
  assume a: "ok V w" "run_state (patch_attempts api nm rd bld k) w = (r, w')"
  from transition_exact [OF assms a]
  show "ok V w' \<and> (\<exists>es. log V w' = log V w @ es \<and> (\<exists>x. transition_entries nm (bld x) r es))"
    by (cases r) (auto simp: transition_entries_def)
qed

lemma attempts_emits:
  assumes "versioned bld"
  shows "emits V (transition_entries nm bld)
    (in_world (patch_attempts api nm (State_Monad.return ()) (\<lambda>_. bld) k))"
  by (rule emits_weaken [OF reading_emits [OF assms quiet_return]]) blast

lemma transition_emits:
  "versioned bld \<Longrightarrow> emits V (transition_entries nm bld) (in_world (PatchTransition api nm k bld))"
  unfolding PatchTransition_def PatchTransitionReading_def by (rule attempts_emits)

lemma transition_all:
  assumes "versioned bld" "\<And>n p. bld n = Apply p \<Longrightarrow> P (Patched nm n p)"
  shows "emits_all V P (in_world (PatchTransition api nm k bld))"
  by (rule emits_weaken [OF transition_emits [OF assms(1)]])
     (auto simp: transition_entries_def assms(2) split: option.splits)

end

end
