(* ===== verification/Update_Feature.thy ===== *)
theory Update_Feature
  imports Release_Check Cron Config Handlers "HOL-Library.AList"
begin

text \<open>
  \<open>internal/features/update\<close>: the pod's own cycle \<open>RunLocal\<close> (\<open>update.go\<close>) with the flavor
  (\<open>flavor.go\<close>), the bootloader reconciliation and the goal correction (\<open>reconcile.go\<close>), the claimed
  release check, staging and the reboot enqueue (\<open>enqueue.go\<close>), and the leader's verification
  (\<open>verify.go\<close>) with the removal of left-over plans (\<open>migrate.go\<close>). A handler is a computation over
  the feature's memory and the world, as in \<open>Reboot_Feature\<close>; logging is left out, but the flags that
  only limit it are kept. The maps of the code are walked in the order of the lists.
\<close>

section \<open>Memory and environment\<close>

record update_mem =
  un_notified :: "string set"
  availSeen :: "string set"
  skipLogged :: bool
  lastGoal :: string
  goalKnown :: bool
  um_flavor :: string
  flavorKnown :: bool
  mixWarned :: bool
  flavorWarned :: bool
  nonQuiescent :: "string \<rightharpoonup> string"
  wasLeader :: bool
  plansCleaned :: bool
  startCleaned :: bool

definition new_update_mem :: update_mem where
  "new_update_mem = \<lparr> un_notified = {}, availSeen = {}, skipLogged = False, lastGoal = [], goalKnown = False,
     um_flavor = [], flavorKnown = False, mixWarned = False, flavorWarned = False, nonQuiescent = Map.empty,
     wasLeader = False, plansCleaned = False, startCleaned = False \<rparr>"

text \<open>The boot store, an interface of the code; \<open>Boot_Store\<close> models the physical one.\<close>

record 'w boot_store =
  bs_Versions :: "('w, boot_error + string list) state"
  bs_Stage :: "stage_request \<Rightarrow> ('w, boot_error + unit) state"
  bs_Kernels :: "('w, boot_error + string list) state"
  bs_EnsureBootGoal :: "string \<Rightarrow> string \<Rightarrow> ('w, boot_error + bool) state"

record 'w update_env =
  u_api :: "'w kube_api"
  u_DeleteConfigMap :: "string \<Rightarrow> string \<Rightarrow> ('w, api_error option) state"
  u_leader :: "('w, bool) state"
  u_store :: "'w boot_store option"
  u_release :: "'w release_host"
  u_now :: "('w, gtime) state"
  u_wall :: "('w, gtime) state"
  u_random :: "('w, string + int list) state"
  u_error_text :: "boot_error \<Rightarrow> string"
  u_NodeName :: string
  u_EventNamespace :: string
  u_CustomKeyring :: string
  u_EmbeddedKeyring :: string
  u_PlanNamespace :: string
  u_PlanName :: string

type_synonym ('w, 'a) uhandler = "(update_mem \<times> 'w, 'a) state"

abbreviation skip :: "('w, unit) uhandler" where "skip \<equiv> State_Monad.return ()"

section \<open>Events\<close>

definition update_event :: "'w update_env \<Rightarrow> string \<Rightarrow> string \<Rightarrow> string \<Rightarrow> bool \<Rightarrow> ('w, unit) uhandler" where
  "update_event env nodeName reason message warning = do {
     now \<leftarrow> in_world (u_wall env);
     _ \<leftarrow> in_world (createEvent (u_api env) (u_EventNamespace env)
       \<lparr> event_Namespace = u_EventNamespace env, event_GenerateName = ''update-'', InvolvedName = nodeName,
         InvolvedUID = [], Reason = reason, Message = message, Component = [],
         event_Type = (if warning then ''Warning'' else ''Normal''), FirstTimestamp = now,
         LastTimestamp = now, Count = 1 \<rparr>);
     State_Monad.return ()
   }"

text \<open>The edge of a condition: whether it has just begun.\<close>

definition note_edge :: "string \<Rightarrow> bool \<Rightarrow> update_mem \<Rightarrow> bool \<times> update_mem" where
  "note_edge key active f =
     (active \<and> key \<notin> un_notified f,
      f\<lparr> un_notified := (if active then insert key (un_notified f) else un_notified f - {key}) \<rparr>)"

definition noteCheckError :: "'w update_env \<Rightarrow> string \<Rightarrow> bool \<Rightarrow> ('w, unit) uhandler" where
  "noteCheckError env nodeName active = do {
     fire \<leftarrow> in_mem (note_edge (''checkerror:'' @ nodeName) active);
     if fire then update_event env nodeName ''UpdateCheckError'' ''release check failed; see controller logs'' True
     else skip }"

definition noteScanError :: "string \<Rightarrow> bool \<Rightarrow> ('w, bool) uhandler" where
  "noteScanError nodeName active = in_mem (note_edge (''scanerror:'' @ nodeName) active)"

definition noteHeld :: "'w update_env \<Rightarrow> string \<Rightarrow> bool \<Rightarrow> ('w, unit) uhandler" where
  "noteHeld env nodeName active = do {
     fire \<leftarrow> in_mem (note_edge (''heldwindow:'' @ nodeName) active);
     if fire then update_event env nodeName ''UpdateHeldWindow''
       ''node is reboot-eligible and waiting for a reboots.windows window'' False
     else skip }"

definition noteMismatch :: "'w update_env \<Rightarrow> string \<Rightarrow> string \<Rightarrow> string \<Rightarrow> bool \<Rightarrow> ('w, unit) uhandler" where
  "noteMismatch env nodeName goal running active = do {
     fire \<leftarrow> in_mem (note_edge (''mismatch:'' @ nodeName) active);
     if fire then update_event env nodeName ''UpdateMismatch''
       (''node came back on '' @ running @ '', not '' @ goal @ ''; no auto-retry (reboot via the M1 API or re-pin)'') True
     else skip }"

section \<open>The flavor of the board\<close>

definition known_flavors :: "string list \<Rightarrow> string list" where
  "known_flavors files = remdups (List.filter IsKnownFlavor (List.map_filter (\<lambda>n. map_option snd (ParseStoredKernel n)) files))"

definition flavorOf :: "'w update_env \<Rightarrow> ('w, string option) uhandler" where
  "flavorOf env = do {
     cached \<leftarrow> in_mem (\<lambda>f. (if flavorKnown f then Some (um_flavor f) else None, f));
     case cached of
       Some fl \<Rightarrow> State_Monad.return (if fl \<noteq> [] then Some fl else None)
     | None \<Rightarrow>
         (case u_store env of
            None \<Rightarrow> State_Monad.return None
          | Some st \<Rightarrow> do {
              r \<leftarrow> in_world (bs_Kernels st);
              case r of
                Inl e \<Rightarrow> State_Monad.return None
              | Inr files \<Rightarrow>
                  (case ResolveFlavor files of
                     None \<Rightarrow> do {
                       _ \<leftarrow> in_mem (\<lambda>f. ((), f\<lparr> flavorWarned := True \<rparr>));
                       State_Monad.return None }
                   | Some fl \<Rightarrow> do {
                       _ \<leftarrow> in_mem (\<lambda>f. ((), f\<lparr> um_flavor := fl, flavorKnown := True, flavorWarned := False,
                         mixWarned := mixWarned f \<or> List.length (known_flavors files) > 1 \<rparr>));
                       State_Monad.return (Some fl) }) }) }"

section \<open>The goal and the bootloader\<close>

definition setGoalKnown :: "string \<Rightarrow> ('w, unit) uhandler" where
  "setGoalKnown v = in_mem (\<lambda>f. ((), f\<lparr> lastGoal := v, goalKnown := True \<rparr>))"

text \<open>Whether a transition has landed.\<close>

definition landed :: "'w update_env \<Rightarrow> string \<Rightarrow> build_func \<Rightarrow> ('w, bool) uhandler" where
  "landed env nodeName bld = do {
     err \<leftarrow> in_world (PatchTransition (u_api env) nodeName 3 bld);
     State_Monad.return (err = None) }"

definition rearmIfCompleted :: "'w update_env \<Rightarrow> string \<Rightarrow> ('w, bool) uhandler" where
  "rearmIfCompleted env nodeName = landed env nodeName RearmBuild"

text \<open>The versions of one flavor among the stored kernels, in their order.\<close>

definition own_versions :: "string \<Rightarrow> string list \<Rightarrow> string list" where
  "own_versions flavor names =
     List.map_filter (\<lambda>n. case ParseStoredKernel n of
       None \<Rightarrow> None | Some (ts, fa) \<Rightarrow> if fa = flavor then Some ts else None) names"

definition newer_version :: "string \<Rightarrow> string \<Rightarrow> string" where
  "newer_version newest ts = (if newest = [] \<or> NewerTS ts newest then ts else newest)"

definition safe_target :: "string \<Rightarrow> string list \<Rightarrow> string \<times> bool" where
  "safe_target running local =
     (let newest = foldl newer_version [] local in
      if running \<noteq> [] \<and> running \<in> set local then (running, False)
      else if newest \<noteq> [] then (newest, False)
      else ([], True))"

definition safeState :: "'w boot_store \<Rightarrow> string \<Rightarrow> string \<Rightarrow> ('w, boot_error + string \<times> bool) uhandler" where
  "safeState st running flavor =
     or_fail (in_world (bs_Kernels st)) (\<lambda>names.
       State_Monad.return (Inr (safe_target running (own_versions flavor names))))"

definition applySafeState :: "'w update_env \<Rightarrow> 'w boot_store \<Rightarrow> string \<Rightarrow> string \<Rightarrow> string \<Rightarrow> string \<Rightarrow> ('w, bool) uhandler" where
  "applySafeState env st nodeName badVal running arch = do {
     s \<leftarrow> safeState st running arch;
     case s of
       Inl e \<Rightarrow> State_Monad.return False
     | Inr (target, del) \<Rightarrow> do {
         good \<leftarrow> landed env nodeName (CorrectGoalBuild badVal target);
         if \<not> good then State_Monad.return False
         else if del then do {
           _ \<leftarrow> update_event env nodeName ''UpdateGoalCorrected''
             (''next-kernel '' @ badVal @ '' unreachable and no local kernel remains; annotation deleted'') True;
           _ \<leftarrow> setGoalKnown [];
           State_Monad.return True }
         else do {
           _ \<leftarrow> update_event env nodeName ''UpdateGoalCorrected''
             (''next-kernel '' @ badVal @ '' unreachable; corrected to '' @ target) True;
           r \<leftarrow> in_world (bs_EnsureBootGoal st target arch);
           case r of
             Inl e \<Rightarrow> State_Monad.return True
           | Inr _ \<Rightarrow> do {
               _ \<leftarrow> setGoalKnown target;
               _ \<leftarrow> rearmIfCompleted env nodeName;
               State_Monad.return True } } } }"

definition node_update :: "node \<Rightarrow> update_info" where
  "node_update nd = ParseUpdate (Annotations (Metadata nd))"

definition apply_goal :: "'w update_env \<Rightarrow> 'w boot_store \<Rightarrow> string \<Rightarrow> bool \<Rightarrow> string \<Rightarrow> string \<Rightarrow> ('w, bool) uhandler" where
  "apply_goal env st name changed freshVal arch = do {
     r \<leftarrow> in_world (bs_EnsureBootGoal st freshVal arch);
     case r of
       Inl e \<Rightarrow> do {
         _ \<leftarrow> (if e = GoalAbsent then setGoalKnown freshVal else skip);
         State_Monad.return False }
     | Inr repointed \<Rightarrow> do {
         _ \<leftarrow> setGoalKnown freshVal;
         if changed \<or> repointed then rearmIfCompleted env name else State_Monad.return False } }"

definition reconcile_fresh :: "'w update_env \<Rightarrow> 'w boot_store \<Rightarrow> string \<Rightarrow> bool \<Rightarrow> string \<Rightarrow> node \<Rightarrow> ('w, bool) uhandler" where
  "reconcile_fresh env st name known prev fresh =
     (let freshUI = node_update fresh;
          freshVal = (if NextKernelPresent freshUI then NextKernel freshUI else []);
          running = RunningVersion (KernelVersion fresh)
      in do {
        flavor \<leftarrow> flavorOf env;
        if freshVal = [] then do {
          _ \<leftarrow> setGoalKnown [];
          State_Monad.return False }
        else if NextKernelParseErr freshUI \<noteq> [] then
          (case flavor of
             None \<Rightarrow> do { _ \<leftarrow> setGoalKnown freshVal; State_Monad.return False }
           | Some arch \<Rightarrow> applySafeState env st name freshVal running arch)
        else (case flavor of
             None \<Rightarrow> do { _ \<leftarrow> setGoalKnown freshVal; State_Monad.return False }
           | Some arch \<Rightarrow> apply_goal env st name (known \<and> freshVal \<noteq> prev) freshVal arch) })"

definition reconcileBootloader :: "'w update_env \<Rightarrow> node \<Rightarrow> bool \<Rightarrow> ('w, bool) uhandler" where
  "reconcileBootloader env nd bootstrapped =
     (case u_store env of
        None \<Rightarrow> State_Monad.return False
      | Some st \<Rightarrow> do {
          (known, prev) \<leftarrow> in_mem (\<lambda>f. ((goalKnown f, lastGoal f), f));
          let startUI = node_update nd;
          if known \<and> \<not> bootstrapped \<and> NextKernel startUI = prev \<and> (NextKernelPresent startUI \<or> prev = []) then
            State_Monad.return False
          else do {
            r \<leftarrow> in_world (getNode (u_api env) (Name (Metadata nd)));
            case r of
              Inl e \<Rightarrow> State_Monad.return False
            | Inr fresh \<Rightarrow> reconcile_fresh env st (Name (Metadata nd)) known prev fresh } })"

section \<open>Bootstrap\<close>

definition bootstrap_target :: "string \<Rightarrow> string list \<Rightarrow> string" where
  "bootstrap_target running local =
     (let target = (if running \<in> set local then running else [])
      in if target = [] then foldl newer_version [] local else target)"

definition bootstrap :: "'w update_env \<Rightarrow> node \<Rightarrow> ('w, bool) uhandler" where
  "bootstrap env nd =
     (if NextKernelPresent (node_update nd) then State_Monad.return False
      else (case u_store env of
          None \<Rightarrow> State_Monad.return False
        | Some st \<Rightarrow> do {
            r \<leftarrow> in_world (bs_Versions st);
            case r of
              Inl e \<Rightarrow> State_Monad.return False
            | Inr local \<Rightarrow>
                if local = [] then State_Monad.return False
                else landed env (Name (Metadata nd))
                  (NextKernelBuild (bootstrap_target (RunningVersion (KernelVersion nd)) local) PrecondAbsent) }))"

section \<open>The claimed check\<close>

definition claim_covered :: "node \<Rightarrow> gtime \<Rightarrow> bool" where
  "claim_covered nd occ \<longleftrightarrow>
     (case Option.bind (Annotations (Metadata nd) AnnUpdateLastCheck) parse_rfc3339 of
        None \<Rightarrow> False | Some t \<Rightarrow> \<not> t < occ)"

definition claimCheck :: "'w update_env \<Rightarrow> node \<Rightarrow> gtime \<Rightarrow> ('w, bool) uhandler" where
  "claimCheck env nd occ =
     (if claim_covered nd occ then State_Monad.return False
      else landed env (Name (Metadata nd)) (UpdateLastCheckBuild occ))"

definition note_available :: "check_result \<Rightarrow> update_mem \<Rightarrow> bool \<times> update_mem" where
  "note_available res f =
     (if cr_Available res \<and> cr_Latest res \<notin> availSeen f
      then (True, f\<lparr> availSeen := insert (cr_Latest res) (availSeen f) \<rparr>) else (False, f))"

definition doCheck :: "'w update_env \<Rightarrow> node \<Rightarrow> config \<Rightarrow> string \<Rightarrow> ('w, release_error + check_result) uhandler" where
  "doCheck env nd fc flavor =
     (let ui = node_update nd;
          repoURL = (if ui_UpdateURL ui = [] then UpdateURL fc else ui_UpdateURL ui);
          name = Name (Metadata nd)
      in do {
        r \<leftarrow> in_world (Check (u_release env) (u_CustomKeyring env) (u_EmbeddedKeyring env) nd repoURL flavor);
        case r of
          Inl e \<Rightarrow> do {
            _ \<leftarrow> noteCheckError env name True;
            State_Monad.return (Inl e) }
        | Inr res \<Rightarrow> do {
            fire \<leftarrow> in_mem (note_available res);
            _ \<leftarrow> (if fire then update_event env name ''UpdateAvailable''
                (''release '' @ cr_Latest res @ '' available (running '' @ cr_Running res @ '', repo '' @ cr_URL res @ '')'') False
              else skip);
            _ \<leftarrow> noteCheckError env name False;
            State_Monad.return (Inr res) } })"

section \<open>Staging\<close>

definition heldGoal :: "update_info \<Rightarrow> string \<Rightarrow> bool" where
  "heldGoal ui running \<longleftrightarrow> NextKernelPresent ui \<and> (NextKernelParseErr ui \<noteq> [] \<or> NextKernel ui \<noteq> running)"

definition newerLocal :: "string list \<Rightarrow> string \<Rightarrow> bool" where
  "newerLocal local goal = list_ex (\<lambda>v. v \<noteq> goal \<and> NewerTS v goal) local"

definition indexHas :: "check_result \<Rightarrow> string \<Rightarrow> string \<Rightarrow> bool" where
  "indexHas res ts arch = list_ex (\<lambda>(file, csum). ParseKernelRelease file = Some (ts, arch)) (cr_Sums res)"

definition stage_request_for :: "config \<Rightarrow> node \<Rightarrow> check_result \<Rightarrow> string \<Rightarrow> string \<Rightarrow> stage_request" where
  "stage_request_for fc nd res v checksum =
     \<lparr> sr_Version = v, sr_Arch = cr_Arch res, sr_Checksum = checksum, sr_ArtifactFile = ArtifactFileName v (cr_Arch res),
       sr_RepoBase = cr_URL res, sr_Preserve = UpdatePreserve fc, sr_MaxPercentUsage = UpdateMaxPercentUsage fc,
       sr_Running = RunningVersion (KernelVersion nd), sr_Bootloader = BootAuto, sr_EfiChecksum = [],
       sr_NoRepoint = False, sr_DryRun = False \<rparr>"

definition stageOne :: "'w update_env \<Rightarrow> 'w boot_store \<Rightarrow> node \<Rightarrow> config \<Rightarrow> check_result \<Rightarrow> string \<Rightarrow> ('w, bool) uhandler" where
  "stageOne env st nd fc res v =
     (case map_of (cr_Sums res) (ArtifactFileName v (cr_Arch res)) of
        None \<Rightarrow> State_Monad.return False
      | Some checksum \<Rightarrow> do {
          r \<leftarrow> in_world (bs_Stage st (stage_request_for fc nd res v checksum));
          case r of
            Inl e \<Rightarrow> do {
              _ \<leftarrow> update_event env (Name (Metadata nd)) ''UpdateStagingSkipped''
                (''staging '' @ v @ '' skipped: '' @ u_error_text env e) True;
              State_Monad.return False }
          | Inr _ \<Rightarrow> do {
              _ \<leftarrow> update_event env (Name (Metadata nd)) ''UpdateStaged''
                (''staged release '' @ v @ '' on '' @ Architecture nd) False;
              State_Monad.return True } })"

definition anchor :: "'w update_env \<Rightarrow> node \<Rightarrow> string \<Rightarrow> string \<Rightarrow> ('w, bool) uhandler" where
  "anchor env nd version running =
     landed env (Name (Metadata nd)) (NextKernelBuild version (PrecondQuiescent running))"

definition goal_missing :: "update_info \<Rightarrow> string \<Rightarrow> string list \<Rightarrow> bool" where
  "goal_missing ui running localSet \<longleftrightarrow>
     NextKernelPresent ui \<and> NextKernelParseErr ui = [] \<and> NextKernel ui \<noteq> running \<and> NextKernel ui \<notin> set localSet"

definition restage :: "'w update_env \<Rightarrow> 'w boot_store \<Rightarrow> node \<Rightarrow> config \<Rightarrow> check_result \<Rightarrow> string \<Rightarrow> ('w, bool) uhandler" where
  "restage env st nd fc res v = do {
     staged \<leftarrow> stageOne env st nd fc res v;
     if staged then rearmIfCompleted env (Name (Metadata nd)) else State_Monad.return False }"

text \<open>\<open>wanted\<close>: the condition that step (1b) and step (2) share.\<close>

definition wanted :: "update_info \<Rightarrow> string \<Rightarrow> check_result \<Rightarrow> bool" where
  "wanted ui running res \<longleftrightarrow>
     cr_Available res \<and> cr_Latest res \<noteq> [] \<and> cr_Latest res \<noteq> running \<and> NextKernel ui \<noteq> cr_Latest res"

definition adoptable :: "update_info \<Rightarrow> string \<Rightarrow> check_result \<Rightarrow> string list \<Rightarrow> bool" where
  "adoptable ui running res localSet \<longleftrightarrow>
     \<not> heldGoal ui running \<and> NextKernelPresent ui \<and> NextKernelParseErr ui = [] \<and> wanted ui running res \<and>
     cr_Latest res \<in> set localSet \<and> indexHas res (cr_Latest res) (cr_Arch res)"

definition adopt :: "'w update_env \<Rightarrow> 'w boot_store \<Rightarrow> node \<Rightarrow> check_result \<Rightarrow> string \<Rightarrow> bool \<Rightarrow> ('w, bool) uhandler" where
  "adopt env st nd res running dirty = do {
     good \<leftarrow> anchor env nd (cr_Latest res) running;
     if \<not> good then State_Monad.return dirty
     else do {
       _ \<leftarrow> in_world (bs_EnsureBootGoal st (cr_Latest res) (cr_Arch res));
       _ \<leftarrow> rearmIfCompleted env (Name (Metadata nd));
       State_Monad.return True } }"

definition reconverge :: "'w update_env \<Rightarrow> 'w boot_store \<Rightarrow> node \<Rightarrow> update_info \<Rightarrow> check_result \<Rightarrow> string list \<Rightarrow> bool \<Rightarrow>
    ('w, bool) uhandler" where
  "reconverge env st nd ui res localSet dirty =
     (if NextKernelParseErr ui = [] \<and> NextKernel ui \<in> set localSet \<and> newerLocal localSet (NextKernel ui) then do {
        r \<leftarrow> in_world (bs_EnsureBootGoal st (NextKernel ui) (cr_Arch res));
        case r of
          Inl e \<Rightarrow> State_Monad.return dirty
        | Inr repointed \<Rightarrow>
            if repointed then rearmIfCompleted env (Name (Metadata nd)) else State_Monad.return dirty }
      else State_Monad.return dirty)"

text \<open>The last branch is the code's: it cannot be taken, as \<open>wanted\<close> excludes it.\<close>

definition stage_newest :: "'w update_env \<Rightarrow> 'w boot_store \<Rightarrow> node \<Rightarrow> config \<Rightarrow> check_result \<Rightarrow> update_info \<Rightarrow> string \<Rightarrow>
    string list \<Rightarrow> bool \<Rightarrow> ('w, bool) uhandler" where
  "stage_newest env st nd fc res ui running localSet dirty =
     (if \<not> wanted ui running res then State_Monad.return dirty
      else if heldGoal ui running then reconverge env st nd ui res localSet dirty
      else if cr_Latest res \<in> set localSet then State_Monad.return dirty
      else do {
        staged \<leftarrow> stageOne env st nd fc res (cr_Latest res);
        if \<not> staged then State_Monad.return dirty
        else do {
          good \<leftarrow> anchor env nd (cr_Latest res) running;
          if good then do {
            _ \<leftarrow> rearmIfCompleted env (Name (Metadata nd));
            State_Monad.return True }
          else if NextKernel ui = cr_Latest res then do {
            again \<leftarrow> rearmIfCompleted env (Name (Metadata nd));
            State_Monad.return (if again then True else dirty) }
          else State_Monad.return dirty } })"

definition stage_steps :: "'w update_env \<Rightarrow> 'w boot_store \<Rightarrow> node \<Rightarrow> config \<Rightarrow> check_result \<Rightarrow> string list \<Rightarrow>
    ('w, bool) uhandler" where
  "stage_steps env st nd fc res localSet =
     (let running = RunningVersion (KernelVersion nd); ui = node_update nd in
      if goal_missing ui running localSet \<and> \<not> indexHas res (NextKernel ui) (cr_Arch res) then
        applySafeState env st (Name (Metadata nd)) (NextKernel ui) running (cr_Arch res)
      else do {
        dirty \<leftarrow> (if goal_missing ui running localSet then restage env st nd fc res (NextKernel ui)
                 else State_Monad.return False);
        if adoptable ui running res localSet then adopt env st nd res running dirty
        else stage_newest env st nd fc res ui running localSet dirty })"

definition maybeStage :: "'w update_env \<Rightarrow> node \<Rightarrow> config \<Rightarrow> check_result \<Rightarrow> ('w, bool) uhandler" where
  "maybeStage env nd fc res =
     (case u_store env of
        None \<Rightarrow> State_Monad.return False
      | Some st \<Rightarrow>
          if cr_Arch res = [] then State_Monad.return False
          else do {
            r \<leftarrow> in_world (bs_Kernels st);
            case r of
              Inl e \<Rightarrow> do {
                _ \<leftarrow> noteScanError (u_NodeName env) True;
                State_Monad.return False }
            | Inr names \<Rightarrow> do {
                _ \<leftarrow> noteScanError (u_NodeName env) False;
                stage_steps env st nd fc res (own_versions (cr_Arch res) names) } })"

section \<open>The enqueue\<close>

definition reboot_eligible :: "node \<Rightarrow> bool" where
  "reboot_eligible nd \<longleftrightarrow>
     (let ui = node_update nd; running = RunningVersion (KernelVersion nd) in
      NextKernelPresent ui \<and> NextKernelParseErr ui = [] \<and> running \<noteq> [] \<and> NextKernel ui \<noteq> running \<and>
      \<not> InLifecycle (Node_State.Parse (Annotations (Metadata nd))))"

definition newControllerRequestID :: "'w update_env \<Rightarrow> gtime \<Rightarrow> ('w, string + string) uhandler" where
  "newControllerRequestID env now = do {
     b \<leftarrow> in_world (u_random env);
     State_Monad.return (case b of Inl e \<Rightarrow> Inl e | Inr bs \<Rightarrow> Inr (format_rfc3339 now @ ''-'' @ hex_encode bs)) }"

definition enqueue_goal :: "'w update_env \<Rightarrow> 'w boot_store \<Rightarrow> node \<Rightarrow> gtime \<Rightarrow> string \<Rightarrow> ('w, unit) uhandler" where
  "enqueue_goal env st nd now arch =
     (let goal = NextKernel (node_update nd); running = RunningVersion (KernelVersion nd) in do {
        r \<leftarrow> in_world (bs_EnsureBootGoal st goal arch);
        case r of
          Inl e \<Rightarrow> skip
        | Inr _ \<Rightarrow> do {
            i \<leftarrow> newControllerRequestID env now;
            case i of
              Inl e \<Rightarrow> skip
            | Inr reqID \<Rightarrow> do {
                _ \<leftarrow> landed env (Name (Metadata nd)) (EnqueueControllerBuild now reqID goal running);
                skip } } })"

definition maybeEnqueue :: "'w update_env \<Rightarrow> node \<Rightarrow> config \<Rightarrow> gtime \<Rightarrow> ('w, unit) uhandler" where
  "maybeEnqueue env nd fc now =
     (let name = Name (Metadata nd) in
      if \<not> reboot_eligible nd then noteHeld env name False
      else do {
        flavor \<leftarrow> flavorOf env;
        case flavor of
          None \<Rightarrow> noteHeld env name False
        | Some arch \<Rightarrow>
            (case u_store env of
               None \<Rightarrow> skip
             | Some st \<Rightarrow>
                 if \<not> WindowsOpen (RebootWindows fc) (RebootWindowGrace fc) now then noteHeld env name True
                 else do {
                   _ \<leftarrow> noteHeld env name False;
                   enqueue_goal env st nd now arch }) })"

section \<open>The cycle of the pod\<close>

definition eligible_build :: build_func where
  "eligible_build fresh =
     (if \<not> RebootEligiblePresent (node_update fresh) then Skip
      else Apply (ClearRebootEligiblePatch (ResourceVersion (Metadata fresh))))"

definition cleanLeftoverEligible :: "'w update_env \<Rightarrow> ('w, unit) uhandler" where
  "cleanLeftoverEligible env = do {
     _ \<leftarrow> landed env (u_NodeName env) eligible_build;
     skip }"

definition reread :: "'w update_env \<Rightarrow> ('w, node option) uhandler" where
  "reread env = do {
     r \<leftarrow> in_world (getNode (u_api env) (u_NodeName env));
     State_Monad.return (case r of Inl e \<Rightarrow> None | Inr fresh \<Rightarrow> Some fresh) }"

definition logWindowSkip :: "('w, unit) uhandler" where
  "logWindowSkip = in_mem (\<lambda>f. ((), f\<lparr> skipLogged := True \<rparr>))"

definition update_work :: "'w update_env \<Rightarrow> config \<Rightarrow> gtime \<Rightarrow> string \<Rightarrow> node \<Rightarrow> bool \<Rightarrow> ('w, bool) uhandler" where
  "update_work env fc now flavor nd dirty =
     (if WindowsOpen (UpdateWindows fc) (UpdateWindowGrace fc) now then
        (case NewestOccurrence (UpdateWindows fc) now of
           None \<Rightarrow> State_Monad.return dirty
         | Some occ \<Rightarrow> do {
             mine \<leftarrow> claimCheck env nd occ;
             if \<not> mine then State_Monad.return dirty
             else do {
               _ \<leftarrow> in_mem (\<lambda>f. ((), f\<lparr> skipLogged := False \<rparr>));
               r \<leftarrow> doCheck env nd fc flavor;
               case r of
                 Inl e \<Rightarrow> State_Monad.return dirty
               | Inr res \<Rightarrow> do {
                   staged \<leftarrow> maybeStage env nd fc res;
                   State_Monad.return (dirty \<or> staged) } } })
      else do { _ \<leftarrow> logWindowSkip; State_Monad.return dirty })"

definition local_work :: "'w update_env \<Rightarrow> config \<Rightarrow> gtime \<Rightarrow> node \<Rightarrow> ('w, unit) uhandler" where
  "local_work env fc now nd = do {
     anchored \<leftarrow> bootstrap env nd;
     flavor \<leftarrow> flavorOf env;
     case flavor of
       None \<Rightarrow> skip
     | Some fl \<Rightarrow> do {
         moved \<leftarrow> reconcileBootloader env nd anchored;
         let dirty = anchored \<or> moved;
         nd1 \<leftarrow> (if dirty then do { r \<leftarrow> reread env; State_Monad.return (case r of None \<Rightarrow> nd | Some fresh \<Rightarrow> fresh) }
                else State_Monad.return nd);
         dirty' \<leftarrow> update_work env fc now fl nd1 dirty;
         nd2 \<leftarrow> (if dirty' then reread env else State_Monad.return (Some nd1));
         case nd2 of
           None \<Rightarrow> skip
         | Some n \<Rightarrow> maybeEnqueue env n fc now } }"

definition RunLocal :: "'w update_env \<Rightarrow> config \<Rightarrow> ('w, outcome) uhandler" where
  "RunLocal env fc = do {
     lead \<leftarrow> in_world (u_leader env);
     start \<leftarrow> in_mem (\<lambda>f. (\<not> startCleaned f, f\<lparr> wasLeader := lead, startCleaned := True \<rparr>));
     _ \<leftarrow> (if start then cleanLeftoverEligible env else skip);
     r \<leftarrow> in_world (getNode (u_api env) (u_NodeName env));
     case r of
       Inl e \<Rightarrow> State_Monad.return Finished
     | Inr nd \<Rightarrow> do {
         now \<leftarrow> in_world (u_now env);
         _ \<leftarrow> local_work env fc now nd;
         State_Monad.return Finished } }"

section \<open>The leader\<close>

definition cleanLeftoverPlans :: "'w update_env \<Rightarrow> ('w, unit) uhandler" where
  "cleanLeftoverPlans env =
     (if u_PlanNamespace env = [] \<or> u_PlanName env = [] then in_mem (\<lambda>f. ((), f\<lparr> plansCleaned := True \<rparr>))
      else do {
        err \<leftarrow> in_world (u_DeleteConfigMap env (u_PlanNamespace env) (u_PlanName env));
        (case err of
           None \<Rightarrow> in_mem (\<lambda>f. ((), f\<lparr> plansCleaned := True \<rparr>))
         | Some e \<Rightarrow> if IsNotFound e then in_mem (\<lambda>f. ((), f\<lparr> plansCleaned := True \<rparr>)) else skip) })"

record pnode =
  pn_name :: string
  pn_st :: node_state
  pn_ui :: update_info
  pn_running :: string

definition rebootState :: "node_state \<Rightarrow> string option" where
  "rebootState st =
     (case ns_State st of
        None \<Rightarrow> None
      | Some si \<Rightarrow> if \<not> st_Present si \<or> st_ParseError si \<noteq> [] then None else Some (st_State si))"

definition pnode_of :: "node \<Rightarrow> pnode" where
  "pnode_of n = \<lparr> pn_name = Name (Metadata n), pn_st = Node_State.Parse (Annotations (Metadata n)),
     pn_ui = node_update n, pn_running = RunningVersion (KernelVersion n) \<rparr>"

text \<open>The views are keyed by name: of two nodes with one name the last counts.\<close>

definition update_views :: "node list \<Rightarrow> (string \<times> pnode) list" where
  "update_views nds = foldl (\<lambda>m n. AList.update (Name (Metadata n)) (pnode_of n) m) [] nds"

definition quiesced :: "string \<Rightarrow> string \<Rightarrow> update_mem \<Rightarrow> bool \<times> update_mem" where
  "quiesced name goal f =
     (nonQuiescent f name = Some goal, f\<lparr> nonQuiescent := (nonQuiescent f)(name := None) \<rparr>)"

definition verify_node :: "'w update_env \<Rightarrow> string \<times> pnode \<Rightarrow> ('w, unit) uhandler" where
  "verify_node env = (\<lambda>(name, pn).
     let goal = NextKernel (pn_ui pn) in
     if \<not> NextKernelPresent (pn_ui pn) \<or> NextKernelParseErr (pn_ui pn) \<noteq> [] \<or> pn_running pn = [] then skip
     else if goal = pn_running pn then do {
       applied \<leftarrow> in_mem (quiesced name goal);
       _ \<leftarrow> (if applied then update_event env name ''UpdateApplied''
              (''node quiescent on '' @ pn_running pn @ '' after reboot'') False else skip);
       noteMismatch env name [] [] False }
     else do {
       _ \<leftarrow> in_mem (\<lambda>f. ((), f\<lparr> nonQuiescent := (nonQuiescent f)(name \<mapsto> goal) \<rparr>));
       noteMismatch env name goal (pn_running pn) (rebootState (pn_st pn) = Some Completed) })"

definition verifyNodes :: "'w update_env \<Rightarrow> (string \<times> pnode) list \<Rightarrow> ('w, unit) uhandler" where
  "verifyNodes env views = do {
     _ \<leftarrow> for_each (verify_node env) views;
     in_mem (\<lambda>f. ((), f\<lparr> nonQuiescent := nonQuiescent f |` (fst ` set views) \<rparr>)) }"

definition update_Run :: "'w update_env \<Rightarrow> config \<Rightarrow> ('w, outcome) uhandler" where
  "update_Run env fc = do {
     attempt \<leftarrow> in_mem (\<lambda>f. if \<not> plansCleaned f \<and> \<not> wasLeader f then (True, f\<lparr> wasLeader := True \<rparr>) else (False, f));
     _ \<leftarrow> (if attempt then cleanLeftoverPlans env else skip);
     r \<leftarrow> in_world (listNodes (u_api env));
     case r of
       Inl e \<Rightarrow> State_Monad.return Finished
     | Inr nds \<Rightarrow> do {
         _ \<leftarrow> verifyNodes env (update_views nds);
         State_Monad.return Finished } }"


end
