(* ===== verification/Rest_Api.thy ===== *)
theory Rest_Api
  imports Config Node_State Handlers "HOL-Library.AList"
begin

text \<open>
  \<open>internal/api/api.go\<close>: the REST API of every controller instance. A handler is a computation
  over the world that gives a reply: the status code, whether the JSON content type was set before
  the header was sent, and the body. The patterns of \<open>http.ServeMux\<close> are the constructors of a
  route; splitting an address, parsing an IP and the texts of decoding errors are parameters.
\<close>

section \<open>Requests and replies\<close>

datatype route = Livez | Readyz | PostReboots | ListReboots | GetReboot string | DeleteReboot string | NoRoute

record http_request =
  h_route :: route
  h_remote :: string
  h_authorization :: string
  h_body :: string

record entry =
  en_Node :: string
  en_State :: string
  en_Since :: string
  en_Force :: bool
  en_By :: string
  en_BlockedBy :: "string list option"
  en_Error :: string
  en_IssuedAt :: string
  en_ConfirmedAt :: string
  en_Ready :: bool
  en_ParseError :: string

datatype rejection = Rejection string int string

datatype reply_body =
    StatusOk
  | Failure string string
  | RebootResponse "string list" "rejection list"
  | Entries "entry list"
  | OneEntry entry
  | NoBody

record reply =
  r_code :: int
  r_json :: bool
  r_body :: reply_body

record 'w api_env =
  a_api :: "'w kube_api"
  a_PodNamespace :: string
  a_PodSelector :: "(string \<times> string) list"
  a_now :: "('w, gtime) state"
  a_Features :: "('w, config) state"
  a_Ready :: "('w, bool) state"
  a_random :: "('w, string + int list) state"
  a_token :: string
  a_split_host :: "string \<Rightarrow> string option"
  a_is_loopback_ip :: "string \<Rightarrow> bool"
  a_decode_error :: "string \<Rightarrow> string"

definition writeJSON :: "reply_body \<Rightarrow> reply" where
  "writeJSON b = \<lparr> r_code = 200, r_json = True, r_body = b \<rparr>"

definition writeErr :: "int \<Rightarrow> string \<Rightarrow> string \<Rightarrow> reply" where
  "writeErr code reason msg = \<lparr> r_code = code, r_json = True, r_body = Failure reason msg \<rparr>"

section \<open>Authentication\<close>

definition isLoopbackAddr :: "'w api_env \<Rightarrow> string \<Rightarrow> bool" where
  "isLoopbackAddr env remote =
     (case a_split_host env remote of None \<Rightarrow> False | Some host \<Rightarrow> a_is_loopback_ip env host)"

text \<open>\<open>subtle.ConstantTimeCompare\<close> is equality.\<close>

definition auth :: "'w api_env \<Rightarrow> http_request \<Rightarrow> ('w, reply) state \<Rightarrow> ('w, reply) state" where
  "auth env r next =
     (if a_token env = [] then
        (if \<not> isLoopbackAddr env (h_remote r) then
           State_Monad.return (writeErr 403 ''Forbidden'' ''tokenless API accepts loopback clients only'')
         else next)
      else if \<not> has_prefix (h_authorization r) ''Bearer '' then
        State_Monad.return (writeErr 401 ''Unauthorized'' ''missing bearer token'')
      else if trim_prefix (h_authorization r) ''Bearer '' \<noteq> a_token env then
        State_Monad.return (writeErr 401 ''Unauthorized'' ''invalid token'')
      else next)"

definition livez :: reply where
  "livez = writeJSON StatusOk"

definition readyz :: "'w api_env \<Rightarrow> ('w, reply) state" where
  "readyz env = do {
     ready \<leftarrow> a_Ready env;
     State_Monad.return (if ready then writeJSON StatusOk
       else writeErr 503 ''ServiceUnavailable'' ''engine loop unhealthy'')
   }"

section \<open>Admission\<close>

definition reRequestable :: "node_state \<Rightarrow> bool" where
  "reRequestable st =
     (case ns_State st of
        None \<Rightarrow> True
      | Some si \<Rightarrow>
          if \<not> st_Present si then True
          else if st_ParseError si \<noteq> [] then False
          else st_State si = Completed \<or> st_State si = Failed)"

text \<open>Called on a state that is not re-requestable, so there is one.\<close>

definition describeState :: "node_state \<Rightarrow> string" where
  "describeState st =
     (case ns_State st of
        None \<Rightarrow> []
      | Some si \<Rightarrow> if st_ParseError si \<noteq> [] then ''corrupt'' else st_State si)"

definition labelsMatch :: "(string \<rightharpoonup> string) \<Rightarrow> (string \<times> string) list \<Rightarrow> bool" where
  "labelsMatch labels selector = list_all (\<lambda>(k, v). lookup_or [] labels k = v) selector"

definition controller_pod :: "'w api_env \<Rightarrow> node \<Rightarrow> pod \<Rightarrow> bool" where
  "controller_pod env nd p \<longleftrightarrow>
     NodeName p = Name (Metadata nd) \<and>
     (a_PodNamespace env = [] \<or> Namespace (pod_Metadata p) = a_PodNamespace env) \<and>
     labelsMatch (Labels (pod_Metadata p)) (a_PodSelector env) \<and> Running p"

definition controllerPodRunning :: "'w api_env \<Rightarrow> node \<Rightarrow> ('w, bool) state" where
  "controllerPodRunning env nd = do {
     r \<leftarrow> listPods (a_api env);
     State_Monad.return (case r of Inl e \<Rightarrow> False | Inr ps \<Rightarrow> list_ex (controller_pod env nd) ps)
   }"

definition newRequestID :: "'w api_env \<Rightarrow> gtime \<Rightarrow> ('w, string + string) state" where
  "newRequestID env now = do {
     b \<leftarrow> a_random env;
     State_Monad.return (case b of Inl e \<Rightarrow> Inl (''api: random: '' @ e) | Inr bs \<Rightarrow> Inr (format_rfc3339 now @ ''-'' @ hex_encode bs))
   }"

definition request_build :: "gtime \<Rightarrow> string \<Rightarrow> string \<Rightarrow> bool \<Rightarrow> build_func" where
  "request_build now reqID by' force n =
     (if \<not> reRequestable (Node_State.Parse (Annotations (Metadata n))) then Skip
      else Apply (AdmissionPatch (ResourceVersion (Metadata n)) now reqID by' force))"

text \<open>The code and the reason of a rejection; code 0 is acceptance.\<close>

definition admit_patch :: "'w api_env \<Rightarrow> string \<Rightarrow> bool \<Rightarrow> string \<Rightarrow> gtime \<Rightarrow> string \<Rightarrow> ('w, int \<times> string) state" where
  "admit_patch env name force by' now reqID = do {
     err \<leftarrow> PatchTransition (a_api env) name 3 (request_build now reqID by' force);
     State_Monad.return
       (case err of
          None \<Rightarrow> (0, [])
        | Some e \<Rightarrow>
            if e = Aborted \<or> (case e of ApiFailed x \<Rightarrow> IsConflict x | _ \<Rightarrow> False)
            then (409, ''state changed during admission'')
            else (503, ''API server unreachable''))
   }"

definition admit_node :: "'w api_env \<Rightarrow> string \<Rightarrow> bool \<Rightarrow> string \<Rightarrow> gtime \<Rightarrow> ('w, int \<times> string) state" where
  "admit_node env name force by' now = do {
     r \<leftarrow> getNode (a_api env) name;
     (case r of
        Inl e \<Rightarrow> State_Monad.return
          (if IsNotFound e then (404, ''node not found'') else (503, ''API server unreachable''))
      | Inr nd \<Rightarrow>
          if \<not> Ready nd then State_Monad.return (422, ''node not Ready'')
          else do {
            running \<leftarrow> controllerPodRunning env nd;
            (if \<not> running then State_Monad.return (422, ''controller pod not Running on node'')
             else if \<not> reRequestable (Node_State.Parse (Annotations (Metadata nd))) then
               State_Monad.return (409, ''state is not re-requestable: '' @
                 describeState (Node_State.Parse (Annotations (Metadata nd))))
             else do {
               reqID \<leftarrow> newRequestID env now;
               (case reqID of
                  Inl e \<Rightarrow> State_Monad.return (500, e)
                | Inr i \<Rightarrow> admit_patch env name force by' now i)
             })
          })
   }"

definition admit :: "'w api_env \<Rightarrow> string \<Rightarrow> bool \<Rightarrow> string \<Rightarrow> gtime \<Rightarrow> ('w, int \<times> string) state" where
  "admit env name force by' now =
     (if force then admit_node env name force by' now
      else do {
        fc \<leftarrow> a_Features env;
        (if RebootWindows fc = [] then State_Monad.return
           (422, ''NoWindowsConfigured: no reboot windows configured (reboots.windows is empty)'')
         else admit_node env name force by' now)
      })"

section \<open>\<open>POST /api/v1/reboots\<close>\<close>

record reboot_request =
  rr_Nodes :: "string list"
  rr_Force :: bool
  rr_RequestedBy :: string

text \<open>A decoder reads the first JSON value of the body, cut at 1 MiB, and ignores what follows.\<close>

definition decode_request :: "string \<Rightarrow> reboot_request option" where
  "decode_request body =
     (case parse_val (Suc (2 * List.length (take 1048576 body))) (take 1048576 body) of
        None \<Rightarrow> None
      | Some (j, rest) \<Rightarrow>
          if 10000 < json_depth j then None
          else (case j of
              JObj ms \<Rightarrow>
                (let (ns, e1) = dec_strings None (field_values ''nodes'' ms);
                     (f, e2) = dec_bool False (field_values ''force'' ms);
                     (b, e3) = dec_string [] (field_values ''requestedBy'' ms)
                 in if e1 \<or> e2 \<or> e3 then None
                    else Some \<lparr> rr_Nodes = (case ns of None \<Rightarrow> [] | Some xs \<Rightarrow> xs), rr_Force = f, rr_RequestedBy = b \<rparr>)
            | JNull \<Rightarrow> Some \<lparr> rr_Nodes = [], rr_Force = False, rr_RequestedBy = [] \<rparr>
            | _ \<Rightarrow> None))"

definition containsStar :: "string list \<Rightarrow> bool" where
  "containsStar ns = list_ex (\<lambda>n. n = ''*'') ns"

fun admit_all :: "'w api_env \<Rightarrow> bool \<Rightarrow> string \<Rightarrow> gtime \<Rightarrow> string list \<Rightarrow> ('w, string list \<times> rejection list) state" where
  "admit_all env force by' now [] = State_Monad.return ([], [])"
| "admit_all env force by' now (n # ns) = do {
     r \<leftarrow> admit env n force by' now;
     rest \<leftarrow> admit_all env force by' now ns;
     State_Monad.return
       (if fst r \<noteq> 0 then (fst rest, Rejection n (fst r) (snd r) # snd rest) else (n # fst rest, snd rest))
   }"

text \<open>The status is sent before the content type is set, so the content type is lost.\<close>

definition post_targets :: "'w api_env \<Rightarrow> reboot_request \<Rightarrow> string list \<Rightarrow> ('w, reply) state" where
  "post_targets env req targets = do {
     now \<leftarrow> a_now env;
     res \<leftarrow> admit_all env (rr_Force req) (rr_RequestedBy req) now targets;
     State_Monad.return \<lparr> r_code = 202, r_json = False, r_body = RebootResponse (fst res) (snd res) \<rparr>
   }"

definition postReboots :: "'w api_env \<Rightarrow> string \<Rightarrow> ('w, reply) state" where
  "postReboots env body =
     (case decode_request body of
        None \<Rightarrow> State_Monad.return (writeErr 400 ''BadRequest'' (a_decode_error env body))
      | Some req \<Rightarrow>
          if rr_Nodes req = [] then State_Monad.return (writeErr 400 ''BadRequest'' ''nodes is required'')
          else if list_ex (\<lambda>n. n = []) (rr_Nodes req) then
            State_Monad.return (writeErr 400 ''BadRequest'' ''empty node name'')
          else if containsStar (rr_Nodes req) then do {
            r \<leftarrow> listNodes (a_api env);
            (case r of
               Inl e \<Rightarrow> State_Monad.return (writeErr 503 ''ServiceUnavailable'' ''API server unreachable'')
             | Inr nds \<Rightarrow> post_targets env req (map (\<lambda>n. Name (Metadata n)) nds))
          }
          else post_targets env req (rr_Nodes req))"

section \<open>\<open>GET /api/v1/reboots\<close>\<close>

definition entry_of :: "node \<Rightarrow> entry option" where
  "entry_of n =
     (case Annotations (Metadata n) AnnState of
        None \<Rightarrow> None
      | Some raw \<Rightarrow>
          if raw = [] then None
          else (let st = Node_State.Parse (Annotations (Metadata n));
                    e = \<lparr> en_Node = Name (Metadata n), en_State = [], en_Since = [], en_Force = False, en_By = [],
                          en_BlockedBy = None, en_Error = [], en_IssuedAt = [], en_ConfirmedAt = [],
                          en_Ready = Ready n, en_ParseError = [] \<rparr>
            in case ns_State st of
                 None \<Rightarrow> None
               | Some si \<Rightarrow>
                   if st_ParseError si \<noteq> [] then Some (e\<lparr> en_ParseError := st_ParseError si \<rparr>)
                   else (let e1 = e\<lparr> en_State := st_State si, en_Since := format_rfc3339 (st_Since si) \<rparr>;
                             e2 = (case ns_Request st of None \<Rightarrow> e1
                                   | Some q \<Rightarrow> if rq_Present q \<and> rq_ParseError q = []
                                       then e1\<lparr> en_Force := rq_Force q, en_By := rq_By q \<rparr> else e1);
                             e3 = (case ns_Status st of None \<Rightarrow> e2
                                   | Some s \<Rightarrow> if ss_Present s \<and> ss_ParseError s = []
                                       then e2\<lparr> en_BlockedBy := ss_BlockedBy s, en_Error := ss_Error s \<rparr> else e2);
                             e4 = (case ns_Exec st of None \<Rightarrow> e3
                                   | Some x \<Rightarrow> if ex_Present x \<and> ex_ParseError x = []
                                       then (let e5 = e3\<lparr> en_IssuedAt := format_rfc3339 (ex_IssuedAt x) \<rparr>
                                             in case ex_ConfirmedAt x of None \<Rightarrow> e5
                                                | Some t \<Rightarrow> e5\<lparr> en_ConfirmedAt := format_rfc3339 t \<rparr>)
                                       else e3)
                         in Some e4)))"

definition listReboots :: "'w api_env \<Rightarrow> ('w, reply) state" where
  "listReboots env = do {
     r \<leftarrow> listNodes (a_api env);
     State_Monad.return
       (case r of
          Inl e \<Rightarrow> writeErr 503 ''ServiceUnavailable'' ''API server unreachable''
        | Inr nds \<Rightarrow> writeJSON (Entries (List.map_filter entry_of nds)))
   }"

definition getReboot :: "'w api_env \<Rightarrow> string \<Rightarrow> ('w, reply) state" where
  "getReboot env name = do {
     r \<leftarrow> getNode (a_api env) name;
     State_Monad.return
       (case r of
          Inl e \<Rightarrow> if IsNotFound e then writeErr 404 ''NotFound'' (''no reboot state for node '' @ name)
                   else writeErr 503 ''ServiceUnavailable'' ''API server unreachable''
        | Inr nd \<Rightarrow>
            (case entry_of nd of
               None \<Rightarrow> writeErr 404 ''NotFound'' (''no reboot state for node '' @ name)
             | Some e \<Rightarrow> writeJSON (OneEntry e)))
   }"

section \<open>\<open>DELETE /api/v1/reboots/{node}\<close>\<close>

definition cordonedPrevKnownAbsent :: "node_state \<Rightarrow> bool" where
  "cordonedPrevKnownAbsent st =
     (case ns_Status st of
        None \<Rightarrow> True
      | Some s \<Rightarrow> if \<not> ss_Present s then True else if ss_ParseError s \<noteq> [] then False
                 else ss_CordonedPrev s = None)"

definition clears_cordon :: "node_state \<Rightarrow> state_info \<Rightarrow> bool" where
  "clears_cordon st si \<longleftrightarrow>
     st_ParseError si = [] \<and> st_State si \<in> {Rebooting, Completed, Failed} \<and> cordonedPrevKnownAbsent st"

fun delete_attempts :: "'w api_env \<Rightarrow> string \<Rightarrow> nat \<Rightarrow> ('w, reply) state" where
  "delete_attempts env name 0 = State_Monad.return (writeErr 409 ''Conflict'' ''resourceVersion conflict'')"
| "delete_attempts env name (Suc k) = do {
     r \<leftarrow> getNode (a_api env) name;
     (case r of
        Inl e \<Rightarrow> State_Monad.return
          (if IsNotFound e then writeErr 404 ''NotFound'' ''node not found''
           else writeErr 503 ''ServiceUnavailable'' ''API server unreachable'')
      | Inr nd \<Rightarrow>
          (let st = Node_State.Parse (Annotations (Metadata nd)) in
           case ns_State st of
             None \<Rightarrow> State_Monad.return (writeErr 404 ''NotFound'' (''no reboot state for node '' @ name))
           | Some si \<Rightarrow>
               if \<not> st_Present si then
                 State_Monad.return (writeErr 404 ''NotFound'' (''no reboot state for node '' @ name))
               else if st_ParseError si = [] \<and> st_State si = Draining then
                 State_Monad.return (writeErr 409 ''Conflict'' ''in-flight drain is not interruptible'')
               else do {
                 err \<leftarrow> patchNode (a_api env) name (ClearPatch (ResourceVersion (Metadata nd)) (clears_cordon st si));
                 (case err of
                    None \<Rightarrow> State_Monad.return \<lparr> r_code = 204, r_json = False, r_body = NoBody \<rparr>
                  | Some e \<Rightarrow>
                      if IsConflict e then delete_attempts env name k
                      else State_Monad.return (writeErr 503 ''ServiceUnavailable'' ''API server unreachable''))
               }))
   }"

definition deleteReboot :: "'w api_env \<Rightarrow> string \<Rightarrow> ('w, reply) state" where
  "deleteReboot env name = delete_attempts env name 3"

section \<open>Dispatch\<close>

text \<open>An unknown route is the multiplexer's own 404, in plain text.\<close>

definition Handler :: "'w api_env \<Rightarrow> http_request \<Rightarrow> ('w, reply) state" where
  "Handler env r =
     (case h_route r of
        Livez \<Rightarrow> State_Monad.return livez
      | Readyz \<Rightarrow> readyz env
      | PostReboots \<Rightarrow> auth env r (postReboots env (h_body r))
      | ListReboots \<Rightarrow> auth env r (listReboots env)
      | GetReboot name \<Rightarrow> auth env r (getReboot env name)
      | DeleteReboot name \<Rightarrow> auth env r (deleteReboot env name)
      | NoRoute \<Rightarrow> State_Monad.return \<lparr> r_code = 404, r_json = False, r_body = NoBody \<rparr>)"

end
