(* ===== verification/Reboot_Gates.thy ===== *)
theory Reboot_Gates
  imports Transition Config "HOL-Library.Product_Lexorder" "HOL-Library.Multiset"
begin

text \<open>
  The decisions of \<open>internal/features/reboot\<close> that read and do not write: the PDB pre-check
  and the drain's skip list (\<open>pdb.go\<close>), the denial backoff (\<open>drain.go\<close>), the admission
  counts and the queue order (\<open>orchestrator.go\<close>), each against what it is meant to compute.
\<close>

section \<open>Which pods a drain removes\<close>

definition isDaemonSetManaged :: "pod \<Rightarrow> bool" where
  "isDaemonSetManaged p \<longleftrightarrow> list_ex (\<lambda>r. owner_Kind r = ''DaemonSet'') (OwnerReferences (pod_Metadata p))"

definition isMirrorOfStatic :: "pod \<Rightarrow> bool" where
  "isMirrorOfStatic p \<longleftrightarrow>
     Annotations (pod_Metadata p) ''kubernetes.io/config.mirror'' \<noteq> None \<and>
     list_ex (\<lambda>r. owner_Kind r = ''Node'') (OwnerReferences (pod_Metadata p))"

definition unmanaged :: "pod \<Rightarrow> bool" where
  "unmanaged p \<longleftrightarrow> OwnerReferences (pod_Metadata p) = []"

definition evictable :: "pod \<Rightarrow> bool" where
  "evictable p =
     (if Terminating (pod_Metadata p) then False
      else if isDaemonSetManaged p then False
      else if isMirrorOfStatic p then False
      else True)"

section \<open>The PDB pre-check\<close>

text \<open>The inner loop: the selected running pods on the node and, of those, the evictable ones;
  \<open>None\<close> is the panic of a malformed selector.\<close>

fun count_selected :: "node \<Rightarrow> pod_disruption_budget \<Rightarrow> pod list \<Rightarrow> nat \<times> nat \<Rightarrow> (nat \<times> nat) option" where
  "count_selected nd pdb [] c = Some c"
| "count_selected nd pdb (p # ps) (sel, dis) =
     (if Namespace (pod_Metadata p) \<noteq> Namespace (pdb_Metadata pdb) then count_selected nd pdb ps (sel, dis)
      else (case Matches (Selector pdb) (Labels (pod_Metadata p)) of
          None \<Rightarrow> None
        | Some m \<Rightarrow>
            if \<not> m then count_selected nd pdb ps (sel, dis)
            else if \<not> Running p \<or> Terminating (pod_Metadata p) then count_selected nd pdb ps (sel, dis)
            else if NodeName p \<noteq> Name (Metadata nd) then count_selected nd pdb ps (sel, dis)
            else count_selected nd pdb ps (sel + 1, if evictable p then dis + 1 else dis)))"

fun pdbBlocked :: "node \<Rightarrow> pod_disruption_budget list \<Rightarrow> pod list \<Rightarrow> string list option" where
  "pdbBlocked nd [] allPods = Some []"
| "pdbBlocked nd (pdb # ps) allPods =
     (if Selector pdb = None then pdbBlocked nd ps allPods
      else (case count_selected nd pdb allPods (0, 0) of
          None \<Rightarrow> None
        | Some (selectedOnN, disruptable) \<Rightarrow>
            if selectedOnN = 0 then pdbBlocked nd ps allPods
            else if disruptable > 0 \<and> DisruptionsAllowed pdb < int disruptable then
              map_option ((#) (Namespace (pdb_Metadata pdb) @ ''/'' @ Name (pdb_Metadata pdb)))
                (pdbBlocked nd ps allPods)
            else pdbBlocked nd ps allPods))"

text \<open>What a budget protects on a node: its running pods there that a drain would evict.\<close>

definition protects :: "node \<Rightarrow> pod_disruption_budget \<Rightarrow> pod \<Rightarrow> bool" where
  "protects nd pdb p \<longleftrightarrow>
     Namespace (pod_Metadata p) = Namespace (pdb_Metadata pdb) \<and>
     Matches (Selector pdb) (Labels (pod_Metadata p)) = Some True \<and>
     Running p \<and> NodeName p = Name (Metadata nd) \<and> evictable p"

definition safe_pdb :: "pod_disruption_budget \<Rightarrow> bool" where
  "safe_pdb pdb \<longleftrightarrow>
     (case Selector pdb of None \<Rightarrow> True | Some s \<Rightarrow> list_all req_safe (MatchExpressions s))"

lemma safe_Matches: "safe_pdb pdb \<Longrightarrow> Matches (Selector pdb) labels \<noteq> None"
proof (cases "Selector pdb")
  case (Some s)
  assume "safe_pdb pdb"
  with Some Matches_conj [of s labels] show ?thesis by (simp add: safe_pdb_def)
qed (simp add: Matches_def)

lemma count_selected_exact:
  assumes "safe_pdb pdb"
  shows "\<exists>s. count_selected nd pdb ps (sel, dis) =
      Some (s, dis + List.length (List.filter (protects nd pdb) ps)) \<and> sel \<le> s \<and>
      (List.filter (protects nd pdb) ps \<noteq> [] \<longrightarrow> sel < s)"
proof (induction ps arbitrary: sel dis)
  case (Cons p ps)
  obtain m where m: "Matches (Selector pdb) (Labels (pod_Metadata p)) = Some m"
    using safe_Matches [OF assms] by auto
  have t: "evictable p \<Longrightarrow> \<not> Terminating (pod_Metadata p)" by (simp add: evictable_def split: if_splits)
  obtain s where s: "count_selected nd pdb ps (sel, dis) =
      Some (s, dis + List.length (List.filter (protects nd pdb) ps))" "sel \<le> s"
      "List.filter (protects nd pdb) ps \<noteq> [] \<longrightarrow> sel < s"
    using Cons.IH by blast
  let ?d = "if evictable p then dis + 1 else dis"
  obtain s' where s': "count_selected nd pdb ps (sel + 1, ?d) =
      Some (s', ?d + List.length (List.filter (protects nd pdb) ps))" "sel + 1 \<le> s'"
    using Cons.IH by blast
  have pr: "protects nd pdb p \<longleftrightarrow> Namespace (pod_Metadata p) = Namespace (pdb_Metadata pdb) \<and> m \<and>
      Running p \<and> \<not> Terminating (pod_Metadata p) \<and> NodeName p = Name (Metadata nd) \<and> evictable p"
    using m t by (auto simp: protects_def)
  show ?case using s s' m by (auto simp: pr)
qed simp

text \<open>C32: the PDB pre-check names exactly the budgets that allow fewer disruptions than the node has pods of theirs to
  evict, in the order of the list.\<close>

theorem pdb_blocked_exact:
  assumes "list_all safe_pdb pdbs"
  shows "pdbBlocked nd pdbs allPods = Some
    (map (\<lambda>pdb. Namespace (pdb_Metadata pdb) @ ''/'' @ Name (pdb_Metadata pdb))
      (List.filter (\<lambda>pdb. Selector pdb \<noteq> None \<and>
          (let d = List.length (List.filter (protects nd pdb) allPods) in
           d > 0 \<and> DisruptionsAllowed pdb < int d)) pdbs))"
  using assms
proof (induction pdbs)
  case (Cons pdb pdbs)
  obtain s where s: "count_selected nd pdb allPods (0, 0) =
      Some (s, List.length (List.filter (protects nd pdb) allPods))"
      "List.filter (protects nd pdb) allPods \<noteq> [] \<longrightarrow> 0 < s"
    using count_selected_exact [of pdb nd allPods 0 0] Cons.prems by auto
  then show ?case using Cons by (auto simp: Let_def)
qed simp

section \<open>Backoff after a denial\<close>

text \<open>\<open>denyState\<close>: how often and when last. The loop doubles until it reaches a minute.\<close>

record deny_state =
  deny_count :: nat
  lastAttempt :: gtime

fun double_capped :: "nat \<Rightarrow> duration \<Rightarrow> duration" where
  "double_capped 0 b = b"
| "double_capped (Suc k) b = (if b * 2 \<ge> 60 * second then 60 * second else double_capped k (b * 2))"

definition denyBackoff :: "deny_state option \<Rightarrow> duration" where
  "denyBackoff ds =
     (case ds of
        None \<Rightarrow> 0
      | Some d \<Rightarrow> if deny_count d = 0 then 0 else double_capped (deny_count d - 1) (5 * second))"

lemma double_capped_closed:
  "0 < b \<Longrightarrow> b < 60 * second \<Longrightarrow> double_capped k b = min (b * 2 ^ k) (60 * second)"
proof (induction k arbitrary: b)
  case (Suc k)
  show ?case
  proof (cases "60 * second \<le> b * 2")
    case True
    have "b * 2 * 1 \<le> b * 2 * 2 ^ k" using Suc.prems by (intro mult_left_mono) simp_all
    with True have "60 * second \<le> b * 2 * 2 ^ k" by linarith
    then have "60 * second \<le> b * 2 ^ Suc k" by (simp only: power_Suc mult.assoc)
    then have "min (b * 2 ^ Suc k) (60 * second) = 60 * second" by (rule min_absorb2)
    with True show ?thesis by simp
  next
    case False
    then show ?thesis using Suc by (simp add: mult.assoc)
  qed
qed simp

definition pdb_node :: node where
  "pdb_node = \<lparr> Metadata = empty_meta\<lparr> Name := ''n1'' \<rparr>, Unschedulable = False, Conditions = [],
     KernelVersion = [], Architecture = [] \<rparr>"

definition pdb_pod :: "string \<Rightarrow> pod" where
  "pdb_pod nm = \<lparr> pod_Metadata = empty_meta\<lparr> Name := nm, Namespace := ''d'', Labels := [''app'' \<mapsto> ''x''] \<rparr>,
     NodeName = ''n1'', TerminationGracePeriodSeconds = 30, Phase = ''Running'' \<rparr>"

definition pdb_of :: "string \<Rightarrow> int \<Rightarrow> pod_disruption_budget" where
  "pdb_of nm k = \<lparr> pdb_Metadata = empty_meta\<lparr> Name := nm, Namespace := ''d'' \<rparr>,
     Selector = Some \<lparr> MatchLabels = [(''app'', ''x'')], MatchExpressions = [] \<rparr>, DisruptionsAllowed = k \<rparr>"

theorem pdb_blocked_exact_witness:
  "pdbBlocked pdb_node [pdb_of ''tight'' 1, pdb_of ''loose'' 2] [pdb_pod ''p'', pdb_pod ''q''] = Some [''d/tight'']"
proof -
  have "list_all safe_pdb [pdb_of ''tight'' 1, pdb_of ''loose'' 2]"
    by (simp add: safe_pdb_def pdb_of_def)
  note p = pdb_blocked_exact [OF this, of pdb_node "[pdb_pod ''p'', pdb_pod ''q'']"]
  show ?thesis unfolding p by code_simp
qed

text \<open>The backoff after the n-th denial in a row is 5 s doubled n - 1 times, and never more than a minute.\<close>

theorem deny_backoff_closed:
  "denyBackoff (Some d) =
    (if deny_count d = 0 then 0 else min (5 * second * 2 ^ (deny_count d - 1)) (60 * second))"
  by (simp add: denyBackoff_def double_capped_closed)

section \<open>Views, counts and the queue\<close>

record view =
  v_node :: node
  v_st :: node_state
  v_ready :: bool
  v_cp :: bool

definition view_of :: "node \<Rightarrow> view" where
  "view_of n = \<lparr> v_node = n, v_st = Node_State.Parse (Annotations (Metadata n)), v_ready = Ready n, v_cp = IsControlPlane n \<rparr>"

definition buildViews :: "node list \<Rightarrow> view list" where
  "buildViews ns = map view_of ns"

definition forceOf :: "node_state \<Rightarrow> bool" where
  "forceOf st =
     (case ns_Request st of
        None \<Rightarrow> False
      | Some r \<Rightarrow> if \<not> rq_Present r \<or> rq_ParseError r \<noteq> [] then False else rq_Force r)"

text \<open>The state a node is readably in.\<close>

definition state_is :: "string \<Rightarrow> node_state \<Rightarrow> bool" where
  "state_is s st \<longleftrightarrow>
     (case ns_State st of None \<Rightarrow> False | Some si \<Rightarrow> st_ParseError si = [] \<and> st_State si = s)"

record counts =
  inFlight :: nat
  cpInFlight :: nat
  anyFailed :: bool
  queuedNotReady :: bool

definition count_view :: "counts \<Rightarrow> view \<Rightarrow> counts" where
  "count_view c v =
     (let c1 = (if InFlight (v_st v) then
                  c\<lparr> inFlight := inFlight c + 1,
                     cpInFlight := (if v_cp v then cpInFlight c + 1 else cpInFlight c) \<rparr> else c)
      in if state_is Failed (v_st v) then c1\<lparr> anyFailed := True \<rparr>
         else if state_is Requested (v_st v) \<and> \<not> v_ready v then c1\<lparr> queuedNotReady := True \<rparr>
         else c1)"

definition admissionCounts :: "view list \<Rightarrow> counts" where
  "admissionCounts vs =
     foldl count_view \<lparr> inFlight = 0, cpInFlight = 0, anyFailed = False, queuedNotReady = False \<rparr> vs"

lemma foldl_count_view:
  "foldl count_view c vs =
    \<lparr> inFlight = inFlight c + List.length (List.filter (\<lambda>v. InFlight (v_st v)) vs),
      cpInFlight = cpInFlight c + List.length (List.filter (\<lambda>v. InFlight (v_st v) \<and> v_cp v) vs),
      anyFailed = (anyFailed c \<or> list_ex (\<lambda>v. state_is Failed (v_st v)) vs),
      queuedNotReady = (queuedNotReady c \<or> list_ex (\<lambda>v. state_is Requested (v_st v) \<and> \<not> v_ready v) vs) \<rparr>"
proof (induction vs arbitrary: c)
  case (Cons v vs)
  have excl: "state_is Failed (v_st v) \<Longrightarrow> \<not> state_is Requested (v_st v)"
    by (auto simp: state_is_def split: option.splits)
  show ?case using Cons.IH [of "count_view c v"] excl
    by (auto simp: count_view_def Let_def)
qed simp

lemma admissionCounts_exact:
  "admissionCounts vs =
    \<lparr> inFlight = List.length (List.filter (\<lambda>v. InFlight (v_st v)) vs),
      cpInFlight = List.length (List.filter (\<lambda>v. InFlight (v_st v) \<and> v_cp v) vs),
      anyFailed = list_ex (\<lambda>v. state_is Failed (v_st v)) vs,
      queuedNotReady = list_ex (\<lambda>v. state_is Requested (v_st v) \<and> \<not> v_ready v) vs \<rparr>"
  by (simp add: admissionCounts_def foldl_count_view)

text \<open>The comparison of \<open>sortQueue\<close>, and the stable sort by the key it orders.\<close>

definition since_of :: "view \<Rightarrow> gtime" where
  "since_of v = (case ns_State (v_st v) of None \<Rightarrow> zero_time | Some si \<Rightarrow> st_Since si)"

definition queue_less :: "view \<Rightarrow> view \<Rightarrow> bool" where
  "queue_less a b =
     (if since_of a \<noteq> since_of b then since_of a < since_of b
      else if v_cp a \<noteq> v_cp b then \<not> v_cp a
      else Name (Metadata (v_node a)) < Name (Metadata (v_node b)))"

definition queue_key :: "view \<Rightarrow> gtime \<times> bool \<times> string" where
  "queue_key v = (since_of v, v_cp v, Name (Metadata (v_node v)))"

definition sortQueue :: "view list \<Rightarrow> view list" where
  "sortQueue q = sort_key queue_key q"

lemma queue_less_key: "queue_less a b \<longleftrightarrow> queue_key a < queue_key b"
  by (auto simp: queue_less_def queue_key_def less_prod_def)

text \<open>The reboot queue is the requested nodes in the order of the comparison (oldest request first, workers before
  control planes, then by name), each exactly as often as before, and ties keep their order.\<close>

theorem sort_queue_correct:
  "mset (sortQueue q) = mset q \<and>
   sorted_wrt (\<lambda>a b. \<not> queue_less b a) (sortQueue q) \<and>
   List.filter (\<lambda>v. queue_key v = k) (sortQueue q) = List.filter (\<lambda>v. queue_key v = k) q"
proof (intro conjI)
  have "sorted (map queue_key (sortQueue q))" by (simp add: sortQueue_def)
  then show "sorted_wrt (\<lambda>a b. \<not> queue_less b a) (sortQueue q)"
    by (simp add: sorted_map queue_less_key not_less)
  show "List.filter (\<lambda>v. queue_key v = k) (sortQueue q) = List.filter (\<lambda>v. queue_key v = k) q"
    by (simp add: sortQueue_def sort_key_stable)
qed (simp add: sortQueue_def)

definition join :: "string list \<Rightarrow> string" where
  "join ss = join_with '', '' ss"

end
