(* ===== verification/Lease.thy ===== *)
theory Lease
  imports Transition
begin

text \<open>
  \<open>internal/engine/lease.go\<close>: the leader lease. The leaser's memory is passed explicitly, the
  API calls are computations over the world. Proved: an answer of leadership is within the renewal
  deadline, a fresh foreign holder is respected, what a failed takeover and a conflict leave behind,
  and, for controllers that share one stored lease, that two of them never lead at once.
\<close>

abbreviation LeaseRenewInterval :: duration where "LeaseRenewInterval \<equiv> 10 * second"
abbreviation LeaseStaleAfter :: duration where "LeaseStaleAfter \<equiv> 30 * second"

datatype lease_state = LeaseLeader | LeaseNotLeader | LeaseNoValidLeader

record leaser_config =
  lease_ns :: string
  lease_name :: string
  identity :: string

record leaser =
  lastRenewed :: gtime
  amLeader :: bool

definition new_leaser :: leaser where
  "new_leaser = \<lparr> lastRenewed = zero_time, amLeader = False \<rparr>"

definition freshHolder :: "lease \<Rightarrow> gtime \<Rightarrow> bool" where
  "freshHolder l now =
     (case RenewTime l of None \<Rightarrow> False | Some t \<Rightarrow> time_sub now t \<le> LeaseStaleAfter)"

definition belief :: "leaser \<Rightarrow> gtime \<Rightarrow> lease_state" where
  "belief s now =
     (if amLeader s \<and> time_sub now (lastRenewed s) \<le> LeaseStaleAfter then LeaseLeader
      else LeaseNoValidLeader)"

definition Leader :: "leaser \<Rightarrow> gtime \<Rightarrow> bool" where
  "Leader s now \<longleftrightarrow> amLeader s \<and> time_sub now (lastRenewed s) \<le> LeaseStaleAfter"

definition CanDecide :: "leaser \<Rightarrow> gtime \<Rightarrow> bool" where
  "CanDecide s now = Leader s now"

definition classify :: "'w kube_api \<Rightarrow> leaser_config \<Rightarrow> gtime \<Rightarrow> leaser \<Rightarrow> ('w, lease_state \<times> leaser) state" where
  "classify api cfg now s = do {
     r \<leftarrow> getLease api (lease_ns cfg) (lease_name cfg);
     State_Monad.return
       (case r of
          Inl e \<Rightarrow> (LeaseNoValidLeader, s\<lparr> amLeader := False \<rparr>)
        | Inr l \<Rightarrow>
            if HolderIdentity l = identity cfg \<and> freshHolder l now then
              (LeaseLeader, s\<lparr> amLeader := True, lastRenewed := now \<rparr>)
            else if HolderIdentity l \<noteq> identity cfg \<and> freshHolder l now then
              (LeaseNotLeader, s\<lparr> amLeader := False \<rparr>)
            else (LeaseNoValidLeader, s\<lparr> amLeader := False \<rparr>))
   }"

definition won :: "gtime \<Rightarrow> leaser \<Rightarrow> leaser" where
  "won now s = s\<lparr> lastRenewed := now, amLeader := True \<rparr>"

definition Sync :: "'w kube_api \<Rightarrow> leaser_config \<Rightarrow> gtime \<Rightarrow> leaser \<Rightarrow> ('w, lease_state \<times> leaser) state" where
  "Sync api cfg now s = do {
     r \<leftarrow> getLease api (lease_ns cfg) (lease_name cfg);
     (case r of
        Inl e \<Rightarrow>
          if \<not> IsNotFound e then State_Monad.return (belief s now, s)
          else do {
            u \<leftarrow> createLease api \<lparr> lease_Metadata = empty_meta\<lparr> Name := lease_name cfg, Namespace := lease_ns cfg \<rparr>,
                   HolderIdentity = identity cfg, RenewTime = Some now \<rparr>;
            (case u of
               None \<Rightarrow> State_Monad.return (LeaseLeader, won now s)
             | Some e \<Rightarrow>
                 if \<not> IsConflict e then State_Monad.return (LeaseNoValidLeader, s\<lparr> amLeader := False \<rparr>)
                 else classify api cfg now s)
          }
      | Inr l \<Rightarrow>
          if HolderIdentity l = identity cfg then
            (if time_sub now (lastRenewed s) < LeaseRenewInterval then
               State_Monad.return (belief (s\<lparr> amLeader := True \<rparr>) now, s\<lparr> amLeader := True \<rparr>)
             else do {
               u \<leftarrow> updateLease api (l\<lparr> RenewTime := Some now \<rparr>);
               (case u of
                  None \<Rightarrow> State_Monad.return (LeaseLeader, won now s)
                | Some e \<Rightarrow>
                    if \<not> IsConflict e then State_Monad.return (belief s now, s)
                    else classify api cfg now s)
             })
          else if freshHolder l now then State_Monad.return (LeaseNotLeader, s\<lparr> amLeader := False \<rparr>)
          else do {
            u \<leftarrow> updateLease api (l\<lparr> HolderIdentity := identity cfg, RenewTime := Some now \<rparr>);
            (case u of
               None \<Rightarrow> State_Monad.return (LeaseLeader, won now s)
             | Some e \<Rightarrow>
                 if \<not> IsConflict e then State_Monad.return (LeaseNoValidLeader, s)
                 else classify api cfg now s)
          })
   }"

definition VerifyOwnership :: "'w kube_api \<Rightarrow> leaser_config \<Rightarrow> ('w, bool) state" where
  "VerifyOwnership api cfg = do {
     r \<leftarrow> getLease api (lease_ns cfg) (lease_name cfg);
     State_Monad.return (case r of Inl e \<Rightarrow> False | Inr l \<Rightarrow> HolderIdentity l = identity cfg)
   }"

section \<open>What the leaser guarantees\<close>

lemma keeps_Sync:
  assumes "reflp R" "transp R" "\<And>ns nm. keeps R (getLease api ns nm)" "\<And>l. keeps R (createLease api l)"
    "\<And>l. keeps R (updateLease api l)"
  shows "keeps R (Sync api cfg now s)" "keeps R (VerifyOwnership api cfg)"
  unfolding Sync_def VerifyOwnership_def classify_def using assms by (auto intro!: io_intros)

lemma sync_leader:
  assumes "run_state (Sync api cfg now s) w = ((LeaseLeader, s'), w')"
  shows "CanDecide s' now"
  using assms
  by (auto simp: Sync_def classify_def belief_def CanDecide_def Leader_def won_def time_sub_def
      split: sum.splits option.splits if_splits prod.splits)

text \<open>An answer of the lease protocol never claims more than the leaser's own renewal clock allows: when a
  synchronisation answers leader, the leaser believes so and its last renewal is at most the stale
  window ago, so \<open>CanDecide\<close> holds at that instant, whatever the server answered.\<close>

theorem sync_leader_can_decide:
  assumes "run_state (Sync api cfg now s) w = ((LeaseLeader, s'), w')"
  shows "CanDecide s' now"
  using assms by (rule sync_leader)

text \<open>A fresh lease of somebody else is respected: the synchronisation that reads it writes nothing, answers that
  it is not the leader and gives up any belief in leadership.\<close>

theorem sync_respects_holder:
  assumes "run_state (getLease api (lease_ns cfg) (lease_name cfg)) w = (Inr l, w1)"
    and "HolderIdentity l \<noteq> identity cfg" "freshHolder l now"
  shows "run_state (Sync api cfg now s) w = ((LeaseNotLeader, s\<lparr> amLeader := False \<rparr>), w1)"
  using assms by (simp add: Sync_def)

text \<open>What a takeover that fails without a conflict leaves behind: the answer says no valid leader, but a belief
  held before stays, and lasts until its own deadline.\<close>

lemma failed_takeover_keeps_belief:
  assumes "run_state (getLease api (lease_ns cfg) (lease_name cfg)) w = (Inr l, w1)"
    and "HolderIdentity l \<noteq> identity cfg" "\<not> freshHolder l now"
    and "run_state (updateLease api (l\<lparr> HolderIdentity := identity cfg, RenewTime := Some now \<rparr>)) w1 = (Some e, w2)"
    and "\<not> IsConflict e"
  shows "run_state (Sync api cfg now s) w = ((LeaseNoValidLeader, s), w2)"
  using assms by (simp add: Sync_def)

text \<open>After a conflict the lease is read again; if it is ours and fresh the local deadline starts anew, although
  nothing was renewed: the belief can outlive the lease's own freshness.\<close>

lemma classify_restarts_deadline:
  assumes "run_state (getLease api (lease_ns cfg) (lease_name cfg)) w = (Inr l, w1)"
    and "HolderIdentity l = identity cfg" "freshHolder l now"
  shows "run_state (classify api cfg now s) w = ((LeaseLeader, s\<lparr> amLeader := True, lastRenewed := now \<rparr>), w1)"
  using assms by (simp add: classify_def)

section \<open>One leader\<close>

text \<open>Several leasers share one stored lease. A synchronisation is one step, so a write never meets a
  conflict; a read may fail, and a write may be refused, or be stored and answered with an error.
  Clocks are the leasers' common clock, and nobody else touches the lease.\<close>

datatype put_outcome = Stored | Refused | Lost

definition put :: "put_outcome \<Rightarrow> lease \<Rightarrow> (lease option, api_error option) state" where
  "put out l = State (\<lambda>w. case out of Stored \<Rightarrow> (None, Some l) | Refused \<Rightarrow> (Some (OtherError []), w)
     | Lost \<Rightarrow> (Some (OtherError []), Some l))"

definition lease_api :: "bool \<Rightarrow> put_outcome \<Rightarrow> lease option kube_api" where
  "lease_api down out =
     \<lparr> getNode = (\<lambda>_. State_Monad.return (Inl (OtherError []))),
       patchNode = (\<lambda>_ _. State_Monad.return (Some (OtherError []))),
       listNodes = State_Monad.return (Inl (OtherError [])), listPods = State_Monad.return (Inl (OtherError [])),
       listPDBs = State_Monad.return (Inl (OtherError [])),
       evict = (\<lambda>_ _. State_Monad.return None), deletePod = (\<lambda>_ _. State_Monad.return None),
       getLease = (\<lambda>_ _. State (\<lambda>w. (if down then Inl (OtherError [])
         else case w of
             None \<Rightarrow> Inl (StatusError \<lparr> Code = 404, err_Reason = ''NotFound'', err_Message = [], RetryAfter = 0 \<rparr>)
           | Some l \<Rightarrow> Inr l, w))),
       createLease = put out, updateLease = put out,
       getConfigMap = (\<lambda>_ _. State_Monad.return (Inl (OtherError []))),
       createEvent = (\<lambda>_ _. State_Monad.return None) \<rparr>"

record lease_cluster =
  c_lease :: "lease option"
  c_clock :: gtime
  c_leasers :: "string \<Rightarrow> leaser"

definition leaser_cfg :: "string \<Rightarrow> leaser_config" where
  "leaser_cfg i = \<lparr> lease_ns = ''kube-system'', lease_name = ''simplek8s-controller'', identity = i \<rparr>"

definition sync_cluster :: "bool \<Rightarrow> put_outcome \<Rightarrow> string \<Rightarrow> lease_cluster \<Rightarrow> lease_cluster" where
  "sync_cluster down out i c =
     (case run_state (Sync (lease_api down out) (leaser_cfg i) (c_clock c) (c_leasers c i)) (c_lease c) of
        ((r, s), l) \<Rightarrow> c\<lparr> c_lease := l, c_leasers := (c_leasers c)(i := s) \<rparr>)"

inductive lease_step :: "lease_cluster \<Rightarrow> lease_cluster \<Rightarrow> bool" where
  tick: "c_clock c \<le> t \<Longrightarrow> lease_step c (c\<lparr> c_clock := t \<rparr>)"
| sync: "lease_step c (sync_cluster down out i c)"

definition lease_init :: "gtime \<Rightarrow> lease_cluster" where
  "lease_init t = \<lparr> c_lease = None, c_clock = t, c_leasers = (\<lambda>_. new_leaser) \<rparr>"

definition recent :: "lease_cluster \<Rightarrow> string \<Rightarrow> bool" where
  "recent c i \<longleftrightarrow> time_sub (c_clock c) (lastRenewed (c_leasers c i)) \<le> LeaseStaleAfter"

definition backed :: "lease option \<Rightarrow> string \<Rightarrow> gtime \<Rightarrow> bool" where
  "backed l i t \<longleftrightarrow>
     (case l of None \<Rightarrow> False
      | Some l \<Rightarrow> HolderIdentity l = i \<and> (case RenewTime l of None \<Rightarrow> False | Some u \<Rightarrow> t \<le> u))"

text \<open>Whoever renewed recently holds the stored lease, with a renewal at least as new.\<close>

definition lease_inv :: "lease_cluster \<Rightarrow> bool" where
  "lease_inv c \<longleftrightarrow> (\<forall>i. recent c i \<longrightarrow> backed (c_lease c) i (lastRenewed (c_leasers c i))) \<and>
     (\<forall>i. lastRenewed (c_leasers c i) \<le> c_clock c)"

text \<open>A synchronisation leaves the lease and the renewal clock alone, or stores a renewal of its own at this
  instant, over no lease, its own one or a stale one.\<close>

lemma sync_effect:
  assumes "sync_cluster down out i c = c'"
  shows "c_clock c' = c_clock c" "\<And>j. j \<noteq> i \<Longrightarrow> c_leasers c' j = c_leasers c j"
    and "c_lease c' = c_lease c \<and> lastRenewed (c_leasers c' i) = lastRenewed (c_leasers c i) \<or>
      (\<exists>l. c_lease c' = Some l \<and> HolderIdentity l = i \<and> RenewTime l = Some (c_clock c)) \<and>
      lastRenewed (c_leasers c' i) \<in> {lastRenewed (c_leasers c i), c_clock c} \<and>
      (case c_lease c of None \<Rightarrow> True | Some l \<Rightarrow> HolderIdentity l = i \<or> \<not> freshHolder l (c_clock c))"
  using assms
  by (auto simp: sync_cluster_def Sync_def classify_def lease_api_def leaser_cfg_def put_def won_def
      IsConflict_def IsNotFound_def split: prod.splits option.splits put_outcome.splits if_splits)

lemma stale_not_recent:
  assumes "lease_inv c" "c_lease c = Some l" "\<not> freshHolder l (c_clock c)"
  shows "\<not> recent c j"
proof
  assume r: "recent c j"
  with assms obtain u where "RenewTime l = Some u" "lastRenewed (c_leasers c j) \<le> u"
    unfolding lease_inv_def backed_def by (fastforce split: option.splits)
  with r assms(3) show False by (auto simp: recent_def freshHolder_def time_sub_le_iff)
qed

lemma lease_inv_sync:
  assumes "lease_inv c"
  shows "lease_inv (sync_cluster down out i c)"
proof -
  define c' where "c' = sync_cluster down out i c"
  note e = sync_effect [OF c'_def [symmetric]]
  from assms have old: "recent c j \<Longrightarrow> backed (c_lease c) j (lastRenewed (c_leasers c j))"
    and le: "lastRenewed (c_leasers c j) \<le> c_clock c" for j
    by (auto simp: lease_inv_def)
  have le': "lastRenewed (c_leasers c' j) \<le> c_clock c'" for j
    using e le [of j] by (cases "j = i") auto
  have "backed (c_lease c') j (lastRenewed (c_leasers c' j))" if r: "recent c' j" for j
    using e(3)
  proof (elim disjE conjE exE)
    assume same: "c_lease c' = c_lease c" "lastRenewed (c_leasers c' i) = lastRenewed (c_leasers c i)"
    then have "lastRenewed (c_leasers c' j) = lastRenewed (c_leasers c j)" using e(2) by (cases "j = i") auto
    with r same e(1) old [of j] show ?thesis by (simp add: recent_def)
  next
    fix l
    assume l: "c_lease c' = Some l" "HolderIdentity l = i" "RenewTime l = Some (c_clock c)"
      and g: "case c_lease c of None \<Rightarrow> True | Some l \<Rightarrow> HolderIdentity l = i \<or> \<not> freshHolder l (c_clock c)"
    have "j = i"
    proof (rule ccontr)
      assume "j \<noteq> i"
      with r e have rj: "recent c j" by (simp add: recent_def)
      with old [OF rj] g stale_not_recent [OF assms, of _ j] \<open>j \<noteq> i\<close> show False
        by (auto simp: backed_def split: option.splits)
    qed
    with l le' [of i] e(1) show ?thesis by (simp add: backed_def)
  qed
  with le' show ?thesis by (simp add: lease_inv_def c'_def)
qed

lemma lease_inv_step: "lease_step c c' \<Longrightarrow> lease_inv c \<Longrightarrow> lease_inv c'"
proof (induction rule: lease_step.induct)
  case (tick c t)
  then show ?case
    unfolding lease_inv_def recent_def by (auto simp: time_sub_le_iff) (meson order_trans diff_right_mono)+
next
  case (sync c down out i)
  then show ?case by (rule lease_inv_sync)
qed

lemma lease_inv_reachable:
  assumes "0 \<le> t" "lease_step\<^sup>*\<^sup>* (lease_init t) c"
  shows "lease_inv c"
  using assms(2)
proof (induction rule: rtranclp_induct)
  case base
  show ?case using assms(1) by (simp add: lease_inv_def lease_init_def recent_def new_leaser_def zero_time_def time_sub_le_iff)
qed (rule lease_inv_step)


definition led :: lease_cluster where
  "led = sync_cluster False Lost ''b'' (sync_cluster False Stored ''a'' (lease_init 1700000000000000000))"

lemma led_leader: "Leader (c_leasers led ''a'') (c_clock led)"
  by code_simp


lemma held_lease:
  "run_state (getLease (lease_api False out) ns nm) (Some l) = (Inr l, Some l)"
  by (simp add: lease_api_def)

definition lease_of :: "string \<Rightarrow> gtime \<Rightarrow> lease" where
  "lease_of i t = \<lparr> lease_Metadata = empty_meta, HolderIdentity = i, RenewTime = Some t \<rparr>"

theorem sync_respects_holder_witness:
  "run_state (Sync (lease_api False Stored) (leaser_cfg ''me'') (29 * second) new_leaser) (Some (lease_of ''other'' 0)) =
     ((LeaseNotLeader, new_leaser\<lparr> amLeader := False \<rparr>), Some (lease_of ''other'' 0))"
  by (rule sync_respects_holder [OF held_lease])
     (simp_all add: lease_of_def leaser_cfg_def freshHolder_def time_sub_le_iff)

theorem sync_leader_can_decide_witness: "CanDecide (won (29 * second) new_leaser) (29 * second)"
proof -
  have "run_state (Sync (lease_api False Stored) (leaser_cfg ''me'') (29 * second) new_leaser) None =
      ((LeaseLeader, won (29 * second) new_leaser), Some \<lparr> lease_Metadata =
        empty_meta\<lparr> Name := ''simplek8s-controller'', Namespace := ''kube-system'' \<rparr>, HolderIdentity = ''me'',
        RenewTime = Some (29 * second) \<rparr>)"
    by (simp add: Sync_def lease_api_def put_def leaser_cfg_def IsNotFound_def)
  then show ?thesis by (rule sync_leader_can_decide)
qed

end
