(* ===== verification/Reboot_Feature.thy ===== *)
theory Reboot_Feature
  imports Reboot_Gates Lease Handlers "HOL-Library.AList"
begin

text \<open>
  \<open>internal/features/reboot\<close>: the orchestrator's cycle (\<open>orchestrator.go\<close>), the drain
  (\<open>drain.go\<close>), the local executor (\<open>local.go\<close>) and their events (\<open>reboot.go\<close>). A handler is
  a computation over the feature's memory and the world; logging is left out. \<open>Panicked\<close> is the
  run-time panic that takes the process down.
\<close>

section \<open>Memory and environment\<close>

record reboot_mem =
  notReadyAfter :: "string \<rightharpoonup> gtime"
  denied :: "string \<rightharpoonup> deny_state"
  notified :: "string set"
  prevInflight :: "(string \<times> string) list"

record 'w reboot_env =
  e_api :: "'w kube_api"
  e_lease :: leaser_config
  e_now :: "('w, gtime) state"
  e_wall :: "('w, gtime) state"
  e_bootID :: "('w, string option) state"
  e_startReboot :: "('w, string option) state"
  e_NodeName :: string
  e_PodUID :: string
  e_EventNamespace :: string

type_synonym ('w, 'a) handler = "(reboot_mem \<times> 'w, 'a) state"

section \<open>Events\<close>

definition reboot_event :: "'w reboot_env \<Rightarrow> string \<Rightarrow> string \<Rightarrow> string \<Rightarrow> bool \<Rightarrow> ('w, unit) handler" where
  "reboot_event env nodeName reason message warning = do {
     now \<leftarrow> in_world (e_wall env);
     _ \<leftarrow> in_world (createEvent (e_api env) (e_EventNamespace env)
       \<lparr> event_Namespace = e_EventNamespace env, event_GenerateName = ''reboot-'', InvolvedName = nodeName,
         InvolvedUID = [], Reason = reason, Message = message, Component = [],
         event_Type = (if warning then ''Warning'' else ''Normal''), FirstTimestamp = now,
         LastTimestamp = now, Count = 1 \<rparr>);
     State_Monad.return ()
   }"

definition noteEvent :: "'w reboot_env \<Rightarrow> string \<Rightarrow> string \<Rightarrow> string \<Rightarrow> string \<Rightarrow> bool \<Rightarrow> bool \<Rightarrow> ('w, unit) handler" where
  "noteEvent env key nodeName reason message warning active = do {
     fire \<leftarrow> in_mem (\<lambda>f. if active \<and> key \<notin> notified f
       then (True, f\<lparr> notified := insert key (notified f) \<rparr>)
       else (False, if active then f else f\<lparr> notified := notified f - {key} \<rparr>));
     if fire then reboot_event env nodeName reason message warning else State_Monad.return ()
   }"

section \<open>The drain\<close>

text \<open>\<open>Duration.String\<close> for whole seconds, which the configured durations of the messages are
  printed with, and the text of an API error.\<close>

definition duration_string :: "duration \<Rightarrow> string" where
  "duration_string d =
     (let s = d div second; h = s div 3600; m = s div 60 mod 60; r = s mod 60
      in if h > 0 then itoa h @ ''h'' @ itoa m @ ''m'' @ itoa r @ ''s''
         else if m > 0 then itoa m @ ''m'' @ itoa r @ ''s'' else itoa r @ ''s'')"

definition error_string :: "api_error \<Rightarrow> string" where
  "error_string e =
     (case e of
        StatusError s \<Rightarrow> ''kube: API error '' @ itoa (Code s) @ '' ('' @ err_Reason s @ ''): '' @ err_Message s
      | OtherError m \<Rightarrow> m)"

datatype drain_result = drainPending | drainDone | drainFailed string

definition pod_key :: "pod \<Rightarrow> string" where
  "pod_key p = Namespace (pod_Metadata p) @ ''/'' @ Name (pod_Metadata p)"

definition backing_off :: "gtime \<Rightarrow> deny_state option \<Rightarrow> bool" where
  "backing_off now ds =
     (case ds of None \<Rightarrow> False | Some d \<Rightarrow> time_sub now (lastAttempt d) < denyBackoff (Some d))"

definition note_eviction :: "string \<Rightarrow> gtime \<Rightarrow> api_error option \<Rightarrow> reboot_mem \<Rightarrow> unit \<times> reboot_mem" where
  "note_eviction key now err f =
     ((), case err of
        None \<Rightarrow> f\<lparr> denied := (denied f)(key := None) \<rparr>
      | Some e \<Rightarrow>
          if IsTooManyRequests e then
            f\<lparr> denied := (denied f)(key \<mapsto>
              \<lparr> deny_count = (case denied f key of None \<Rightarrow> 0 | Some d \<Rightarrow> deny_count d) + 1, lastAttempt = now \<rparr>) \<rparr>
          else if IsNotFound e then f\<lparr> denied := (denied f)(key := None) \<rparr>
          else f)"

definition try_evict :: "'w reboot_env \<Rightarrow> gtime \<Rightarrow> bool \<Rightarrow> pod \<Rightarrow> ('w, unit) handler" where
  "try_evict env now force p =
     (if Terminating (pod_Metadata p) then State_Monad.return ()
      else if unmanaged p \<and> \<not> force then State_Monad.return ()
      else do {
        ds \<leftarrow> in_mem (\<lambda>f. (denied f (pod_key p), f));
        if backing_off now ds then State_Monad.return ()
        else do {
          err \<leftarrow> in_world (evict (e_api env) (Namespace (pod_Metadata p)) (Name (pod_Metadata p)));
          in_mem (note_eviction (pod_key p) now err)
        }
      })"

fun force_delete :: "'w reboot_env \<Rightarrow> pod list \<Rightarrow> ('w, drain_result) handler" where
  "force_delete env [] = State_Monad.return drainPending"
| "force_delete env (p # ps) =
     (if Terminating (pod_Metadata p) then force_delete env ps
      else do {
        err \<leftarrow> in_world (deletePod (e_api env) (Namespace (pod_Metadata p)) (Name (pod_Metadata p)));
        (case err of
           Some e \<Rightarrow>
             if \<not> IsNotFound e then
               State_Monad.return (drainFailed (''force-delete of '' @ pod_key p @ '' failed: '' @ error_string e))
             else force_delete env ps
         | None \<Rightarrow> force_delete env ps)
      })"

definition toEvict :: "node \<Rightarrow> pod list \<Rightarrow> pod list" where
  "toEvict nd allPods = List.filter (\<lambda>p. NodeName p = Name (Metadata nd) \<and> evictable p) allPods"

definition runDrain :: "'w reboot_env \<Rightarrow> view \<Rightarrow> pod list \<Rightarrow> duration \<Rightarrow> ('w, drain_result) handler" where
  "runDrain env v allPods drainTimeout = do {
     now \<leftarrow> in_world (e_now env);
     (if time_sub now (since_of v) \<ge> drainTimeout then
        State_Monad.return (drainFailed (''drain timed out after '' @ duration_string drainTimeout))
      else if toEvict (v_node v) allPods = [] then State_Monad.return drainDone
      else do {
        _ \<leftarrow> for_each (try_evict env now (forceOf (v_st v))) (toEvict (v_node v) allPods);
        (if forceOf (v_st v) then force_delete env (toEvict (v_node v) allPods)
         else State_Monad.return drainPending)
      })
   }"

section \<open>Transitions\<close>

text \<open>\<open>rv\<close>: the version a build function answers with.\<close>

definition status_raw :: "node \<Rightarrow> string" where
  "status_raw nd = lookup_or [] (Annotations (Metadata nd)) AnnStatus"

definition node_is :: "string \<Rightarrow> node \<Rightarrow> bool" where
  "node_is s nd \<longleftrightarrow> state_is s (Node_State.Parse (Annotations (Metadata nd)))"

definition when_in :: "string \<Rightarrow> (node \<Rightarrow> node_patch) \<Rightarrow> build_func" where
  "when_in from bld fresh = (if \<not> node_is from fresh then Skip else Apply (bld fresh))"

definition transition :: "'w reboot_env \<Rightarrow> view \<Rightarrow> string \<Rightarrow> (node \<Rightarrow> node_patch) \<Rightarrow> string \<Rightarrow> string \<Rightarrow> bool \<Rightarrow>
    ('w, unit) handler" where
  "transition env v from bld reason msg warning = do {
     err \<leftarrow> in_world (PatchTransition (e_api env) (Name (Metadata (v_node v))) 3 (when_in from bld));
     if err = None then reboot_event env (Name (Metadata (v_node v))) reason msg warning
     else State_Monad.return ()
   }"

definition manageDraining :: "'w reboot_env \<Rightarrow> view \<Rightarrow> pod list \<Rightarrow> gtime \<Rightarrow> duration \<Rightarrow> ('w, unit) handler" where
  "manageDraining env v allPods now drainTimeout = do {
     res \<leftarrow> runDrain env v allPods drainTimeout;
     (case res of
        drainPending \<Rightarrow> State_Monad.return ()
      | drainDone \<Rightarrow>
          transition env v Draining (\<lambda>fresh. ToRebootingPatch (ResourceVersion (Metadata fresh)) now)
            ''RebootIssued'' ''drain finished; node is rebooting'' False
      | drainFailed errMsg \<Rightarrow> do {
          now' \<leftarrow> in_world (e_now env);
          transition env v Draining
            (\<lambda>fresh. ToFailedPatch (ResourceVersion (Metadata fresh)) now' (status_raw fresh) errMsg)
            ''RebootFailed'' errMsg True
        })
   }"

definition manageRebooting :: "'w reboot_env \<Rightarrow> view \<Rightarrow> gtime \<Rightarrow> ('w, unit) handler" where
  "manageRebooting env v now =
     (case ns_Exec (v_st v) of
        None \<Rightarrow> State_Monad.return ()
      | Some ex \<Rightarrow>
          if \<not> ex_Present ex \<or> ex_ParseError ex \<noteq> [] then State_Monad.return ()
          else do {
            _ \<leftarrow> in_mem (\<lambda>f. ((), if \<not> v_ready v \<and> now > ex_IssuedAt ex
              then f\<lparr> notReadyAfter := (notReadyAfter f)(Name (Metadata (v_node v)) \<mapsto> now) \<rparr> else f));
            if \<not> v_ready v then State_Monad.return ()
            else do {
              obs \<leftarrow> in_mem (\<lambda>f. (lookup_or zero_time (notReadyAfter f) (Name (Metadata (v_node v))), f));
              if ex_ConfirmedAt ex \<noteq> None \<or> (obs \<noteq> zero_time \<and> obs > ex_IssuedAt ex) then
                transition env v Rebooting (\<lambda>fresh. ToCompletedPatch (ResourceVersion (Metadata fresh)) now)
                  ''RebootCompleted'' ''node is Ready again and the reboot is confirmed'' False
              else State_Monad.return ()
            }
          })"

section \<open>The cordon\<close>

fun uncordon_attempts :: "'w reboot_env \<Rightarrow> string \<Rightarrow> nat \<Rightarrow> ('w, unit) handler" where
  "uncordon_attempts env name 0 = State_Monad.return ()"
| "uncordon_attempts env name (Suc k) = do {
     r \<leftarrow> in_world (getNode (e_api env) name);
     (case r of
        Inl e \<Rightarrow> State_Monad.return ()
      | Inr fresh \<Rightarrow>
          if \<not> Unschedulable fresh then State_Monad.return ()
          else do {
            err \<leftarrow> in_world (patchNode (e_api env) name (UncordonPatch (ResourceVersion (Metadata fresh))));
            (case err of
               None \<Rightarrow> State_Monad.return ()
             | Some e \<Rightarrow>
                 if IsNotFound e then State_Monad.return ()
                 else if \<not> IsConflict e then State_Monad.return ()
                 else uncordon_attempts env name k)
          })
   }"

definition uncordon :: "'w reboot_env \<Rightarrow> view \<Rightarrow> ('w, unit) handler" where
  "uncordon env v = uncordon_attempts env (Name (Metadata (v_node v))) 3"

definition uncordonRule :: "'w reboot_env \<Rightarrow> view \<Rightarrow> ('w, unit) handler" where
  "uncordonRule env v =
     (let name = Name (Metadata (v_node v)) in
      if \<not> Unschedulable (v_node v) then State_Monad.return ()
      else (case ns_Status (v_st v) of
          None \<Rightarrow> uncordon env v
        | Some s \<Rightarrow>
            if \<not> ss_Present s then uncordon env v
            else if ss_ParseError s \<noteq> [] then
              noteEvent env (''uncordon-blocked:'' @ name) name ''UncordonBlocked''
                ''reboot-status.cordonedPrev is unreadable; the cordon is preserved; explicit operator repair is required (kubectl uncordon or repair the annotation)''
                True True
            else if ss_CordonedPrev s = Some True then State_Monad.return ()
            else uncordon env v))"

section \<open>The orchestrator's cycle\<close>

definition manageNode :: "'w reboot_env \<Rightarrow> config \<Rightarrow> pod list \<Rightarrow> gtime \<Rightarrow> view \<Rightarrow> ('w, unit) handler" where
  "manageNode env fc allPods now v =
     (let name = Name (Metadata (v_node v)) in
      case ns_State (v_st v) of
        None \<Rightarrow> State_Monad.return ()
      | Some si \<Rightarrow>
          if \<not> st_Present si then State_Monad.return ()
          else if st_ParseError si \<noteq> [] then
            noteEvent env (''corrupt:'' @ name) name ''CorruptRebootState''
              (''reboot-state annotation is unparseable; the node holds a concurrency slot until the operator repairs the annotation or clears it with DELETE /reboots/'' @
               name @ ''. raw: '' @ st_Raw si) True True
          else if st_State si = Draining then manageDraining env v allPods now (RebootDrainTimeout fc)
          else if st_State si = Rebooting then manageRebooting env v now
          else if st_State si = Completed \<or> st_State si = Failed then uncordonRule env v
          else State_Monad.return ())"

definition writeBlockedBy :: "'w reboot_env \<Rightarrow> view \<Rightarrow> string list \<Rightarrow> ('w, unit) handler" where
  "writeBlockedBy env v blocked = do {
     _ \<leftarrow> in_world (PatchTransition (e_api env) (Name (Metadata (v_node v))) 3
       (when_in Requested (\<lambda>fresh. StatusPatch (ResourceVersion (Metadata fresh)) (status_raw fresh)
          (\<lambda>s. s\<lparr> ss_BlockedBy := Some blocked \<rparr>))));
     State_Monad.return ()
   }"

definition alive_states :: "view list \<Rightarrow> (string \<times> string) list" where
  "alive_states vs =
     foldl (\<lambda>m v. case ns_State (v_st v) of
         None \<Rightarrow> m
       | Some si \<Rightarrow> if st_Present si \<and> st_ParseError si = []
                   then AList.update (Name (Metadata (v_node v))) (st_State si) m else m) [] vs"

definition observe_gone :: "'w reboot_env \<Rightarrow> (string \<times> string) list \<Rightarrow> string \<times> string \<Rightarrow> ('w, unit) handler" where
  "observe_gone env alive = (\<lambda>(name, st).
     if map_of alive name = None \<and> (st = Draining \<or> st = Rebooting \<or> st = Failed \<or> st = Completed) then
       reboot_event env name ''NodeDisappeared''
         (''node disappeared while in state '' @ st @ ''; its reboot state was removed with it'') False
     else State_Monad.return ())"

definition observeDisappearances :: "'w reboot_env \<Rightarrow> view list \<Rightarrow> ('w, unit) handler" where
  "observeDisappearances env vs = do {
     prev \<leftarrow> in_mem (\<lambda>f. (prevInflight f, f));
     _ \<leftarrow> for_each (observe_gone env (alive_states vs)) prev;
     in_mem (\<lambda>f. ((), f\<lparr> prevInflight :=
       List.filter (\<lambda>(name, st). st = Draining \<or> st = Rebooting) (alive_states vs) \<rparr>))
   }"

definition admission_patch :: "gtime \<Rightarrow> node \<Rightarrow> node_patch" where
  "admission_patch now fresh =
     ToDrainingPatch (ResourceVersion (Metadata fresh)) now (status_raw fresh) (Unschedulable fresh)"

text \<open>The candidate loop: at most one admission, and a lost race or a block moves on to the next.\<close>

fun admit :: "'w reboot_env \<Rightarrow> config \<Rightarrow> gtime \<Rightarrow> bool \<Rightarrow> pod_disruption_budget list \<Rightarrow> pod list \<Rightarrow> nat \<Rightarrow> nat \<Rightarrow>
    view list \<Rightarrow> ('w, outcome) handler" where
  "admit env fc now windowOpen budgets allPods inFl cpInFl [] = State_Monad.return Finished"
| "admit env fc now windowOpen budgets allPods inFl cpInFl (v # vs) =
     (if int inFl \<ge> MaxConcurrentReboots fc \<or> cpInFl \<ge> 1 then State_Monad.return Finished
      else if \<not> forceOf (v_st v) \<and> \<not> windowOpen then do {
        _ \<leftarrow> noteEvent env (''window:'' @ Name (Metadata (v_node v))) (Name (Metadata (v_node v))) ''QueueHeldWindow''
          ''reboot waiting for a reboots.windows window; configure one or re-issue with force'' False True;
        admit env fc now windowOpen budgets allPods inFl cpInFl vs
      }
      else (case (if forceOf (v_st v) then Some [] else pdbBlocked (v_node v) budgets allPods) of
          None \<Rightarrow> State_Monad.return Panicked
        | Some blocked \<Rightarrow>
            if blocked \<noteq> [] then do {
              _ \<leftarrow> writeBlockedBy env v blocked;
              _ \<leftarrow> noteEvent env (''pdb:'' @ Name (Metadata (v_node v))) (Name (Metadata (v_node v))) ''PDBBlocked''
                (''reboot blocked by PDBs: '' @ join blocked @
                 ''; fix the workload/PDB, DELETE the request, or re-issue with force'') True True;
              admit env fc now windowOpen budgets allPods inFl cpInFl vs
            }
            else do {
              own \<leftarrow> in_world (VerifyOwnership (e_api env) (e_lease env));
              (if \<not> own then State_Monad.return Finished
               else do {
                 err \<leftarrow> in_world (PatchTransition (e_api env) (Name (Metadata (v_node v))) 3
                   (when_in Requested (admission_patch now)));
                 (case err of
                    None \<Rightarrow> do {
                      _ \<leftarrow> reboot_event env (Name (Metadata (v_node v))) ''RebootDraining''
                        ''drain started (cordon + eviction)'' False;
                      State_Monad.return Finished
                    }
                  | Some e \<Rightarrow>
                      if e = Aborted then admit env fc now windowOpen budgets allPods inFl cpInFl vs
                      else State_Monad.return Finished)
               })
            }))"

definition admission_queue :: "node list \<Rightarrow> view list" where
  "admission_queue freshNodes = sortQueue (List.filter (\<lambda>v. state_is Requested (v_st v)) (buildViews freshNodes))"

definition admission_phase :: "'w reboot_env \<Rightarrow> config \<Rightarrow> gtime \<Rightarrow> pod_disruption_budget list \<Rightarrow> pod list \<Rightarrow> node list \<Rightarrow>
    ('w, outcome) handler" where
  "admission_phase env fc now budgets allPods freshNodes =
     (let c = admissionCounts (buildViews freshNodes) in
      if OnRebootFailure fc = ''pause'' \<and> anyFailed c then do {
        _ \<leftarrow> noteEvent env ''queue-paused'' [] ''QueuePaused''
          ''reboot queue paused: a node is in failed state; clear it with DELETE /reboots/<node> to resume'' True True;
        State_Monad.return Finished
      }
      else if queuedNotReady c then do {
        _ \<leftarrow> noteEvent env ''queue-held'' [] ''QueueHeldNotReady''
          ''reboot queue held: a requested (queued) node is NotReady'' True True;
        State_Monad.return Finished
      }
      else if int (inFlight c) \<ge> MaxConcurrentReboots fc \<or> cpInFlight c \<ge> 1 then State_Monad.return Finished
      else admit env fc now (WindowsOpen (RebootWindows fc) (RebootWindowGrace fc) now) budgets allPods
             (inFlight c) (cpInFlight c) (admission_queue freshNodes))"

definition manage_phase :: "'w reboot_env \<Rightarrow> config \<Rightarrow> gtime \<Rightarrow> pod list \<Rightarrow> view list \<Rightarrow> ('w, unit) handler" where
  "manage_phase env fc now allPods vs = for_each (manageNode env fc allPods now) vs"

definition runOrchestrator :: "'w reboot_env \<Rightarrow> config \<Rightarrow> ('w, outcome) handler" where
  "runOrchestrator env fc = do {
     r1 \<leftarrow> in_world (listNodes (e_api env));
     (case r1 of Inl e \<Rightarrow> State_Monad.return Finished | Inr nds \<Rightarrow> do {
       r2 \<leftarrow> in_world (listPods (e_api env));
       (case r2 of Inl e \<Rightarrow> State_Monad.return Finished | Inr allPods \<Rightarrow> do {
         r3 \<leftarrow> in_world (listPDBs (e_api env));
         (case r3 of Inl e \<Rightarrow> State_Monad.return Finished | Inr budgets \<Rightarrow> do {
           now \<leftarrow> in_world (e_now env);
           _ \<leftarrow> observeDisappearances env (buildViews nds);
           _ \<leftarrow> manage_phase env fc now allPods (buildViews nds);
           r4 \<leftarrow> in_world (listNodes (e_api env));
           (case r4 of
              Inl e \<Rightarrow> State_Monad.return Finished
            | Inr freshNodes \<Rightarrow> admission_phase env fc now budgets allPods freshNodes)
         })
       })
     })
   }"

section \<open>The local executor\<close>

text \<open>The guards on the fresh state; \<open>None\<close> where the code dereferences a missing exec record.\<close>

definition exec_absent :: "node_state \<Rightarrow> bool option" where
  "exec_absent st = Some (case ns_Exec st of None \<Rightarrow> True | Some x \<Rightarrow> \<not> ex_Present x)"

definition reissue_guard :: "string \<Rightarrow> gtime \<Rightarrow> duration \<Rightarrow> node_state \<Rightarrow> bool option" where
  "reissue_guard boot now grace st =
     (case ns_Exec st of
        None \<Rightarrow> None
      | Some x \<Rightarrow> Some (ex_Present x \<and> ex_ParseError x = [] \<and> ex_Attempt x = 1 \<and> ex_BootID x = boot \<and>
          \<not> now > ex_IssuedAt x + grace))"

definition confirm_guard :: "node_state \<Rightarrow> bool option" where
  "confirm_guard st =
     (case ns_Exec st of
        None \<Rightarrow> None
      | Some x \<Rightarrow> Some (ex_Present x \<and> ex_ParseError x = [] \<and> ex_ConfirmedAt x = None))"

definition exec_build :: "(node_state \<Rightarrow> bool option) \<Rightarrow> exec_info \<Rightarrow> build_func" where
  "exec_build guard e fresh =
     (if \<not> node_is Rebooting fresh then Skip
      else (case guard (Node_State.Parse (Annotations (Metadata fresh))) of
          None \<Rightarrow> Panic
        | Some g \<Rightarrow> if \<not> g then Skip else Apply (IssuedExecPatch (ResourceVersion (Metadata fresh)) e)))"

text \<open>A guard may read the clock, each time it is called.\<close>

definition guardedExecPatch :: "'w reboot_env \<Rightarrow> ('w, 'x) state \<Rightarrow> ('x \<Rightarrow> node_state \<Rightarrow> bool option) \<Rightarrow> exec_info \<Rightarrow>
    ('w, transition_error option) handler" where
  "guardedExecPatch env rd guard e =
     in_world (PatchTransitionReading (e_api env) (e_NodeName env) 3 rd (\<lambda>x. exec_build (guard x) e))"

definition localFailed :: "'w reboot_env \<Rightarrow> string \<Rightarrow> ('w, unit) handler" where
  "localFailed env errMsg = do {
     now \<leftarrow> in_world (e_now env);
     err \<leftarrow> in_world (PatchTransition (e_api env) (e_NodeName env) 3 (when_in Rebooting
       (\<lambda>fresh. ToFailedPatch (ResourceVersion (Metadata fresh)) now (status_raw fresh) errMsg)));
     if err = None then reboot_event env (e_NodeName env) ''RebootFailed'' errMsg True
     else State_Monad.return ()
   }"

definition issueReboot :: "'w reboot_env \<Rightarrow> ('w, unit) handler" where
  "issueReboot env = do {
     err \<leftarrow> in_world (e_startReboot env);
     (case err of
        None \<Rightarrow> reboot_event env (e_NodeName env) ''RebootCommandIssued''
          ''reboot command issued into the host PID namespace'' False
      | Some m \<Rightarrow> localFailed env (''reboot command failed to start: '' @ m))
   }"

definition issue_after :: "'w reboot_env \<Rightarrow> transition_error option \<Rightarrow> ('w, outcome) handler" where
  "issue_after env err =
     (case err of
        None \<Rightarrow> do { _ \<leftarrow> issueReboot env; State_Monad.return Finished }
      | Some e \<Rightarrow> State_Monad.return (if e = Crashed then Panicked else Finished))"

definition new_exec :: "'w reboot_env \<Rightarrow> gtime \<Rightarrow> string \<Rightarrow> int \<Rightarrow> exec_info" where
  "new_exec env now boot n =
     \<lparr> ex_Present = False, ex_IssuedAt = now, ex_BootID = boot, ex_Attempt = n, ex_ExecutorPodUID = e_PodUID env,
       ex_ConfirmedAt = None, ex_ParseError = [] \<rparr>"

definition local_act :: "'w reboot_env \<Rightarrow> config \<Rightarrow> string \<Rightarrow> gtime \<Rightarrow> node_state \<Rightarrow> ('w, outcome) handler" where
  "local_act env fc boot now st =
     (let grace = RebootIssueGrace fc in
      case ns_Exec st of
        None \<Rightarrow> do {
          err \<leftarrow> guardedExecPatch env (State_Monad.return ()) (\<lambda>_. exec_absent) (new_exec env now boot 1);
          issue_after env err
        }
      | Some x \<Rightarrow>
          if \<not> ex_Present x then do {
            err \<leftarrow> guardedExecPatch env (State_Monad.return ()) (\<lambda>_. exec_absent) (new_exec env now boot 1);
            issue_after env err
          }
          else if ex_ParseError x \<noteq> [] then do {
            _ \<leftarrow> noteEvent env (''corrupt-exec:'' @ e_NodeName env) (e_NodeName env) ''CorruptRebootExec''
              (''reboot-exec annotation is unparseable; issue/confirm checks are paused until it is repaired or the node is cleared with DELETE /reboots/'' @
               e_NodeName env) True True;
            State_Monad.return Finished
          }
          else if ex_BootID x = boot then
            (if ex_Attempt x = 1 \<and> \<not> now > ex_IssuedAt x + grace then do {
               err \<leftarrow> guardedExecPatch env (e_now env) (\<lambda>now'. reissue_guard boot now' grace) (new_exec env now boot 2);
               issue_after env err
             }
             else if now > ex_IssuedAt x + grace then do {
               _ \<leftarrow> localFailed env (''reboot did not take effect: host boot ID unchanged '' @
                 duration_string grace @ '' after issuedAt'');
               State_Monad.return Finished
             }
             else State_Monad.return Finished)
          else if ex_ConfirmedAt x = None then do {
            err \<leftarrow> guardedExecPatch env (State_Monad.return ()) (\<lambda>_. confirm_guard)
              \<lparr> ex_Present = False, ex_IssuedAt = ex_IssuedAt x, ex_BootID = ex_BootID x, ex_Attempt = ex_Attempt x,
                ex_ExecutorPodUID = ex_ExecutorPodUID x, ex_ConfirmedAt = Some now, ex_ParseError = [] \<rparr>;
            State_Monad.return (if err = Some Crashed then Panicked else Finished)
          }
          else State_Monad.return Finished)"

definition runLocal :: "'w reboot_env \<Rightarrow> config \<Rightarrow> ('w, outcome) handler" where
  "runLocal env fc = do {
     r \<leftarrow> in_world (getNode (e_api env) (e_NodeName env));
     (case r of
        Inl e \<Rightarrow> State_Monad.return Finished
      | Inr nd \<Rightarrow>
          (let st = Node_State.Parse (Annotations (Metadata nd)) in
           if \<not> state_is Rebooting st then State_Monad.return Finished
           else do {
             b \<leftarrow> in_world (e_bootID env);
             (case b of
                None \<Rightarrow> State_Monad.return Finished
              | Some boot \<Rightarrow> do {
                  now \<leftarrow> in_world (e_now env);
                  local_act env fc boot now st
                })
           }))
   }"

end
