(* ===== verification/Fake_Api.thy ===== *)
theory Fake_Api
  imports Kube_Client "HOL-Library.AList"
begin

text \<open>
  \<open>internal/kubetest/fakeapi.go\<close>: the in-memory API server the controller is run against. It
  answers typed requests; nodes are kept as objects, and \<open>merge_node\<close> is the JSON merge patch
  on them (proved against \<open>mergePatch\<close>, the literal merge on JSON trees). The server's map of
  nodes is an association list; a nil hook is the function that always answers no.
\<close>

section \<open>Merge patches\<close>

text \<open>RFC 7386 on objects, as lists of members with distinct keys.\<close>

function mergePatch :: "(string \<times> json) list \<Rightarrow> (string \<times> json) list \<Rightarrow> (string \<times> json) list" where
  "mergePatch target [] = target"
| "mergePatch target ((k, v) # ps) =
     mergePatch
       (case v of
          JNull \<Rightarrow> AList.delete k target
        | JObj pm \<Rightarrow>
            (case map_of target k of
               Some (JObj tm) \<Rightarrow> AList.update k (JObj (mergePatch tm pm)) target
             | _ \<Rightarrow> AList.update k v target)
        | _ \<Rightarrow> AList.update k v target) ps"
  by pat_completeness auto
termination by (relation "measure (\<lambda>(t, ps). size_list (size_prod (\<lambda>_. 0) size) ps)") auto

fun merge_anns :: "(string \<rightharpoonup> string) \<Rightarrow> (string \<times> string option) list \<Rightarrow> (string \<rightharpoonup> string)" where
  "merge_anns m [] = m"
| "merge_anns m ((k, v) # ps) = merge_anns (m(k := v)) ps"

text \<open>The merge on a node, and the new resource version.\<close>

definition merge_node :: "node \<Rightarrow> node_patch \<Rightarrow> string \<Rightarrow> node" where
  "merge_node n p rv =
     n\<lparr> Metadata := (Metadata n)\<lparr> Annotations := merge_anns (Annotations (Metadata n)) (patch_annotations p),
                                 ResourceVersion := rv \<rparr>,
        Unschedulable := (case patch_unschedulable p of None \<Rightarrow> Unschedulable n | Some b \<Rightarrow> b) \<rparr>"

text \<open>The patch and the node as the JSON trees they are on the wire.\<close>

definition ann_json :: "string option \<Rightarrow> json" where
  "ann_json v = (case v of None \<Rightarrow> JNull | Some s \<Rightarrow> JStr s)"

definition patch_json :: "node_patch \<Rightarrow> (string \<times> json) list" where
  "patch_json p =
     (''metadata'', JObj ((''resourceVersion'', JStr (patch_rv p)) #
        (if patch_annotations p = [] then []
         else [(''annotations'', JObj (map (\<lambda>(k, v). (k, ann_json v)) (patch_annotations p)))]))) #
     (case patch_unschedulable p of None \<Rightarrow> [] | Some b \<Rightarrow> [(''spec'', JObj [(''unschedulable'', JBool b)])])"

text \<open>A JSON tree stands for a node: the parts a patch can touch.\<close>

definition annotations_of :: "(string \<times> json) list \<Rightarrow> (string \<rightharpoonup> string) \<Rightarrow> bool" where
  "annotations_of ms anns \<longleftrightarrow> map_of ms = (\<lambda>k. map_option JStr (anns k))"

definition node_tree :: "(string \<times> json) list \<Rightarrow> node \<Rightarrow> bool" where
  "node_tree t n \<longleftrightarrow>
     (\<exists>md am sp.
        map_of t ''metadata'' = Some (JObj md) \<and> map_of t ''spec'' = Some (JObj sp) \<and>
        map_of md ''annotations'' = Some (JObj am) \<and> annotations_of am (Annotations (Metadata n)) \<and>
        map_of md ''resourceVersion'' = Some (JStr (ResourceVersion (Metadata n))) \<and>
        map_of md ''name'' = Some (JStr (Name (Metadata n))) \<and>
        map_of sp ''unschedulable'' = Some (JBool (Unschedulable n)))"

text \<open>\<open>merged["metadata"]["resourceVersion"] = rv\<close>.\<close>

definition set_rv :: "string \<Rightarrow> (string \<times> json) list \<Rightarrow> (string \<times> json) list" where
  "set_rv rv t =
     (case map_of t ''metadata'' of
        Some (JObj md) \<Rightarrow> AList.update ''metadata'' (JObj (AList.update ''resourceVersion'' (JStr rv) md)) t
      | _ \<Rightarrow> t)"

lemma mergePatch_anns:
  "annotations_of am anns \<Longrightarrow>
   annotations_of (mergePatch am (map (\<lambda>(k, v). (k, ann_json v)) ps)) (merge_anns anns ps)"
proof (induction ps arbitrary: am anns)
  case (Cons p ps)
  obtain k v where p: "p = (k, v)" by (cases p)
  have "annotations_of (case v of None \<Rightarrow> AList.delete k am | Some s \<Rightarrow> AList.update k (JStr s) am) (anns(k := v))"
    using Cons.prems
    by (cases v) (auto simp: annotations_of_def fun_eq_iff delete_conv' update_conv')
  note ih = Cons.IH [OF this]
  have "mergePatch am ((k, ann_json v) # qs) =
      mergePatch (case v of None \<Rightarrow> AList.delete k am | Some s \<Rightarrow> AList.update k (JStr s) am) qs" for qs
    by (cases v) (simp_all add: ann_json_def)
  with ih show ?case by (simp only: p list.map prod.case merge_anns.simps)
qed simp

text \<open>C33: the typed merge on nodes is the JSON merge patch on their trees.\<close>

theorem merge_node_refines:
  assumes "node_tree t n"
  shows "node_tree (set_rv rv (mergePatch t (patch_json p))) (merge_node n p rv)"
proof -
  from assms obtain md am sp where t:
    "map_of t ''metadata'' = Some (JObj md)" "map_of t ''spec'' = Some (JObj sp)"
    "map_of md ''annotations'' = Some (JObj am)" "annotations_of am (Annotations (Metadata n))"
    "map_of md ''resourceVersion'' = Some (JStr (ResourceVersion (Metadata n)))"
    "map_of md ''name'' = Some (JStr (Name (Metadata n)))"
    "map_of sp ''unschedulable'' = Some (JBool (Unschedulable n))"
    unfolding node_tree_def by blast
  note an = mergePatch_anns [OF t(4), of "patch_annotations p"]
  show ?thesis
    using t an
    by (cases "patch_unschedulable p"; cases "patch_annotations p = []")
       (simp_all add: node_tree_def patch_json_def set_rv_def merge_node_def update_conv')
qed

section \<open>The server\<close>

record fake_pod =
  fp_Name :: string
  fp_Namespace :: string
  fp_NodeName :: string
  fp_Phase :: string
  fp_Labels :: "string \<rightharpoonup> string"
  fp_Annotations :: "string \<rightharpoonup> string"
  fp_Owners :: "string list"
  fp_Terminating :: bool
  fp_GracePeriod :: int

record fake_pdb =
  fd_Name :: string
  fd_Namespace :: string
  fd_Selector :: "label_selector option"
  fd_Allowed :: int

record fake_cm =
  fc_rv :: int
  fc_data :: "(string \<times> string) list"

record fake_api =
  rvCounter :: int
  nodes :: "(string \<times> node) list"
  pods :: "fake_pod list"
  pdbs :: "fake_pdb list"
  leases :: "(string \<times> lease) list"
  configmaps :: "(string \<times> fake_cm) list"
  events :: "event list"
  EvictDeny :: "string \<Rightarrow> string \<Rightarrow> bool"
  PodGone :: "string \<Rightarrow> string \<Rightarrow> bool"
  FailNext :: "(string \<times> int) list"
  ConfigMapConflicts :: int
  wall :: gtime

definition NewFakeAPI :: fake_api where
  "NewFakeAPI = \<lparr> rvCounter = 0, nodes = [], pods = [], pdbs = [], leases = [], configmaps = [],
     events = [], EvictDeny = (\<lambda>_ _. False), PodGone = (\<lambda>_ _. False), FailNext = [],
     ConfigMapConflicts = 0, wall = 0 \<rparr>"

definition next_rv :: "fake_api \<Rightarrow> int \<times> fake_api" where
  "next_rv f = (rvCounter f + 1, f\<lparr> rvCounter := rvCounter f + 1 \<rparr>)"

subsection \<open>The tests' hands on the server\<close>

definition SetNode :: "string \<Rightarrow> (string \<rightharpoonup> string) \<Rightarrow> bool \<Rightarrow> (string \<rightharpoonup> string) \<Rightarrow> string \<Rightarrow> fake_api \<Rightarrow> fake_api" where
  "SetNode name anns unsched labels uid f =
     (let (v, f') = next_rv f in f'\<lparr> nodes := AList.update name
        \<lparr> Metadata = empty_meta\<lparr> Name := name, UID := uid, ResourceVersion := itoa v,
            Annotations := anns, Labels := labels \<rparr>,
          Unschedulable = unsched,
          Conditions = [\<lparr> cond_Type = ''Ready'', cond_Status = ''True'', LastTransitionTime = [] \<rparr>],
          KernelVersion = [], Architecture = [] \<rparr> (nodes f') \<rparr>)"

definition change_node :: "string \<Rightarrow> (node \<Rightarrow> node) \<Rightarrow> fake_api \<Rightarrow> fake_api" where
  "change_node name g f =
     (case map_of (nodes f) name of
        None \<Rightarrow> f
      | Some n \<Rightarrow> (let (v, f') = next_rv f; n' = g n in
          f'\<lparr> nodes := AList.update name
            (n'\<lparr> Metadata := (Metadata n')\<lparr> ResourceVersion := itoa v \<rparr> \<rparr>) (nodes f') \<rparr>))"

definition SetNodeReady :: "string \<Rightarrow> bool \<Rightarrow> fake_api \<Rightarrow> fake_api" where
  "SetNodeReady name ready = change_node name (\<lambda>n. n\<lparr> Conditions :=
     [\<lparr> cond_Type = ''Ready'', cond_Status = (if ready then ''True'' else ''False''), LastTransitionTime = [] \<rparr>] \<rparr>)"

definition SetNodeInfo :: "string \<Rightarrow> string \<Rightarrow> string \<Rightarrow> fake_api \<Rightarrow> fake_api" where
  "SetNodeInfo name kv arch = change_node name (\<lambda>n. n\<lparr> KernelVersion := kv, Architecture := arch \<rparr>)"

definition RemoveNode :: "string \<Rightarrow> fake_api \<Rightarrow> fake_api" where
  "RemoveNode name f = f\<lparr> nodes := AList.delete name (nodes f) \<rparr>"

definition AddPod :: "fake_pod \<Rightarrow> fake_api \<Rightarrow> fake_api" where
  "AddPod p f = f\<lparr> pods := pods f @ [p] \<rparr>"

definition RemovePod :: "string \<Rightarrow> string \<Rightarrow> fake_api \<Rightarrow> fake_api" where
  "RemovePod ns name f =
     f\<lparr> pods := List.filter (\<lambda>p. fp_Namespace p \<noteq> ns \<or> fp_Name p \<noteq> name) (pods f) \<rparr>"

definition AddPDB :: "fake_pdb \<Rightarrow> fake_api \<Rightarrow> fake_api" where
  "AddPDB p f = f\<lparr> pdbs := pdbs f @ [p] \<rparr>"

definition InjectFailure :: "string \<Rightarrow> int \<Rightarrow> fake_api \<Rightarrow> fake_api" where
  "InjectFailure suffix n f =
     f\<lparr> FailNext := AList.update suffix (lookup_or 0 (map_of (FailNext f)) suffix + n) (FailNext f) \<rparr>"

definition SetConfigMap :: "string \<Rightarrow> string \<Rightarrow> (string \<times> string) list \<Rightarrow> fake_api \<Rightarrow> fake_api" where
  "SetConfigMap ns name data f =
     (let (v, f') = next_rv f in
      f'\<lparr> configmaps := AList.update (ns @ ''/'' @ name) \<lparr> fc_rv = v, fc_data = data \<rparr> (configmaps f') \<rparr>)"

definition RemoveConfigMap :: "string \<Rightarrow> string \<Rightarrow> fake_api \<Rightarrow> fake_api" where
  "RemoveConfigMap ns name f = f\<lparr> configmaps := AList.delete (ns @ ''/'' @ name) (configmaps f) \<rparr>"

subsection \<open>Requests\<close>

definition path_of :: "request \<Rightarrow> string" where
  "path_of r =
     (case r of
        GetNodeR n \<Rightarrow> ''/api/v1/nodes/'' @ n
      | PatchNodeR n _ \<Rightarrow> ''/api/v1/nodes/'' @ n
      | ListNodesR _ \<Rightarrow> ''/api/v1/nodes''
      | ListPodsR _ \<Rightarrow> ''/api/v1/pods''
      | ListPDBsR _ \<Rightarrow> ''/apis/policy/v1/poddisruptionbudgets''
      | EvictR ns p \<Rightarrow> ''/api/v1/namespaces/'' @ ns @ ''/pods/'' @ p @ ''/eviction''
      | DeletePodR ns p \<Rightarrow> ''/api/v1/namespaces/'' @ ns @ ''/pods/'' @ p
      | GetLeaseR ns n \<Rightarrow> ''/apis/coordination.k8s.io/v1/namespaces/'' @ ns @ ''/leases/'' @ n
      | CreateLeaseR ns _ \<Rightarrow> ''/apis/coordination.k8s.io/v1/namespaces/'' @ ns @ ''/leases''
      | UpdateLeaseR ns n _ \<Rightarrow> ''/apis/coordination.k8s.io/v1/namespaces/'' @ ns @ ''/leases/'' @ n
      | GetConfigMapR ns n \<Rightarrow> ''/api/v1/namespaces/'' @ ns @ ''/configmaps/'' @ n
      | DeleteConfigMapR ns n \<Rightarrow> ''/api/v1/namespaces/'' @ ns @ ''/configmaps/'' @ n
      | CreateEventR ns _ \<Rightarrow> ''/api/v1/namespaces/'' @ ns @ ''/events'')"

fun takeFail :: "string \<Rightarrow> (string \<times> int) list \<Rightarrow> bool \<times> (string \<times> int) list" where
  "takeFail path [] = (False, [])"
| "takeFail path ((suffix, n) # fs) =
     (if has_suffix path suffix \<and> n > 0 then (True, (suffix, n - 1) # fs)
      else apsnd ((#) (suffix, n)) (takeFail path fs))"

definition httpError :: "int \<Rightarrow> string \<Rightarrow> string \<Rightarrow> api_error + response" where
  "httpError code reason msg =
     Inl (StatusError \<lparr> Code = code, err_Reason = reason, err_Message = msg, RetryAfter = 0 \<rparr>)"

definition getNode_req :: "string \<Rightarrow> fake_api \<Rightarrow> api_error + response" where
  "getNode_req name f =
     (case map_of (nodes f) name of
        Some n \<Rightarrow> Inr (NodeResp n) | None \<Rightarrow> httpError 404 ''NotFound'' (''node '' @ name))"

definition patchNode_req :: "string \<Rightarrow> node_patch \<Rightarrow> fake_api \<Rightarrow> (api_error + response) \<times> fake_api" where
  "patchNode_req name p f =
     (case map_of (nodes f) name of
        None \<Rightarrow> (httpError 404 ''NotFound'' name, f)
      | Some n \<Rightarrow>
          if patch_rv p \<noteq> ResourceVersion (Metadata n) then
            (httpError 409 ''Conflict'' ''resourceVersion conflict'', f)
          else (let (v, f') = next_rv f; merged = merge_node n p (itoa v) in
                (Inr (NodeResp merged), f'\<lparr> nodes := AList.update name merged (nodes f') \<rparr>)))"

definition pod_object :: "gtime \<Rightarrow> fake_pod \<Rightarrow> pod" where
  "pod_object now p =
     \<lparr> pod_Metadata = empty_meta\<lparr> Name := fp_Name p, Namespace := fp_Namespace p, Labels := fp_Labels p,
         Annotations := fp_Annotations p,
         DeletionTimestamp := (if fp_Terminating p then Some now else None),
         OwnerReferences := map (\<lambda>k. \<lparr> owner_Kind = k, owner_Name = k @ ''-x'' \<rparr>) (fp_Owners p) \<rparr>,
       NodeName = fp_NodeName p, TerminationGracePeriodSeconds = fp_GracePeriod p, Phase = fp_Phase p \<rparr>"

definition pdb_object :: "fake_pdb \<Rightarrow> pod_disruption_budget" where
  "pdb_object p =
     \<lparr> pdb_Metadata = empty_meta\<lparr> Name := fd_Name p, Namespace := fd_Namespace p, ResourceVersion := ''1'' \<rparr>,
       Selector = fd_Selector p, DisruptionsAllowed = fd_Allowed p \<rparr>"

definition evict_req :: "string \<Rightarrow> string \<Rightarrow> fake_api \<Rightarrow> (api_error + response) \<times> fake_api" where
  "evict_req ns name f =
     (if PodGone f ns name then (httpError 404 ''NotFound'' ''pod already gone'', f)
      else if EvictDeny f ns name then (httpError 429 ''TooManyRequests'' ''disruptions allowed: 0'', f)
      else (Inr OkResp, f\<lparr> pods := map (\<lambda>p. if fp_Namespace p = ns \<and> fp_Name p = name
                                              then p\<lparr> fp_Terminating := True \<rparr> else p) (pods f) \<rparr>))"

definition getLease_req :: "string \<Rightarrow> string \<Rightarrow> fake_api \<Rightarrow> api_error + response" where
  "getLease_req ns name f =
     (case map_of (leases f) (ns @ ''/'' @ name) of
        Some l \<Rightarrow> Inr (LeaseResp l) | None \<Rightarrow> httpError 404 ''NotFound'' (ns @ ''/'' @ name))"

definition store_lease :: "string \<Rightarrow> lease \<Rightarrow> fake_api \<Rightarrow> (api_error + response) \<times> fake_api" where
  "store_lease key l f =
     (let (v, f') = next_rv f; l' = l\<lparr> lease_Metadata := (lease_Metadata l)\<lparr> ResourceVersion := itoa v \<rparr> \<rparr> in
      (Inr (LeaseResp l'), f'\<lparr> leases := AList.update key l' (leases f') \<rparr>))"

definition createLease_req :: "string \<Rightarrow> lease \<Rightarrow> fake_api \<Rightarrow> (api_error + response) \<times> fake_api" where
  "createLease_req ns l f =
     (let key = ns @ ''/'' @ Name (lease_Metadata l) in
      if map_of (leases f) key \<noteq> None then (httpError 409 ''AlreadyExists'' key, f)
      else store_lease key l f)"

text \<open>A lease body without a resource version is stored unconditionally.\<close>

definition updateLease_req :: "string \<Rightarrow> string \<Rightarrow> lease \<Rightarrow> fake_api \<Rightarrow> (api_error + response) \<times> fake_api" where
  "updateLease_req ns name l f =
     (let key = ns @ ''/'' @ name in
      case map_of (leases f) key of
        None \<Rightarrow> (httpError 404 ''NotFound'' key, f)
      | Some cur \<Rightarrow>
          if ResourceVersion (lease_Metadata l) \<noteq> [] \<and>
             ResourceVersion (lease_Metadata l) \<noteq> ResourceVersion (lease_Metadata cur) then
            (httpError 409 ''Conflict'' ''lease conflict'', f)
          else store_lease key l f)"

definition getConfigMap_req :: "string \<Rightarrow> string \<Rightarrow> fake_api \<Rightarrow> api_error + response" where
  "getConfigMap_req ns name f =
     (case map_of (configmaps f) (ns @ ''/'' @ name) of
        Some cm \<Rightarrow> Inr (ConfigMapResp \<lparr> cm_Metadata = empty_meta\<lparr> Name := name, Namespace := ns,
            ResourceVersion := itoa (fc_rv cm) \<rparr>, Data = fc_data cm \<rparr>)
      | None \<Rightarrow> httpError 404 ''NotFound'' (''configmap '' @ name))"

definition deleteConfigMap_req :: "string \<Rightarrow> string \<Rightarrow> fake_api \<Rightarrow> (api_error + response) \<times> fake_api" where
  "deleteConfigMap_req ns name f =
     (if map_of (configmaps f) (ns @ ''/'' @ name) \<noteq> None
      then (Inr OkResp, f\<lparr> configmaps := AList.delete (ns @ ''/'' @ name) (configmaps f) \<rparr>)
      else (httpError 404 ''NotFound'' name, f))"

definition createEvent_req :: "event \<Rightarrow> fake_api \<Rightarrow> (api_error + response) \<times> fake_api" where
  "createEvent_req e f = (Inr OkResp, (snd (next_rv f))\<lparr> events := events f @ [e] \<rparr>)"

text \<open>The dispatch. The code looks for the eviction path with a leading slash after having trimmed
  it, so an eviction is answered by the default branch.\<close>

definition route :: "request \<Rightarrow> fake_api \<Rightarrow> (api_error + response) \<times> fake_api" where
  "route r f =
     (let path = trim_prefix (path_of r) ''/'' in
      case r of
        ListNodesR _ \<Rightarrow> (Inr (NodesResp [] (map snd (nodes f))), f)
      | GetNodeR name \<Rightarrow> (getNode_req name f, f)
      | PatchNodeR name p \<Rightarrow> patchNode_req name p f
      | ListPodsR _ \<Rightarrow> (Inr (PodsResp [] (map (pod_object (wall f)) (pods f))), f)
      | EvictR ns p \<Rightarrow>
          if has_prefix path ''/api/v1/namespaces/'' \<and> has_suffix path ''/eviction'' then evict_req ns p f
          else (httpError 404 ''NotFound'' (''fake: no handler for POST '' @ path_of r), f)
      | DeletePodR ns p \<Rightarrow> (Inr OkResp, RemovePod ns p f)
      | ListPDBsR _ \<Rightarrow> (Inr (PDBsResp [] (map pdb_object (pdbs f))), f)
      | GetLeaseR ns name \<Rightarrow> (getLease_req ns name f, f)
      | CreateLeaseR ns l \<Rightarrow> createLease_req ns l f
      | UpdateLeaseR ns name l \<Rightarrow> updateLease_req ns name l f
      | GetConfigMapR ns name \<Rightarrow> (getConfigMap_req ns name f, f)
      | DeleteConfigMapR ns name \<Rightarrow> deleteConfigMap_req ns name f
      | CreateEventR _ e \<Rightarrow> createEvent_req e f)"

definition handle :: "request \<Rightarrow> fake_api \<Rightarrow> (api_error + response) \<times> fake_api" where
  "handle r f =
     (let (fail, fs) = takeFail (path_of r) (FailNext f) in
      if fail then (httpError 503 ''ServiceUnavailable'' ''injected failure'', f\<lparr> FailNext := fs \<rparr>)
      else route r f)"

text \<open>The eviction branch is never reached.\<close>

lemma evict_unreachable:
  "route (EvictR ns p) f = (httpError 404 ''NotFound'' (''fake: no handler for POST '' @ path_of (EvictR ns p)), f)"
  by (simp add: route_def path_of_def trim_prefix_def)

text \<open>A node as a tree and as an object.\<close>

definition sample_tree :: "(string \<times> json) list" where
  "sample_tree =
     [(''metadata'', JObj [(''name'', JStr ''n1''), (''resourceVersion'', JStr ''1''),
        (''annotations'', JObj [(''a'', JStr ''x''), (''b'', JStr ''y'')])]),
      (''spec'', JObj [(''unschedulable'', JBool True)])]"

definition sample_node :: node where
  "sample_node = \<lparr> Metadata = empty_meta\<lparr> Name := ''n1'', ResourceVersion := ''1'',
      Annotations := [''a'' \<mapsto> ''x'', ''b'' \<mapsto> ''y''] \<rparr>,
    Unschedulable = True, Conditions = [], KernelVersion = [], Architecture = [] \<rparr>"

theorem merge_node_refines_witness:
  "node_tree (set_rv ''2'' (mergePatch sample_tree (patch_json (ClearPatch ''1'' True))))
     (merge_node sample_node (ClearPatch ''1'' True) ''2'')"
proof (rule merge_node_refines)
  show "node_tree sample_tree sample_node"
    by (simp add: node_tree_def sample_tree_def sample_node_def annotations_of_def fun_eq_iff)
qed

end
