(* ===== verification/Fake_World.thy ===== *)
theory Fake_World
  imports Fake_Api Transition
begin

text \<open>
  The client of \<open>Kube_Client\<close> run against the server of \<open>Fake_Api\<close> in a world with other
  actors: before each request of ours the server performs the next batch of a schedule of
  foreign steps (requests of other clients, and what the tests do to the server directly).
  The schedule is arbitrary, so a statement about all worlds is a statement about all
  interleavings at the granularity of requests. The world also keeps, for the proofs only, every
  version a node has had and the log of our accepted patches. Proved: this client keeps the
  promises of \<open>api_server\<close>, because versions are drawn from one counter.
\<close>

section \<open>Foreign steps\<close>

datatype foreign =
    Other request
  | HandSet string "string \<rightharpoonup> string" bool "string \<rightharpoonup> string" string
  | HandReady string bool
  | HandInfo string string string
  | HandRemove string
  | HandPod fake_pod
  | HandRemovePod string string
  | HandFail string int

definition do_foreign :: "foreign \<Rightarrow> fake_api \<Rightarrow> fake_api" where
  "do_foreign a f =
     (case a of
        Other r \<Rightarrow> snd (handle r f)
      | HandSet nm anns u ls uid \<Rightarrow> SetNode nm anns u ls uid f
      | HandReady nm b \<Rightarrow> SetNodeReady nm b f
      | HandInfo nm k ar \<Rightarrow> SetNodeInfo nm k ar f
      | HandRemove nm \<Rightarrow> RemoveNode nm f
      | HandPod p \<Rightarrow> AddPod p f
      | HandRemovePod ns nm \<Rightarrow> RemovePod ns nm f
      | HandFail s n \<Rightarrow> InjectFailure s n f)"

record fake_world =
  server :: fake_api
  schedule :: "foreign list list"
  versions :: "(string \<times> node) list"
  accepted :: "log_entry list"

definition set_server :: "fake_api \<Rightarrow> fake_world \<Rightarrow> fake_world" where
  "set_server s w = w\<lparr> server := s, versions := nodes s @ versions w \<rparr>"

definition foreign_step :: "foreign \<Rightarrow> fake_world \<Rightarrow> fake_world" where
  "foreign_step a w = set_server (do_foreign a (server w)) w"

definition interfere :: "fake_world \<Rightarrow> fake_world" where
  "interfere w =
     (case schedule w of
        [] \<Rightarrow> w | batch # rest \<Rightarrow> fold foreign_step batch (w\<lparr> schedule := rest \<rparr>))"

definition log_accepted :: "request \<Rightarrow> api_error + response \<Rightarrow> fake_api \<Rightarrow> log_entry list" where
  "log_accepted rq r before =
     (case (rq, r) of
        (PatchNodeR nm p, Inr _) \<Rightarrow>
          (case map_of (nodes before) nm of Some n \<Rightarrow> [Patched nm n p] | None \<Rightarrow> [])
      | _ \<Rightarrow> [])"

definition serve :: "request \<Rightarrow> fake_world \<Rightarrow> (api_error + response) \<times> fake_world" where
  "serve rq w =
     (let (r, s) = handle rq (server w) in
      (r, (set_server s w)\<lparr> accepted := accepted w @ log_accepted rq r (server w) \<rparr>))"

definition fake_transport :: "fake_world transport" where
  "fake_transport =
     \<lparr> attempt = (\<lambda>rq. State (\<lambda>w. serve rq (interfere w))),
       sleep = (\<lambda>d. State (\<lambda>w. (None, w\<lparr> server := (server w)\<lparr> wall := wall (server w) + d \<rparr> \<rparr>))) \<rparr>"

definition fake_client :: "fake_world kube_api" where
  "fake_client = client_api 2 fake_transport"

section \<open>One counter, one content\<close>

definition wf_world :: "fake_world \<Rightarrow> bool" where
  "wf_world w \<longleftrightarrow>
     0 \<le> rvCounter (server w) \<and>
     set (nodes (server w)) \<subseteq> set (versions w) \<and>
     (\<forall>(nm, n) \<in> set (versions w). \<exists>c. ResourceVersion (Metadata n) = itoa c \<and> 0 < c \<and> c \<le> rvCounter (server w)) \<and>
     (\<forall>(nm, n) \<in> set (versions w). \<forall>(nm', n') \<in> set (versions w).
        ResourceVersion (Metadata n) = ResourceVersion (Metadata n') \<longrightarrow> (nm, n) = (nm', n'))"

definition fake_view :: "fake_world world_view" where
  "fake_view = \<lparr> ok = wf_world, seen = (\<lambda>w nm n. (nm, n) \<in> set (versions w)), log = accepted \<rparr>"

lemma fake_view_sel:
  "ok fake_view = wf_world" "log fake_view = accepted"
  "seen fake_view w nm n \<longleftrightarrow> (nm, n) \<in> set (versions w)"
  by (simp_all add: fake_view_def)

text \<open>Every operation of the server changes at most one node, and gives it the next version.\<close>

definition one_new :: "fake_api \<Rightarrow> fake_api \<Rightarrow> bool" where
  "one_new s s' \<longleftrightarrow> rvCounter s \<le> rvCounter s' \<and>
     (set (nodes s') \<subseteq> set (nodes s) \<or>
      (\<exists>e. set (nodes s') \<subseteq> insert e (set (nodes s)) \<and>
         ResourceVersion (Metadata (snd e)) = itoa (rvCounter s') \<and> rvCounter s < rvCounter s'))"

lemma set_update: "set (AList.update k v al) \<subseteq> insert (k, v) (set al)"
  by (induction al) auto

lemma set_delete: "set (AList.delete k al) \<subseteq> set al"
  by (induction al) auto

lemma one_new_same: "nodes s' = nodes s \<Longrightarrow> rvCounter s \<le> rvCounter s' \<Longrightarrow> one_new s s'"
  by (simp add: one_new_def)

lemma one_new_fewer: "set (nodes s') \<subseteq> set (nodes s) \<Longrightarrow> rvCounter s = rvCounter s' \<Longrightarrow> one_new s s'"
  by (simp add: one_new_def)

lemma one_new_update:
  "nodes s' = AList.update nm n (nodes s) \<Longrightarrow> ResourceVersion (Metadata n) = itoa (rvCounter s') \<Longrightarrow>
   rvCounter s' = rvCounter s + 1 \<Longrightarrow> one_new s s'"
  unfolding one_new_def using set_update [of nm n "nodes s"] by (intro conjI disjI2 exI [of _ "(nm, n)"]) auto

lemma patch_one_new: "one_new f (snd (patchNode_req nm p f))"
  by (auto simp: patchNode_req_def next_rv_def merge_node_def one_new_same Let_def
      intro: one_new_update split: option.splits)

lemma change_one_new: "one_new f (change_node nm g f)"
  by (auto simp: change_node_def next_rv_def Let_def one_new_same intro: one_new_update split: option.splits)

lemma lease_one_new:
  "one_new f (snd (createLease_req ns l f))" "one_new f (snd (updateLease_req ns nm l f))"
  by (auto simp: createLease_req_def updateLease_req_def store_lease_def next_rv_def Let_def
      split: option.splits intro: one_new_same)

lemma handle_one_new: "one_new f (snd (handle rq f))"
proof -
  have "one_new f (snd (route rq f))"
    by (cases rq) (auto simp: route_def patch_one_new lease_one_new evict_req_def deleteConfigMap_req_def
        createEvent_req_def next_rv_def RemovePod_def Let_def intro: one_new_same)
  then show ?thesis
    by (auto simp: handle_def Let_def split: prod.splits intro: one_new_same)
qed

lemma foreign_one_new: "one_new f (do_foreign a f)"
proof (cases a)
  case (HandSet nm anns u ls uid)
  then show ?thesis
    by (auto simp: do_foreign_def SetNode_def next_rv_def Let_def intro: one_new_update)
next
  case (HandRemove nm)
  then show ?thesis using set_delete [of nm "nodes f"]
    by (simp add: do_foreign_def RemoveNode_def one_new_def)
qed (auto simp: do_foreign_def handle_one_new change_one_new SetNodeReady_def SetNodeInfo_def
    AddPod_def RemovePod_def InjectFailure_def intro: one_new_same)

lemma itoa_inject: "0 \<le> a \<Longrightarrow> 0 \<le> b \<Longrightarrow> itoa a = itoa b \<longleftrightarrow> a = b"
  by (auto simp: itoa_def)

lemma wf_version_bound:
  "wf_world w \<Longrightarrow> (nm, n) \<in> set (versions w) \<Longrightarrow>
   \<exists>c. ResourceVersion (Metadata n) = itoa c \<and> 0 < c \<and> c \<le> rvCounter (server w)"
  by (auto simp: wf_world_def)

lemma wf_version_unique:
  "wf_world w \<Longrightarrow> (nm, n) \<in> set (versions w) \<Longrightarrow> (nm', n') \<in> set (versions w) \<Longrightarrow>
   ResourceVersion (Metadata n) = ResourceVersion (Metadata n') \<Longrightarrow> (nm, n) = (nm', n')"
  unfolding wf_world_def by blast

lemma wf_worldI:
  assumes "0 \<le> rvCounter (server w)" "set (nodes (server w)) \<subseteq> set (versions w)"
    and "\<And>nm n. (nm, n) \<in> set (versions w) \<Longrightarrow>
      \<exists>c. ResourceVersion (Metadata n) = itoa c \<and> 0 < c \<and> c \<le> rvCounter (server w)"
    and "\<And>x y. x \<in> set (versions w) \<Longrightarrow> y \<in> set (versions w) \<Longrightarrow>
      ResourceVersion (Metadata (snd x)) = ResourceVersion (Metadata (snd y)) \<Longrightarrow> x = y"
  shows "wf_world w"
  using assms unfolding wf_world_def by (fastforce simp: split_beta)

lemma wf_set_server:
  assumes w: "wf_world w" and new: "one_new (server w) s"
  shows "wf_world (set_server s w)"
proof -
  let ?V = "set (versions w)" and ?c = "rvCounter (server w)"
  have le: "?c \<le> rvCounter s" "0 \<le> ?c" using w new by (auto simp: wf_world_def one_new_def)
  have sub: "set (nodes (server w)) \<subseteq> ?V" using w by (simp add: wf_world_def)
  obtain e where e: "set (nodes s) \<union> ?V \<subseteq> insert e ?V"
    "e \<in> ?V \<or> set (nodes s) \<subseteq> ?V \<or> ResourceVersion (Metadata (snd e)) = itoa (rvCounter s) \<and> ?c < rvCounter s"
    using new sub unfolding one_new_def by blast
  have fresh: "ResourceVersion (Metadata (snd x)) \<noteq> itoa (rvCounter s)" if "x \<in> ?V" "?c < rvCounter s" for x
    using wf_version_bound [OF w, of "fst x" "snd x"] that le by (auto simp: itoa_inject)
  show ?thesis
  proof (rule wf_worldI)
    fix nm n
    assume "(nm, n) \<in> set (versions (set_server s w))"
    then have x: "(nm, n) \<in> ?V \<or> (nm, n) \<notin> ?V \<and> (nm, n) = e \<and> \<not> set (nodes s) \<subseteq> ?V"
      using e(1) by (auto simp: set_server_def)
    then show "\<exists>c. ResourceVersion (Metadata n) = itoa c \<and> 0 < c \<and> c \<le> rvCounter (server (set_server s w))"
    proof
      assume "(nm, n) \<in> ?V"
      then show ?thesis using wf_version_bound [OF w] le by (fastforce simp: set_server_def)
    next
      assume "(nm, n) \<notin> ?V \<and> (nm, n) = e \<and> \<not> set (nodes s) \<subseteq> ?V"
      then show ?thesis using e(2) le by (auto simp: set_server_def)
    qed
  next
    fix x y
    assume m: "x \<in> set (versions (set_server s w))" "y \<in> set (versions (set_server s w))"
      and eq: "ResourceVersion (Metadata (snd x)) = ResourceVersion (Metadata (snd y))"
    have old: "x = y" if "x \<in> ?V" "y \<in> ?V"
      using wf_version_unique [OF w, of "fst x" "snd x" "fst y" "snd y"] that eq by simp
    show "x = y"
    proof (cases "e \<in> ?V \<or> set (nodes s) \<subseteq> ?V")
      case True
      then have "x \<in> ?V" "y \<in> ?V" using m e(1) by (auto simp: set_server_def)
      then show ?thesis by (rule old)
    next
      case False
      then have "ResourceVersion (Metadata (snd e)) = itoa (rvCounter s)" "?c < rvCounter s" using e(2) by auto
      moreover have "x = e \<or> x \<in> ?V" "y = e \<or> y \<in> ?V" using m e(1) by (auto simp: set_server_def)
      ultimately show ?thesis using old eq fresh by metis
    qed
  qed (use le in \<open>auto simp: set_server_def\<close>)
qed

section \<open>The client keeps the promises\<close>

lemma set_server_grows: "set (versions w) \<subseteq> set (versions (set_server s w))"
  by (simp add: set_server_def)

lemma accepted_set_server [simp]: "accepted (set_server s w) = accepted w"
  by (simp add: set_server_def)

definition quiet_step :: "fake_world \<Rightarrow> fake_world \<Rightarrow> bool" where
  "quiet_step w w' \<longleftrightarrow>
     (wf_world w \<longrightarrow> wf_world w') \<and> set (versions w) \<subseteq> set (versions w') \<and> accepted w' = accepted w"

lemma quiet_step_trans: "quiet_step w w' \<Longrightarrow> quiet_step w' w'' \<Longrightarrow> quiet_step w w''"
  by (auto simp: quiet_step_def)

lemma quiet_foreign: "quiet_step w (foreign_step a w)"
  by (simp add: quiet_step_def foreign_step_def wf_set_server foreign_one_new set_server_grows)

lemma wf_schedule_update [simp]: "wf_world (w\<lparr> schedule := q \<rparr>) = wf_world w"
  by (simp add: wf_world_def)

lemma quiet_schedule: "quiet_step w (w\<lparr> schedule := q \<rparr>)"
  by (simp add: quiet_step_def)

lemma quiet_fold: "quiet_step w (fold foreign_step as w)"
proof (induction as arbitrary: w)
  case Nil
  then show ?case by (simp add: quiet_step_def)
next
  case (Cons a as)
  then show ?case using quiet_step_trans [OF quiet_foreign Cons.IH] by simp
qed

lemma quiet_interfere: "quiet_step w (interfere w)"
proof (cases "schedule w")
  case Nil
  then show ?thesis by (simp add: interfere_def quiet_step_def)
next
  case (Cons b rest)
  then show ?thesis
    using quiet_step_trans [OF quiet_schedule quiet_fold] by (simp add: interfere_def)
qed

lemma wf_accepted_update [simp]: "wf_world (w\<lparr> accepted := l \<rparr>) = wf_world w"
  by (simp add: wf_world_def)

lemma serve_wf:
  assumes "serve rq w = (r, w')"
  shows "(wf_world w \<longrightarrow> wf_world w') \<and> set (versions w) \<subseteq> set (versions w') \<and>
    accepted w' = accepted w @ log_accepted rq r (server w) \<and> set (nodes (server w')) \<subseteq> set (versions w')"
  using assms handle_one_new [of "server w" rq] wf_set_server [of w "snd (handle rq (server w))"]
  by (auto simp: serve_def set_server_def split: prod.splits)

abbreviation is_patch :: "request \<Rightarrow> bool" where
  "is_patch rq \<equiv> (case rq of PatchNodeR _ _ \<Rightarrow> True | _ \<Rightarrow> False)"

lemma quiet_attempt:
  assumes "\<not> is_patch rq"
  shows "keeps (extends fake_view (\<lambda>_. False)) (attempt fake_transport rq)"
proof (rule keepsI)
  fix w r w'
  assume "run_state (attempt fake_transport rq) w = (r, w')"
  then have s: "serve rq (interfere w) = (r, w')" by (simp add: fake_transport_def)
  have "log_accepted rq r f = []" for f using assms by (auto simp: log_accepted_def split: request.splits)
  with serve_wf [OF s] quiet_interfere [of w] show "extends fake_view (\<lambda>_. False) w w'"
    by (auto simp: extends_def fake_view_def quiet_step_def)
qed

lemma wf_wall [simp]: "wf_world (w\<lparr> server := (server w)\<lparr> wall := t \<rparr> \<rparr>) = wf_world w"
  by (simp add: wf_world_def)

lemma quiet_sleep: "keeps (extends fake_view (\<lambda>_. False)) (sleep fake_transport d)"
  by (rule keepsI) (auto simp: fake_transport_def extends_def fake_view_def)

lemma quiet_Do: "\<not> is_patch rq \<Longrightarrow> keeps (extends fake_view (\<lambda>_. False)) (Do fake_transport opts rq)"
  by (intro io_intros) (simp_all add: quiet_attempt quiet_sleep)

lemma quiet_listAll:
  "(\<And>c. \<not> is_patch (rq c)) \<Longrightarrow> keeps (extends fake_view (\<lambda>_. False)) (listAll k fake_transport rq page c acc)"
  by (intro io_intros) (simp_all add: quiet_attempt quiet_sleep)

lemma get_answer:
  assumes "wf_world w" "run_state (GetNode fake_transport nm) w = (Inr n, w')"
  shows "(nm, n) \<in> set (versions w')"
proof -
  from assms(2) obtain x where d: "run_state (Do fake_transport get_opts (GetNodeR nm)) w = (Inr x, w')"
    and x: "as_node x = Inr n"
    by (auto simp: GetNode_def Get_def map_st_def bind_sum_def split: prod.splits sum.splits)
  obtain w1 where w1: "run_state (attempt fake_transport (GetNodeR nm)) w1 = (Inr x, w')"
    using Do_answer [where I = "\<lambda>_. True", OF _ _ _ d] by blast
  then have s: "serve (GetNodeR nm) (interfere w1) = (Inr x, w')" by (simp add: fake_transport_def)
  have "x = NodeResp n" using x by (auto simp: as_node_def split: response.splits)
  with s have "map_of (nodes (server w')) nm = Some n"
    by (auto simp: serve_def handle_def route_def getNode_req_def set_server_def httpError_def
        split: prod.splits if_splits option.splits)
  with serve_wf [OF s] show ?thesis by (auto dest: map_of_SomeD)
qed

lemma patch_answer:
  assumes w: "wf_world w" and p: "run_state (PatchNode fake_transport nm p) w = (r, w')"
    and m: "(nm, m) \<in> set (versions w)" "ResourceVersion (Metadata m) = patch_rv p"
  shows "wf_world w' \<and> set (versions w) \<subseteq> set (versions w') \<and>
    (accepted w' = accepted w @ [Patched nm m p] \<and> r = None \<or> accepted w' = accepted w \<and> r \<noteq> None)"
proof -
  let ?w1 = "interfere w"
  obtain q where q: "serve (PatchNodeR nm p) ?w1 = (q, w')" "r = done_of q"
    using p by (auto simp: PatchNode_def map_st_def fake_transport_def split: prod.splits)
  note s = serve_wf [OF q(1)] and i = quiet_interfere [of w, unfolded quiet_step_def]
  have w1: "wf_world ?w1" "(nm, m) \<in> set (versions ?w1)" using w i m by auto
  show ?thesis
  proof (cases q)
    case (Inl e)
    then show ?thesis using s i w q(2) by (auto simp: log_accepted_def done_of_def split: request.splits)
  next
    case (Inr x)
    then obtain n where n: "map_of (nodes (server ?w1)) nm = Some n" "ResourceVersion (Metadata n) = patch_rv p"
      using q(1) by (auto simp: serve_def handle_def route_def patchNode_req_def httpError_def
          split: prod.splits if_splits option.splits)
    have "(nm, n) \<in> set (versions ?w1)"
      using n(1) w1(1) by (auto simp: wf_world_def dest: map_of_SomeD)
    then have "n = m" using wf_version_unique [OF w1(1) _ w1(2)] n(2) m(2) by auto
    then show ?thesis using s i w q(2) Inr n(1) by (auto simp: log_accepted_def done_of_def)
  qed
qed

lemma fake_client_ops [simp]:
  "getNode fake_client = GetNode fake_transport" "patchNode fake_client = PatchNode fake_transport"
  "listNodes fake_client = ListNodes 2 fake_transport" "listPods fake_client = ListPods 2 fake_transport"
  "listPDBs fake_client = ListPDBs 2 fake_transport" "evict fake_client = Evict fake_transport"
  "deletePod fake_client = DeletePod fake_transport" "getLease fake_client = GetLease fake_transport"
  "createLease fake_client = CreateLease fake_transport" "updateLease fake_client = UpdateLease fake_transport"
  "getConfigMap fake_client = GetConfigMap fake_transport" "createEvent fake_client = CreateEvent fake_transport"
  by (simp_all add: fake_client_def client_api_def)

interpretation fake: api_server fake_client fake_view
proof (unfold_locales, goal_cases)
  case (2 w nm n w')
  then show ?case using get_answer by (simp add: fake_view_def)
next
  case (3 w nm p r w' m)
  then have "wf_world w' \<and> set (versions w) \<subseteq> set (versions w') \<and>
      (accepted w' = accepted w @ [Patched nm m p] \<and> r = None \<or> accepted w' = accepted w \<and> r \<noteq> None)"
    by (intro patch_answer) (simp_all add: fake_view_def)
  then show ?case by (auto simp: fake_view_def split: option.splits)
qed (simp_all add: GetNode_def Get_def ListNodes_def ListPods_def ListPDBs_def Evict_def DeletePod_def
    GetLease_def CreateLease_def UpdateLease_def GetConfigMap_def CreateEvent_def
    quiet_Do quiet_listAll keeps_map_st)

lemma patch_error_nothing:
  assumes "run_state (PatchNode fake_transport nm p) w = (Some e, w')"
  shows "accepted w' = accepted w"
proof -
  obtain q where q: "serve (PatchNodeR nm p) (interfere w) = (q, w')" "Some e = done_of q"
    using assms by (auto simp: PatchNode_def map_st_def fake_transport_def split: prod.splits)
  with serve_wf [OF q(1)] quiet_interfere [of w] show ?thesis
    by (auto simp: done_of_def log_accepted_def quiet_step_def split: sum.splits)
qed

interpretation fake: reliable_api_server fake_client fake_view
  by unfold_locales (simp add: fake_view_def patch_error_nothing)


text \<open>A world in which another client touches the node between our read and our patch.\<close>

definition sample_anns :: "string \<rightharpoonup> string" where
  "sample_anns = [AnnState \<mapsto> StateValue Completed 1700000000000000000]"

definition sample_world :: "foreign list list \<Rightarrow> fake_world" where
  "sample_world sch =
     (let s = SetNode ''n1'' sample_anns False Map.empty ''u1'' NewFakeAPI in
      \<lparr> server = s, schedule = sch, versions = nodes s, accepted = [] \<rparr>)"

lemma sample_wf: "wf_world (sample_world sch)"
proof (rule wf_worldI)
  fix nm n
  assume "(nm, n) \<in> set (versions (sample_world sch))"
  then show "\<exists>c. ResourceVersion (Metadata n) = itoa c \<and> 0 < c \<and> c \<le> rvCounter (server (sample_world sch))"
    by (auto simp: sample_world_def SetNode_def next_rv_def NewFakeAPI_def Let_def intro!: exI [of _ 1])
qed (auto simp: sample_world_def SetNode_def next_rv_def NewFakeAPI_def Let_def)

definition sample_schedule :: "foreign list list" where
  "sample_schedule = [[], [HandReady ''n1'' False], [], []]"

lemma versioned_rearm: "versioned RearmBuild"
  by (auto simp: versioned_def RearmBuild_def ClearPatch_def annotationsPatch_def Let_def
      split: option.splits if_splits)

lemma sample_run: "fst (run_state (PatchTransition fake_client ''n1'' 3 RearmBuild) (sample_world sample_schedule)) = None"
  by code_simp


end
