(* ===== verification/Reboot_Safety.thy ===== *)
theory Reboot_Safety
  imports Reboot_Feature Fake_World
begin

text \<open>
  What the reboot feature can do to a cluster, whatever the other actors do meanwhile. The locale
  \<open>reboot_host\<close> states what the host and the API promise. Proved in it: every accepted patch is an
  edge of the lifecycle taken from the state the patch met, one admission per cycle at most, none
  while a gate is closed, and a reboot command only right after the accepted record of it.
\<close>

lemma all_drain [all_intros]:
  "emits_all V P a \<Longrightarrow> emits_all V P b \<Longrightarrow> (\<And>m. emits_all V P (c m)) \<Longrightarrow>
   emits_all V P (case x of drainPending \<Rightarrow> a | drainDone \<Rightarrow> b | drainFailed m \<Rightarrow> c m)"
  by (cases x) auto

section \<open>The lifecycle\<close>

text \<open>The edges of the lifecycle the feature drives.\<close>

inductive lifecycle_edge :: "string \<Rightarrow> string \<Rightarrow> bool" where
  admit_edge: "lifecycle_edge Requested Draining"
| issue_edge: "lifecycle_edge Draining Rebooting"
| drain_failed_edge: "lifecycle_edge Draining Failed"
| completed_edge: "lifecycle_edge Rebooting Completed"
| reboot_failed_edge: "lifecycle_edge Rebooting Failed"

inductive_simps lifecycle_edge_simp: "lifecycle_edge s t"

code_pred (modes: i \<Rightarrow> i \<Rightarrow> bool) lifecycle_edge .

text \<open>What a patch writes into an annotation: \<open>None\<close> if it does not touch it.\<close>

definition writes :: "node_patch \<Rightarrow> string \<Rightarrow> string option option" where
  "writes p k = map_of (patch_annotations p) k"

text \<open>A patch that moves the lifecycle takes an edge from the state it met, and never uncordons; one
  that does not move it leaves the request and the state alone.\<close>

definition edge_entry :: "string \<Rightarrow> string \<Rightarrow> log_entry \<Rightarrow> bool" where
  "edge_entry s t e =
     (case e of
        Patched nm n p \<Rightarrow>
          node_is s n \<and> (\<exists>i. writes p AnnState = Some (Some (StateValue t i))) \<and>
          writes p AnnRequest = None \<and> patch_unschedulable p \<noteq> Some False
      | RebootStarted \<Rightarrow> False)"

definition still_entry :: "log_entry \<Rightarrow> bool" where
  "still_entry e =
     (case e of
        Patched nm n p \<Rightarrow> writes p AnnState = None \<and> writes p AnnRequest = None
      | RebootStarted \<Rightarrow> False)"

definition legal_entry :: "log_entry \<Rightarrow> bool" where
  "legal_entry e \<longleftrightarrow> still_entry e \<or> (\<exists>s t. lifecycle_edge s t \<and> edge_entry s t e)"

definition admission_entry :: "log_entry \<Rightarrow> bool" where
  "admission_entry e \<longleftrightarrow> edge_entry Requested Draining e"

lemma state_is_unique: "state_is s st \<Longrightarrow> state_is t st \<Longrightarrow> s = t"
  by (auto simp: state_is_def split: option.splits)

lemma still_not_admission: "still_entry e \<Longrightarrow> \<not> admission_entry e"
  by (auto simp: still_entry_def admission_entry_def edge_entry_def split: log_entry.splits)

lemma edge_not_admission: "edge_entry s t e \<Longrightarrow> s \<noteq> Requested \<Longrightarrow> \<not> admission_entry e"
  by (auto simp: admission_entry_def edge_entry_def node_is_def dest: state_is_unique split: log_entry.splits)

text \<open>The patches of the feature, by what they write.\<close>

lemma patch_writes [simp]:
  "writes (ToDrainingPatch v t raw c) AnnState = Some (Some (StateValue Draining t))"
  "writes (ToRebootingPatch v t) AnnState = Some (Some (StateValue Rebooting t))"
  "writes (ToCompletedPatch v t) AnnState = Some (Some (StateValue Completed t))"
  "writes (ToFailedPatch v t raw m) AnnState = Some (Some (StateValue Failed t))"
  "writes (StatusPatch v raw g) AnnState = None" "writes (UncordonPatch v) AnnState = None"
  "writes (IssuedExecPatch v x) AnnState = None"
  "writes (ToDrainingPatch v t raw c) AnnRequest = None" "writes (ToRebootingPatch v t) AnnRequest = None"
  "writes (ToCompletedPatch v t) AnnRequest = None" "writes (ToFailedPatch v t raw m) AnnRequest = None"
  "writes (StatusPatch v raw g) AnnRequest = None" "writes (UncordonPatch v) AnnRequest = None"
  "writes (IssuedExecPatch v x) AnnRequest = None"
  by (simp_all add: writes_def ToDrainingPatch_def ToRebootingPatch_def ToCompletedPatch_def ToFailedPatch_def
      StatusPatch_def UncordonPatch_def IssuedExecPatch_def annotationsPatch_def Let_def)

lemma patch_cordon [simp]:
  "patch_unschedulable (ToDrainingPatch v t raw c) = Some True"
  "patch_unschedulable (ToRebootingPatch v t) = None" "patch_unschedulable (ToCompletedPatch v t) = None"
  "patch_unschedulable (ToFailedPatch v t raw m) = None"
  by (simp_all add: ToDrainingPatch_def ToRebootingPatch_def ToCompletedPatch_def ToFailedPatch_def
      annotationsPatch_def Let_def)

lemma patch_rvs [simp]:
  "patch_rv (ToDrainingPatch v t raw c) = v" "patch_rv (ToRebootingPatch v t) = v"
  "patch_rv (ToCompletedPatch v t) = v" "patch_rv (ToFailedPatch v t raw m) = v"
  "patch_rv (StatusPatch v raw g) = v" "patch_rv (UncordonPatch v) = v" "patch_rv (IssuedExecPatch v x) = v"
  by (simp_all add: ToDrainingPatch_def ToRebootingPatch_def ToCompletedPatch_def ToFailedPatch_def
      StatusPatch_def UncordonPatch_def IssuedExecPatch_def annotationsPatch_def Let_def)

definition uncordon_build :: build_func where
  "uncordon_build n = (if Unschedulable n then Apply (UncordonPatch (ResourceVersion (Metadata n))) else Skip)"

text \<open>The moves of phase 1.\<close>

definition managed_entry :: "log_entry \<Rightarrow> bool" where
  "managed_entry e \<longleftrightarrow> still_entry e \<or> edge_entry Draining Rebooting e \<or> edge_entry Draining Failed e \<or>
     edge_entry Rebooting Completed e \<or> edge_entry Rebooting Failed e"

lemma managed_legal: "managed_entry e \<Longrightarrow> legal_entry e"
  unfolding managed_entry_def legal_entry_def using lifecycle_edge.intros by blast

lemma managed_not_admission: "managed_entry e \<Longrightarrow> \<not> admission_entry e"
  by (auto simp: managed_entry_def dest: still_not_admission edge_not_admission)

text \<open>What the admission phase may log: status updates, and at most one admission, of a node that is
  in the queue and passed the gates.\<close>

definition passes_gates :: "bool \<Rightarrow> pod_disruption_budget list \<Rightarrow> pod list \<Rightarrow> view \<Rightarrow> bool" where
  "passes_gates windowOpen budgets allPods v \<longleftrightarrow>
     forceOf (v_st v) \<or> windowOpen \<and> pdbBlocked (v_node v) budgets allPods = Some []"

definition admits_from :: "(view \<Rightarrow> bool) \<Rightarrow> view list \<Rightarrow> log_entry \<Rightarrow> bool" where
  "admits_from gate q e \<longleftrightarrow> admission_entry e \<and>
     (case e of Patched nm n p \<Rightarrow> \<exists>v \<in> set q. Name (Metadata (v_node v)) = nm \<and> gate v | RebootStarted \<Rightarrow> False)"

definition one_admission :: "(view \<Rightarrow> bool) \<Rightarrow> view list \<Rightarrow> log_entry list \<Rightarrow> bool" where
  "one_admission gate q es \<longleftrightarrow>
     (\<exists>ss as. es = ss @ as \<and> list_all still_entry ss \<and> (as = [] \<or> (\<exists>e. as = [e] \<and> admits_from gate q e)))"

lemma one_admission_Nil [simp]: "one_admission gate q []"
  by (simp add: one_admission_def)

lemma one_admission_still: "list_all still_entry ss \<Longrightarrow> one_admission gate q es \<Longrightarrow> one_admission gate q (ss @ es)"
  unfolding one_admission_def by (metis append.assoc list_all_append)

lemma one_admission_mono: "one_admission gate q es \<Longrightarrow> set q \<subseteq> set q' \<Longrightarrow> one_admission gate q' es"
  unfolding one_admission_def admits_from_def by (auto split: log_entry.splits) blast+

lemma one_admission_legal: "one_admission gate q es \<Longrightarrow> list_all legal_entry es"
  unfolding one_admission_def admits_from_def admission_entry_def legal_entry_def list_all_iff
  using admit_edge by fastforce

lemma one_admission_count:
  assumes "one_admission gate q es"
  shows "List.length (List.filter admission_entry es) \<le> 1"
proof -
  from assms obtain ss as where e: "es = ss @ as" "list_all still_entry ss"
    "as = [] \<or> (\<exists>e. as = [e] \<and> admits_from gate q e)"
    unfolding one_admission_def by blast
  have "List.length (List.filter admission_entry as) \<le> 1"
    by (rule order_trans [OF length_filter_le]) (use e(3) in auto)
  moreover   have "List.filter admission_entry ss = []"
    using e(2) by (auto simp: list_all_iff filter_empty_conv dest: still_not_admission)
  ultimately show ?thesis using e(1) by simp
qed

text \<open>The gates of the whole phase, on the node list it read.\<close>

definition slots_free :: "config \<Rightarrow> node list \<Rightarrow> bool" where
  "slots_free fc ns =
     (let c = admissionCounts (buildViews ns) in
      \<not> (OnRebootFailure fc = ''pause'' \<and> anyFailed c) \<and> \<not> queuedNotReady c \<and>
      int (inFlight c) < MaxConcurrentReboots fc \<and> cpInFlight c = 0)"

text \<open>The log of one cycle of the orchestrator: moves of running reboots, then the admission phase.\<close>

definition cycle_log :: "log_entry list \<Rightarrow> bool" where
  "cycle_log es \<longleftrightarrow>
     (\<exists>ms as gate q. es = ms @ as \<and> list_all managed_entry ms \<and> one_admission gate q as)"

lemma cycle_log_admission: "one_admission gate q es \<Longrightarrow> cycle_log es"
  unfolding cycle_log_def by (intro exI [of _ "[]"] exI [of _ es]) auto

lemma cycle_log_managed: "list_all managed_entry ms \<Longrightarrow> cycle_log es \<Longrightarrow> cycle_log (ms @ es)"
  unfolding cycle_log_def by (metis append.assoc list_all_append)

lemma cycle_log_legal: "cycle_log es \<Longrightarrow> list_all legal_entry es"
  unfolding cycle_log_def using one_admission_legal managed_legal by (fastforce simp: list_all_iff)

lemma cycle_log_count: "cycle_log es \<Longrightarrow> List.length (List.filter admission_entry es) \<le> 1"
  unfolding cycle_log_def
  by (auto dest!: one_admission_count simp: list_all_iff filter_empty_conv dest: managed_not_admission)
     (metis (no_types, lifting) add_0 filter_empty_conv list.size(3) managed_not_admission one_admission_count)

text \<open>The record that goes before a reboot command: written on a node that is Rebooting, as the first
  attempt where there is no record yet, or as the second one of the boot whose first attempt is on
  record. A log of the local executor has no command at all, or one, right after such a record.\<close>

definition issue_entry :: "string \<Rightarrow> string \<Rightarrow> log_entry \<Rightarrow> bool" where
  "issue_entry nm boot e =
     (case e of
        Patched m n p \<Rightarrow>
          m = nm \<and> node_is Rebooting n \<and>
          (\<exists>x. p = IssuedExecPatch (ResourceVersion (Metadata n)) x \<and> ex_BootID x = boot \<and>
            (case ns_Exec (Node_State.Parse (Annotations (Metadata n))) of
               None \<Rightarrow> ex_Attempt x = 1
             | Some y \<Rightarrow>
                 (if ex_Present y then ex_Attempt x = 2 \<and> ex_ParseError y = [] \<and> ex_Attempt y = 1 \<and> ex_BootID y = boot
                  else ex_Attempt x = 1)))
      | RebootStarted \<Rightarrow> False)"

definition local_log :: "string \<Rightarrow> log_entry list \<Rightarrow> bool" where
  "local_log nm es \<longleftrightarrow>
     list_all managed_entry es \<or>
     (\<exists>boot e fs. es = e # RebootStarted # fs \<and> issue_entry nm boot e \<and> list_all managed_entry fs)"

definition exec_log :: "string \<Rightarrow> ('x \<Rightarrow> node_state \<Rightarrow> bool option) \<Rightarrow> exec_info \<Rightarrow> transition_error option \<Rightarrow>
    log_entry list \<Rightarrow> bool" where
  "exec_log nm guard x r es \<longleftrightarrow>
     (case r of
        None \<Rightarrow> \<exists>n. es = [Patched nm n (IssuedExecPatch (ResourceVersion (Metadata n)) x)] \<and> node_is Rebooting n \<and>
          (\<exists>c. guard c (Node_State.Parse (Annotations (Metadata n))) = Some True)
      | Some e \<Rightarrow> es = [])"

lemma exec_build_Apply:
  "exec_build guard x n = Apply p \<Longrightarrow>
   node_is Rebooting n \<and> guard (Node_State.Parse (Annotations (Metadata n))) = Some True \<and>
   p = IssuedExecPatch (ResourceVersion (Metadata n)) x"
  by (cases "guard (Node_State.Parse (Annotations (Metadata n)))") (auto simp: exec_build_def split: if_splits)

lemma exec_log_still: "exec_log nm guard x r es \<Longrightarrow> list_all managed_entry es"
  by (auto simp: exec_log_def managed_entry_def still_entry_def split: option.splits)

lemma managed_not_start: "\<not> managed_entry RebootStarted"
  by (simp add: managed_entry_def still_entry_def edge_entry_def)

lemma local_log_count:
  assumes "local_log nm es"
  shows "List.length (List.filter (\<lambda>e. e = RebootStarted) es) \<le> 1"
proof -
  have z: "list_all managed_entry fs \<Longrightarrow> List.filter (\<lambda>e. e = RebootStarted) fs = []" for fs
    using managed_not_start by (auto simp: list_all_iff filter_empty_conv)
  have i: "issue_entry nm boot e \<Longrightarrow> e \<noteq> RebootStarted" for boot e
    by (auto simp: issue_entry_def)
  from assms show ?thesis
    by (auto simp: local_log_def z dest: i)
qed

section \<open>The host\<close>

locale reboot_host = reliable_api_server "e_api env" V
  for env :: "'w reboot_env" and V :: "'w world_view" +
  assumes clock_quiet: "quiet V (e_now env)" "quiet V (e_wall env)"
    and boot_quiet: "quiet V (e_bootID env)"
    and start_law: "ok V w \<Longrightarrow> run_state (e_startReboot env) w = (r, w') \<Longrightarrow>
        ok V w' \<and> log V w' = log V w @ [RebootStarted]"
begin

lemmas quiet_calls = clock_quiet boot_quiet list_quiet pod_quiet lease_quiet config_quiet event_quiet get_quiet

lemmas all_quiet_calls [all_intros] = quiet_calls [THEN all_quiet]

lemma verify_quiet: "quiet V (VerifyOwnership (e_api env) cfg)"
  by (rule keeps_Sync) (simp_all add: lease_quiet)

lemma event_all [all_intros]: "emits_all V P (reboot_event env nm reason msg warn)"
  unfolding reboot_event_def by (intro all_intros)

lemma note_all [all_intros]: "emits_all V P (noteEvent env key nm reason msg warn active)"
  unfolding noteEvent_def by (intro all_intros)

lemma versioned_when_in: "(\<And>n. patch_rv (b n) = ResourceVersion (Metadata n)) \<Longrightarrow> versioned (when_in s b)"
  by (auto simp: versioned_def when_in_def split: if_splits)

lemma when_in_all:
  assumes "\<And>n. patch_rv (b n) = ResourceVersion (Metadata n)" "\<And>n. node_is s n \<Longrightarrow> P (Patched nm n (b n))"
  shows "emits_all V P (in_world (PatchTransition (e_api env) nm k (when_in s b)))"
  by (rule transition_all [OF versioned_when_in]) (auto simp: when_in_def assms split: if_splits)

lemma drain_all [all_intros]: "emits_all V P (runDrain env v allPods t)"
proof -
  have f: "emits_all V P (force_delete env ps)" for ps
    by (induction ps) (auto intro!: all_intros)
  have e: "emits_all V P (try_evict env now force p)" for now force p
    unfolding try_evict_def by (intro all_intros)
  show ?thesis unfolding runDrain_def by (intro all_intros f e)
qed

lemma transition_handler_all:
  assumes "\<And>n. patch_rv (b n) = ResourceVersion (Metadata n)" "\<And>nm n. node_is s n \<Longrightarrow> P (Patched nm n (b n))"
  shows "emits_all V P (transition env v s b reason msg warn)"
  unfolding transition_def using assms by (intro all_intros when_in_all)

lemma draining_all: "emits_all V managed_entry (manageDraining env v allPods now t)"
  unfolding manageDraining_def
  by (intro all_intros transition_handler_all) (auto simp: managed_entry_def edge_entry_def)

lemma rebooting_all: "emits_all V managed_entry (manageRebooting env v now)"
  unfolding manageRebooting_def
  by (intro all_intros transition_handler_all) (auto simp: managed_entry_def edge_entry_def)

lemma uncordon_is_transition:
  "uncordon_attempts env nm k =
    State_Monad.bind (in_world (patch_attempts (e_api env) nm (State_Monad.return ()) (\<lambda>_. uncordon_build) k))
      (\<lambda>_. State_Monad.return ())"
proof (induction k)
  case (Suc k)
  have e: "IsConflict e \<Longrightarrow> \<not> IsNotFound e" for e
    by (auto simp: IsConflict_def IsNotFound_def split: api_error.splits)
  show ?case
    by (rule state.expand, rule ext)
       (auto simp: Suc in_world_def uncordon_build_def dest: e
         split: prod.splits sum.splits option.splits build.splits if_splits)
qed (rule state.expand, rule ext, auto simp: in_world_def)

lemma versioned_uncordon: "versioned uncordon_build"
  by (auto simp: versioned_def uncordon_build_def split: if_splits)

lemma uncordon_all: "emits_all V still_entry (uncordon env v)"
proof -
  have "emits_all V still_entry (in_world (patch_attempts (e_api env) nm (State_Monad.return ()) (\<lambda>_. uncordon_build) k))" for nm k
    by (rule emits_weaken [OF attempts_emits [OF versioned_uncordon]])
       (auto simp: transition_entries_def uncordon_build_def still_entry_def split: option.splits if_splits)
  then show ?thesis unfolding uncordon_def uncordon_is_transition by (intro all_intros)
qed

lemma uncordon_rule_all: "emits_all V still_entry (uncordonRule env v)"
  unfolding uncordonRule_def by (intro all_intros uncordon_all)

lemma manage_node_all: "emits_all V managed_entry (manageNode env fc allPods now v)"
  unfolding manageNode_def
  by (intro all_intros draining_all rebooting_all all_mono [OF uncordon_rule_all]) (simp add: managed_entry_def)

lemma blocked_all: "emits_all V still_entry (writeBlockedBy env v blocked)"
  unfolding writeBlockedBy_def by (intro all_intros when_in_all) (simp_all add: still_entry_def)

lemma observe_all: "emits_all V P (observeDisappearances env vs)"
  unfolding observeDisappearances_def observe_gone_def by (intro all_intros)

lemma still_then:
  assumes "emits_all V still_entry m" "\<And>x. emits V (\<lambda>_. one_admission gate q) (k x)"
  shows "emits V (\<lambda>_. one_admission gate q) (State_Monad.bind m k)"
  by (rule emits_bind [OF assms]) (rule one_admission_still)

lemma admit_transition:
  assumes "\<And>e. emits V (\<lambda>_. one_admission gate q) (k (Some e))" "emits_all V (\<lambda>_. False) (k None)"
    and "v \<in> set q" "gate v"
  shows "emits V (\<lambda>_. one_admission gate q)
    (State_Monad.bind (in_world (PatchTransition (e_api env) (Name (Metadata (v_node v))) 3
       (when_in Requested (admission_patch now)))) k)"
proof (rule emits_bind [OF transition_emits, where T = "\<lambda>x _ es.
      case x of None \<Rightarrow> es = [] | Some e \<Rightarrow> one_admission gate q es"])
  show "versioned (when_in Requested (admission_patch now))"
    by (rule versioned_when_in) (simp add: admission_patch_def)
next
  fix x
  show "emits V (\<lambda>_ es. case x of None \<Rightarrow> es = [] | Some e \<Rightarrow> one_admission gate q es) (k x)"
    using assms(1,2) by (cases x) (auto elim: emits_weaken simp: list_all_iff)
next
  fix x :: "transition_error option" and es es'
  assume t: "transition_entries (Name (Metadata (v_node v))) (when_in Requested (admission_patch now)) x es"
    and c: "case x of None \<Rightarrow> es' = [] | Some e \<Rightarrow> one_admission gate q es'"
  show "one_admission gate q (es @ es')"
  proof (cases x)
    case None
    with t obtain n where n: "es = [Patched (Name (Metadata (v_node v))) n (admission_patch now n)]" "node_is Requested n"
      by (auto simp: transition_entries_def when_in_def split: if_splits)
    then have "admits_from gate q (hd es)"
      using assms(3,4) by (auto simp: admits_from_def admission_entry_def edge_entry_def admission_patch_def)
    with None c n show ?thesis unfolding one_admission_def by (intro exI [of _ "[]"] exI [of _ es]) auto
  next
    case (Some e)
    with t c show ?thesis by (simp add: transition_entries_def)
  qed
qed

lemma admit_emits:
  assumes "set vs \<subseteq> set q"
  shows "emits V (\<lambda>_. one_admission (passes_gates windowOpen budgets allPods) q)
    (admit env fc now windowOpen budgets allPods a b vs)"
  using assms
proof (induction vs)
  case Nil
  then show ?case by (simp add: emits_return)
next
  case (Cons v vs)
  let ?g = "passes_gates windowOpen budgets allPods"
  have ih: "emits V (\<lambda>_. one_admission ?g q) (admit env fc now windowOpen budgets allPods a b vs)"
    using Cons by simp
  have ret: "emits V (\<lambda>_. one_admission ?g q) (State_Monad.return x :: ('w, outcome) handler)" for x
    by (simp add: emits_return)
  let ?blocked = "if forceOf (v_st v) then Some [] else pdbBlocked (v_node v) budgets allPods"
  have ev: "emits_all V (\<lambda>_. False)
     (State_Monad.bind (reboot_event env nm reason msg warn) (\<lambda>_. State_Monad.return Finished))" for nm reason msg warn
    by (intro all_intros)
  have move: "emits V (\<lambda>_. one_admission ?g q)
     (State_Monad.bind (in_world (PatchTransition (e_api env) (Name (Metadata (v_node v))) 3
         (when_in Requested (admission_patch now))))
       (\<lambda>err. case err of
          None \<Rightarrow> State_Monad.bind (reboot_event env (Name (Metadata (v_node v))) ''RebootDraining''
              ''drain started (cordon + eviction)'' False) (\<lambda>_. State_Monad.return Finished)
        | Some e \<Rightarrow> if e = Aborted then admit env fc now windowOpen budgets allPods a b vs else State_Monad.return Finished))"
    if "?g v"
    by (rule admit_transition) (use that Cons.prems ih ret ev in \<open>simp_all\<close>)
  show ?case
  proof (cases "int a \<ge> MaxConcurrentReboots fc \<or> b \<ge> 1")
    case True
    then show ?thesis by (simp add: ret)
  next
    case open_slot: False
    show ?thesis
    proof (cases "\<not> forceOf (v_st v) \<and> \<not> windowOpen")
      case True
      with open_slot ih show ?thesis by (auto intro!: still_then note_all)
    next
      case window: False
      show ?thesis
      proof (cases ?blocked)
        case None
        show ?thesis
          unfolding admit.simps if_not_P [OF open_slot] if_not_P [OF window] None by (simp add: ret)
      next
        case (Some bl)
        show ?thesis
        proof (cases "bl = []")
          case True
          then have g: "?g v" using Some window by (auto simp: passes_gates_def split: if_splits)
          have "emits V (\<lambda>_. one_admission ?g q)
             (State_Monad.bind (in_world (VerifyOwnership (e_api env) (e_lease env)))
               (\<lambda>own. if \<not> own then State_Monad.return Finished else
                 State_Monad.bind (in_world (PatchTransition (e_api env) (Name (Metadata (v_node v))) 3
                     (when_in Requested (admission_patch now))))
                   (\<lambda>err. case err of
                      None \<Rightarrow> State_Monad.bind (reboot_event env (Name (Metadata (v_node v))) ''RebootDraining''
                          ''drain started (cordon + eviction)'' False) (\<lambda>_. State_Monad.return Finished)
                    | Some e \<Rightarrow> if e = Aborted then admit env fc now windowOpen budgets allPods a b vs else State_Monad.return Finished)))"
            by (rule still_then [OF all_quiet [OF verify_quiet]], rule emits_if) (simp_all add: ret move [OF g])
          then show ?thesis
            unfolding admit.simps if_not_P [OF open_slot] if_not_P [OF window] Some True by simp
        next
          case False
          with ih show ?thesis
            unfolding admit.simps if_not_P [OF open_slot] if_not_P [OF window] Some
            by (auto intro!: still_then blocked_all note_all)
        qed
      qed
    qed
  qed
qed

lemma one_admission_return: "emits V (\<lambda>_. one_admission gate q) (State_Monad.return x :: ('w, outcome) handler)"
  by (simp add: emits_return)

lemma admission_phase_emits:
  "emits V (\<lambda>_ es. one_admission (passes_gates (WindowsOpen (RebootWindows fc) (RebootWindowGrace fc) now) budgets allPods)
       (admission_queue freshNodes) es \<and> (es \<noteq> [] \<longrightarrow> slots_free fc freshNodes))
     (admission_phase env fc now budgets allPods freshNodes)" (is "emits V ?S _")
proof -
  have quiet_note: "emits V ?S (State_Monad.bind (noteEvent env key nm reason msg w a) (\<lambda>_. State_Monad.return Finished))"
    for key nm reason msg w a
    by (rule emits_bind [where S = "\<lambda>_. list_all (\<lambda>_. False)" and T = "\<lambda>_ _. list_all (\<lambda>_. False)"])
       (auto intro: all_intros simp: list_all_iff)
  show ?thesis
    unfolding admission_phase_def Let_def
    by (intro emits_if quiet_note emits_weaken [OF admit_emits [OF order_refl]])
       (auto simp: emits_return slots_free_def Let_def)
qed

lemma managed_then:
  assumes "emits_all V managed_entry m" "\<And>x. emits V (\<lambda>_. cycle_log) (k x)"
  shows "emits V (\<lambda>_. cycle_log) (State_Monad.bind m k)"
  by (rule emits_bind [OF assms]) (rule cycle_log_managed)

lemma sum_emits:
  "(\<And>e. x = Inl e \<Longrightarrow> emits V S (f e)) \<Longrightarrow> (\<And>y. x = Inr y \<Longrightarrow> emits V S (g y)) \<Longrightarrow>
   emits V S (case x of Inl e \<Rightarrow> f e | Inr y \<Rightarrow> g y)"
  by (cases x) auto

lemma run_emits:
  "emits V (\<lambda>_. cycle_log) (runOrchestrator env fc)"
proof -
  have one: "emits V (\<lambda>_. cycle_log) (admission_phase env fc now budgets allPods freshNodes)"
    for now budgets allPods freshNodes
    by (rule emits_weaken [OF admission_phase_emits]) (blast intro: cycle_log_admission)
  have ret: "emits V (\<lambda>_. cycle_log) (State_Monad.return x :: ('w, outcome) handler)" for x
    by (rule emits_return) (rule cycle_log_admission [OF one_admission_Nil])
  have mng: "emits_all V managed_entry (manage_phase env fc now allPods vs)" for now allPods vs
    unfolding manage_phase_def by (intro all_intros manage_node_all)
  show ?thesis
    unfolding runOrchestrator_def
    by (intro managed_then sum_emits ret one mng observe_all quiet_calls [THEN all_quiet])
qed

subsection \<open>The local executor\<close>

lemma local_failed_all: "emits_all V managed_entry (localFailed env msg)"
  unfolding localFailed_def
  by (intro all_intros when_in_all) (auto simp: managed_entry_def edge_entry_def)

lemma start_emits: "emits V (\<lambda>_ es. es = [RebootStarted]) (in_world (e_startReboot env))"
  by (rule emits_world) (drule start_law, assumption, auto)

lemma issue_emits: "emits V (\<lambda>_ es. \<exists>fs. es = RebootStarted # fs \<and> list_all managed_entry fs) (issueReboot env)"
  unfolding issueReboot_def
  by (rule emits_bind [OF start_emits, where T = "\<lambda>_ _. list_all managed_entry"])
     (auto intro!: all_intros local_failed_all)

lemma versioned_exec: "versioned (exec_build guard x)"
  by (auto simp: versioned_def exec_build_def split: if_splits option.splits)

lemma exec_emits:
  assumes "quiet V rd"
  shows "emits V (exec_log (e_NodeName env) guard x) (guardedExecPatch env rd guard x)"
  unfolding guardedExecPatch_def PatchTransitionReading_def
proof (rule emits_weaken [OF reading_emits [OF versioned_exec assms]])
  fix r es
  assume "\<exists>c. transition_entries (e_NodeName env) (exec_build (guard c) x) r es"
  then show "exec_log (e_NodeName env) guard x r es"
    by (cases r) (fastforce simp: transition_entries_def exec_log_def dest!: exec_build_Apply)+
qed

lemma issue_after_emits:
  assumes "quiet V rd"
    and "\<And>n c. node_is Rebooting n \<Longrightarrow> guard c (Node_State.Parse (Annotations (Metadata n))) = Some True \<Longrightarrow>
      issue_entry (e_NodeName env) boot (Patched (e_NodeName env) n (IssuedExecPatch (ResourceVersion (Metadata n)) x))"
  shows "emits V (\<lambda>_. local_log (e_NodeName env))
    (State_Monad.bind (guardedExecPatch env rd guard x) (issue_after env))"
proof (rule emits_bind [OF exec_emits [OF assms(1)], where T = "\<lambda>r _ es.
      if r = None then \<exists>fs. es = RebootStarted # fs \<and> list_all managed_entry fs else es = []"])
  fix r
  show "emits V (\<lambda>_ es. if r = None then \<exists>fs. es = RebootStarted # fs \<and> list_all managed_entry fs else es = [])
     (issue_after env r)"
  proof (cases r)
    case None
    have "emits V (\<lambda>_ es. \<exists>fs. es = RebootStarted # fs \<and> list_all managed_entry fs)
       (State_Monad.bind (issueReboot env) (\<lambda>_. State_Monad.return Finished))"
      by (rule emits_bind [OF issue_emits, where T = "\<lambda>_ _ es. es = []"]) (auto simp: emits_return)
    with None show ?thesis by (simp add: issue_after_def)
  qed (simp add: issue_after_def emits_return)
next
  fix r y es es'
  assume a: "exec_log (e_NodeName env) guard x r es"
    "if r = None then \<exists>fs. es' = RebootStarted # fs \<and> list_all managed_entry fs else es' = []"
  show "local_log (e_NodeName env) (es @ es')"
  proof (cases r)
    case None
    with a obtain n fs where "es = [Patched (e_NodeName env) n (IssuedExecPatch (ResourceVersion (Metadata n)) x)]"
      "node_is Rebooting n" "\<exists>c. guard c (Node_State.Parse (Annotations (Metadata n))) = Some True"
      "es' = RebootStarted # fs" "list_all managed_entry fs"
      by (auto simp: exec_log_def)
    with assms(2) show ?thesis unfolding local_log_def by (intro disjI2 exI conjI) auto
  qed (use a in \<open>simp add: exec_log_def local_log_def\<close>)
qed

lemma local_quiet: "emits_all V managed_entry m \<Longrightarrow> emits V (\<lambda>_. local_log nm) m"
  by (erule emits_weaken) (simp add: local_log_def)

lemma first_attempt:
  "emits V (\<lambda>_. local_log (e_NodeName env))
     (State_Monad.bind (guardedExecPatch env (State_Monad.return ()) (\<lambda>_. exec_absent) (new_exec env now boot 1))
       (issue_after env))"
  by (rule issue_after_emits [where boot = boot])
     (auto simp: quiet_return issue_entry_def exec_absent_def new_exec_def split: option.splits)

lemma second_attempt:
  "emits V (\<lambda>_. local_log (e_NodeName env))
     (State_Monad.bind (guardedExecPatch env (e_now env) (\<lambda>now'. reissue_guard boot now' grace) (new_exec env now boot 2))
       (issue_after env))"
  by (rule issue_after_emits [where boot = boot])
     (auto simp: clock_quiet issue_entry_def reissue_guard_def new_exec_def split: option.splits)

lemma quiet_then:
  assumes "quiet V m" "\<And>x. emits V (\<lambda>_. local_log nm) (k x)"
  shows "emits V (\<lambda>_. local_log nm) (State_Monad.bind (in_world m) k)"
  by (rule emits_bind [OF all_quiet [OF assms(1), where P = "\<lambda>_. False"] assms(2)]) (auto simp: list_all_iff)

lemma local_act_emits: "emits V (\<lambda>_. local_log (e_NodeName env)) (local_act env fc boot now st)"
proof -
  have c: "emits_all V managed_entry (State_Monad.bind (guardedExecPatch env (State_Monad.return ()) (\<lambda>_. guard) x)
       (\<lambda>err. State_Monad.return (g err)))"
    for guard x and g :: "transition_error option \<Rightarrow> outcome"
    by (intro all_intros emits_weaken [OF exec_emits [OF quiet_return]] exec_log_still)
  have f: "emits_all V managed_entry (State_Monad.bind (localFailed env msg) (\<lambda>_. State_Monad.return Finished))" for msg
    by (intro all_intros local_failed_all)
  have n: "emits_all V managed_entry (State_Monad.bind (noteEvent env key nm reason msg w a) (\<lambda>_. State_Monad.return Finished))"
    for key nm reason msg w a by (intro all_intros)
  have r: "emits V (\<lambda>_. local_log (e_NodeName env)) (State_Monad.return Finished :: ('w, outcome) handler)"
    by (rule emits_return) (simp add: local_log_def)
  show ?thesis
    unfolding local_act_def Let_def
    by (cases "ns_Exec st")
       (auto intro!: emits_if first_attempt second_attempt quiet_then clock_quiet r
         local_quiet [OF c] local_quiet [OF f] local_quiet [OF n] split del: if_split)
qed

lemma local_emits: "emits V (\<lambda>_. local_log (e_NodeName env)) (runLocal env fc)"
proof -
  have r: "emits V (\<lambda>_. local_log (e_NodeName env)) (State_Monad.return Finished :: ('w, outcome) handler)"
    by (rule emits_return) (simp add: local_log_def)
  have o: "emits V (\<lambda>_. local_log (e_NodeName env)) (case x of None \<Rightarrow> State_Monad.return Finished | Some y \<Rightarrow> k y)"
    if "\<And>y. emits V (\<lambda>_. local_log (e_NodeName env)) (k y)"
    for x :: "string option" and k :: "string \<Rightarrow> ('w, outcome) handler"
    using that r by (cases x) auto
  show ?thesis
    unfolding runLocal_def Let_def
    by (intro quiet_then sum_emits emits_if o r local_act_emits clock_quiet boot_quiet get_quiet)
qed

end

end
