(* ===== verification/Rest_Safety.thy ===== *)
theory Rest_Safety
  imports Rest_Api Reboot_Safety
begin

text \<open>
  What the REST API can do to a cluster: nothing without credentials, exactly one request patch for
  each accepted node and none for a rejected one, and one clearing patch for a deletion it confirms.
\<close>

section \<open>Credentials\<close>

definition authorized :: "'w api_env \<Rightarrow> http_request \<Rightarrow> bool" where
  "authorized env r \<longleftrightarrow>
     (if a_token env = [] then isLoopbackAddr env (h_remote r)
      else h_authorization r = ''Bearer '' @ a_token env)"

definition refusal :: "'w api_env \<Rightarrow> http_request \<Rightarrow> reply" where
  "refusal env r =
     (if a_token env = [] then writeErr 403 ''Forbidden'' ''tokenless API accepts loopback clients only''
      else writeErr 401 ''Unauthorized''
        (if has_prefix (h_authorization r) ''Bearer '' then ''invalid token'' else ''missing bearer token''))"

definition protected :: "route \<Rightarrow> bool" where
  "protected rt \<longleftrightarrow> (case rt of Livez \<Rightarrow> False | Readyz \<Rightarrow> False | NoRoute \<Rightarrow> False | _ \<Rightarrow> True)"

lemma auth_gate: "auth env r next = (if authorized env r then next else State_Monad.return (refusal env r))"
  by (auto simp: auth_def authorized_def refusal_def trim_prefix_def has_prefix_iff)

text \<open>C11: a request to a protected route without the configured token (or, where no token is configured, from an
  address that is not loopback) is refused with 401 or 403 and changes nothing.\<close>

theorem unauthorized_changes_nothing:
  assumes "protected (h_route r)" "\<not> authorized env r"
  shows "run_state (Handler env r) w = (refusal env r, w) \<and> r_code (refusal env r) \<in> {401, 403}"
  using assms
  by (cases "h_route r") (auto simp: Handler_def protected_def auth_gate refusal_def writeErr_def)

definition token_env :: "fake_world api_env" where
  "token_env = \<lparr> a_api = fake_client, a_PodNamespace = [], a_PodSelector = [],
     a_now = State_Monad.return 0, a_Features = State_Monad.return (the Defaults), a_Ready = State_Monad.return True,
     a_random = State_Monad.return (Inr [1, 2, 3]), a_token = ''secret'', a_split_host = (\<lambda>_. Some ''127.0.0.1''),
     a_is_loopback_ip = (\<lambda>_. True), a_decode_error = (\<lambda>_. []) \<rparr>"

theorem unauthorized_changes_nothing_witness:
  "run_state (Handler token_env \<lparr> h_route = DeleteReboot ''n1'', h_remote = ''127.0.0.1:1'',
      h_authorization = ''Bearer guess'', h_body = [] \<rparr>) (sample_world []) =
     (writeErr 401 ''Unauthorized'' ''invalid token'', sample_world [])"
proof -
  let ?r = "\<lparr> h_route = DeleteReboot ''n1'', h_remote = ''127.0.0.1:1'', h_authorization = ''Bearer guess'', h_body = [] \<rparr>"
  have "protected (h_route ?r)" "\<not> authorized token_env ?r"
    by (simp_all add: protected_def authorized_def token_env_def)
  from unauthorized_changes_nothing [OF this, of "sample_world []"] show ?thesis
    by (simp add: refusal_def token_env_def)
qed

section \<open>What the handlers log\<close>

definition entry_node :: "log_entry \<Rightarrow> string" where
  "entry_node e = (case e of Patched nm n p \<Rightarrow> nm | RebootStarted \<Rightarrow> [])"

definition request_entry :: "log_entry \<Rightarrow> bool" where
  "request_entry e =
     (case e of
        Patched nm n p \<Rightarrow>
          reRequestable (Node_State.Parse (Annotations (Metadata n))) \<and>
          (\<exists>t i by' force. p = AdmissionPatch (ResourceVersion (Metadata n)) t i by' force)
      | RebootStarted \<Rightarrow> False)"

definition clear_entry :: "log_entry \<Rightarrow> bool" where
  "clear_entry e =
     (case e of
        Patched nm n p \<Rightarrow>
          (let st = Node_State.Parse (Annotations (Metadata n)) in
           case ns_State st of
             None \<Rightarrow> False
           | Some si \<Rightarrow> \<not> node_is Draining n \<and> p = ClearPatch (ResourceVersion (Metadata n)) (clears_cordon st si))
      | RebootStarted \<Rightarrow> False)"

definition admit_log :: "string \<Rightarrow> int \<times> string \<Rightarrow> log_entry list \<Rightarrow> bool" where
  "admit_log nm r es \<longleftrightarrow> (if fst r = 0 then \<exists>e. es = [e] \<and> entry_node e = nm \<and> request_entry e else es = [])"

definition post_log :: "reply \<Rightarrow> log_entry list \<Rightarrow> bool" where
  "post_log rep es \<longleftrightarrow> list_all request_entry es \<and>
     (case r_body rep of RebootResponse acc rej \<Rightarrow> map entry_node es = acc | _ \<Rightarrow> es = [])"

definition delete_log :: "string \<Rightarrow> reply \<Rightarrow> log_entry list \<Rightarrow> bool" where
  "delete_log nm rep es \<longleftrightarrow>
     (if r_code rep = 204 then \<exists>e. es = [e] \<and> entry_node e = nm \<and> clear_entry e else es = [])"

lemma versioned_request: "versioned (request_build now i b f)"
  by (auto simp: versioned_def request_build_def AdmissionPatch_def annotationsPatch_def split: if_splits)

lemma in_world_simps:
  "in_world (State_Monad.bind m k) = State_Monad.bind (in_world m) (\<lambda>x. in_world (k x))"
  "in_world (State_Monad.return x) = State_Monad.return x"
  by (auto simp: in_world_def State_Monad.bind_def State_Monad.return_def split: prod.splits)

abbreviation api_emits :: "'w world_view \<Rightarrow> ('a \<Rightarrow> log_entry list \<Rightarrow> bool) \<Rightarrow> ('w, 'a) state \<Rightarrow> bool" where
  "api_emits V S m \<equiv> emits V S (in_world m :: (unit \<times> 'w, 'a) state)"

lemma world_if:
  "(b \<Longrightarrow> api_emits V S m) \<Longrightarrow> (\<not> b \<Longrightarrow> api_emits V S n) \<Longrightarrow> api_emits V S (if b then m else n)"
  by simp

lemma world_sum:
  "(\<And>y. x = Inl y \<Longrightarrow> api_emits V S (f y)) \<Longrightarrow> (\<And>y. x = Inr y \<Longrightarrow> api_emits V S (g y)) \<Longrightarrow>
   api_emits V S (case x of Inl y \<Rightarrow> f y | Inr y \<Rightarrow> g y)"
  by (cases x) auto

lemma world_option:
  "(x = None \<Longrightarrow> api_emits V S m) \<Longrightarrow> (\<And>y. x = Some y \<Longrightarrow> api_emits V S (g y)) \<Longrightarrow>
   api_emits V S (case x of None \<Rightarrow> m | Some y \<Rightarrow> g y)"
  by (cases x) auto

section \<open>The API's host\<close>

locale api_host = reliable_api_server "a_api env" V
  for env :: "'w api_env" and V :: "'w world_view" +
  assumes hooks_quiet: "quiet V (a_now env)" "quiet V (a_Features env)" "quiet V (a_Ready env)" "quiet V (a_random env)"
begin

lemmas no_entry = hooks_quiet [THEN emits_quiet] get_quiet [THEN emits_quiet] list_quiet [THEN emits_quiet]

lemma silent_then:
  assumes "quiet V m" "\<And>x. api_emits V S (k x)"
  shows "api_emits V S (State_Monad.bind m k)"
  unfolding in_world_simps
  by (rule emits_bind [OF emits_quiet [OF assms(1), where S = "\<lambda>_ es. es = []"], where T = "\<lambda>_. S"])
     (simp_all add: assms(2))

lemma answer: "S x [] \<Longrightarrow> api_emits V S (State_Monad.return x)"
  by (simp add: in_world_simps emits_return)

lemma admit_patch_emits:
  "api_emits V (admit_log nm) (admit_patch env nm force by' now i)"
  unfolding admit_patch_def in_world_simps
proof (rule emits_bind [OF transition_emits [OF versioned_request]])
  fix x
  show "emits V (\<lambda>(r :: int \<times> string) es. es = ([] :: log_entry list) \<and> (fst r = 0 \<longleftrightarrow> x = None))
     (State_Monad.return (case x of None \<Rightarrow> (0, []) | Some e \<Rightarrow>
        if e = Aborted \<or> (case e of ApiFailed x \<Rightarrow> IsConflict x | _ \<Rightarrow> False)
        then (409, ''state changed during admission'') else (503, ''API server unreachable'')))"
    by (rule emits_return) (auto split: option.splits)
next
  fix x and es es' :: "log_entry list" and r :: "int \<times> string"
  assume "transition_entries nm (request_build now i by' force) x es" "es' = [] \<and> (fst r = 0 \<longleftrightarrow> x = None)"
  then show "admit_log nm r (es @ es')"
    by (cases x)
       (auto simp: admit_log_def transition_entries_def request_build_def entry_node_def request_entry_def split: if_splits)
qed

lemma admit_emits:
  "api_emits V (admit_log nm) (Rest_Api.admit env nm force by' now)"
proof -
  have rej: "api_emits V (admit_log nm) (State_Monad.return (c, s))"
    if "c \<noteq> 0" for c s
    by (rule answer) (simp add: admit_log_def that)
  have pod: "quiet V (controllerPodRunning env nd)" for nd
    unfolding controllerPodRunning_def
    by (intro keeps_bind list_quiet keeps_return extends_refl extends_trans)
  have rnd: "quiet V (newRequestID env t)" for t
    unfolding newRequestID_def
    by (intro keeps_bind hooks_quiet keeps_return extends_refl extends_trans)
  have nd: "api_emits V (admit_log nm) (admit_node env nm force by' now)"
    unfolding admit_node_def
    by (intro silent_then world_sum world_if get_quiet pod rnd admit_patch_emits rej) (auto intro: answer simp: admit_log_def)
  show ?thesis
    unfolding Rest_Api.admit_def by (intro world_if silent_then nd hooks_quiet rej) simp
qed

lemma admit_all_emits:
  "api_emits V (\<lambda>r es. list_all request_entry es \<and> map entry_node es = fst r) (admit_all env force by' now ns)"
proof (induction ns)
  case Nil
  show ?case by (simp add: answer)
next
  case (Cons n ns)
  let ?S = "\<lambda>(r :: string list \<times> rejection list) es. list_all request_entry es \<and> map entry_node es = fst r"
  show ?case
    unfolding admit_all.simps in_world_simps
  proof (rule emits_bind [OF admit_emits, where T = "\<lambda>r r' es. list_all request_entry es \<and>
        (if fst r = 0 then fst r' \<noteq> [] \<and> hd (fst r') = n \<and> map entry_node es = tl (fst r') else map entry_node es = fst r')"])
    fix r :: "int \<times> string"
    show "emits V (\<lambda>r' es. list_all request_entry es \<and>
        (if fst r = 0 then fst r' \<noteq> [] \<and> hd (fst r') = n \<and> map entry_node es = tl (fst r') else map entry_node es = fst r'))
      (State_Monad.bind (in_world (admit_all env force by' now ns)) (\<lambda>x. State_Monad.return
        (if fst r \<noteq> 0 then (fst x, Rejection n (fst r) (snd r) # snd x) else (n # fst x, snd x))) ::
          (unit \<times> 'w, string list \<times> rejection list) state)"
      by (rule emits_bind [OF Cons, where T = "\<lambda>x r' es. es = [] \<and>
            r' = (if fst r \<noteq> 0 then (fst x, Rejection n (fst r) (snd r) # snd x) else (n # fst x, snd x))"])
         (auto simp: emits_return)
  next
    fix r es es' and r' :: "string list \<times> rejection list"
    assume "admit_log n r es" "list_all request_entry es' \<and>
      (if fst r = 0 then fst r' \<noteq> [] \<and> hd (fst r') = n \<and> map entry_node es' = tl (fst r') else map entry_node es' = fst r')"
    then show "?S r' (es @ es')"
      by (auto simp: admit_log_def split: if_splits)
  qed
qed

lemma post_emits: "api_emits V post_log (postReboots env body)"
proof -
  have err: "api_emits V post_log (State_Monad.return (writeErr c rs m))" for c rs m
    by (rule answer) (simp add: post_log_def writeErr_def)
  have run: "api_emits V post_log (post_targets env req ns)" for req ns
    unfolding post_targets_def
  proof (rule silent_then [OF hooks_quiet(1)])
    fix now
    show "api_emits V post_log (State_Monad.bind (admit_all env (rr_Force req) (rr_RequestedBy req) now ns)
       (\<lambda>res. State_Monad.return \<lparr> r_code = 202, r_json = False, r_body = RebootResponse (fst res) (snd res) \<rparr>))"
      unfolding in_world_simps
      by (rule emits_bind [OF admit_all_emits, where T = "\<lambda>x r es. es = [] \<and> r_body r = RebootResponse (fst x) (snd x)"])
         (auto simp: emits_return post_log_def)
  qed
  show ?thesis
    unfolding postReboots_def by (intro world_option world_if err silent_then list_quiet world_sum run)
qed

lemma attempt_patch:
  assumes "ok V w" "run_state (getNode (a_api env) nm) w = (Inr n, w1)"
    and "run_state (patchNode (a_api env) nm p) w1 = (r, w2)" "patch_rv p = ResourceVersion (Metadata n)"
  shows "ok V w2 \<and> (case r of None \<Rightarrow> log V w2 = log V w @ [Patched nm n p] | Some e \<Rightarrow> log V w2 = log V w)"
  using get_log [OF assms(1,2)] patch_accepted [OF _ assms(3) get_seen [OF assms(1,2)] assms(4) [symmetric]]
    patch_refused [of w1 nm p _ w2] assms(3)
  by (cases r) auto

lemma ClearPatch_rv: "patch_rv (ClearPatch v u) = v"
  by (simp add: ClearPatch_def annotationsPatch_def Let_def)

lemma delete_attempts_log:
  assumes "ok V w" "run_state (delete_attempts env nm k) w = (rep, w')"
  shows "ok V w' \<and> (\<exists>es. log V w' = log V w @ es \<and> delete_log nm rep es)"
  using assms
proof (induction k arbitrary: w)
  case 0
  then show ?case by (auto simp: delete_log_def writeErr_def)
next
  case (Suc k)
  obtain r1 w1 where g: "run_state (getNode (a_api env) nm) w = (r1, w1)" by (cases "run_state (getNode (a_api env) nm) w")
  note g1 = get_log [OF Suc.prems(1) g]
  have quiet: "ok V w1 \<and> (\<exists>es. log V w1 = log V w @ es \<and> delete_log nm (writeErr c rs m) es)" if "c \<noteq> 204" for c rs m
    using g1 that by (auto simp: delete_log_def writeErr_def)
  show ?case
  proof (cases r1)
    case (Inl e)
    then show ?thesis using Suc.prems(2) g g1 quiet by (auto split: if_splits)
  next
    case (Inr n)
    let ?st = "Node_State.Parse (Annotations (Metadata n))"
    show ?thesis
    proof (cases "\<exists>si. ns_State ?st = Some si \<and> st_Present si \<and> \<not> (st_ParseError si = [] \<and> st_State si = Draining)")
      case False
      then show ?thesis using Suc.prems(2) g g1 Inr quiet
        by (cases "ns_State ?st") (auto simp: Let_def split: if_splits)
    next
      case True
      then obtain si where si: "ns_State ?st = Some si" "st_Present si" "\<not> (st_ParseError si = [] \<and> st_State si = Draining)"
        by blast
      let ?p = "ClearPatch (ResourceVersion (Metadata n)) (clears_cordon ?st si)"
      obtain r2 w2 where pt: "run_state (patchNode (a_api env) nm ?p) w1 = (r2, w2)"
        by (cases "run_state (patchNode (a_api env) nm ?p) w1")
      note a = attempt_patch [OF Suc.prems(1) g [unfolded Inr] pt ClearPatch_rv]
      show ?thesis
      proof (cases r2)
        case None
        have "clear_entry (Patched nm n ?p)"
          using si by (auto simp: clear_entry_def node_is_def state_is_def Let_def)
        then show ?thesis using Suc.prems(2) g Inr si pt None a
          by (auto simp: Let_def delete_log_def entry_node_def)
      next
        case (Some e)
        show ?thesis
        proof (cases "IsConflict e")
          case True
          then have "run_state (delete_attempts env nm k) w2 = (rep, w')"
            using Suc.prems(2) g Inr si pt Some by (simp add: Let_def)
          from Suc.IH [OF _ this] a Some show ?thesis by simp
        next
          case False
          then show ?thesis using Suc.prems(2) g Inr si pt Some a
            by (auto simp: Let_def delete_log_def writeErr_def)
        qed
      qed
    qed
  qed
qed

lemma delete_emits: "api_emits V (delete_log nm) (deleteReboot env nm)"
  by (rule emits_world) (simp add: deleteReboot_def delete_attempts_log)

end

end
