(* ===== verification/Update_Safety.thy ===== *)
theory Update_Safety
  imports Update_Feature Rest_Safety
begin

text \<open>
  What the update feature may write to the cluster, whatever the other actors do meanwhile. The
  locale \<open>update_host\<close> states what it relies on: a reliable API server, and a boot store, a release
  repository and clocks that do not touch the API. Proved in it: the kinds of patches of a cycle of
  the pod, which of them need an open window, and that staging never moves a goal that is held.
\<close>

section \<open>The patches of the feature\<close>

definition moves_goal :: "(update_info \<Rightarrow> bool) \<Rightarrow> log_entry \<Rightarrow> bool" where
  "moves_goal Q e =
     (case e of
        Patched nm n p \<Rightarrow>
          Q (node_update n) \<and>
          (\<exists>v. p = annotationsPatch (ResourceVersion (Metadata n)) [(AnnNextKernel, v)])
      | RebootStarted \<Rightarrow> False)"

definition rearms :: "log_entry \<Rightarrow> bool" where
  "rearms e =
     (case e of
        Patched nm n p \<Rightarrow> node_is Completed n \<and> p = ClearPatch (ResourceVersion (Metadata n)) False
      | RebootStarted \<Rightarrow> False)"

definition drops_marker :: "log_entry \<Rightarrow> bool" where
  "drops_marker e =
     (case e of
        Patched nm n p \<Rightarrow> p = ClearRebootEligiblePatch (ResourceVersion (Metadata n))
      | RebootStarted \<Rightarrow> False)"

definition claims :: "log_entry \<Rightarrow> bool" where
  "claims e =
     (case e of
        Patched nm n p \<Rightarrow>
          (\<exists>occ. \<not> claim_covered n occ \<and> p = UpdateLastCheckPatch (ResourceVersion (Metadata n)) (format_rfc3339 occ))
      | RebootStarted \<Rightarrow> False)"

definition enqueues :: "log_entry \<Rightarrow> bool" where
  "enqueues e =
     (case e of
        Patched nm n p \<Rightarrow>
          \<not> InLifecycle (Node_State.Parse (Annotations (Metadata n))) \<and>
          NextKernelPresent (node_update n) \<and> NextKernelParseErr (node_update n) = [] \<and>
          (\<exists>since i. p = AdmissionPatch (ResourceVersion (Metadata n)) since i ''controller'' False)
      | RebootStarted \<Rightarrow> False)"

text \<open>A goal that is free to be set: absent, or not a version at all.\<close>

definition free_goal :: "update_info \<Rightarrow> bool" where
  "free_goal ui \<longleftrightarrow> \<not> NextKernelPresent ui \<or> NextKernelParseErr ui \<noteq> []"

definition ungated :: "log_entry \<Rightarrow> bool" where
  "ungated e \<longleftrightarrow> moves_goal free_goal e \<or> rearms e \<or> drops_marker e"

definition gated :: "log_entry \<Rightarrow> bool" where
  "gated e \<longleftrightarrow> claims e \<or> moves_goal (\<lambda>_. True) e"

definition update_entry :: "bool \<Rightarrow> log_entry \<Rightarrow> bool" where
  "update_entry updates e \<longleftrightarrow> ungated e \<or> updates \<and> gated e"

text \<open>The log of a cycle: what needs no reboot window, then one enqueue at most.\<close>

definition update_log :: "bool \<Rightarrow> bool \<Rightarrow> log_entry list \<Rightarrow> bool" where
  "update_log updates reboots es \<longleftrightarrow>
     (\<exists>as bs. es = as @ bs \<and> list_all (update_entry updates) as \<and>
        (bs = [] \<or> reboots \<and> (\<exists>e. bs = [e] \<and> enqueues e)))"

lemma update_log_Nil [simp]: "update_log u r []"
  by (simp add: update_log_def)

lemma update_log_cons: "list_all (update_entry u) as \<Longrightarrow> update_log u r es \<Longrightarrow> update_log u r (as @ es)"
  unfolding update_log_def by (metis append.assoc list_all_append)

lemma update_log_enqueue: "enqueues e \<Longrightarrow> update_log u True [e]"
  unfolding update_log_def by (intro exI [of _ "[]"] exI [of _ "[e]"]) simp

lemma moves_goal_any: "moves_goal Q e \<Longrightarrow> moves_goal (\<lambda>_. True) e"
  by (auto simp: moves_goal_def split: log_entry.splits)

lemma free_moves_any: "moves_goal Q e \<Longrightarrow> (\<And>ui. Q ui \<Longrightarrow> R ui) \<Longrightarrow> moves_goal R e"
  by (auto simp: moves_goal_def split: log_entry.splits)

text \<open>The build functions.\<close>

lemma versioned_builds:
  "versioned (NextKernelBuild v Q)" "versioned (CorrectGoalBuild b v)" "versioned RearmBuild"
  "versioned (UpdateLastCheckBuild occ)" "versioned eligible_build" "versioned (EnqueueControllerBuild t i g r)"
  by (auto simp: versioned_def NextKernelBuild_def CorrectGoalBuild_def RearmBuild_def UpdateLastCheckBuild_def
      eligible_build_def EnqueueControllerBuild_def NextKernelPatch_def UpdateLastCheckPatch_def ClearPatch_def
      ClearRebootEligiblePatch_def AdmissionPatch_def annotationsPatch_def Let_def split: if_splits option.splits)

lemma next_kernel_moves:
  "NextKernelBuild v Q n = Apply p \<Longrightarrow> (\<And>ui. Q ui \<Longrightarrow> R ui) \<Longrightarrow> moves_goal R (Patched nm n p)"
  by (auto simp: NextKernelBuild_def moves_goal_def NextKernelPatch_def node_update_def split: if_splits)

lemma correct_moves:
  "CorrectGoalBuild b v n = Apply p \<Longrightarrow> moves_goal (\<lambda>ui. NextKernelPresent ui \<and> NextKernel ui = b) (Patched nm n p)"
  by (auto simp: CorrectGoalBuild_def moves_goal_def NextKernelPatch_def node_update_def Let_def split: if_splits)

lemma rearm_rearms: "RearmBuild n = Apply p \<Longrightarrow> rearms (Patched nm n p)"
  by (auto simp: RearmBuild_def rearms_def node_is_def state_is_def split: option.splits if_splits)

lemma marker_drops: "eligible_build n = Apply p \<Longrightarrow> drops_marker (Patched nm n p)"
  by (auto simp: eligible_build_def drops_marker_def split: if_splits)

lemma claim_claims: "UpdateLastCheckBuild occ n = Apply p \<Longrightarrow> claims (Patched nm n p)"
  by (auto simp: UpdateLastCheckBuild_def claims_def claim_covered_def split: option.splits if_splits intro!: exI [of _ occ])

lemma enqueue_enqueues: "EnqueueControllerBuild t i g r n = Apply p \<Longrightarrow> enqueues (Patched nm n p)"
  by (auto simp: EnqueueControllerBuild_def enqueues_def node_update_def Let_def split: if_splits)

text \<open>The values that stand for no version are the malformed ones.\<close>

lemma parse_err_of: "NextKernelParseErr (ParseUpdate a) = version_error (a AnnNextKernel)"
  by (simp add: ParseUpdate_def)

lemma malformed_free:
  assumes "\<not> versionRe b" "NextKernelPresent (node_update n)" "NextKernel (node_update n) = b"
  shows "free_goal (node_update n)"
  using assms by (auto simp: free_goal_def node_update_def ParseUpdate_def version_error_def lookup_or_def split: option.splits)

text \<open>The goals that staging may move: none, the version that runs, or a goal it has positive knowledge
  about: a version that is not running and not in the verified index.\<close>

definition unreachable_goal :: "node \<Rightarrow> check_result \<Rightarrow> string \<Rightarrow> bool" where
  "unreachable_goal nd res v \<longleftrightarrow>
     v = NextKernel (node_update nd) \<and> v \<noteq> RunningVersion (KernelVersion nd) \<and> \<not> indexHas res v (cr_Arch res)"

definition may_move :: "node \<Rightarrow> check_result \<Rightarrow> update_info \<Rightarrow> bool" where
  "may_move nd res ui \<longleftrightarrow>
     \<not> NextKernelPresent ui \<or> NextKernel ui = RunningVersion (KernelVersion nd) \<or> unreachable_goal nd res (NextKernel ui)"

definition stage_entry :: "node \<Rightarrow> check_result \<Rightarrow> log_entry \<Rightarrow> bool" where
  "stage_entry nd res e \<longleftrightarrow> rearms e \<or> moves_goal (may_move nd res) e"

lemma stage_update_entry: "stage_entry nd res e \<Longrightarrow> update_entry True e"
  by (auto simp: stage_entry_def update_entry_def ungated_def gated_def intro: moves_goal_any)

text \<open>With the window states of one instant.\<close>

definition cycle_update_log :: "config \<Rightarrow> log_entry list \<Rightarrow> bool" where
  "cycle_update_log fc es \<longleftrightarrow>
     (\<exists>now. update_log (WindowsOpen (UpdateWindows fc) (UpdateWindowGrace fc) now)
       (WindowsOpen (RebootWindows fc) (RebootWindowGrace fc) now) es)"

section \<open>The host\<close>

locale update_host = reliable_api_server "u_api env" V
  for env :: "'w update_env" and V :: "'w world_view" +
  assumes hooks_quiet: "quiet V (u_leader env)" "quiet V (u_now env)" "quiet V (u_wall env)" "quiet V (u_random env)"
      "quiet V (u_DeleteConfigMap env ns nm)"
    and release_quiet: "quiet V (rh_get (u_release env) url)" "quiet V (rh_exists (u_release env) url)"
      "quiet V (rh_read (u_release env) url)" "quiet V (rh_rewind (u_release env) url)"
    and store_quiet: "u_store env = Some st \<Longrightarrow> quiet V (bs_Versions st)" "u_store env = Some st \<Longrightarrow> quiet V (bs_Kernels st)"
      "u_store env = Some st \<Longrightarrow> quiet V (bs_Stage st req)" "u_store env = Some st \<Longrightarrow> quiet V (bs_EnsureBootGoal st v a)"
begin

lemmas calls_all [all_intros] =
  hooks_quiet [THEN all_quiet] store_quiet [THEN all_quiet] get_quiet [THEN all_quiet] list_quiet [THEN all_quiet]
  event_quiet [THEN all_quiet]

lemma http_quiet: "quiet V (httpGet (u_release env) url)"
  unfolding httpGet_def by (intro io_intros release_quiet) simp_all

lemma check_quiet: "quiet V (Check (u_release env) c e nd url fl)"
  unfolding Check_def fetch_index_def ResolveKeyring_def LoadKeyring_def Let_def
  by (auto intro!: io_intros http_quiet release_quiet quiet_return split: prod.splits option.splits)

lemma check_all [all_intros]: "emits_all V P (in_world (Check (u_release env) c e nd url fl))"
  by (rule all_quiet [OF check_quiet])

lemma all_or_fail [all_intros]: "emits_all V P m \<Longrightarrow> (\<And>x. emits_all V P (k x)) \<Longrightarrow> emits_all V P (or_fail m k)"
  unfolding or_fail_def by (intro all_intros)

lemma event_all [all_intros]: "emits_all V P (update_event env nm reason msg warn)"
  unfolding update_event_def by (intro all_intros)

lemma note_all [all_intros]:
  "emits_all V P (noteCheckError env nm b)" "emits_all V P (noteScanError nm b)" "emits_all V P (noteHeld env nm b)"
  "emits_all V P (noteMismatch env nm g r b)"
  unfolding noteCheckError_def noteScanError_def noteHeld_def noteMismatch_def by (intro all_intros)+

lemma flavor_all [all_intros]: "emits_all V P (flavorOf env)"
  unfolding flavorOf_def by (intro all_intros)

lemma goal_known_all [all_intros]: "emits_all V P (setGoalKnown v)"
  unfolding setGoalKnown_def by (intro all_intros)

lemma landed_all:
  assumes "versioned bld" "\<And>nm n p. bld n = Apply p \<Longrightarrow> P (Patched nm n p)"
  shows "emits_all V P (landed env nm bld)"
  unfolding landed_def by (intro all_intros transition_all) (simp_all add: assms)

text \<open>Clearing a completed reboot is always among what is allowed below.\<close>

lemma rearm_all: "(\<And>e. rearms e \<Longrightarrow> P e) \<Longrightarrow> emits_all V P (rearmIfCompleted env nm)"
  unfolding rearmIfCompleted_def by (rule landed_all [OF versioned_builds(3)]) (blast intro: rearm_rearms)

lemma safe_state_all:
  assumes "u_store env = Some st" "\<And>e. rearms e \<Longrightarrow> P e"
    and "\<And>e. moves_goal (\<lambda>ui. NextKernelPresent ui \<and> NextKernel ui = b) e \<Longrightarrow> P e"
  shows "emits_all V P (applySafeState env st nm b running arch)"
  unfolding applySafeState_def safeState_def
  by (intro all_intros landed_all versioned_builds rearm_all assms(1)) (blast intro: assms(2,3) correct_moves)+

lemma update_entry_rearms: "rearms e \<Longrightarrow> update_entry u e"
  by (simp add: update_entry_def ungated_def)

lemma bootstrap_all: "emits_all V (update_entry u) (bootstrap env nd)"
  unfolding bootstrap_def
  by (intro all_intros landed_all versioned_builds)
     (auto simp: update_entry_def ungated_def PrecondAbsent_def free_goal_def elim!: next_kernel_moves)

lemma reconcile_all: "emits_all V (update_entry u) (reconcileBootloader env nd b)"
proof -
  have f: "emits_all V (update_entry u) (reconcile_fresh env st nm known prev fresh)" if st: "u_store env = Some st" for st nm known prev fresh
  proof -
    let ?ui = "node_update fresh"
    have "moves_goal free_goal e"
      if "moves_goal (\<lambda>ui. NextKernelPresent ui \<and> NextKernel ui = NextKernel ?ui) e" "NextKernelParseErr ?ui \<noteq> []" for e
    proof -
      have "\<not> versionRe (NextKernel ?ui)"
        using that(2) by (auto simp: node_update_def ParseUpdate_def version_error_def lookup_or_def split: option.splits if_splits)
      then show ?thesis
        using that(1) malformed_free by (auto simp: moves_goal_def split: log_entry.splits)
    qed
    then show ?thesis
      unfolding reconcile_fresh_def apply_goal_def Let_def
      by (intro all_intros safe_state_all rearm_all st)
         (auto simp: update_entry_def ungated_def split: if_splits)
  qed
  show ?thesis unfolding reconcileBootloader_def Let_def by (intro all_intros f)
qed

text \<open>Staging.\<close>

lemma stage_rearms: "rearms e \<Longrightarrow> stage_entry nd res e"
  by (simp add: stage_entry_def)

lemma stage_one_all [all_intros]: "u_store env = Some st \<Longrightarrow> emits_all V P (stageOne env st nd fc res v)"
  unfolding stageOne_def by (intro all_intros)

lemma anchor_all: "emits_all V (stage_entry nd res) (anchor env nd v (RunningVersion (KernelVersion nd)))"
  unfolding anchor_def
  unfolding stage_entry_def
  by (rule landed_all [OF versioned_builds(1)], rule disjI2, erule next_kernel_moves)
     (auto simp: may_move_def PrecondQuiescent_def)

lemma restage_all: "u_store env = Some st \<Longrightarrow> emits_all V (stage_entry nd res) (restage env st nd fc res v)"
  unfolding restage_def by (intro all_intros rearm_all) (auto intro: stage_rearms)

lemma adopt_all:
  "u_store env = Some st \<Longrightarrow> emits_all V (stage_entry nd res) (adopt env st nd res (RunningVersion (KernelVersion nd)) d)"
  unfolding adopt_def by (intro all_intros rearm_all anchor_all) (auto intro: stage_rearms)

lemma newest_all:
  "u_store env = Some st \<Longrightarrow>
   emits_all V (stage_entry nd res) (stage_newest env st nd fc res ui (RunningVersion (KernelVersion nd)) localSet d)"
  unfolding stage_newest_def reconverge_def by (intro all_intros rearm_all anchor_all) (auto intro: stage_rearms)

lemma stage_steps_all:
  assumes st: "u_store env = Some st"
  shows "emits_all V (stage_entry nd res) (stage_steps env st nd fc res localSet)"
proof -
  let ?ui = "node_update nd"
  have "stage_entry nd res e"
    if "moves_goal (\<lambda>ui. NextKernelPresent ui \<and> NextKernel ui = NextKernel ?ui) e"
      "goal_missing ?ui (RunningVersion (KernelVersion nd)) localSet \<and> \<not> indexHas res (NextKernel ?ui) (cr_Arch res)" for e
    unfolding stage_entry_def
    by (rule disjI2, rule free_moves_any [OF that(1)])
       (use that(2) in \<open>auto simp: may_move_def unreachable_goal_def goal_missing_def\<close>)
  then show ?thesis
    unfolding stage_steps_def Let_def
    by (intro all_intros safe_state_all restage_all adopt_all newest_all st) (auto intro: stage_rearms)
qed

lemma stage_all: "emits_all V (stage_entry nd res) (maybeStage env nd fc res)"
  unfolding maybeStage_def by (intro all_intros stage_steps_all)

text \<open>The cycle of the pod.\<close>

lemma claim_all: "emits_all V (update_entry True) (claimCheck env nd occ)"
  unfolding claimCheck_def
  by (intro all_intros landed_all versioned_builds) (auto simp: update_entry_def gated_def intro: claim_claims)

lemma do_check_all [all_intros]: "emits_all V P (doCheck env nd fc fl)"
  unfolding doCheck_def Let_def by (intro all_intros)

lemma work_all:
  "emits_all V (update_entry (WindowsOpen (UpdateWindows fc) (UpdateWindowGrace fc) now)) (update_work env fc now fl nd d)"
proof (cases "WindowsOpen (UpdateWindows fc) (UpdateWindowGrace fc) now")
  case True
  have "emits_all V (update_entry True) (maybeStage env n fc res)" for n res
    by (rule all_mono [OF stage_all]) (rule stage_update_entry)
  then show ?thesis unfolding update_work_def if_P [OF True] using True by (auto intro!: all_intros claim_all)
next
  case False
  then show ?thesis unfolding update_work_def logWindowSkip_def by (auto intro!: all_intros)
qed

lemma reread_all [all_intros]: "emits_all V P (reread env)"
  unfolding reread_def by (intro all_intros)

lemma request_id_all [all_intros]: "emits_all V P (newControllerRequestID env now)"
  unfolding newControllerRequestID_def by (intro all_intros)

lemma then_log:
  assumes "emits_all V (update_entry u) m" "\<And>x. emits V (\<lambda>_. update_log u r) (k x)"
  shows "emits V (\<lambda>_. update_log u r) (State_Monad.bind m k)"
  by (rule emits_bind [OF assms]) (rule update_log_cons)

lemma log_skip: "emits V (\<lambda>_. update_log u r) (State_Monad.return x)"
  by (simp add: emits_return)

lemma log_option:
  "(x = None \<Longrightarrow> emits V (\<lambda>_. update_log u r) m) \<Longrightarrow> (\<And>y. x = Some y \<Longrightarrow> emits V (\<lambda>_. update_log u r) (g y)) \<Longrightarrow>
   emits V (\<lambda>_. update_log u r) (case x of None \<Rightarrow> m | Some y \<Rightarrow> g y)"
  by (cases x) auto

lemma log_sum:
  "(\<And>y. x = Inl y \<Longrightarrow> emits V (\<lambda>_. update_log u r) (g y)) \<Longrightarrow> (\<And>y. x = Inr y \<Longrightarrow> emits V (\<lambda>_. update_log u r) (h y)) \<Longrightarrow>
   emits V (\<lambda>_. update_log u r) (case x of Inl y \<Rightarrow> g y | Inr y \<Rightarrow> h y)"
  by (cases x) auto

lemma log_only: "emits_all V (\<lambda>_. False) m \<Longrightarrow> emits V (\<lambda>_. update_log u r) m"
  by (erule emits_weaken) (auto simp: list_all_iff update_log_def)

lemma enqueue_log: "emits V (\<lambda>_. update_log u True) (landed env nm (EnqueueControllerBuild t i g run))"
proof -
  have "emits V (\<lambda>_. update_log u True) (in_world (PatchTransition (u_api env) nm 3 (EnqueueControllerBuild t i g run)))"
    by (rule emits_weaken [OF transition_emits [OF versioned_builds(6)]])
       (auto simp: transition_entries_def intro: update_log_enqueue enqueue_enqueues split: option.splits)
  then show ?thesis
    unfolding landed_def by (rule emits_bind [where T = "\<lambda>_ _ es. es = []"]) (simp_all add: emits_return)
qed

lemma maybe_enqueue_log:
  "emits V (\<lambda>_. update_log u (WindowsOpen (RebootWindows fc) (RebootWindowGrace fc) now)) (maybeEnqueue env nd fc now)"
proof -
  let ?r = "WindowsOpen (RebootWindows fc) (RebootWindowGrace fc) now"
  have q: "emits V (\<lambda>_. update_log u ?r) (enqueue_goal env st nd now arch)" if "u_store env = Some st" ?r for st arch
  proof -
    have e: "emits V (\<lambda>_. update_log u True)
       (State_Monad.bind (landed env nm (EnqueueControllerBuild now i g run)) (\<lambda>_. skip))" for nm i g run
      by (rule emits_bind [OF enqueue_log, where T = "\<lambda>_ _ es. es = []"]) (simp_all add: emits_return)
    show ?thesis
      using that(2) unfolding enqueue_goal_def Let_def
      by (simp, intro then_log log_sum log_skip e all_intros that(1))
  qed
  have h: "emits V (\<lambda>_. update_log u ?r) (noteHeld env nm b)" for nm b
    by (intro log_only all_intros)
  show ?thesis
    unfolding maybeEnqueue_def Let_def
    by (intro emits_if then_log log_option log_skip h q all_intros) simp_all
qed

lemma local_work_log:
  "emits V (\<lambda>_. update_log (WindowsOpen (UpdateWindows fc) (UpdateWindowGrace fc) now)
     (WindowsOpen (RebootWindows fc) (RebootWindowGrace fc) now)) (local_work env fc now nd)"
  unfolding local_work_def Let_def
  by (intro then_log log_option log_skip bootstrap_all reconcile_all work_all maybe_enqueue_log all_intros)

lemma run_local_log: "emits V (\<lambda>_. cycle_update_log fc) (RunLocal env fc)"
proof -
  have m: "emits_all V (update_entry False) (cleanLeftoverEligible env)"
    unfolding cleanLeftoverEligible_def
    by (intro all_intros landed_all versioned_builds) (auto simp: update_entry_def ungated_def intro: marker_drops)
  have "list_all (update_entry False) as \<Longrightarrow> list_all (update_entry u) as" for as u
    by (auto simp: list_all_iff update_entry_def)
  then have c: "list_all (update_entry False) as \<Longrightarrow> cycle_update_log fc es \<Longrightarrow> cycle_update_log fc (as @ es)" for as es
    unfolding cycle_update_log_def by (blast intro: update_log_cons)
  have b: "emits V (\<lambda>_. cycle_update_log fc) (State_Monad.bind m k)"
    if "emits_all V (update_entry False) m" "\<And>x. emits V (\<lambda>_. cycle_update_log fc) (k x)"
    for m :: "('w, 'b) uhandler" and k :: "'b \<Rightarrow> ('w, 'c) uhandler"
    by (rule emits_bind [OF that]) (rule c)
  have r: "emits V (\<lambda>_. cycle_update_log fc) (State_Monad.return x)" for x :: outcome
    by (simp add: emits_return cycle_update_log_def)
  have w: "emits V (\<lambda>_. cycle_update_log fc) (State_Monad.bind (local_work env fc now nd) (\<lambda>_. State_Monad.return Finished))"
    for now nd
    by (rule emits_bind [OF local_work_log, where T = "\<lambda>_ _ es. es = []"])
       (auto simp: emits_return cycle_update_log_def)
  have s: "emits V (\<lambda>_. cycle_update_log fc) (case x of Inl y \<Rightarrow> g y | Inr y \<Rightarrow> h y)"
    if "\<And>y. x = Inl y \<Longrightarrow> emits V (\<lambda>_. cycle_update_log fc) (g y)" "\<And>y. x = Inr y \<Longrightarrow> emits V (\<lambda>_. cycle_update_log fc) (h y)"
    for x and g :: "'b \<Rightarrow> ('w, outcome) uhandler" and h :: "'c \<Rightarrow> ('w, outcome) uhandler"
    using that by (cases x) auto
  show ?thesis unfolding RunLocal_def by (intro b s r w m all_intros)
qed

lemma leader_quiet: "emits_all V P (update_Run env fc)"
  unfolding update_Run_def cleanLeftoverPlans_def verifyNodes_def verify_node_def Let_def by (intro all_intros)

end

end
