(* ===== verification/Boot_Store.thy ===== *)
theory Boot_Store
  imports Staging
begin

text \<open>
  The physical boot store (bootstore.go, the lock of localcli.go): discovery of the boot device, the
  mounted session, and the four operations the update feature uses. A host has symbolic links
  below \<open>/dev\<close>, the output of blkid, and a partition behind every device; a mount may fail.
\<close>

section \<open>Device names\<close>

text \<open>\<open>filepath.Clean\<close>.\<close>

fun clean_parts :: "bool \<Rightarrow> string list \<Rightarrow> string list \<Rightarrow> string list" where
  "clean_parts rooted acc [] = rev acc"
| "clean_parts rooted acc (p # ps) =
     (if p = [] \<or> p = ''.'' then clean_parts rooted acc ps
      else if p = ''..'' then
        (case acc of
           [] \<Rightarrow> if rooted then clean_parts rooted [] ps else clean_parts rooted [p] ps
         | a # as \<Rightarrow> if a = ''..'' then clean_parts rooted (p # acc) ps else clean_parts rooted as ps)
      else clean_parts rooted (p # acc) ps)"

definition filepath_clean :: "string \<Rightarrow> string" where
  "filepath_clean p =
     (let rooted = (p \<noteq> [] \<and> hd p = CHR ''/'');
          body = join_with ''/'' (clean_parts rooted [] (split_on CHR ''/'' p))
      in if rooted then CHR ''/'' # body else if body = [] then ''.'' else body)"

text \<open>One record of blkid's export format.\<close>

record blkid_record =
  br_dev :: string
  br_part :: string
  br_label :: string

definition no_record :: blkid_record where
  "no_record = \<lparr> br_dev = [], br_part = [], br_label = [] \<rparr>"

definition flush_record :: "blkid_record list \<times> blkid_record \<Rightarrow> blkid_record list \<times> blkid_record" where
  "flush_record st = (case st of (recs, cur) \<Rightarrow> (if br_dev cur \<noteq> [] then recs @ [cur] else recs, no_record))"

definition blkid_line :: "blkid_record list \<times> blkid_record \<Rightarrow> string \<Rightarrow> blkid_record list \<times> blkid_record" where
  "blkid_line st raw =
     (let line = trim_space raw; (k, v) = cut_at CHR ''='' line; v = trim_char CHR 0x22 v; cur = snd st
      in if line = [] then flush_record st
         else if CHR ''='' \<notin> set line then st
         else if k = ''DEVNAME'' then (fst (flush_record st), no_record\<lparr>br_dev := v\<rparr>)
         else if k = ''PARTLABEL'' then (fst st, if br_dev cur \<noteq> [] then cur\<lparr>br_part := v\<rparr> else cur)
         else if k = ''LABEL'' then (fst st, if br_dev cur \<noteq> [] then cur\<lparr>br_label := v\<rparr> else cur)
         else st)"

definition parseBlkidCandidates :: "string \<Rightarrow> string list" where
  "parseBlkidCandidates out =
     (let recs = fst (flush_record (foldl blkid_line ([], no_record) (split_on newline out)))
      in map br_dev (List.filter (\<lambda>r. br_part r = ''boot'') recs)
         @ map br_dev (List.filter (\<lambda>r. br_part r \<noteq> ''boot'' \<and> br_label r = ''EFI'') recs)
         @ map br_dev (List.filter (\<lambda>r. br_part r \<noteq> ''boot'' \<and> br_label r = ''boot'') recs))"

text \<open>The older scan: the first device with one of the two labels.\<close>

definition blkid_label_line :: "string \<times> string \<times> string \<Rightarrow> string \<Rightarrow> string \<times> string \<times> string" where
  "blkid_label_line st raw =
     (case st of (cur, efi, boot) \<Rightarrow>
        let line = trim_space raw; (k, v) = cut_at CHR ''='' line; v = trim_char CHR 0x22 v
        in if CHR ''='' \<notin> set line then st
           else if k = ''DEVNAME'' then (v, efi, boot)
           else if k = ''LABEL'' \<and> cur \<noteq> [] then
             (cur, (if v = ''EFI'' \<and> efi = [] then cur else efi), (if v = ''boot'' \<and> boot = [] then cur else boot))
           else st)"

definition parseBlkid :: "string \<Rightarrow> string option" where
  "parseBlkid out =
     (case foldl blkid_label_line ([], [], []) (split_on newline out) of (_, efi, boot) \<Rightarrow>
        if efi \<noteq> [] then Some efi else if boot \<noteq> [] then Some boot else None)"

section \<open>The host\<close>

datatype file_lock = Unlocked | LockedShared | LockedExcl

text \<open>\<open>bh_lock\<close>: what other processes hold. \<open>bh_mounts\<close>: the outcome of the next mounts, success
  when used up. \<open>bh_cache\<close>: the verified device of this process.\<close>

record boot_host =
  bh_links :: "(string \<times> string) list"
  bh_blkid :: "string option"
  bh_parts :: "(string \<times> boot_fs) list"
  bh_mounts :: "bool list"
  bh_cache :: "string option"
  bh_lock :: file_lock

record store_config =
  sc_devRoot :: string
  sc_kernelDir :: string
  sc_env :: boot_env

type_synonym 'a host_op = "(boot_host, 'a) state"

definition canonicalKey :: "(string \<times> string) list \<Rightarrow> string \<Rightarrow> string" where
  "canonicalKey links p =
     (case map_of links p of
        None \<Rightarrow> filepath_clean p
      | Some target \<Rightarrow>
          if target \<noteq> [] \<and> hd target = CHR ''/'' then filepath_clean target
          else filepath_clean (dir_of p @ ''/'' @ target))"

fun add_devices :: "(string \<times> string) list \<Rightarrow> string list \<Rightarrow> string list \<Rightarrow> string list" where
  "add_devices links out [] = out"
| "add_devices links out (dev # devs) =
     (if dev = [] \<or> canonicalKey links dev \<in> set (map (canonicalKey links) out) then add_devices links out devs
      else add_devices links (out @ [dev]) devs)"

definition labelled_links :: "store_config \<Rightarrow> boot_host \<Rightarrow> string list" where
  "labelled_links sc h =
     List.filter (\<lambda>p. map_of (bh_links h) p \<noteq> None)
       [sc_devRoot sc @ ''/disk/by-partlabel/boot'', sc_devRoot sc @ ''/disk/by-label/EFI'', sc_devRoot sc @ ''/disk/by-label/boot'']"

definition candidates :: "store_config \<Rightarrow> boot_host \<Rightarrow> boot_error + string list" where
  "candidates sc h =
     (let out = add_devices (bh_links h) [] (labelled_links sc h)
      in case bh_blkid h of
           None \<Rightarrow> if out \<noteq> [] then Inr out else Inl NoBootDevice
         | Some blkout \<Rightarrow>
             (let out' = add_devices (bh_links h) out (parseBlkidCandidates blkout)
              in if out' = [] then Inl NoBootDevice else Inr out'))"

text \<open>A session on the partition behind a device; a mount follows the link.\<close>

definition mountDevice :: "string \<Rightarrow> (boot_error + 'a) fs_op \<Rightarrow> (boot_error + 'a) option host_op" where
  "mountDevice dev session = State (\<lambda>h.
     let ok = (case bh_mounts h of [] \<Rightarrow> True | m # _ \<Rightarrow> m); h' = h\<lparr>bh_mounts := tl (bh_mounts h)\<rparr>;
         key = canonicalKey (bh_links h) dev
     in case map_of (bh_parts h) key of
          None \<Rightarrow> (None, h')
        | Some fs \<Rightarrow>
            if \<not> ok then (None, h')
            else (case run_state session fs of (r, fs') \<Rightarrow>
                    (Some r, h'\<lparr>bh_parts := AList.update key fs' (bh_parts h)\<rparr>)))"

definition verify_session :: "string \<Rightarrow> (boot_error + unit) fs_op" where
  "verify_session kernelDir = do {
     d \<leftarrow> is_dir kernelDir;
     if \<not> d then State_Monad.return (Inl NoBootDevice)
     else or_fail DetectBootloader (\<lambda>_. State_Monad.return (Inr ())) }"

definition verifyCandidate :: "store_config \<Rightarrow> string \<Rightarrow> bool host_op" where
  "verifyCandidate sc dev = do {
     r \<leftarrow> mountDevice dev (verify_session (sc_kernelDir sc));
     State_Monad.return (r = Some (Inr ())) }"

definition findBootDevice :: "store_config \<Rightarrow> (boot_error + string) host_op" where
  "findBootDevice sc = do {
     h \<leftarrow> State_Monad.get;
     case bh_cache h of
       Some dev \<Rightarrow> State_Monad.return (Inr dev)
     | None \<Rightarrow>
         (case candidates sc h of
            Inl e \<Rightarrow> State_Monad.return (Inl e)
          | Inr cands \<Rightarrow> do {
              verified \<leftarrow> filter_op (verifyCandidate sc) cands;
              case verified of
                [] \<Rightarrow> State_Monad.return (Inl NoBootDevice)
              | dev # _ \<Rightarrow> State (\<lambda>h. (Inr dev, h\<lparr>bh_cache := Some dev\<rparr>)) }) }"

definition invalidate :: "unit host_op" where
  "invalidate = State (\<lambda>h. ((), h\<lparr>bh_cache := None\<rparr>))"

definition mountedBoot :: "store_config \<Rightarrow> (boot_error + 'a) fs_op \<Rightarrow> (boot_error + 'a) host_op" where
  "mountedBoot sc session =
     or_fail (findBootDevice sc) (\<lambda>dev. do {
       m \<leftarrow> mountDevice dev session;
       case m of
         Some r \<Rightarrow> State_Monad.return r
       | None \<Rightarrow> do {
           _ \<leftarrow> invalidate;
           or_fail (findBootDevice sc) (\<lambda>dev'. do {
             m' \<leftarrow> mountDevice dev' session;
             State_Monad.return (case m' of Some r \<Rightarrow> r | None \<Rightarrow> Inl MountFailed) }) } })"

section \<open>The operations of the store\<close>

definition Versions :: "store_config \<Rightarrow> (boot_error + string list) host_op" where
  "Versions sc = mountedBoot sc (listPartitionVersions (sc_kernelDir sc))"

definition Kernels :: "store_config \<Rightarrow> (boot_error + string list) host_op" where
  "Kernels sc = mountedBoot sc (ListPartitionKernels (sc_kernelDir sc))"

text \<open>\<open>LockFile\<close> does not block.\<close>

definition LockExcl :: "(boot_error + unit) host_op" where
  "LockExcl = do {
     h \<leftarrow> State_Monad.get;
     State_Monad.return (if bh_lock h = Unlocked then Inr () else Inl BootBusy) }"

definition LockShared :: "(boot_error + unit) host_op" where
  "LockShared = do {
     h \<leftarrow> State_Monad.get;
     State_Monad.return (if bh_lock h = LockedExcl then Inl BootBusy else Inr ()) }"

definition Stage :: "store_config \<Rightarrow> stage_request \<Rightarrow> (boot_error + unit) host_op" where
  "Stage sc req =
     or_fail LockExcl (\<lambda>_.
       mountedBoot sc (or_fail temp_io (\<lambda>_. stagePartition (sc_env sc) req (sc_kernelDir sc))))"

definition goal_session :: "string \<Rightarrow> string \<Rightarrow> string \<Rightarrow> (boot_error + bool) fs_op" where
  "goal_session kernelDir version arch =
     (let stored = kernelStoredName version arch; want = ''/'' @ kernelDir @ ''/'' @ stored
      in do {
        present \<leftarrow> fileExists (kernelDir @ ''/'' @ stored);
        if \<not> present then State_Monad.return (Inl GoalAbsent)
        else do {
          cur \<leftarrow> GetBootloaderDefault BootAuto;
          if cur = want then State_Monad.return (Inr False)
          else or_fail (SetBootloaderDefault BootAuto want) (\<lambda>_. State_Monad.return (Inr True)) } })"

definition EnsureBootGoal :: "store_config \<Rightarrow> string \<Rightarrow> string \<Rightarrow> (boot_error + bool) host_op" where
  "EnsureBootGoal sc version arch =
     or_fail LockExcl (\<lambda>_. mountedBoot sc (goal_session (sc_kernelDir sc) version arch))"

section \<open>Only a verified boot partition is written\<close>

definition bootable :: "string \<Rightarrow> boot_fs \<Rightarrow> bool" where
  "bootable dir fs \<longleftrightarrow> dir \<in> set (bf_dirs fs) \<and> (\<exists>p\<in>config_files. file_at fs p \<noteq> None \<or> p \<in> set (bf_dirs fs))"

definition part :: "boot_host \<Rightarrow> string \<Rightarrow> boot_fs option" where
  "part h k = map_of (bh_parts h) k"

definition bootable_device :: "string \<Rightarrow> boot_host \<Rightarrow> string \<Rightarrow> bool" where
  "bootable_device dir h dev \<longleftrightarrow> (\<exists>fs. part h (canonicalKey (bh_links h) dev) = Some fs \<and> bootable dir fs)"

text \<open>A cached device is a boot partition.\<close>

definition cache_ok :: "string \<Rightarrow> boot_host \<Rightarrow> bool" where
  "cache_ok dir h \<longleftrightarrow> (\<forall>dev. bh_cache h = Some dev \<longrightarrow> bootable_device dir h dev)"

definition same_files :: "boot_fs \<Rightarrow> boot_fs \<Rightarrow> bool" where
  "same_files fs fs' \<longleftrightarrow> bf_files fs' = bf_files fs \<and> bf_dirs fs' = bf_dirs fs"

text \<open>Boot partitions stay boot partitions, and nothing is changed on the others.\<close>

definition fail_closed :: "string \<Rightarrow> boot_host \<Rightarrow> boot_host \<Rightarrow> bool" where
  "fail_closed dir h h' \<longleftrightarrow> bh_links h' = bh_links h \<and>
     (\<forall>k fs. part h k = Some fs \<longrightarrow> (\<exists>fs'. part h' k = Some fs' \<and> (if bootable dir fs then bootable dir fs' else same_files fs fs')))"

lemma fail_closed_refl [simp]: "fail_closed dir h h"
  by (simp add: fail_closed_def same_files_def)

lemma same_files_bootable: "same_files fs fs' \<Longrightarrow> bootable dir fs' = bootable dir fs"
  by (simp add: same_files_def bootable_def file_at_def)

lemma fail_closedD:
  "fail_closed dir h h' \<Longrightarrow> part h k = Some fs \<Longrightarrow>
   \<exists>fs'. part h' k = Some fs' \<and> (bootable dir fs \<longrightarrow> bootable dir fs') \<and> (\<not> bootable dir fs \<longrightarrow> same_files fs fs')"
  unfolding fail_closed_def by (metis (full_types))

lemma fail_closed_trans:
  assumes "fail_closed dir h h1" "fail_closed dir h1 h2"
  shows "fail_closed dir h h2"
  unfolding fail_closed_def
proof (intro conjI allI impI)
  show "bh_links h2 = bh_links h" using assms by (simp add: fail_closed_def)
  fix k fs assume "part h k = Some fs"
  from fail_closedD [OF assms(1) this] obtain fs1 where 1: "part h1 k = Some fs1"
    "bootable dir fs \<longrightarrow> bootable dir fs1" "\<not> bootable dir fs \<longrightarrow> same_files fs fs1" by blast
  from fail_closedD [OF assms(2) 1(1)] obtain fs2 where 2: "part h2 k = Some fs2"
    "bootable dir fs1 \<longrightarrow> bootable dir fs2" "\<not> bootable dir fs1 \<longrightarrow> same_files fs1 fs2" by blast
  show "\<exists>fs'. part h2 k = Some fs' \<and> (if bootable dir fs then bootable dir fs' else same_files fs fs')"
    using 1 2 same_files_bootable [of fs fs1 dir] by (auto simp: same_files_def)
qed

lemma bootable_device_mono: "fail_closed dir h h' \<Longrightarrow> bootable_device dir h dev \<Longrightarrow> bootable_device dir h' dev"
  using fail_closedD [of dir h h' "canonicalKey (bh_links h) dev"] by (auto simp: bootable_device_def fail_closed_def)

lemma changes_bootable: "changes S fs fs' \<Longrightarrow> bootable dir fs \<Longrightarrow> bootable dir fs'"
  unfolding changes_def bootable_def by blast

lemma same_look: "keeps same_files (fs_look g)"
  unfolding keeps_def by (auto simp: fs_look_def next_io_def same_files_def split: list.splits)

lemma same_files_order: "reflp same_files" "transp same_files"
  by (auto simp: reflp_def transp_def same_files_def)

lemma same_exists: "keeps same_files (fileExists p)" "keeps same_files (is_dir p)"
  unfolding fileExists_def is_dir_def by (intro io_intros same_look same_files_order)+

lemma same_detect: "keeps same_files DetectBootloader"
  unfolding DetectBootloader_def
  by (auto intro!: keeps_bind keeps_return same_exists same_files_order)

lemma same_verify: "keeps same_files (verify_session dir)"
  unfolding verify_session_def
  by (auto intro!: keeps_bind keeps_return keeps_or_fail same_exists same_detect same_files_order)

lemma exists_true:
  assumes "run_state (fileExists p) fs = (True, fs')"
  shows "file_at fs p \<noteq> None \<or> p \<in> set (bf_dirs fs)"
  using assms unfolding fileExists_def
  by (auto split: prod.splits sum.splits if_splits dest!: fs_look_run)

lemma detect_success:
  assumes "run_state DetectBootloader fs = (Inr bt, fs')"
  shows "\<exists>p\<in>config_files. file_at fs p \<noteq> None \<or> p \<in> set (bf_dirs fs)"
proof -
  obtain g s1 where g: "run_state (fileExists grubConfigRel) fs = (g, s1)" by fastforce
  obtain y s2 where y: "run_state (fileExists syslinuxConfigRel) s1 = (y, s2)" by fastforce
  obtain r s3 where r: "run_state (fileExists rpiConfigRel) s2 = (r, s3)" by fastforce
  have s: "same_files fs s1" "same_files s1 s2" using keepsD [OF same_exists(1)] g y by blast+
  have "g \<or> y \<or> r" using assms g y r by (auto simp: DetectBootloader_def split: if_splits)
  then show ?thesis
    using exists_true [of grubConfigRel fs s1] exists_true [of syslinuxConfigRel s1 s2] exists_true [of rpiConfigRel s2 s3] g y r s
    by (auto simp: config_files_def same_files_def file_at_def)
qed

lemma verify_bootable:
  assumes "run_state (verify_session dir) fs = (Inr (), fs')"
  shows "bootable dir fs"
proof -
  obtain d s1 where d: "run_state (is_dir dir) fs = (d, s1)" by fastforce
  then have "same_files fs s1" using keepsD [OF same_exists(2)] by blast
  moreover have "d" using assms d by (auto simp: verify_session_def split: if_splits)
  moreover have "\<exists>bt s2. run_state DetectBootloader s1 = (Inr bt, s2)"
    using assms d \<open>d\<close> by (auto simp: verify_session_def elim!: or_fail_success)
  ultimately show ?thesis
    using detect_success [of s1] d unfolding is_dir_def bootable_def same_files_def file_at_def
    by (auto split: prod.splits sum.splits if_splits dest!: fs_look_run)
qed

lemma run_mount:
  assumes "run_state (mountDevice dev session) h = (r, h')"
  shows "(r = None \<and> bh_parts h' = bh_parts h \<or>
      (\<exists>fs x fs'. part h (canonicalKey (bh_links h) dev) = Some fs \<and> run_state session fs = (x, fs') \<and> r = Some x \<and>
         bh_parts h' = AList.update (canonicalKey (bh_links h) dev) fs' (bh_parts h))) \<and>
    bh_links h' = bh_links h \<and> bh_cache h' = bh_cache h"
  using assms by (auto simp: mountDevice_def part_def Let_def split: option.splits prod.splits if_splits)

text \<open>A session on a boot partition that keeps its configuration, or one that only looks.\<close>

lemma mount_fail_closed:
  assumes run: "run_state (mountDevice dev session) h = (r, h')"
    and s: "only S session" "bootable_device dir h dev \<or> keeps same_files session"
  shows "fail_closed dir h h'"
proof -
  let ?k = "canonicalKey (bh_links h) dev"
  from run_mount [OF run] consider "bh_parts h' = bh_parts h" "bh_links h' = bh_links h"
    | fs x fs' where "part h ?k = Some fs" "run_state session fs = (x, fs')"
      "bh_parts h' = AList.update ?k fs' (bh_parts h)" "bh_links h' = bh_links h" by blast
  then show ?thesis
  proof cases
    case 1
    then show ?thesis by (simp add: fail_closed_def part_def same_files_def)
  next
    case 2
    have "if bootable dir fs then bootable dir fs' else same_files fs fs'"
      using 2(1,2) s keepsD [OF s(1) 2(2)] keepsD [of same_files session fs x fs'] changes_bootable
      by (auto simp: bootable_device_def)
    then show ?thesis using 2 by (auto simp: fail_closed_def part_def update_conv' same_files_def)
  qed
qed

lemma cache_ok_mono:
  assumes "fail_closed dir h h'" "bh_cache h' = bh_cache h \<or> bh_cache h' = None" "cache_ok dir h"
  shows "cache_ok dir h'"
  using assms bootable_device_mono [OF assms(1)] by (auto simp: cache_ok_def)

lemma verify_candidate:
  assumes "run_state (verifyCandidate sc dev) h = (b, h')"
  shows "fail_closed (sc_kernelDir sc) h h' \<and> bh_cache h' = bh_cache h \<and> (b \<longrightarrow> bootable_device (sc_kernelDir sc) h' dev)"
proof -
  let ?s = "verify_session (sc_kernelDir sc)"
  obtain r where m: "run_state (mountDevice dev ?s) h = (r, h')" and b: "b = (r = Some (Inr ()))"
    using assms by (auto simp: verifyCandidate_def split: prod.splits)
  have o: "only {} ?s" unfolding verify_session_def by (auto intro!: io_intros)
  have f: "fail_closed (sc_kernelDir sc) h h'" using mount_fail_closed [OF m o] same_verify by blast
  moreover have "bootable_device (sc_kernelDir sc) h dev" if "b"
    using run_mount [OF m] b that verify_bootable by (auto simp: bootable_device_def)
  ultimately show ?thesis using run_mount [OF m] bootable_device_mono by blast
qed

lemma verify_all:
  assumes "run_state (filter_op (verifyCandidate sc) devs) h = (vs, h')"
  shows "fail_closed (sc_kernelDir sc) h h' \<and> bh_cache h' = bh_cache h \<and> (\<forall>d\<in>set vs. bootable_device (sc_kernelDir sc) h' d)"
  using assms
proof (induction devs arbitrary: h vs)
  case (Cons d devs)
  obtain b h1 where v: "run_state (verifyCandidate sc d) h = (b, h1)" by fastforce
  obtain ws where r: "run_state (filter_op (verifyCandidate sc) devs) h1 = (ws, h')" and vs: "vs = (if b then d # ws else ws)"
    using Cons.prems v by (auto split: prod.splits)
  note 1 = verify_candidate [OF v] and 2 = Cons.IH [OF r]
  have "fail_closed (sc_kernelDir sc) h h'" "bh_cache h' = bh_cache h"
    using 1 2 fail_closed_trans by auto
  moreover have "\<forall>d\<in>set vs. bootable_device (sc_kernelDir sc) h' d"
    using 1 2 vs bootable_device_mono [of "sc_kernelDir sc" h1 h'] by auto
  ultimately show ?case by blast
qed simp

lemma find_device:
  assumes "run_state (findBootDevice sc) h = (r, h')" "cache_ok (sc_kernelDir sc) h"
  shows "fail_closed (sc_kernelDir sc) h h' \<and> cache_ok (sc_kernelDir sc) h' \<and>
    (\<forall>dev. r = Inr dev \<longrightarrow> bootable_device (sc_kernelDir sc) h' dev)"
proof (cases "bh_cache h")
  case (Some dev)
  then show ?thesis using assms by (auto simp: findBootDevice_def cache_ok_def)
next
  case None
  show ?thesis
  proof (cases "candidates sc h")
    case (Inl e)
    then show ?thesis using assms None by (auto simp: findBootDevice_def)
  next
    case (Inr cands)
    obtain vs h1 where v: "run_state (filter_op (verifyCandidate sc) cands) h = (vs, h1)" by fastforce
    note 1 = verify_all [OF v]
    show ?thesis
    proof (cases vs)
      case Nil
      then show ?thesis using assms 1 None Inr v cache_ok_mono [of _ h h1] by (auto simp: findBootDevice_def)
    next
      case (Cons dev rest)
      then have e: "r = Inr dev" "h' = h1\<lparr>bh_cache := Some dev\<rparr>"
        using assms None Inr v by (auto simp: findBootDevice_def)
      have "bootable_device (sc_kernelDir sc) h' dev"
        using 1 Cons by (simp add: e bootable_device_def part_def)
      moreover have "fail_closed (sc_kernelDir sc) h h'" using 1 by (simp add: e fail_closed_def part_def)
      ultimately show ?thesis using e by (auto simp: cache_ok_def)
    qed
  qed
qed

lemma mounted_boot:
  assumes run: "run_state (mountedBoot sc session) h = (r, h')" "cache_ok (sc_kernelDir sc) h" and o: "only S session"
  shows "fail_closed (sc_kernelDir sc) h h' \<and> cache_ok (sc_kernelDir sc) h'"
proof -
  let ?d = "sc_kernelDir sc"
  have step: "fail_closed ?d g g' \<and> cache_ok ?d g' \<and> bh_cache g' = bh_cache g"
    if "run_state (mountDevice dev session) g = (m, g')" "bootable_device ?d g dev" "cache_ok ?d g" for dev g m g'
    using mount_fail_closed [OF that(1) o] that cache_ok_mono [of ?d g g'] run_mount [OF that(1)] by blast
  obtain f h1 where f: "run_state (findBootDevice sc) h = (f, h1)" by fastforce
  note 1 = find_device [OF f run(2)]
  show ?thesis
  proof (cases f)
    case (Inl e)
    then show ?thesis using run f 1 by (auto simp: mountedBoot_def run_or_fail)
  next
    case (Inr dev)
    obtain m h2 where m: "run_state (mountDevice dev session) h1 = (m, h2)" by fastforce
    have 2: "fail_closed ?d h h2" "cache_ok ?d h2" using step [OF m] 1 Inr fail_closed_trans by blast+
    show ?thesis
    proof (cases m)
      case (Some x)
      then show ?thesis using run f Inr m 2 by (auto simp: mountedBoot_def run_or_fail)
    next
      case None
      let ?h3 = "h2\<lparr>bh_cache := None\<rparr>"
      have 3: "fail_closed ?d h ?h3" "cache_ok ?d ?h3" using 2(1) by (auto simp: fail_closed_def part_def cache_ok_def)
      obtain f' h4 where f': "run_state (findBootDevice sc) ?h3 = (f', h4)" by fastforce
      note 4 = find_device [OF f' 3(2)]
      show ?thesis
      proof (cases f')
        case (Inl e)
        then have "h' = h4" using run f Inr m None f' by (auto simp: mountedBoot_def run_or_fail invalidate_def)
        then show ?thesis using fail_closed_trans [OF 3(1)] 4 by simp
      next
        fix dev' assume d: "f' = Inr dev'"
        obtain m' h5 where m': "run_state (mountDevice dev' session) h4 = (m', h5)" by fastforce
        have "h' = h5" using run f Inr m None f' d m' by (auto simp: mountedBoot_def run_or_fail invalidate_def)
        moreover have "fail_closed ?d h4 h5 \<and> cache_ok ?d h5" using step [OF m'] 4 d by simp
        moreover have "fail_closed ?d h h4" using fail_closed_trans [OF 3(1)] 4 by simp
        ultimately show ?thesis using fail_closed_trans [of ?d h h4 h5] by simp
      qed
    qed
  qed
qed

lemma only_list [io_intros]: "only S (listPartitionVersions dir)" "only S (ListPartitionKernels dir)"
  unfolding listPartitionVersions_def ListPartitionKernels_def by (auto intro!: io_intros)

lemma only_goal_session: "only config_files (goal_session dir version arch)"
  unfolding goal_session_def Let_def by (auto intro!: io_intros)



section \<open>The boot goal is reached\<close>

lemma look_ok: "bf_script s = [] \<Longrightarrow> run_state (fs_look g) s = (g s, s)"
  by (simp add: fs_look_def next_io_def)

lemma exists_ok:
  "bf_script s = [] \<Longrightarrow> run_state (fileExists p) s = (file_at s p \<noteq> None \<or> p \<in> set (bf_dirs s), s)"
  by (simp add: fileExists_def look_ok)

lemma read_ok:
  "bf_script s = [] \<Longrightarrow> run_state (fs_read p) s = (case file_at s p of Some c \<Rightarrow> Inr c | None \<Rightarrow> Inl NotExist, s)"
  by (simp add: fs_read_def look_ok)

lemma temp_ok: "bf_script s = [] \<Longrightarrow> run_state temp_io s = (Inr (), s)"
  by (simp add: temp_io_def look_ok)

text \<open>A GRUB partition on which no call fails.\<close>

definition grub_partition :: "boot_fs \<Rightarrow> string \<Rightarrow> bool" where
  "grub_partition s cfg \<longleftrightarrow> bf_script s = [] \<and> ''grub'' \<in> set (bf_dirs s) \<and> file_at s grubConfigRel = Some cfg"

definition with_grub :: "boot_fs \<Rightarrow> string \<Rightarrow> boot_fs" where
  "with_grub s cfg = s\<lparr>bf_files := AList.update grubConfigRel cfg (bf_files s)\<rparr>"

lemma grub_get: "grub_partition s cfg \<Longrightarrow> run_state (GetBootloaderDefault BootAuto) s = (grub_default_of cfg, s)"
  by (simp add: grub_partition_def GetBootloaderDefault_def DetectBootloader_def exists_ok get_default_of_def default_in_def read_ok)

lemma dir_of_grub: "dir_of grubConfigRel = ''grub''"
  by code_simp

lemma copy_grub: "grub_partition s cfg \<Longrightarrow> run_state (copyOver cfg' grubConfigRel) s = (Inr (), with_grub s cfg')"
  by (simp add: grub_partition_def copyOver_def dir_of_grub run_or_fail fs_mkdir_def next_io_def fs_write_def with_grub_def List.insert_def)

lemma grub_set: "grub_partition s cfg \<Longrightarrow> run_state (SetBootloaderDefault BootAuto p) s = (Inr (), with_grub s (newGrubConfig p cfg))"
  using copy_grub [of s cfg "newGrubConfig p cfg"]
  by (simp add: grub_partition_def SetBootloaderDefault_def DetectBootloader_def exists_ok set_default_of_def setGrubDefault_def
      run_or_fail read_ok temp_ok)

lemma grub_partition_with: "grub_partition s cfg \<Longrightarrow> grub_partition (with_grub s cfg') cfg'"
  by (simp add: grub_partition_def with_grub_def file_at_def update_conv')

lemma goal_run:
  assumes g: "grub_partition s cfg" and p: "file_at s (dir @ ''/'' @ kernelStoredName version arch) \<noteq> None"
  shows "run_state (goal_session dir version arch) s =
    (if grub_default_of cfg = kernel_path dir version arch then (Inr False, s)
     else (Inr True, with_grub s (newGrubConfig (kernel_path dir version arch) cfg)))"
proof -
  have "bf_script s = []" using g by (simp add: grub_partition_def)
  then show ?thesis using p grub_get [OF g] grub_set [OF g]
    by (auto simp: goal_session_def Let_def exists_ok kernel_path_def run_or_fail)
qed


definition grub_sample :: boot_fs where
  "grub_sample = \<lparr> bf_files = [(''grub/grub.cfg'', ''set default=0''), (''simplek8s/simplek8s.202608291203.x86-64.efi'', ''k'')],
     bf_dirs = [''grub'', ''simplek8s''], bf_script = [] \<rparr>"


section \<open>What a reached goal means\<close>

text \<open>A session that succeeded was run on a boot partition, which holds what the session has left.\<close>

lemma mounted_success:
  assumes run: "run_state (mountedBoot sc session) h = (Inr x, h')" and c: "cache_ok (sc_kernelDir sc) h"
    and o: "only S session"
  shows "\<exists>dev fs fs'. bootable (sc_kernelDir sc) fs \<and> run_state session fs = (Inr x, fs') \<and>
    part h' (canonicalKey (bh_links h') dev) = Some fs'"
proof -
  let ?d = "sc_kernelDir sc"
  have hit: "\<exists>fs fs'. bootable ?d fs \<and> run_state session fs = (r, fs') \<and> part g' (canonicalKey (bh_links g') dev) = Some fs'"
    if "run_state (mountDevice dev session) g = (Some r, g')" "bootable_device ?d g dev" for dev g g' r
    using run_mount [OF that(1)] that(2) by (auto simp: bootable_device_def part_def update_conv')
  from run obtain dev h1 where f: "run_state (findBootDevice sc) h = (Inr dev, h1)"
    and r1: "run_state (do {
       m \<leftarrow> mountDevice dev session;
       case m of Some r \<Rightarrow> State_Monad.return r
       | None \<Rightarrow> do { _ \<leftarrow> invalidate; or_fail (findBootDevice sc) (\<lambda>dev'. do {
             m' \<leftarrow> mountDevice dev' session;
             State_Monad.return (case m' of Some r \<Rightarrow> r | None \<Rightarrow> Inl MountFailed) }) } }) h1 = (Inr x, h')"
    unfolding mountedBoot_def by (rule or_fail_success)
  note 1 = find_device [OF f c]
  obtain m h2 where m: "run_state (mountDevice dev session) h1 = (m, h2)" by fastforce
  show ?thesis
  proof (cases m)
    case (Some r)
    with r1 m have "r = Inr x" "h2 = h'" by auto
    then show ?thesis using hit [OF m [unfolded Some]] 1 by blast
  next
    case None
    let ?h3 = "h2\<lparr>bh_cache := None\<rparr>"
    from r1 m None have "run_state (or_fail (findBootDevice sc) (\<lambda>dev'. do {
             m' \<leftarrow> mountDevice dev' session;
             State_Monad.return (case m' of Some r \<Rightarrow> r | None \<Rightarrow> Inl MountFailed) })) ?h3 = (Inr x, h')"
      by (simp add: invalidate_def)
    then obtain dev' h4 where f': "run_state (findBootDevice sc) ?h3 = (Inr dev', h4)"
      and r2: "run_state (do { m' \<leftarrow> mountDevice dev' session;
             State_Monad.return (case m' of Some r \<Rightarrow> r | None \<Rightarrow> Inl MountFailed) }) h4 = (Inr x, h')"
      by (rule or_fail_success)
    obtain m' h5 where m': "run_state (mountDevice dev' session) h4 = (m', h5)" by fastforce
    with r2 have "m' = Some (Inr x)" "h5 = h'" by (auto split: option.splits)
    moreover have "bootable_device ?d h4 dev'" using find_device [OF f'] by (simp add: cache_ok_def)
    ultimately show ?thesis using hit m' by blast
  qed
qed

text \<open>The goal is reached on a partition: it holds the goal's kernel, and its bootloader was last seen to
  have, or was last given, this kernel as its default.\<close>

definition goal_reached :: "string \<Rightarrow> string \<Rightarrow> string \<Rightarrow> boot_fs \<Rightarrow> bool" where
  "goal_reached dir version arch fs \<longleftrightarrow>
     (file_at fs (dir @ ''/'' @ kernelStoredName version arch) \<noteq> None \<or>
      dir @ ''/'' @ kernelStoredName version arch \<in> set (bf_dirs fs)) \<and>
     (\<exists>fs0. run_state (GetBootloaderDefault BootAuto) fs0 = (''/'' @ dir @ ''/'' @ kernelStoredName version arch, fs) \<or>
        run_state (SetBootloaderDefault BootAuto (''/'' @ dir @ ''/'' @ kernelStoredName version arch)) fs0 = (Inr (), fs))"

lemma goal_session_reached:
  assumes "run_state (goal_session dir version arch) fs = (Inr b, fs')"
  shows "goal_reached dir version arch fs'"
proof -
  define name where "name = dir @ ''/'' @ kernelStoredName version arch"
  obtain p s1 where p: "run_state (fileExists name) fs = (p, s1)" by fastforce
  obtain cur s2 where cur: "run_state (GetBootloaderDefault BootAuto) s1 = (cur, s2)" by fastforce
  have p': "p" using assms p by (auto simp: goal_session_def Let_def name_def split: if_splits)
  have there: "file_at s1 name \<noteq> None \<or> name \<in> set (bf_dirs s1)"
    using exists_true [of name fs s1] p p' keepsD [OF same_exists(1)] p by (auto simp: same_files_def file_at_def)
  have n: "name \<notin> config_files" unfolding name_def by (rule stored_not_config)
  have stay: "file_at t name \<noteq> None \<or> name \<in> set (bf_dirs t)"
    if "run_state m s1 = (r, t)" "only config_files m" for m :: "'a fs_op" and r t
    using keepsD [OF that(2,1)] there n by (auto simp: changes_def)
  show ?thesis
  proof (cases "cur = ''/'' @ name")
    case True
    then have "fs' = s2" using assms p p' cur by (auto simp: goal_session_def Let_def name_def)
    then show ?thesis
      using stay [OF cur] True cur unfolding goal_reached_def name_def [symmetric]
      by (auto intro!: io_intros simp: name_def)
  next
    case False
    then have "run_state (or_fail (SetBootloaderDefault BootAuto (''/'' @ name)) (\<lambda>_. State_Monad.return (Inr True))) s2 = (Inr b, fs')"
      using assms p p' cur by (auto simp: goal_session_def Let_def name_def)
    then have s: "run_state (SetBootloaderDefault BootAuto (''/'' @ name)) s2 = (Inr (), fs')"
      by (rule or_fail_success) simp
    then have r: "run_state (do { _ \<leftarrow> GetBootloaderDefault BootAuto; SetBootloaderDefault BootAuto (''/'' @ name) }) s1 = (Inr (), fs')"
      using cur by simp
    have "only config_files (do { _ \<leftarrow> GetBootloaderDefault BootAuto; SetBootloaderDefault BootAuto (''/'' @ name) })"
      by (auto intro!: io_intros)
    from stay [OF r this] s show ?thesis unfolding goal_reached_def name_def by auto
  qed
qed

lemma ensure_goal_reached:
  assumes "run_state (EnsureBootGoal sc version arch) h = (Inr b, h')" "cache_ok (sc_kernelDir sc) h"
  shows "\<exists>dev fs. part h' (canonicalKey (bh_links h') dev) = Some fs \<and> goal_reached (sc_kernelDir sc) version arch fs"
proof -
  from assms(1) have "run_state (mountedBoot sc (goal_session (sc_kernelDir sc) version arch)) h = (Inr b, h')"
    unfolding EnsureBootGoal_def by (rule or_fail_success) (auto simp: LockExcl_def split: if_splits)
  from mounted_success [OF this assms(2) only_goal_session] show ?thesis using goal_session_reached by blast
qed

end
