(* ===== verification/Engine.thy ===== *)
theory Engine
  imports Config Lease Handlers
begin

text \<open>
  \<open>internal/engine/engine.go\<close>: the polling cycle of every controller instance. The engine's
  memory, the features' memory and the world are passed explicitly; the features' tasks are
  parameters, computations that are given the configuration snapshot. Logging is left out, except
  that the lines about the lease are values. Proved: what a cycle does when the API is down, that a
  follower's cycle does not run the leader's tasks, that the configuration snapshot stays in range,
  and that the missing-leader event is sent once per episode.
\<close>

section \<open>Memory and environment\<close>

record engine =
  lastOk :: int
  apiUp :: bool
  noLeader :: bool
  prevLease :: "lease_state option"
  feat :: config
  leas :: leaser

record 'w engine_env =
  g_api :: "'w kube_api"
  g_lease :: leaser_config
  g_EventNamespace :: string
  g_ConfigMapNamespace :: string
  g_ConfigMapName :: string
  g_now :: "('w, gtime) state"
  g_wall :: "('w, gtime) state"
  g_url :: url_parse

type_synonym ('m, 'w, 'a) cycle = "((engine \<times> 'm) \<times> 'w, 'a) state"

text \<open>A feature's computation acts on the features' memory only.\<close>

definition lift_mem :: "('m \<times> 'w, 'a) state \<Rightarrow> ('m, 'w, 'a) cycle" where
  "lift_mem m = State (\<lambda>((e, f), w). case run_state m (f, w) of (a, (f', w')) \<Rightarrow> (a, ((e, f'), w')))"

definition in_engine :: "(engine \<Rightarrow> 'a \<times> engine) \<Rightarrow> ('m, 'w, 'a) cycle" where
  "in_engine g = in_mem (\<lambda>(e, f). case g e of (a, e') \<Rightarrow> (a, (e', f)))"

text \<open>\<open>New\<close>: the snapshot starts as the built-in settings, which exist (\<open>defaults_ok\<close>).\<close>

definition new_engine :: engine where
  "new_engine = \<lparr> lastOk = 0, apiUp = False, noLeader = False, prevLease = None, feat = the Defaults,
     leas = new_leaser \<rparr>"

definition LastSuccessfulCycle :: "engine \<Rightarrow> gtime" where
  "LastSuccessfulCycle e = (if lastOk e \<noteq> 0 then lastOk e else zero_time)"

section \<open>The steps of a cycle\<close>

definition loadConfig :: "'w engine_env \<Rightarrow> ('m, 'w, unit) cycle" where
  "loadConfig env = do {
     r \<leftarrow> in_world (getConfigMap (g_api env) (g_ConfigMapNamespace env) (g_ConfigMapName env));
     in_engine (\<lambda>e. ((), case r of
         Inr cm \<Rightarrow> e\<lparr> feat := fst (Config.Parse (g_url env) (feat e) (Data cm)) \<rparr>
       | Inl err \<Rightarrow> if IsNotFound err then e\<lparr> feat := the Defaults \<rparr> else e))
   }"

datatype lease_line = AcquiredLeadership | NoValidLeaderLine | Standby | LostLeadership

definition lease_line :: "lease_state option \<Rightarrow> lease_state \<Rightarrow> lease_line option" where
  "lease_line prev state =
     (if prev = Some state then None
      else (case state of
          LeaseLeader \<Rightarrow> Some AcquiredLeadership
        | LeaseNoValidLeader \<Rightarrow> Some NoValidLeaderLine
        | LeaseNotLeader \<Rightarrow>
            (if prev = None then Some Standby
             else if prev = Some LeaseLeader then Some LostLeadership else None)))"

definition logLeaseTransition :: "lease_state \<Rightarrow> engine \<Rightarrow> lease_line option \<times> engine" where
  "logLeaseTransition state e = (lease_line (prevLease e) state, e\<lparr> prevLease := Some state \<rparr>)"

definition anyRebootState :: "node list \<Rightarrow> bool" where
  "anyRebootState nds = list_ex (\<lambda>n. case Annotations (Metadata n) AnnState of None \<Rightarrow> False | Some s \<Rightarrow> s \<noteq> []) nds"

definition engine_event :: "'w engine_env \<Rightarrow> string \<Rightarrow> string \<Rightarrow> bool \<Rightarrow> ('w, unit) state" where
  "engine_event env reason message warning = do {
     now \<leftarrow> g_wall env;
     _ \<leftarrow> createEvent (g_api env) (g_EventNamespace env)
       \<lparr> event_Namespace = g_EventNamespace env, event_GenerateName = ''simplek8s-'',
         InvolvedName = identity (g_lease env), InvolvedUID = [], Reason = reason, Message = message,
         Component = [], event_Type = (if warning then ''Warning'' else ''Normal''), FirstTimestamp = now,
         LastTimestamp = now, Count = 1 \<rparr>;
     State_Monad.return ()
   }"

definition sync_lease :: "'w engine_env \<Rightarrow> ('m, 'w, lease_state) cycle" where
  "sync_lease env = do {
     now \<leftarrow> in_world (g_now env);
     l \<leftarrow> in_engine (\<lambda>e. (leas e, e));
     r \<leftarrow> in_world (Sync (g_api env) (g_lease env) now l);
     _ \<leftarrow> in_engine (\<lambda>e. ((), e\<lparr> leas := snd r \<rparr>));
     State_Monad.return (fst r)
   }"

definition missing_leader :: "lease_state \<Rightarrow> node list \<Rightarrow> engine \<Rightarrow> bool \<times> engine" where
  "missing_leader state nds e =
     (if state = LeaseNoValidLeader \<and> anyRebootState nds then (\<not> noLeader e, e\<lparr> noLeader := True \<rparr>)
      else (False, e\<lparr> noLeader := False \<rparr>))"

text \<open>A task that panics ends the cycle, and the process.\<close>

fun run_tasks :: "(config \<Rightarrow> ('m \<times> 'w, outcome) state) list \<Rightarrow> ('m, 'w, outcome) cycle" where
  "run_tasks [] = State_Monad.return Finished"
| "run_tasks (t # ts) = do {
     fc \<leftarrow> in_engine (\<lambda>e. (feat e, e));
     r \<leftarrow> lift_mem (t fc);
     (if r = Panicked then State_Monad.return Panicked else run_tasks ts)
   }"

definition lead :: "'w engine_env \<Rightarrow> (config \<Rightarrow> ('m \<times> 'w, outcome) state) list \<Rightarrow> lease_state \<Rightarrow> ('m, 'w, outcome) cycle" where
  "lead env tasks state =
     (if state \<noteq> LeaseLeader then State_Monad.return Finished
      else do {
        now \<leftarrow> in_world (g_now env);
        l \<leftarrow> in_engine (\<lambda>e. (leas e, e));
        (if CanDecide l now then run_tasks tasks else State_Monad.return Finished)
      })"

text \<open>The lease is synchronised, a missing leader is reported, then the tasks of the leader and
  those of every instance run.\<close>

definition cycle_body :: "'w engine_env \<Rightarrow> (config \<Rightarrow> ('m \<times> 'w, outcome) state) list \<Rightarrow>
    (config \<Rightarrow> ('m \<times> 'w, outcome) state) list \<Rightarrow> node list \<Rightarrow> ('m, 'w, outcome) cycle" where
  "cycle_body env tasks locals nds = do {
     _ \<leftarrow> in_engine (\<lambda>e. ((), e\<lparr> apiUp := True \<rparr>));
     _ \<leftarrow> loadConfig env;
     now \<leftarrow> in_world (g_now env);
     state \<leftarrow> sync_lease env;
     _ \<leftarrow> in_engine (logLeaseTransition state);
     report \<leftarrow> in_engine (missing_leader state nds);
     _ \<leftarrow> (if report then in_world (engine_event env ''NoValidLeader''
             ''no valid leader observed while reboot state exists'' True) else State_Monad.return ());
     r1 \<leftarrow> lead env tasks state;
     (if r1 = Panicked then State_Monad.return Panicked
      else do {
        r2 \<leftarrow> run_tasks locals;
        (if r2 = Panicked then State_Monad.return Panicked
         else do {
           _ \<leftarrow> in_engine (\<lambda>e. ((), e\<lparr> lastOk := now \<rparr>));
           State_Monad.return Finished
         })
      })
   }"

definition Cycle :: "'w engine_env \<Rightarrow> (config \<Rightarrow> ('m \<times> 'w, outcome) state) list \<Rightarrow>
    (config \<Rightarrow> ('m \<times> 'w, outcome) state) list \<Rightarrow> ('m, 'w, outcome) cycle" where
  "Cycle env tasks locals = do {
     r \<leftarrow> in_world (listNodes (g_api env));
     (case r of
        Inl e \<Rightarrow> do {
          _ \<leftarrow> in_engine (\<lambda>e. ((), e\<lparr> apiUp := False \<rparr>));
          State_Monad.return Finished
        }
      | Inr nds \<Rightarrow> cycle_body env tasks locals nds)
   }"

section \<open>What a cycle keeps\<close>

text \<open>A relation on the engine's memory alone.\<close>

definition engine_rel :: "(engine \<Rightarrow> engine \<Rightarrow> bool) \<Rightarrow> (engine \<times> 'm) \<times> 'w \<Rightarrow> (engine \<times> 'm) \<times> 'w \<Rightarrow> bool" where
  "engine_rel R s s' = R (fst (fst s)) (fst (fst s'))"

lemma engine_rel_refl: "reflp R \<Longrightarrow> reflp (engine_rel R)"
  by (auto simp: engine_rel_def reflp_def)

lemma engine_rel_trans: "transp R \<Longrightarrow> transp (engine_rel R)"
  by (auto simp: engine_rel_def transp_def)

named_theorems engine_intros \<open>what keeps a relation on the engine's memory\<close>

lemma engine_world [engine_intros]: "reflp R \<Longrightarrow> keeps (engine_rel R) (in_world m)"
  by (rule keepsI) (auto simp: engine_rel_def in_world_def reflpD split: prod.splits)

lemma engine_lift [engine_intros]: "reflp R \<Longrightarrow> keeps (engine_rel R) (lift_mem m)"
  by (rule keepsI) (auto simp: engine_rel_def lift_mem_def reflpD split: prod.splits)

lemma engine_in [engine_intros]: "(\<And>e. R e (snd (g e))) \<Longrightarrow> keeps (engine_rel R) (in_engine g)"
  by (rule keepsI) (auto simp: engine_rel_def in_engine_def in_mem_def split: prod.splits, metis snd_conv)

lemma engine_tasks [engine_intros]: "reflp R \<Longrightarrow> transp R \<Longrightarrow> keeps (engine_rel R) (run_tasks ts)"
  by (induction ts)
     (auto intro!: io_intros engine_intros engine_rel_refl engine_rel_trans simp: reflpD)

lemma engine_lead [engine_intros]: "reflp R \<Longrightarrow> transp R \<Longrightarrow> keeps (engine_rel R) (lead env ts st)"
  unfolding lead_def
  by (auto intro!: io_intros engine_intros engine_rel_refl engine_rel_trans simp: reflpD)

lemma defaults_valid: "valid_config (the Defaults)"
  by code_simp

abbreviation config_kept :: "engine \<Rightarrow> engine \<Rightarrow> bool" where
  "config_kept e e' \<equiv> valid_config (feat e) \<longrightarrow> valid_config (feat e')"

lemma config_kept_rel: "reflp config_kept" "transp config_kept"
  by (auto simp: reflp_def transp_def)

lemma keeps_load: "keeps (engine_rel config_kept) (loadConfig env)"
  unfolding loadConfig_def
  by (intro keeps_bind engine_rel_trans config_kept_rel engine_intros)
     (auto simp: Parse_keeps_valid defaults_valid split: sum.splits)

lemma keeps_sync: "keeps (engine_rel config_kept) (sync_lease env)"
  unfolding sync_lease_def
  by (intro keeps_bind config_kept_rel engine_rel_refl engine_rel_trans engine_intros keeps_return) simp_all

lemma keeps_cycle: "keeps (engine_rel config_kept) (Cycle env tasks locals)"
  unfolding Cycle_def cycle_body_def
  by (intro keeps_bind keeps_sum keeps_if keeps_return config_kept_rel engine_rel_refl engine_rel_trans
      engine_intros keeps_load keeps_sync)
    (simp_all add: logLeaseTransition_def missing_leader_def)

text \<open>The configuration snapshot the features read is in range at all times: no cycle, whatever the ConfigMap
  holds, whether it is missing or cannot be read, and whatever the tasks do, takes it out of range.\<close>

theorem cycle_config_valid:
  assumes "valid_config (feat e)" "run_state (Cycle env tasks locals) ((e, f), w) = (r, ((e', f'), w'))"
  shows "valid_config (feat e')"
  using keepsD [OF keeps_cycle assms(2)] assms(1) by (simp add: engine_rel_def)

text \<open>When the node list cannot be read, the cycle ends there: no configuration is loaded, the lease is not
  touched, no task runs, and the readiness instant stays.\<close>

theorem cycle_api_down:
  assumes "run_state (listNodes (g_api env)) w = (Inl err, w1)"
  shows "run_state (Cycle env tasks locals) ((e, f), w) = (Finished, ((e\<lparr> apiUp := False \<rparr>, f), w1))"
  using assms by (simp add: Cycle_def in_world_def in_engine_def in_mem_def)

text \<open>What follows the synchronisation keeps the observed lease state.\<close>

abbreviation prev_kept :: "engine \<Rightarrow> engine \<Rightarrow> bool" where
  "prev_kept e e' \<equiv> prevLease e' = prevLease e"

definition after_log :: "'w engine_env \<Rightarrow> (config \<Rightarrow> ('m \<times> 'w, outcome) state) list \<Rightarrow>
    (config \<Rightarrow> ('m \<times> 'w, outcome) state) list \<Rightarrow> node list \<Rightarrow> gtime \<Rightarrow> lease_state \<Rightarrow> ('m, 'w, outcome) cycle" where
  "after_log env tasks locals nds now state = do {
     report \<leftarrow> in_engine (missing_leader state nds);
     _ \<leftarrow> (if report then in_world (engine_event env ''NoValidLeader''
             ''no valid leader observed while reboot state exists'' True) else State_Monad.return ());
     r1 \<leftarrow> lead env tasks state;
     (if r1 = Panicked then State_Monad.return Panicked
      else do {
        r2 \<leftarrow> run_tasks locals;
        (if r2 = Panicked then State_Monad.return Panicked
         else do {
           _ \<leftarrow> in_engine (\<lambda>e. ((), e\<lparr> lastOk := now \<rparr>));
           State_Monad.return Finished
         })
      })
   }"

lemma after_log_prev: "keeps (engine_rel prev_kept) (after_log env tasks locals nds now state)"
proof -
  have rel: "reflp prev_kept" "transp prev_kept" by (auto simp: reflp_def transp_def)
  show ?thesis
    unfolding after_log_def
    by (intro keeps_bind keeps_if keeps_return engine_rel_refl engine_rel_trans rel engine_intros)
       (simp_all add: missing_leader_def)
qed

lemma after_log_follower: "state \<noteq> LeaseLeader \<Longrightarrow> after_log env tasks locals nds now state = after_log env ts locals nds now state"
  by (simp add: after_log_def lead_def)

lemma body_split:
  "cycle_body env tasks locals nds = do {
     _ \<leftarrow> in_engine (\<lambda>e. ((), e\<lparr> apiUp := True \<rparr>));
     _ \<leftarrow> loadConfig env;
     now \<leftarrow> in_world (g_now env);
     state \<leftarrow> sync_lease env;
     _ \<leftarrow> in_engine (logLeaseTransition state);
     after_log env tasks locals nds now state
   }"
  by (simp add: cycle_body_def after_log_def)

text \<open>C29: the leader's tasks have a say only in a cycle that has observed itself as the leader: if the lease state the
  cycle ends with is another one, any other tasks would have given the same result, memory and world.\<close>

theorem cycle_follower:
  assumes "run_state (Cycle env tasks locals) ((e, f), w) = (r, ((e', f'), w'))"
    and "prevLease e' \<noteq> Some LeaseLeader"
  shows "run_state (Cycle env others locals) ((e, f), w) = (r, ((e', f'), w'))"
proof -
  obtain q w1 where l: "run_state (listNodes (g_api env)) w = (q, w1)"
    by (cases "run_state (listNodes (g_api env)) w")
  show ?thesis
  proof (cases q)
    case (Inl err)
    with assms(1) l show ?thesis by (simp add: Cycle_def in_world_def in_engine_def in_mem_def)
  next
    case (Inr nds)
    let ?pre = "\<lambda>k. do {
       _ \<leftarrow> in_engine (\<lambda>e. ((), e\<lparr> apiUp := True \<rparr>));
       _ \<leftarrow> loadConfig env;
       now \<leftarrow> in_world (g_now env);
       state \<leftarrow> sync_lease env;
       State_Monad.return (now, state)
     }"
    obtain x s1 where p: "run_state (?pre ()) ((e, f), w1) = (x, s1)" by (cases "run_state (?pre ()) ((e, f), w1)")
    obtain now state where x: "x = (now, state)" by (cases x)
    obtain e1 f1 w2 where s1: "s1 = ((e1, f1), w2)" by (metis prod.collapse)
    have run: "run_state (Cycle env ts locals) ((e, f), w) =
        run_state (after_log env ts locals nds now state) ((e1\<lparr> prevLease := Some state \<rparr>, f1), w2)" for ts
      using l Inr p x s1
      by (auto simp: Cycle_def body_split in_world_def [of "listNodes (g_api env)"] logLeaseTransition_def
          in_engine_def [of "logLeaseTransition _"] in_mem_def split: prod.splits)
    have "prevLease e' = Some state"
      using keepsD [OF after_log_prev assms(1) [unfolded run]] by (simp add: engine_rel_def)
    with assms(2) have "state \<noteq> LeaseLeader" by auto
    from after_log_follower [OF this, of env tasks locals nds now others] assms(1) show ?thesis
      unfolding run by simp
  qed
qed

section \<open>A standby instance\<close>

definition stub_api :: "lease option kube_api" where
  "stub_api = (lease_api False Stored)\<lparr> listNodes := State_Monad.return (Inr []),
     getConfigMap := (\<lambda>_ _. State_Monad.return (Inr \<lparr> cm_Metadata = empty_meta, Data = [(''updates.preserve'', ''0'')] \<rparr>)) \<rparr>"

definition stub_env :: "lease option kube_api \<Rightarrow> lease option engine_env" where
  "stub_env api = \<lparr> g_api = api, g_lease = leaser_cfg ''me'', g_EventNamespace = ''default'',
     g_ConfigMapNamespace = ''kube-system'', g_ConfigMapName = ''cm'',
     g_now = State_Monad.return (29 * second), g_wall = State_Monad.return (29 * second), g_url = (\<lambda>_. None) \<rparr>"

definition standby :: "outcome \<times> (engine \<times> unit) \<times> lease option" where
  "standby = run_state (Cycle (stub_env stub_api) [] []) ((new_engine, ()), Some (lease_of ''other'' 0))"

lemma standby_state: "prevLease (fst (fst (snd standby))) = Some LeaseNotLeader" "fst standby = Finished"
  by (simp_all add: standby_def Cycle_def cycle_body_def in_world_def in_engine_def in_mem_def stub_env_def stub_api_def
      loadConfig_def sync_lease_def Sync_def lease_api_def leaser_cfg_def lease_of_def freshHolder_def
      time_sub_le_iff logLeaseTransition_def missing_leader_def lead_def new_engine_def new_leaser_def)

theorem cycle_config_valid_witness: "valid_config (feat (fst (fst (snd standby))))"
proof -
  obtain r e f w where s: "standby = (r, ((e, f), w))" by (metis prod.collapse)
  have "valid_config (feat new_engine)" using defaults_valid by (simp add: new_engine_def)
  from cycle_config_valid [OF this s [unfolded standby_def]] show ?thesis by (simp add: s)
qed

theorem cycle_api_down_witness:
  "run_state (Cycle (stub_env (lease_api True Stored)) [\<lambda>_. State_Monad.return Panicked] []) ((new_engine, ()), None) =
     (Finished, ((new_engine\<lparr> apiUp := False \<rparr>, ()), None))"
  by (rule cycle_api_down [where err = "OtherError []"]) (simp add: stub_env_def lease_api_def)

theorem cycle_follower_witness:
  "run_state (Cycle (stub_env stub_api) [\<lambda>_. State_Monad.return Panicked] []) ((new_engine, ()), Some (lease_of ''other'' 0)) = standby"
proof -
  obtain r e f w where s: "standby = (r, ((e, f), w))" by (metis prod.collapse)
  have "prevLease e \<noteq> Some LeaseLeader" using standby_state(1) by (simp add: s)
  from cycle_follower [OF s [unfolded standby_def] this] show ?thesis by (simp add: s)
qed

end
