(* ===== verification/Reboot_World.thy ===== *)
theory Reboot_World
  imports Reboot_Safety
begin

text \<open>
  The reboot feature on the fake cluster: the host of \<open>Reboot_Safety\<close> is instantiated with the
  client of \<open>Fake_World\<close>, arbitrary clocks and boot identifiers, and a reboot command that is
  entered into the log whether it succeeds or not. The schedule of foreign steps is arbitrary, so
  the safety statements hold for every interleaving of the feature with other clients.
\<close>

record host_hooks =
  h_now :: "fake_world \<Rightarrow> gtime"
  h_wall :: "fake_world \<Rightarrow> gtime"
  h_boot :: "fake_world \<Rightarrow> string option"
  h_start :: "fake_world \<Rightarrow> string option"

definition fake_env :: "host_hooks \<Rightarrow> leaser_config \<Rightarrow> string \<Rightarrow> string \<Rightarrow> string \<Rightarrow> fake_world reboot_env" where
  "fake_env h cfg nm uid ns =
     \<lparr> e_api = fake_client, e_lease = cfg,
       e_now = State (\<lambda>w. (h_now h w, w)), e_wall = State (\<lambda>w. (h_wall h w, w)),
       e_bootID = State (\<lambda>w. (h_boot h w, w)),
       e_startReboot = State (\<lambda>w. (h_start h w, w\<lparr> accepted := accepted w @ [RebootStarted] \<rparr>)),
       e_NodeName = nm, e_PodUID = uid, e_EventNamespace = ns \<rparr>"

lemma fake_env_sel [simp]:
  "e_api (fake_env h cfg nm uid ns) = fake_client" "e_NodeName (fake_env h cfg nm uid ns) = nm"
  by (simp_all add: fake_env_def)

lemma wf_accepted: "wf_world (w\<lparr> accepted := a \<rparr>) = wf_world w"
  by (simp add: wf_world_def)

lemma quiet_reader: "quiet fake_view (State (\<lambda>w. (g w, w)))"
  by (rule keepsI) (auto simp: extends_def)

interpretation rh: reboot_host "fake_env h cfg nm uid ns" fake_view
  for h cfg nm uid ns
proof -
  have r: "reliable_api_server (e_api (fake_env h cfg nm uid ns)) fake_view"
    by (simp add: fake.reliable_api_server_axioms)
  show "reboot_host (fake_env h cfg nm uid ns) fake_view"
    by (rule reboot_host.intro [OF r], unfold_locales)
       (auto simp: fake_env_def quiet_reader fake_view_sel wf_accepted)
qed

text \<open>C2: one cycle of the orchestrator, against any interleaving of other clients, moves lifecycles only along the
  edges Requested-Draining, Draining-Rebooting, Draining-Failed, Rebooting-Completed and
  Rebooting-Failed, each from the state that the patched version of the node has; it never clears a
  request, never lifts a cordon while moving, issues no reboot command, and admits at most one node.\<close>

theorem orchestrator_cycle_safe:
  assumes "wf_world w"
    and "run_state (runOrchestrator (fake_env h cfg nm uid ns) fc) (f, w) = (r, (f', w'))"
  shows "wf_world w' \<and>
    (\<exists>es. accepted w' = accepted w @ es \<and> list_all legal_entry es \<and>
       List.length (List.filter admission_entry es) \<le> 1)"
proof -
  have "ok fake_view w" using assms(1) by (simp add: fake_view_sel)
  from emitsD [OF rh.run_emits this assms(2)] show ?thesis
    unfolding fake_view_sel by (blast intro: cycle_log_legal cycle_log_count)
qed

text \<open>C4: the admission phase, on the node list it has read and against any interleaving: if it changes the cluster
  at all, the failure policy does not pause the queue, no queued node is NotReady, a slot is free and no
  control-plane node is in flight on that list; beside blocked-by updates that leave every lifecycle
  alone it makes one admission at most, of a node in its queue that is forced, or whose window is open
  and that no disruption budget blocks.\<close>

theorem admission_gated:
  assumes "wf_world w"
    and "run_state (admission_phase (fake_env h cfg nm uid ns) fc now budgets allPods freshNodes) (f, w) = (r, (f', w'))"
  shows "wf_world w' \<and>
    (\<exists>es. accepted w' = accepted w @ es \<and>
       one_admission (passes_gates (WindowsOpen (RebootWindows fc) (RebootWindowGrace fc) now) budgets allPods)
         (admission_queue freshNodes) es \<and>
       (es \<noteq> [] \<longrightarrow> slots_free fc freshNodes))"
proof -
  have "ok fake_view w" using assms(1) by (simp add: fake_view_sel)
  from emitsD [OF rh.admission_phase_emits this assms(2)] show ?thesis
    by (simp add: fake_view_sel)
qed

text \<open>C3: the local executor runs at most one reboot command in a cycle, and only directly after the API server has
  accepted the record of that attempt, on a version of this node that is Rebooting and carries either no
  record (first attempt) or the unconfirmed first attempt of the same boot (second attempt); without that
  record nothing is started.\<close>

theorem reboot_after_record:
  assumes "wf_world w"
    and "run_state (runLocal (fake_env h cfg nm uid ns) fc) (f, w) = (r, (f', w'))"
  shows "wf_world w' \<and>
    (\<exists>es. accepted w' = accepted w @ es \<and> local_log nm es \<and>
       List.length (List.filter (\<lambda>e. e = RebootStarted) es) \<le> 1)"
proof -
  have "ok fake_view w" using assms(1) by (simp add: fake_view_sel)
  from emitsD [OF rh.local_emits this assms(2)] show ?thesis
    unfolding fake_view_sel fake_env_sel by (blast intro: local_log_count)
qed

section \<open>A cluster\<close>

definition hooks1 :: host_hooks where
  "hooks1 = \<lparr> h_now = (\<lambda>w. 1700000100000000000), h_wall = (\<lambda>w. 1700000100000000000),
     h_boot = (\<lambda>w. Some ''b1''), h_start = (\<lambda>w. None) \<rparr>"

definition lease1 :: leaser_config where
  "lease1 = \<lparr> lease_ns = ''kube-system'', lease_name = ''l'', identity = ''me'' \<rparr>"

definition config1 :: config where
  "config1 = \<lparr> MaxConcurrentReboots = 1, OnRebootFailure = ''pause'', RebootDrainTimeout = 10 * minute,
     RebootIssueGrace = 15 * minute, RebootWindows = [], RebootWindowGrace = 5 * minute,
     UpdateURL = ''https://example.org'', UpdatePreserve = 3, UpdateMaxPercentUsage = 75,
     UpdateWindows = [], UpdateWindowGrace = 5 * minute \<rparr>"

definition mem0 :: reboot_mem where
  "mem0 = \<lparr> notReadyAfter = Map.empty, denied = Map.empty, notified = {}, prevInflight = [] \<rparr>"

definition cluster :: "(string \<rightharpoonup> string) \<Rightarrow> fake_world" where
  "cluster anns =
     (let s = SetNode ''n1'' anns False Map.empty ''u1'' NewFakeAPI;
          s' = s\<lparr> leases := [(''kube-system/l'', \<lparr> lease_Metadata = empty_meta\<lparr> Name := ''l'', Namespace := ''kube-system'' \<rparr>,
                 HolderIdentity = ''me'', RenewTime = Some 1700000090000000000 \<rparr>)] \<rparr>
      in \<lparr> server = s', schedule = [], versions = nodes s', accepted = [] \<rparr>)"

lemma cluster_wf: "wf_world (cluster anns)"
proof (rule wf_worldI)
  fix nm n
  assume "(nm, n) \<in> set (versions (cluster anns))"
  then show "\<exists>c. ResourceVersion (Metadata n) = itoa c \<and> 0 < c \<and> c \<le> rvCounter (server (cluster anns))"
    by (auto simp: cluster_def SetNode_def next_rv_def NewFakeAPI_def Let_def intro!: exI [of _ 1])
qed (auto simp: cluster_def SetNode_def next_rv_def NewFakeAPI_def Let_def)


definition requested_world :: fake_world where
  "requested_world = cluster [AnnState \<mapsto> StateValue Requested 1700000000000000000,
     AnnRequest \<mapsto> RequestValue ''r1'' ''op'' True]"

definition rebooting_world :: fake_world where
  "rebooting_world = cluster [AnnState \<mapsto> StateValue Rebooting 1700000000000000000]"

text \<open>The feature at work on them.\<close>

definition orchestrated :: fake_world where
  "orchestrated = snd (snd (run_state (runOrchestrator (fake_env hooks1 lease1 ''n1'' ''p1'' ''ns'') config1) (mem0, requested_world)))"

definition admitted :: fake_world where
  "admitted = snd (snd (run_state (admission_phase (fake_env hooks1 lease1 ''n1'' ''p1'' ''ns'') config1
     1700000100000000000 [] [] (map snd (nodes (server requested_world)))) (mem0, requested_world)))"

definition executed :: fake_world where
  "executed = snd (snd (run_state (runLocal (fake_env hooks1 lease1 ''n1'' ''p1'' ''ns'') config1) (mem0, rebooting_world)))"

theorem orchestrator_cycle_safe_witness:
  "wf_world orchestrated \<and> (\<exists>es. accepted orchestrated = accepted requested_world @ es \<and> list_all legal_entry es)"
proof -
  obtain r f' where
    "run_state (runOrchestrator (fake_env hooks1 lease1 ''n1'' ''p1'' ''ns'') config1) (mem0, requested_world) =
       (r, (f', orchestrated))"
    unfolding orchestrated_def by (metis prod.collapse)
  from orchestrator_cycle_safe [OF _ this] show ?thesis
    using cluster_wf unfolding requested_world_def by blast
qed

theorem admission_gated_witness:
  "\<exists>es. accepted admitted = accepted requested_world @ es \<and> List.length (List.filter admission_entry es) \<le> 1"
proof -
  obtain r f' where
    "run_state (admission_phase (fake_env hooks1 lease1 ''n1'' ''p1'' ''ns'') config1
       1700000100000000000 [] [] (map snd (nodes (server requested_world)))) (mem0, requested_world) = (r, (f', admitted))"
    unfolding admitted_def by (metis prod.collapse)
  from admission_gated [OF _ this] show ?thesis
    using cluster_wf one_admission_count unfolding requested_world_def by blast
qed

theorem reboot_after_record_witness:
  "wf_world executed \<and> (\<exists>es. accepted executed = accepted rebooting_world @ es \<and> local_log ''n1'' es)"
proof -
  obtain r f' where
    "run_state (runLocal (fake_env hooks1 lease1 ''n1'' ''p1'' ''ns'') config1) (mem0, rebooting_world) =
       (r, (f', executed))"
    unfolding executed_def by (metis prod.collapse)
  from reboot_after_record [OF _ this] show ?thesis
    using cluster_wf unfolding rebooting_world_def by blast
qed

end
