(* ===== verification/Controller.thy ===== *)
theory Controller
  imports Engine Rest_Safety Reboot_World
begin

text \<open>
  The controllers of a cluster together: every instance runs its engine cycle with the reboot
  feature registered (orchestrator as the leader's task, executor on every node) and serves the
  REST API; instances crash and start anew. The schedule of the world interleaves other clients
  at every request. Proved: the log of all their writes stays sound.
\<close>

section \<open>A sound log\<close>

text \<open>Every entry is a request, a move of the lifecycle, a clearing or leaves the lifecycle alone, and a
  reboot is started only directly after the accepted record of its attempt.\<close>

definition system_entry :: "log_entry \<Rightarrow> bool" where
  "system_entry e \<longleftrightarrow> legal_entry e \<or> request_entry e \<or> clear_entry e"

definition recorded :: "log_entry \<Rightarrow> bool" where
  "recorded e \<longleftrightarrow> (\<exists>nm boot. issue_entry nm boot e)"

definition sound_with :: "(log_entry \<Rightarrow> bool) \<Rightarrow> log_entry list \<Rightarrow> bool" where
  "sound_with P es \<longleftrightarrow>
     (\<forall>i < List.length es. if es ! i = RebootStarted then 0 < i \<and> recorded (es ! (i - 1)) else P (es ! i))"

abbreviation sound_log :: "log_entry list \<Rightarrow> bool" where
  "sound_log \<equiv> sound_with system_entry"

lemma sound_mono: "sound_with P es \<Longrightarrow> (\<And>e. P e \<Longrightarrow> Q e) \<Longrightarrow> sound_with Q es"
  by (auto simp: sound_with_def)

lemma sound_Nil: "sound_with P []"
  by (simp add: sound_with_def)

lemma sound_append: "sound_with P xs \<Longrightarrow> sound_with P ys \<Longrightarrow> sound_with P (xs @ ys)"
  unfolding sound_with_def
proof (intro allI impI)
  fix i
  assume x: "\<forall>i<length xs. if xs ! i = RebootStarted then 0 < i \<and> recorded (xs ! (i - 1)) else P (xs ! i)"
    and y: "\<forall>i<length ys. if ys ! i = RebootStarted then 0 < i \<and> recorded (ys ! (i - 1)) else P (ys ! i)"
    and i: "i < length (xs @ ys)"
  show "if (xs @ ys) ! i = RebootStarted then 0 < i \<and> recorded ((xs @ ys) ! (i - 1)) else P ((xs @ ys) ! i)"
  proof (cases "i < length xs")
    case True
    then have "(xs @ ys) ! i = xs ! i" "(xs @ ys) ! (i - 1) = xs ! (i - 1)"
      by (auto simp: nth_append)
    with x [rule_format, OF True] show ?thesis by (auto split: if_splits)
  next
    case False
    define j where "j = i - length xs"
    with False i have j: "j < length ys" "i = length xs + j" by auto
    then have "(xs @ ys) ! i = ys ! j" "0 < j \<Longrightarrow> (xs @ ys) ! (i - 1) = ys ! (j - 1)"
      by (auto simp: nth_append)
    with y j show ?thesis by auto
  qed
qed

lemma not_started: "\<not> system_entry RebootStarted"
  by (simp add: system_entry_def legal_entry_def still_entry_def edge_entry_def request_entry_def clear_entry_def)

lemma sound_all: "list_all P es \<Longrightarrow> \<not> P RebootStarted \<Longrightarrow> sound_with P es"
  by (auto simp: sound_with_def list_all_length)

lemma sound_system: "list_all system_entry es \<Longrightarrow> sound_log es"
  by (rule sound_all) (use not_started in auto)

lemma sound_managed: "list_all managed_entry es \<Longrightarrow> sound_log es"
  by (rule sound_system) (auto simp: list_all_iff system_entry_def dest: managed_legal)

lemma sound_cycle: "cycle_log es \<Longrightarrow> sound_log es"
  by (drule cycle_log_legal, rule sound_system) (auto simp: list_all_iff system_entry_def)

lemma issue_still: "issue_entry nm boot e \<Longrightarrow> system_entry e"
  by (auto simp: issue_entry_def system_entry_def legal_entry_def still_entry_def split: log_entry.splits)

lemma sound_local:
  assumes "local_log nm es"
  shows "sound_log es"
proof -
  have "sound_log (e # RebootStarted # fs)" if "issue_entry nm boot e" "list_all managed_entry fs" for boot e fs
  proof -
    have "sound_log [e, RebootStarted]"
      using that(1) issue_still [OF that(1)] not_started
      by (auto simp: sound_with_def recorded_def less_Suc_eq)
    from sound_append [OF this sound_managed [OF that(2)]] show ?thesis by simp
  qed
  with assms show ?thesis unfolding local_log_def by (auto intro: sound_managed)
qed

lemma sound_post: "post_log rep es \<Longrightarrow> sound_log es"
  by (rule sound_system) (auto simp: post_log_def list_all_iff system_entry_def)

lemma sound_delete: "delete_log nm rep es \<Longrightarrow> sound_log es"
  by (auto simp: delete_log_def system_entry_def intro: sound_Nil intro!: sound_system split: if_splits)

section \<open>An instance\<close>

text \<open>\<open>emits_sound\<close>: whatever a computation adds is sound; closed under sequencing.\<close>

abbreviation emits_with :: "'w world_view \<Rightarrow> (log_entry \<Rightarrow> bool) \<Rightarrow> ('m \<times> 'w, 'a) state \<Rightarrow> bool" where
  "emits_with V P m \<equiv> emits V (\<lambda>_. sound_with P) m"

abbreviation emits_sound :: "'w world_view \<Rightarrow> ('m \<times> 'w, 'a) state \<Rightarrow> bool" where
  "emits_sound V m \<equiv> emits_with V system_entry m"

named_theorems sound_intros \<open>rules for \<open>emits_sound\<close>\<close>

lemma sound_bind [sound_intros]:
  "emits_with V P m \<Longrightarrow> (\<And>x. emits_with V P (k x)) \<Longrightarrow> emits_with V P (State_Monad.bind m k)"
  by (erule emits_bind [where T = "\<lambda>_ _. sound_with P"]) (auto intro: sound_append)

lemma sound_return [sound_intros]: "emits_with V P (State_Monad.return x)"
  by (simp add: emits_return sound_Nil)

lemma sound_quiet [sound_intros]: "quiet V m \<Longrightarrow> emits_with V P (in_world m)"
  by (simp add: emits_quiet sound_Nil)

lemma sound_engine [sound_intros]: "emits_with V P (in_engine g)"
  by (simp add: in_engine_def emits_mem sound_Nil)

lemma sound_lift [sound_intros]: "emits_with V P m \<Longrightarrow> emits_with V P (lift_mem m)"
  unfolding emits_def lift_mem_def by (auto split: prod.splits)

lemmas sound_cases [sound_intros] = emits_if

lemma sound_sum [sound_intros]:
  "(\<And>y. x = Inl y \<Longrightarrow> emits_with V P (g y)) \<Longrightarrow> (\<And>y. x = Inr y \<Longrightarrow> emits_with V P (h y)) \<Longrightarrow>
   emits_with V P (case x of Inl y \<Rightarrow> g y | Inr y \<Rightarrow> h y)"
  by (cases x) auto

lemma sound_tasks [sound_intros]:
  "(\<And>t fc. t \<in> set ts \<Longrightarrow> emits_with V P (t fc)) \<Longrightarrow> emits_with V P (run_tasks ts)"
proof (induction ts)
  case (Cons t ts)
  show ?case
    unfolding run_tasks.simps by (intro sound_intros Cons) simp_all
qed (simp add: sound_intros)

locale engine_host = api_server "g_api env" V
  for env :: "'w engine_env" and V :: "'w world_view" +
  assumes engine_clocks: "quiet V (g_now env)" "quiet V (g_wall env)"
begin

lemma sync_quiet: "quiet V (Sync (g_api env) cfg now s)"
  by (rule keeps_Sync) (simp_all add: lease_quiet)

lemma engine_event_quiet: "quiet V (engine_event env reason msg warn)"
  unfolding engine_event_def
  by (intro keeps_bind engine_clocks event_quiet keeps_return extends_refl extends_trans)

lemma cycle_sound:
  assumes "\<And>t fc. t \<in> set tasks \<Longrightarrow> emits_with V P (t fc)" "\<And>t fc. t \<in> set locals \<Longrightarrow> emits_with V P (t fc)"
  shows "emits_with V P (Cycle env tasks locals)"
proof -
  have load: "emits_with V P (loadConfig env :: ('m, 'w, unit) cycle)"
    unfolding loadConfig_def by (intro sound_intros config_quiet)
  have sync: "emits_with V P (sync_lease env :: ('m, 'w, lease_state) cycle)"
    unfolding sync_lease_def by (intro sound_intros engine_clocks sync_quiet)
  have lead: "emits_with V P (lead env tasks st)" for st
    unfolding lead_def by (intro sound_intros engine_clocks assms(1))
  show ?thesis
    unfolding Cycle_def cycle_body_def
    by (intro sound_intros list_quiet engine_clocks engine_event_quiet load sync lead assms(2))
qed

end

section \<open>The cluster's controllers\<close>

record controller =
  i_hooks :: host_hooks
  i_lease :: leaser_config
  i_NodeName :: string
  i_PodUID :: string
  i_EventNamespace :: string
  i_ConfigMap :: "string \<times> string"
  i_url :: url_parse
  i_PodNamespace :: string
  i_PodSelector :: "(string \<times> string) list"
  i_random :: "fake_world \<Rightarrow> string + int list"
  i_ready :: "fake_world \<Rightarrow> bool"
  i_token :: string
  i_split_host :: "string \<Rightarrow> string option"
  i_is_loopback_ip :: "string \<Rightarrow> bool"
  i_decode_error :: "string \<Rightarrow> string"

definition reboot_of :: "controller \<Rightarrow> fake_world reboot_env" where
  "reboot_of i = fake_env (i_hooks i) (i_lease i) (i_NodeName i) (i_PodUID i) (i_EventNamespace i)"

definition engine_of :: "controller \<Rightarrow> fake_world engine_env" where
  "engine_of i =
     \<lparr> g_api = fake_client, g_lease = i_lease i, g_EventNamespace = i_EventNamespace i,
       g_ConfigMapNamespace = fst (i_ConfigMap i), g_ConfigMapName = snd (i_ConfigMap i),
       g_now = State (\<lambda>w. (h_now (i_hooks i) w, w)), g_wall = State (\<lambda>w. (h_wall (i_hooks i) w, w)),
       g_url = i_url i \<rparr>"

text \<open>The API reads the configuration snapshot of the engine.\<close>

definition api_of :: "controller \<Rightarrow> config \<Rightarrow> fake_world api_env" where
  "api_of i fc =
     \<lparr> a_api = fake_client, a_PodNamespace = i_PodNamespace i, a_PodSelector = i_PodSelector i,
       a_now = State (\<lambda>w. (h_now (i_hooks i) w, w)), a_Features = State (\<lambda>w. (fc, w)),
       a_Ready = State (\<lambda>w. (i_ready i w, w)), a_random = State (\<lambda>w. (i_random i w, w)),
       a_token = i_token i, a_split_host = i_split_host i, a_is_loopback_ip = i_is_loopback_ip i,
       a_decode_error = i_decode_error i \<rparr>"

interpretation gh: engine_host "engine_of i" fake_view
  for i
proof -
  have "api_server (g_api (engine_of i)) fake_view"
    by (simp add: engine_of_def fake.api_server_axioms)
  then show "engine_host (engine_of i) fake_view"
    by (rule engine_host.intro, unfold_locales) (auto simp: engine_of_def quiet_reader)
qed

interpretation ah: api_host "api_of i fc" fake_view
  for i fc
proof -
  have "reliable_api_server (a_api (api_of i fc)) fake_view"
    by (simp add: api_of_def fake.reliable_api_server_axioms)
  then show "api_host (api_of i fc) fake_view"
    by (rule api_host.intro, unfold_locales) (auto simp: api_of_def quiet_reader)
qed

definition instance_cycle :: "controller \<Rightarrow> (reboot_mem, fake_world, outcome) cycle" where
  "instance_cycle i = Cycle (engine_of i) [runOrchestrator (reboot_of i)] [runLocal (reboot_of i)]"

lemma instance_cycle_sound: "emits_sound fake_view (instance_cycle i)"
proof -
  have "emits_sound fake_view (runOrchestrator (reboot_of i) fc)" "emits_sound fake_view (runLocal (reboot_of i) fc)" for fc
    unfolding reboot_of_def
    by (rule emits_weaken [OF rh.run_emits sound_cycle], assumption)
       (rule emits_weaken [OF rh.local_emits sound_local], assumption)
  then show ?thesis unfolding instance_cycle_def by (intro gh.cycle_sound) auto
qed

lemma handler_sound:
  assumes "wf_world w" "run_state (Handler (api_of i fc) req) w = (rep, w')"
  shows "wf_world w' \<and> (\<exists>es. accepted w' = accepted w @ es \<and> sound_log es)"
proof -
  let ?e = "api_of i fc"
  have ready: "emits_sound fake_view (in_world (readyz ?e) :: (unit \<times> fake_world, reply) state)"
    unfolding readyz_def by (intro sound_quiet keeps_bind keeps_return ah.hooks_quiet) simp_all
  have get: "emits_sound fake_view (in_world (getReboot ?e nm) :: (unit \<times> fake_world, reply) state)" for nm
    unfolding getReboot_def by (intro sound_quiet keeps_bind keeps_return ah.get_quiet) simp_all
  have lst: "emits_sound fake_view (in_world (listReboots ?e) :: (unit \<times> fake_world, reply) state)"
    unfolding listReboots_def by (intro sound_quiet keeps_bind keeps_return ah.list_quiet) simp_all
  have post: "emits_sound fake_view (in_world (postReboots ?e b) :: (unit \<times> fake_world, reply) state)" for b
    by (rule emits_weaken [OF ah.post_emits sound_post])
  have del: "emits_sound fake_view (in_world (deleteReboot ?e nm) :: (unit \<times> fake_world, reply) state)" for nm
    by (rule emits_weaken [OF ah.delete_emits sound_delete])
  have "emits_sound fake_view (in_world (Handler ?e req) :: (unit \<times> fake_world, reply) state)"
    unfolding Handler_def auth_gate
    by (cases "h_route req")
       (simp_all add: ready get lst post del in_world_simps(2) sound_return)
  from emitsD [OF this, of w "()" rep "()" w'] assms show ?thesis
    by (simp add: fake_view_sel in_world_def)
qed

lemma api_log:
  assumes "api_emits fake_view S m" "wf_world w" "run_state m w = (rep, w')"
  shows "\<exists>es. accepted w' = accepted w @ es \<and> S rep es"
  using emitsD [OF assms(1), of w "()" rep "()" w'] assms(2,3) by (simp add: fake_view_sel in_world_def)



type_synonym cluster_state = "(string \<Rightarrow> engine \<times> reboot_mem) \<times> fake_world"

inductive ctl_step :: "(string \<Rightarrow> controller) \<Rightarrow> cluster_state \<Rightarrow> cluster_state \<Rightarrow> bool" for inst where
  cycle: "run_state (instance_cycle (inst k)) (m k, w) = (r, (mk, w')) \<Longrightarrow> ctl_step inst (m, w) (m(k := mk), w')"
| http: "run_state (Handler (api_of (inst k) (feat (fst (m k)))) req) w = (rep, w') \<Longrightarrow> ctl_step inst (m, w) (m, w')"
| restart: "ctl_step inst (m, w) (m(k := (new_engine, mem0)), w)"

lemma step_sound:
  assumes "ctl_step inst (m, w) (m', w')" "wf_world w \<and> sound_log (accepted w)"
  shows "wf_world w' \<and> sound_log (accepted w')"
  using assms(1)
proof cases
  case (cycle k r mk)
  then have run: "run_state (instance_cycle (inst k)) (m k, w) = (r, (mk, w'))" by simp
  have "ok fake_view w" using assms(2) by (simp add: fake_view_sel)
  from emitsD [OF instance_cycle_sound this run] assms(2) show ?thesis
    by (auto simp: fake_view_sel intro: sound_append)
next
  case (http k req rep)
  from assms(2) have wf: "wf_world w" and s: "sound_log (accepted w)" by simp_all
  from handler_sound [OF wf http(2)] s show ?thesis by (auto intro: sound_append)
next
  case restart
  with assms(2) show ?thesis by simp
qed

text \<open>Take any number of controller instances, with any clocks, boot identifiers and configuration, that run
  engine cycles, serve API requests and crash and start anew in any order, while other clients act at every request:
  in the log of everything the controllers have written, every patch is a request of a re-requestable node,
  an edge of the lifecycle from the state the patched version has, a clearing of a node that is not
  draining, or leaves request and lifecycle alone, and every reboot command comes directly after the
  accepted record of its attempt on a node that is Rebooting.\<close>

theorem controllers_sound:
  assumes "(ctl_step inst)\<^sup>*\<^sup>* (m, w) (m', w')" "wf_world w" "accepted w = []"
  shows "sound_log (accepted w')"
proof -
  have "wf_world w \<and> sound_log (accepted w)" using assms(2,3) by (simp add: sound_Nil)
  with assms(1) have "wf_world w' \<and> sound_log (accepted w')"
    by (induction rule: rtranclp_induct2) (use step_sound in blast)+
  then show ?thesis by simp
qed

definition sample_instance :: controller where
  "sample_instance = \<lparr> i_hooks = hooks1, i_lease = lease1, i_NodeName = ''n1'', i_PodUID = ''p1'', i_EventNamespace = ''default'',
     i_ConfigMap = (''kube-system'', ''cm''), i_url = (\<lambda>_. None), i_PodNamespace = [], i_PodSelector = [],
     i_random = (\<lambda>_. Inr [1, 2, 3]), i_ready = (\<lambda>_. True), i_token = ''t'', i_split_host = (\<lambda>_. None),
     i_is_loopback_ip = (\<lambda>_. False), i_decode_error = (\<lambda>_. ''bad'') \<rparr>"

definition after_cycle :: cluster_state where
  "after_cycle =
     (let s = snd (run_state (instance_cycle sample_instance) ((new_engine, mem0), requested_world))
      in ((\<lambda>_. (new_engine, mem0))(''n1'' := fst s), snd s))"

definition final_world :: fake_world where
  "final_world = snd (run_state (Handler (api_of sample_instance (feat (fst (fst after_cycle ''n1''))))
     \<lparr> h_route = DeleteReboot ''n1'', h_remote = [], h_authorization = ''Bearer t'', h_body = [] \<rparr>) (snd after_cycle))"

theorem controllers_sound_witness: "sound_log (accepted final_world)"
proof -
  let ?i = "\<lambda>_ :: string. sample_instance" and ?m = "\<lambda>_ :: string. (new_engine, mem0)"
  have "ctl_step ?i (?m, requested_world) (fst after_cycle, snd after_cycle)"
    unfolding after_cycle_def Let_def fst_conv snd_conv
    by (rule ctl_step.cycle [where k = "''n1''" and
          r = "fst (run_state (instance_cycle sample_instance) ((new_engine, mem0), requested_world))"]) simp
  moreover have "ctl_step ?i (fst after_cycle, snd after_cycle) (fst after_cycle, final_world)"
    unfolding final_world_def by (rule ctl_step.http [OF prod.collapse [symmetric]])
  ultimately have "(ctl_step ?i)\<^sup>*\<^sup>* (?m, requested_world) (fst after_cycle, final_world)"
    by (meson converse_rtranclp_into_rtranclp rtranclp.rtrancl_refl)
  from controllers_sound [OF this] show ?thesis
    using cluster_wf by (simp add: requested_world_def cluster_def Let_def)
qed

definition completed_world :: fake_world where
  "completed_world = cluster [AnnState \<mapsto> StateValue Completed 1700000000000000000]"

lemma completed_wf: "wf_world completed_world"
  by (simp add: completed_world_def cluster_wf)

definition deleted :: "reply \<times> fake_world" where
  "deleted = run_state (deleteReboot (api_of sample_instance config1) ''n1'') completed_world"

lemma deleted_code: "r_code (fst deleted) = 204"
  by code_simp


definition request_body :: string where
  "request_body = print_json (JObj [(''nodes'', JArr [JStr ''n1'', JStr ''n2'']), (''force'', JBool True)])"

definition posted :: "reply \<times> fake_world" where
  "posted = run_state (postReboots (api_of sample_instance config1) request_body) completed_world"


end
