(* ===== verification/Update_World.thy ===== *)
theory Update_World
  imports Update_Safety Boot_Store Controller
begin

text \<open>
  The update feature on a pod: the world is the host with its boot partition (\<open>Boot_Store\<close>) beside
  the fake cluster with its arbitrary schedule of foreign steps. The interface of \<open>Update_Safety\<close> is
  interpreted on it, the boot store being the physical one, so that the statements here speak of the
  patches the cluster has accepted and of the files on the partition together.
\<close>

section \<open>A host beside a cluster\<close>

definition lift_api :: "'w kube_api \<Rightarrow> ('h \<times> 'w) kube_api" where
  "lift_api api =
     \<lparr> getNode = (\<lambda>nm. in_world (getNode api nm)), patchNode = (\<lambda>nm p. in_world (patchNode api nm p)),
       listNodes = in_world (listNodes api), listPods = in_world (listPods api), listPDBs = in_world (listPDBs api),
       evict = (\<lambda>ns pd. in_world (evict api ns pd)), deletePod = (\<lambda>ns pd. in_world (deletePod api ns pd)),
       getLease = (\<lambda>ns nm. in_world (getLease api ns nm)), createLease = (\<lambda>l. in_world (createLease api l)),
       updateLease = (\<lambda>l. in_world (updateLease api l)), getConfigMap = (\<lambda>ns nm. in_world (getConfigMap api ns nm)),
       createEvent = (\<lambda>ns ev. in_world (createEvent api ns ev)) \<rparr>"

definition lift_view :: "'w world_view \<Rightarrow> ('h \<times> 'w) world_view" where
  "lift_view V = \<lparr> ok = (\<lambda>(h, w). ok V w), seen = (\<lambda>(h, w). seen V w), log = (\<lambda>(h, w). log V w) \<rparr>"

lemma lift_view_sel [simp]:
  "ok (lift_view V) (h, w) = ok V w" "seen (lift_view V) (h, w) = seen V w" "log (lift_view V) (h, w) = log V w"
  by (simp_all add: lift_view_def)

lemma extends_lift: "extends (lift_view V) P (h, w) (h', w') = extends V P w w'"
  by (simp add: extends_def)

lemma quiet_in_world: "quiet V m \<Longrightarrow> quiet (lift_view V) (in_world m)"
  by (rule keepsI) (auto simp: in_world_def extends_lift dest: keepsD split: prod.splits)

lemma quiet_in_mem: "quiet (lift_view V) (in_mem g)"
  by (rule keepsI) (auto simp: in_mem_def extends_lift extends_def split: prod.splits)

lemma run_in_world: "run_state (in_world m) (h, w) = (a, (h', w')) \<longleftrightarrow> h' = h \<and> run_state m w = (a, w')"
  by (auto simp: in_world_def split: prod.splits)

lemma lifted_server:
  assumes "reliable_api_server api V"
  shows "reliable_api_server (lift_api api) (lift_view V)"
proof -
  have a: "api_server api V" using assms by (rule reliable_api_server.axioms)
  note sel = lift_api_def kube_api.simps
  note calls = api_server.get_quiet [OF a] api_server.list_quiet [OF a] api_server.pod_quiet [OF a]
    api_server.lease_quiet [OF a] api_server.config_quiet [OF a] api_server.event_quiet [OF a]
  show ?thesis
  proof (unfold_locales, goal_cases)
    case (2 w nm n w')
    then show ?case using api_server.get_seen [OF a] by (cases w; cases w') (auto simp: sel run_in_world)
  next
    case (3 w nm p r w' m)
    obtain h v h' v' where e: "w = (h, v)" "w' = (h', v')" by (cases w; cases w')
    with 3 have "run_state (patchNode api nm p) v = (r, v')" "ok V v" "seen V v nm m" "h' = h" by (auto simp: sel run_in_world)
    from api_server.patch_accepted [OF a this(2) this(1) this(3)] 3 show ?case by (simp add: e)
  next
    case (14 w nm p e w')
    then show ?case using reliable_api_server.patch_refused [OF assms] by (cases w; cases w') (auto simp: sel run_in_world)
  qed (simp_all only: sel calls [THEN quiet_in_world])
qed

section \<open>The pod\<close>

text \<open>What the pod reads from its surroundings, arbitrary functions of the world.\<close>

definition reading :: "('w \<Rightarrow> 'a) \<Rightarrow> ('w, 'a) state" where
  "reading g = State (\<lambda>w. (g w, w))"

type_synonym pod_world = "boot_host \<times> fake_world"

record pod_hooks =
  ph_now :: "pod_world \<Rightarrow> gtime"
  ph_wall :: "pod_world \<Rightarrow> gtime"
  ph_leader :: "pod_world \<Rightarrow> bool"
  ph_random :: "pod_world \<Rightarrow> string + int list"
  ph_get :: "string \<Rightarrow> pod_world \<Rightarrow> http_reply"
  ph_read :: "string \<Rightarrow> pod_world \<Rightarrow> string option"
  ph_rewind :: "string \<Rightarrow> pod_world \<Rightarrow> bool"
  ph_armored :: "string \<Rightarrow> string list option"
  ph_binary :: "string \<Rightarrow> string list option"
  ph_dearmor :: "string \<Rightarrow> string option"
  ph_check :: "string list \<Rightarrow> string \<Rightarrow> string \<Rightarrow> signature_verdict"
  ph_error_text :: "boot_error \<Rightarrow> string"

definition pod_release :: "pod_hooks \<Rightarrow> pod_world release_host" where
  "pod_release h =
     \<lparr> rh_get = (\<lambda>url. reading (ph_get h url)), rh_exists = (\<lambda>p. reading (\<lambda>w. ph_read h p w \<noteq> None)),
       rh_read = (\<lambda>p. reading (ph_read h p)), rh_rewind = (\<lambda>p. reading (ph_rewind h p)),
       rh_armored = ph_armored h, rh_binary = ph_binary h, rh_dearmor = ph_dearmor h, rh_check = ph_check h \<rparr>"

text \<open>The physical store.\<close>

definition physical_store :: "store_config \<Rightarrow> (boot_host \<times> 'w) boot_store" where
  "physical_store sc =
     \<lparr> bs_Versions = in_mem (run_state (Versions sc)), bs_Stage = (\<lambda>req. in_mem (run_state (Stage sc req))),
       bs_Kernels = in_mem (run_state (Kernels sc)),
       bs_EnsureBootGoal = (\<lambda>v a. in_mem (run_state (EnsureBootGoal sc v a))) \<rparr>"

text \<open>As \<open>main\<close> wires it: the physical store, the two fixed keyrings, and the plans' ConfigMap in the
  namespace of the pod.\<close>

definition pod_env :: "pod_hooks \<Rightarrow> store_config \<Rightarrow> string \<Rightarrow> string \<Rightarrow> pod_world update_env" where
  "pod_env h sc nodeName podNS =
     \<lparr> u_api = lift_api fake_client, u_DeleteConfigMap = (\<lambda>ns nm. in_world (DeleteConfigMap fake_transport ns nm)),
       u_leader = reading (ph_leader h), u_store = Some (physical_store sc), u_release = pod_release h,
       u_now = reading (ph_now h), u_wall = reading (ph_wall h), u_random = reading (ph_random h),
       u_error_text = ph_error_text h, u_NodeName = nodeName, u_EventNamespace = ''default'',
       u_CustomKeyring = ''/etc/simplek8s/custom/pubring.gpg'', u_EmbeddedKeyring = ''/etc/simplek8s/pubring.gpg'',
       u_PlanNamespace = podNS, u_PlanName = ''simplek8s-update-plans'' \<rparr>"

lemma quiet_reading: "quiet V (reading g)"
  by (rule keepsI) (auto simp: reading_def extends_def)

interpretation uh: update_host "pod_env h sc nm ns" "lift_view fake_view"
  for h sc nm ns
proof -
  have r: "reliable_api_server (u_api (pod_env h sc nm ns)) (lift_view fake_view)"
    by (simp add: pod_env_def lifted_server fake.reliable_api_server_axioms)
  have d: "quiet fake_view (DeleteConfigMap fake_transport n m)" for n m
    unfolding DeleteConfigMap_def by (simp add: keeps_map_st quiet_Do)
  show "update_host (pod_env h sc nm ns) (lift_view fake_view)"
    by (rule update_host.intro [OF r], unfold_locales)
       (auto simp: pod_env_def pod_release_def physical_store_def quiet_reading quiet_in_mem quiet_in_world d)
qed

section \<open>What a cycle of the pod may do\<close>

lemma pod_log:
  assumes "emits (lift_view fake_view) S m" "wf_world w" "run_state m (f, (b, w)) = (r, (f', (b', w')))"
  shows "wf_world w' \<and> (\<exists>es. accepted w' = accepted w @ es \<and> S r es)"
  using emitsD [OF assms(1) _ assms(3)] assms(2) by (simp add: fake_view_sel)

lemma silent_run:
  assumes "emits_all (lift_view fake_view) (\<lambda>_. False) m" "wf_world w" "run_state m (f, (b, w)) = (r, (f', (b', w')))"
  shows "wf_world w' \<and> accepted w' = accepted w"
  using pod_log [OF assms] by (auto simp: list_all_iff)


text \<open>C6: staging never moves a goal that is held: whatever other clients do meanwhile, every patch of the step either
  clears a completed reboot or moves the goal of a version of the node whose goal is absent, is the running
  version, or is the very goal the step was given, found neither running nor in the verified index.\<close>

theorem held_goal_kept:
  assumes "wf_world w" "run_state (maybeStage (pod_env h sc nm ns) nd fc res) (f, (b, w)) = (r, (f', (b', w')))"
  shows "wf_world w' \<and> (\<exists>es. accepted w' = accepted w @ es \<and> list_all (stage_entry nd res) es)"
  by (rule pod_log [OF uh.stage_all assms])

section \<open>No reboot into a missing kernel\<close>

lemma lift_api_sel [simp]:
  "getNode (lift_api api) nm = in_world (getNode api nm)" "patchNode (lift_api api) nm p = in_world (patchNode api nm p)"
  "createEvent (lift_api api) ns ev = in_world (createEvent api ns ev)"
  by (simp_all add: lift_api_def)

lemma lift_transition:
  fixes api :: "'w kube_api"
  shows "PatchTransition (lift_api api :: ('h \<times> 'w) kube_api) nm k bld = in_world (PatchTransition api nm k bld)"
proof -
  have "patch_attempts (lift_api api :: ('h \<times> 'w) kube_api) nm (State_Monad.return ()) (\<lambda>_. bld) j =
    in_world (patch_attempts api nm (State_Monad.return ()) (\<lambda>_. bld) j)" for j
  proof (induction j)
    case (Suc j)
    show ?case
      by (rule state.expand, rule ext)
         (auto simp: Suc in_world_def split: prod.splits sum.splits option.splits build.splits)
  qed (rule state.expand, rule ext, auto simp: in_world_def)
  then show ?thesis by (simp add: PatchTransition_def PatchTransitionReading_def)
qed

text \<open>Computations that leave the host alone.\<close>

abbreviation host_kept :: "('m \<times> pod_world, 'a) state \<Rightarrow> bool" where
  "host_kept m \<equiv> keeps (\<lambda>s s'. fst (snd s') = fst (snd s)) m"

lemma host_world: "host_kept (in_world (in_world m))"
  by (rule keepsI) (auto simp: in_world_def split: prod.splits)

lemma host_reading: "host_kept (in_world (reading g))"
  by (rule keepsI) (auto simp: in_world_def reading_def split: prod.splits)

lemma host_mem: "host_kept (in_mem g)"
  by (rule keepsI) (auto simp: in_mem_def split: prod.splits)

lemma host_order: "reflp (\<lambda>(s :: 'm \<times> pod_world) s'. fst (snd s') = fst (snd s))"
  "transp (\<lambda>(s :: 'm \<times> pod_world) s'. fst (snd s') = fst (snd s))"
  by (auto simp: reflp_def transp_def)

lemma pod_env_sel [simp]:
  "u_api (pod_env h sc nm ns) = lift_api fake_client" "u_store (pod_env h sc nm ns) = Some (physical_store sc)"
  "u_wall (pod_env h sc nm ns) = reading (ph_wall h)" "u_random (pod_env h sc nm ns) = reading (ph_random h)"
  by (simp_all add: pod_env_def)

lemma host_event: "host_kept (update_event (pod_env h sc nm ns) n r m b)"
  unfolding update_event_def pod_env_sel lift_api_sel
  by (intro io_intros host_order host_reading host_world)

lemma host_held: "host_kept (noteHeld (pod_env h sc nm ns) n b)"
  unfolding noteHeld_def by (intro io_intros host_order host_mem host_event)

lemma host_landed: "host_kept (landed (pod_env h sc nm ns) n bld)"
  unfolding landed_def pod_env_sel lift_transition by (intro io_intros host_order host_world)

lemma host_request_id: "host_kept (newControllerRequestID (pod_env h sc nm ns) now)"
  unfolding newControllerRequestID_def pod_env_sel by (intro io_intros host_order host_reading)

lemma host_keptD: "host_kept m \<Longrightarrow> run_state m (f, (b, w)) = (r, (f', (b', w'))) \<Longrightarrow> b' = b"
  by (drule keepsD) auto

lemma kernels_cache_ok: "cache_ok (sc_kernelDir sc) b \<Longrightarrow> run_state (Kernels sc) b = (r, b') \<Longrightarrow> cache_ok (sc_kernelDir sc) b'"
  unfolding Kernels_def using mounted_boot only_list(2) by blast

lemma flavor_cache_ok:
  assumes "run_state (flavorOf (pod_env h sc nm ns)) (f, (b, w)) = (r, (f', (b', w')))" "cache_ok (sc_kernelDir sc) b"
  shows "cache_ok (sc_kernelDir sc) b'"
  using assms kernels_cache_ok
  by (auto simp: flavorOf_def physical_store_def in_world_def in_mem_def split: prod.splits option.splits sum.splits if_splits)

definition on_partition :: "string \<Rightarrow> string \<Rightarrow> string \<Rightarrow> boot_host \<Rightarrow> bool" where
  "on_partition dir version arch h \<longleftrightarrow>
     (\<exists>dev fs. part h (canonicalKey (bh_links h) dev) = Some fs \<and> goal_reached dir version arch fs)"

lemma enqueue_goal_run:
  assumes w: "wf_world w" and c: "cache_ok (sc_kernelDir sc) b"
    and run: "run_state (enqueue_goal (pod_env h sc nm ns) (physical_store sc) nd now arch) (f, (b, w)) = ((), (f', (b', w')))"
    and new: "accepted w' \<noteq> accepted w"
  shows "\<exists>n p. accepted w' = accepted w @ [Patched (Name (Metadata nd)) n p] \<and> enqueues (Patched (Name (Metadata nd)) n p) \<and>
    NextKernel (node_update n) = NextKernel (node_update nd) \<and>
    on_partition (sc_kernelDir sc) (NextKernel (node_update nd)) arch b'"
proof -
  let ?env = "pod_env h sc nm ns" and ?goal = "NextKernel (node_update nd)"
  obtain x b1 where e: "run_state (EnsureBootGoal sc ?goal arch) b = (x, b1)" by fastforce
  then have r0: "run_state (in_world (bs_EnsureBootGoal (physical_store sc) ?goal arch)) (f, (b, w)) = (x, (f, (b1, w)))"
    by (simp add: physical_store_def in_world_def in_mem_def)
  show ?thesis
  proof (cases x)
    case (Inl er)
    then show ?thesis using run r0 new by (simp add: enqueue_goal_def Let_def)
  next
    case (Inr rep)
    obtain i f2 b2 w2 where i: "run_state (newControllerRequestID ?env now) (f, (b1, w)) = (i, (f2, (b2, w2)))"
      by (metis prod.collapse)
    have b2: "b2 = b1" using host_keptD [OF host_request_id i] .
    have w2: "wf_world w2" "accepted w2 = accepted w" using silent_run [OF uh.request_id_all w i] by simp_all
    show ?thesis
    proof (cases i)
      case (Inl er)
      then show ?thesis using run r0 Inr i new w2 by (simp add: enqueue_goal_def Let_def)
    next
      fix reqID assume iq: "i = Inr reqID"
      let ?bld = "EnqueueControllerBuild now reqID ?goal (RunningVersion (KernelVersion nd))"
      obtain g f3 b3 w3 where l: "run_state (landed ?env (Name (Metadata nd)) ?bld) (f2, (b2, w2)) = (g, (f3, (b3, w3)))"
        by (metis prod.collapse)
      then have fin: "b' = b3" "w' = w3" using run r0 Inr i iq by (auto simp: enqueue_goal_def Let_def)
      have b3: "b3 = b1" using host_keptD [OF host_landed l] b2 by simp
      from l obtain er where t: "run_state (PatchTransition fake_client (Name (Metadata nd)) 3 ?bld) w2 = (er, w3)"
        unfolding landed_def by (auto simp: lift_transition in_world_def split: prod.splits)
      have "case er of None \<Rightarrow> \<exists>n p. accepted w3 = accepted w2 @ [Patched (Name (Metadata nd)) n p] \<and> ?bld n = Apply p
          | Some e \<Rightarrow> accepted w3 = accepted w2"
        using fake.transition_exact [OF versioned_builds(6) fake.quiet_return _ t [unfolded PatchTransition_def PatchTransitionReading_def]]
          w2(1) by (cases er) (auto simp: fake_view_sel)
      with new fin w2(2) obtain n p where n: "accepted w3 = accepted w2 @ [Patched (Name (Metadata nd)) n p]" "?bld n = Apply p"
        by (auto split: option.splits)
      then have "enqueues (Patched (Name (Metadata nd)) n p)" "NextKernel (node_update n) = ?goal"
        by (auto intro: enqueue_enqueues simp: EnqueueControllerBuild_def node_update_def Let_def split: if_splits)
      moreover have "on_partition (sc_kernelDir sc) ?goal arch b1"
        using ensure_goal_reached [OF e [unfolded Inr] c] by (simp add: on_partition_def)
      ultimately show ?thesis using n(1) w2(2) fin b3 by auto
    qed
  qed
qed


section \<open>A pod\<close>

definition pod_hooks1 :: pod_hooks where
  "pod_hooks1 =
     \<lparr> ph_now = (\<lambda>_. 1700000100000000000), ph_wall = (\<lambda>_. 1700000100000000000), ph_leader = (\<lambda>_. False),
       ph_random = (\<lambda>_. Inr [1, 2, 3]), ph_get = (\<lambda>_ _. HttpReply 404 (Some [])), ph_read = (\<lambda>_ _. None),
       ph_rewind = (\<lambda>_ _. True), ph_armored = (\<lambda>_. None), ph_binary = (\<lambda>_. None), ph_dearmor = (\<lambda>_. None),
       ph_check = (\<lambda>_ _ _. SigBad), ph_error_text = (\<lambda>_. []) \<rparr>"

definition pod_store :: store_config where
  "pod_store = \<lparr> sc_devRoot = ''/dev'', sc_kernelDir = ''simplek8s'', sc_env = sample_env \<rparr>"

definition pod_partition :: boot_fs where
  "pod_partition = \<lparr> bf_files = [(''grub/grub.cfg'', ''set default=0'' @ [newline] @ ''menuentry '' @ [CHR 0x22, CHR ''A'', CHR 0x22] @ '' {'' @
       [newline] @ ''linux /simplek8s/simplek8s.202608.rpi4.efi'' @ [newline] @ ''}''), (''simplek8s/simplek8s.202608.rpi4.efi'', ''k'')],
     bf_dirs = [''grub'', ''simplek8s''], bf_script = [] \<rparr>"

definition pod_host :: boot_host where
  "pod_host = \<lparr> bh_links = [], bh_blkid = None, bh_parts = [(''/dev/sda1'', pod_partition)],
     bh_mounts = [], bh_cache = Some ''/dev/sda1'', bh_lock = Unlocked \<rparr>"

definition pod_cluster :: "string \<Rightarrow> fake_world" where
  "pod_cluster goal =
     (let s = SetNodeInfo ''n1'' ''simplek8s-202601'' ''amd64''
            (SetNode ''n1'' [AnnNextKernel \<mapsto> goal] False Map.empty ''u1'' NewFakeAPI)
      in \<lparr> server = s, schedule = [], versions = nodes s, accepted = [] \<rparr>)"

definition pod_config :: config where
  "pod_config = config1\<lparr> RebootWindows := (case Cron.Parse ''@300'' of Inr s \<Rightarrow> [s] | Inl _ \<Rightarrow> []) \<rparr>"

definition pod_node :: "string \<Rightarrow> node" where
  "pod_node goal = snd (hd (nodes (server (pod_cluster goal))))"

definition pod_enqueued :: "unit \<times> update_mem \<times> pod_world" where
  "pod_enqueued = run_state (maybeEnqueue (pod_env pod_hooks1 pod_store ''n1'' ''kube-system'') (pod_node ''202608'')
     pod_config 1700000100000000000) (new_update_mem\<lparr> um_flavor := ''rpi4'', flavorKnown := True \<rparr>, (pod_host, pod_cluster ''202608''))"
lemma pod_eligible: "reboot_eligible (pod_node ''202608'')" "Name (Metadata (pod_node ''202608'')) = ''n1''"
  "NextKernel (node_update (pod_node ''202608'')) = ''202608''" "RunningVersion (KernelVersion (pod_node ''202608'')) = ''202601''"
  by code_simp+

lemma pod_window: "WindowsOpen (RebootWindows pod_config) (RebootWindowGrace pod_config) 1700000100000000000"
  by code_simp

lemma pod_ensured: "fst (run_state (EnsureBootGoal pod_store ''202608'' ''rpi4'') pod_host) = Inr False"
  by code_simp

lemma pod_patched:
  "fst (run_state (PatchTransition fake_client ''n1'' 3 (EnqueueControllerBuild 1700000100000000000
     (format_rfc3339 1700000100000000000 @ ''-'' @ hex_encode [1, 2, 3]) ''202608'' ''202601''))
     (pod_cluster ''202608'')) = None"
  by code_simp

lemma pod_cluster_wf: "wf_world (pod_cluster goal)"
proof (rule wf_worldI)
  fix nm n
  assume "(nm, n) \<in> set (versions (pod_cluster goal))"
  then show "\<exists>c. ResourceVersion (Metadata n) = itoa c \<and> 0 < c \<and> c \<le> rvCounter (server (pod_cluster goal))"
    by (auto simp: pod_cluster_def SetNodeInfo_def change_node_def SetNode_def next_rv_def NewFakeAPI_def Let_def intro!: exI [of _ 2])
qed (auto simp: pod_cluster_def SetNodeInfo_def change_node_def SetNode_def next_rv_def NewFakeAPI_def Let_def)

lemma pod_cache: "cache_ok (sc_kernelDir pod_store) pod_host"
proof -
  have "part pod_host (canonicalKey (bh_links pod_host) ''/dev/sda1'') = Some pod_partition" by code_simp
  moreover have "bootable (sc_kernelDir pod_store) pod_partition" by code_simp
  ultimately show ?thesis by (simp add: cache_ok_def bootable_device_def) (simp add: pod_host_def)
qed

lemma pod_random: "ph_random pod_hooks1 = (\<lambda>_. Inr [1, 2, 3])"
  by (simp add: pod_hooks1_def)

lemma pod_requested:
  "\<exists>f' b' w'. pod_enqueued = ((), (f', (b', w'))) \<and> accepted w' \<noteq> accepted (pod_cluster ''202608'')"
proof -
  obtain b' where e: "run_state (EnsureBootGoal pod_store ''202608'' ''rpi4'') pod_host = (Inr False, b')"
    using pod_ensured by (metis prod.collapse)
  obtain w' where t: "run_state (PatchTransition fake_client ''n1'' 3 (EnqueueControllerBuild 1700000100000000000
     (format_rfc3339 1700000100000000000 @ ''-'' @ hex_encode [1, 2, 3]) ''202608'' ''202601'')) (pod_cluster ''202608'') = (None, w')"
    using pod_patched by (metis prod.collapse)
  have "accepted w' \<noteq> accepted (pod_cluster ''202608'')"
    using fake.transition_exact [OF versioned_builds(6) fake.quiet_return _ t [unfolded PatchTransition_def PatchTransitionReading_def]]
      pod_cluster_wf [of "''202608''"] by (auto simp: fake_view_sel)
  moreover have "\<exists>f'. pod_enqueued = ((), (f', (b', w')))"
    using e t pod_window
    by (simp add: pod_enqueued_def maybeEnqueue_def pod_eligible flavorOf_def noteHeld_def note_edge_def enqueue_goal_def
        newControllerRequestID_def landed_def lift_transition physical_store_def in_world_def in_mem_def reading_def pod_random
        new_update_mem_def Let_def)
  ultimately show ?thesis by blast
qed


definition pod_cycled :: "outcome \<times> update_mem \<times> pod_world" where
  "pod_cycled = run_state (RunLocal (pod_env pod_hooks1 pod_store ''n1'' ''kube-system'') pod_config)
     (new_update_mem, (pod_host, pod_cluster ''202608''))"


definition pod_staged :: "bool \<times> update_mem \<times> pod_world" where
  "pod_staged = run_state (maybeStage (pod_env pod_hooks1 pod_store ''n1'' ''kube-system'') (pod_node ''202608'') pod_config
       (check_of ''https://r'' (pod_node ''202608'') ''rpi4'' sample_sums))
     (new_update_mem, (pod_host, pod_cluster ''202608''))"

theorem held_goal_kept_witness:
  "\<exists>es. accepted (snd (snd (snd pod_staged))) = accepted (pod_cluster ''202608'') @ es \<and>
     list_all (stage_entry (pod_node ''202608'') (check_of ''https://r'' (pod_node ''202608'') ''rpi4'' sample_sums)) es"
proof -
  obtain r f' b' w' where r: "pod_staged = (r, (f', (b', w')))" by (metis prod.collapse)
  from held_goal_kept [OF pod_cluster_wf r [unfolded pod_staged_def]] show ?thesis by (simp add: r)
qed

end
