(* ===== verification/Whole_System.thy ===== *)
theory Whole_System
  imports Update_World
begin

text \<open>
  The whole controller, as \<open>cmd/simplek8s-controller/main.go\<close> puts it together: the engine's cycle with
  the orchestrator and the update feature's verification as the leader's tasks, the reboot executor
  and the update cycle on every node, and the REST API; a boot partition per host. Instances run,
  crash and start anew, other clients act at every request, and anything may happen to a host's
  partition between the cycles. Proved: the log of everything the controllers write stays sound.
\<close>

section \<open>The entries\<close>

definition pod_entry :: "log_entry \<Rightarrow> bool" where
  "pod_entry e \<longleftrightarrow> system_entry e \<or> rearms e"

lemma goal_still: "moves_goal Q e \<Longrightarrow> still_entry e"
  by (auto simp: moves_goal_def still_entry_def writes_def annotationsPatch_def split: log_entry.splits)

lemma claim_still: "claims e \<Longrightarrow> still_entry e"
  by (auto simp: claims_def still_entry_def writes_def UpdateLastCheckPatch_def annotationsPatch_def split: log_entry.splits)

lemma marker_still: "drops_marker e \<Longrightarrow> still_entry e"
  by (auto simp: drops_marker_def still_entry_def writes_def ClearRebootEligiblePatch_def annotationsPatch_def split: log_entry.splits)

lemma still_pod: "still_entry e \<Longrightarrow> pod_entry e"
  by (simp add: pod_entry_def system_entry_def legal_entry_def)

lemma update_pod: "update_entry u e \<Longrightarrow> pod_entry e"
  unfolding update_entry_def ungated_def gated_def
  by (elim disjE conjE) (blast intro: still_pod goal_still claim_still marker_still | simp add: pod_entry_def)+

lemma enqueue_requests: "enqueues e \<Longrightarrow> request_entry e"
  by (auto simp: enqueues_def request_entry_def reRequestable_def InLifecycle_def split: log_entry.splits option.splits)

lemma enqueue_pod: "enqueues e \<Longrightarrow> pod_entry e"
  by (simp add: pod_entry_def system_entry_def enqueue_requests)

lemma not_started_pod: "\<not> pod_entry RebootStarted"
  using not_started by (simp add: pod_entry_def rearms_def)

lemma sound_pods: "list_all pod_entry es \<Longrightarrow> sound_with pod_entry es"
  by (rule sound_all) (use not_started_pod in auto)

lemma cycle_update_sound: "cycle_update_log fc es \<Longrightarrow> sound_with pod_entry es"
  by (rule sound_pods)
     (unfold cycle_update_log_def update_log_def list_all_iff, use update_pod enqueue_pod in fastforce)

lemma sound_pod: "sound_log es \<Longrightarrow> sound_with pod_entry es"
  by (erule sound_mono) (simp add: pod_entry_def)

section \<open>One instance\<close>

text \<open>The memory of the features beside the host's disk.\<close>

type_synonym pod_mem = "reboot_mem \<times> update_mem \<times> boot_host"

definition on_reboot :: "(reboot_mem \<times> 'w, 'a) state \<Rightarrow> (pod_mem \<times> 'w, 'a) state" where
  "on_reboot m = State (\<lambda>((r, u), w). case run_state m (r, w) of (a, (r', w')) \<Rightarrow> (a, ((r', u), w')))"

definition on_update :: "(update_mem \<times> (boot_host \<times> 'w), 'a) state \<Rightarrow> (pod_mem \<times> 'w, 'a) state" where
  "on_update m = State (\<lambda>((r, (u, h)), w). case run_state m (u, (h, w)) of (a, (u', (h', w'))) \<Rightarrow> (a, ((r, (u', h')), w')))"

lemma emits_on_reboot: "emits V S m \<Longrightarrow> emits V S (on_reboot m)"
  unfolding emits_def on_reboot_def by (auto split: prod.splits)

lemma emits_on_update: "emits (lift_view V) S m \<Longrightarrow> emits V S (on_update m)"
  unfolding emits_def on_update_def by (auto split: prod.splits)

record pod_instance =
  pi_ctl :: controller
  pi_hooks :: pod_hooks
  pi_store :: store_config

definition update_of :: "pod_instance \<Rightarrow> pod_world update_env" where
  "update_of p = pod_env (pi_hooks p) (pi_store p) (i_NodeName (pi_ctl p)) (fst (i_ConfigMap (pi_ctl p)))"

definition pod_cycle :: "pod_instance \<Rightarrow> (pod_mem, fake_world, outcome) cycle" where
  "pod_cycle p = Cycle (engine_of (pi_ctl p))
     [\<lambda>fc. on_reboot (runOrchestrator (reboot_of (pi_ctl p)) fc), \<lambda>fc. on_update (update_Run (update_of p) fc)]
     [\<lambda>fc. on_reboot (runLocal (reboot_of (pi_ctl p)) fc), \<lambda>fc. on_update (RunLocal (update_of p) fc)]"

lemma pod_cycle_sound: "emits_with fake_view pod_entry (pod_cycle p)"
proof -
  have "emits_with fake_view pod_entry (runOrchestrator (reboot_of (pi_ctl p)) fc)" for fc
    unfolding reboot_of_def by (rule emits_weaken [OF rh.run_emits]) (blast intro: sound_pod sound_cycle)
  moreover have "emits_with fake_view pod_entry (runLocal (reboot_of (pi_ctl p)) fc)" for fc
    unfolding reboot_of_def by (rule emits_weaken [OF rh.local_emits]) (blast intro: sound_pod sound_local)
  moreover have "emits (lift_view fake_view) (\<lambda>_. sound_with pod_entry) (update_Run (update_of p) fc)" for fc
    unfolding update_of_def by (rule emits_weaken [OF uh.leader_quiet]) (rule sound_pods)
  moreover have "emits (lift_view fake_view) (\<lambda>_. sound_with pod_entry) (RunLocal (update_of p) fc)" for fc
    unfolding update_of_def by (rule emits_weaken [OF uh.run_local_log]) (rule cycle_update_sound)
  ultimately show ?thesis
    unfolding pod_cycle_def by (intro gh.cycle_sound) (auto intro!: emits_on_reboot emits_on_update)
qed

section \<open>The system\<close>

type_synonym system_state = "(string \<Rightarrow> engine \<times> pod_mem) \<times> fake_world"

definition fresh_pod :: "boot_host \<Rightarrow> engine \<times> pod_mem" where
  "fresh_pod h = (new_engine, (mem0, (new_update_mem, h)))"

definition disk_of :: "engine \<times> pod_mem \<Rightarrow> boot_host" where
  "disk_of m = snd (snd (snd m))"

definition with_disk :: "boot_host \<Rightarrow> engine \<times> pod_mem \<Rightarrow> engine \<times> pod_mem" where
  "with_disk h = (\<lambda>(e, (r, (u, _))). (e, (r, (u, h))))"

inductive sys_step :: "(string \<Rightarrow> pod_instance) \<Rightarrow> system_state \<Rightarrow> system_state \<Rightarrow> bool" for inst where
  cycle: "run_state (pod_cycle (inst k)) (m k, w) = (r, (mk, w')) \<Longrightarrow> sys_step inst (m, w) (m(k := mk), w')"
| http: "run_state (Handler (api_of (pi_ctl (inst k)) (feat (fst (m k)))) req) w = (rep, w') \<Longrightarrow> sys_step inst (m, w) (m, w')"
| restart: "sys_step inst (m, w) (m(k := fresh_pod (disk_of (m k)\<lparr> bh_cache := None \<rparr>)), w)"
| disk: "sys_step inst (m, w) (m(k := with_disk h (m k)), w)"

inductive_cases sys_step_cases: "sys_step inst (m, w) (m', w')"

lemma sys_step_sound:
  assumes "sys_step inst (m, w) (m', w')" "wf_world w \<and> sound_with pod_entry (accepted w)"
  shows "wf_world w' \<and> sound_with pod_entry (accepted w')"
  using assms(1)
proof (rule sys_step_cases)
  fix k r mk
  assume run: "run_state (pod_cycle (inst k)) (m k, w) = (r, mk, w')"
  have "ok fake_view w" using assms(2) by (simp add: fake_view_sel)
  from emitsD [OF pod_cycle_sound this run] assms(2) show ?thesis
    by (auto simp: fake_view_sel intro: sound_append)
next
  fix k req rep
  assume "run_state (Handler (api_of (pi_ctl (inst k)) (feat (fst (m k)))) req) w = (rep, w')"
  from handler_sound [OF _ this] assms(2) obtain es where
    "wf_world w'" "accepted w' = accepted w @ es" "sound_with pod_entry es" using sound_pod by blast
  then show ?thesis using assms(2) by (simp add: sound_append)
qed (use assms(2) in simp_all)

text \<open>C1: the whole program, on any number of nodes with any clocks, repositories, keyrings and boot partitions, whatever
  other clients do to the cluster and anybody to the partitions, and however instances crash and start anew:
  in the log of everything the controllers have written, every patch is a request of a re-requestable node, an edge of the
  lifecycle from the state the patched version has, a clearing of a node that is not draining, or leaves request and
  lifecycle alone, and every reboot command comes directly after the accepted record of its attempt on a node
  that is Rebooting.\<close>

theorem system_sound:
  assumes "(sys_step inst)\<^sup>*\<^sup>* (m, w) (m', w')" "wf_world w" "accepted w = []"
  shows "sound_with pod_entry (accepted w')"
proof -
  have "wf_world w \<and> sound_with pod_entry (accepted w)" using assms(2,3) by (simp add: sound_Nil)
  with assms(1) have "wf_world w' \<and> sound_with pod_entry (accepted w')"
    by (induction rule: rtranclp_induct2) (use sys_step_sound in blast)+
  then show ?thesis by simp
qed

definition system_instance :: pod_instance where
  "system_instance = \<lparr> pi_ctl = sample_instance, pi_hooks = pod_hooks1, pi_store = pod_store \<rparr>"

definition system_after :: "(engine \<times> pod_mem) \<times> fake_world" where
  "system_after = snd (run_state (pod_cycle system_instance) (fresh_pod pod_host, pod_cluster ''202608''))"

theorem system_sound_witness: "sound_with pod_entry (accepted (snd system_after))"
proof -
  let ?i = "\<lambda>_ :: string. system_instance" and ?m = "\<lambda>_ :: string. fresh_pod pod_host"
  have "sys_step ?i (?m, pod_cluster ''202608'') (?m(''n1'' := fst system_after), snd system_after)"
    unfolding system_after_def by (rule sys_step.cycle [where r = "fst (run_state (pod_cycle system_instance) (fresh_pod pod_host, pod_cluster ''202608''))"]) simp
  from system_sound [OF r_into_rtranclp [where r = "sys_step ?i", OF this] pod_cluster_wf] show ?thesis
    by (simp add: pod_cluster_def Let_def)
qed

end
