(* ===== verification/Kube_Wire.thy ===== *)
theory Kube_Wire
  imports Fake_Api
begin

text \<open>
  One HTTP attempt of the client (\<open>attempt\<close>, \<open>patchRaw\<close>, \<open>token\<close> and the endpoint that \<open>New\<close> chooses in
  \<open>internal/kube/client.go\<close>), and the error bodies of the fake server (\<open>httpError\<close> in \<open>kubetest/fakeapi.go\<close>). It is
  a transport for \<open>Kube_Client\<close>: the exchange itself, the token file and the encoding of the objects
  are its parameters. Proved: what the fake server writes as an error is what the client reads, so the typed
  errors of \<open>Fake_Api\<close> are those of the wire; every request is sent to the endpoint with the token of the
  moment; and a patch is one request whose answer decides by its code alone.
\<close>

section \<open>Requests\<close>

record http_request =
  hq_Method :: string
  hq_Url :: string
  hq_Headers :: "(string \<times> string) list"
  hq_Body :: "string option"

text \<open>\<open>hp_RetryAfter\<close>: the header, empty if there is none.\<close>

record http_response =
  hp_Code :: int
  hp_RetryAfter :: string
  hp_Body :: string

text \<open>\<open>wi_token\<close> reads the token file, \<open>wi_exchange\<close> sends a request and reads the response to its end, or fails;
  \<open>wi_encode\<close>: \<open>json.Marshal\<close> of the object of a request, if it has one; \<open>wi_decode\<close>: \<open>json.Unmarshal\<close>
  into the object that the request is to fill.\<close>

record 'w wire =
  wi_Endpoint :: string
  wi_UA :: string
  wi_token :: "('w, string option) state"
  wi_exchange :: "http_request \<Rightarrow> ('w, string + http_response) state"
  wi_sleep :: "duration \<Rightarrow> ('w, api_error option) state"
  wi_encode :: "request \<Rightarrow> string option"
  wi_decode :: "request \<Rightarrow> string \<Rightarrow> response option"

text \<open>The endpoint: the configured one, or that of the cluster from the environment.\<close>

definition endpoint_of :: "string \<Rightarrow> string \<Rightarrow> string \<Rightarrow> string option" where
  "endpoint_of configured host port =
     (if configured \<noteq> [] then Some configured
      else if host = [] \<or> port = [] then None
      else Some (''https://'' @ host @ '':'' @ port))"

definition user_agent :: "string \<Rightarrow> string" where
  "user_agent configured = (if configured = [] then ''simplek8s-controller'' else configured)"

fun method_of :: "request \<Rightarrow> string" where
  "method_of (PatchNodeR _ _) = ''PATCH''"
| "method_of (EvictR _ _) = ''POST''"
| "method_of (DeletePodR _ _) = ''DELETE''"
| "method_of (CreateLeaseR _ _) = ''POST''"
| "method_of (UpdateLeaseR _ _ _) = ''PUT''"
| "method_of (DeleteConfigMapR _ _) = ''DELETE''"
| "method_of (CreateEventR _ _) = ''POST''"
| "method_of _ = ''GET''"

text \<open>The parameters of a listing, in the order of their names, escaped.\<close>

definition upper_hex :: "int \<Rightarrow> char" where
  "upper_hex n = (if n < 10 then char_of (48 + n) else char_of (55 + n))"

definition query_char :: "char \<Rightarrow> string" where
  "query_char c =
     (let n = of_char c :: int in
      if is_digit c \<or> 65 \<le> n \<and> n \<le> 90 \<or> 97 \<le> n \<and> n \<le> 122 \<or> c \<in> set ''-_.~'' then [c]
      else if c = CHR '' '' then ''+''
      else [CHR ''%'', upper_hex (n div 16), upper_hex (n mod 16)])"

definition query_escape :: "string \<Rightarrow> string" where
  "query_escape s = concat (map query_char s)"

definition page_query :: "string \<Rightarrow> string" where
  "page_query cont = (if cont = [] then [] else ''continue='' @ query_escape cont @ ''&'') @ ''limit=500''"

fun query_of :: "request \<Rightarrow> string" where
  "query_of (ListNodesR cont) = page_query cont"
| "query_of (ListPodsR cont) = page_query cont"
| "query_of (ListPDBsR cont) = page_query cont"
| "query_of _ = []"

definition wire_request :: "'w wire \<Rightarrow> string \<Rightarrow> request \<Rightarrow> http_request" where
  "wire_request wi tok rq =
     (let meth = method_of rq; payload = wi_encode wi rq in
      \<lparr> hq_Method = meth,
        hq_Url = wi_Endpoint wi @ path_of rq @ (if query_of rq \<noteq> [] then ''?'' @ query_of rq else []),
        hq_Headers =
          [(''Authorization'', ''Bearer '' @ tok), (''User-Agent'', wi_UA wi), (''Accept'', ''application/json'')] @
          (if meth = ''PATCH'' then [(''Content-Type'', ''application/merge-patch+json'')]
           else if payload \<noteq> None \<and> meth \<noteq> ''GET'' \<and> meth \<noteq> ''DELETE'' then [(''Content-Type'', ''application/json'')]
           else []),
        hq_Body = payload \<rparr>)"

section \<open>Responses\<close>

text \<open>At most four megabytes are read.\<close>

definition body_of :: "http_response \<Rightarrow> string" where
  "body_of resp = take 4194304 (hp_Body resp)"

text \<open>Reason and message of a status object; what cannot be decoded leaves them empty.\<close>

definition status_fields :: "string \<Rightarrow> string \<times> string" where
  "status_fields data =
     (case struct_members data of
        None \<Rightarrow> ([], [])
      | Some (ms, _) \<Rightarrow> (fst (dec_string [] (field_values ''reason'' ms)), fst (dec_string [] (field_values ''message'' ms))))"

text \<open>Only seconds are understood; the product with a second wraps.\<close>

definition retry_after :: "string \<Rightarrow> duration" where
  "retry_after h = (case atoi h of Some n \<Rightarrow> wrap64 (n * second) | None \<Rightarrow> 0)"

definition bad_code :: "int \<Rightarrow> bool" where
  "bad_code code \<longleftrightarrow> code < 200 \<or> 300 \<le> code"

definition attempt_error :: "http_response \<Rightarrow> status_error" where
  "attempt_error resp =
     (case status_fields (body_of resp) of
        (reason, msg) \<Rightarrow>
          \<lparr> Code = hp_Code resp, err_Reason = reason,
            err_Message = (if msg = [] then trim_space (body_of resp) else msg), RetryAfter = retry_after (hp_RetryAfter resp) \<rparr>)"

text \<open>The error of a patch has the whole body as its message, and no time to wait.\<close>

definition patch_error :: "http_response \<Rightarrow> status_error" where
  "patch_error resp =
     \<lparr> Code = hp_Code resp, err_Reason = fst (status_fields (body_of resp)),
       err_Message = trim_space (body_of resp), RetryAfter = 0 \<rparr>"

text \<open>The requests that fill an object. An empty body leaves it as it is, as \<open>null\<close> does.\<close>

fun fills :: "request \<Rightarrow> bool" where
  "fills (GetNodeR _) = True"
| "fills (ListNodesR _) = True"
| "fills (ListPodsR _) = True"
| "fills (ListPDBsR _) = True"
| "fills (GetLeaseR _ _) = True"
| "fills (GetConfigMapR _ _) = True"
| "fills _ = False"

definition attempt_outcome :: "'w wire \<Rightarrow> request \<Rightarrow> http_response \<Rightarrow> api_error + response" where
  "attempt_outcome wi rq resp =
     (if bad_code (hp_Code resp) then Inl (StatusError (attempt_error resp))
      else if fills rq then
        (case wi_decode wi rq (if body_of resp = [] then ''null'' else body_of resp) of
           None \<Rightarrow> Inl bad_body | Some r \<Rightarrow> Inr r)
      else Inr OkResp)"

definition patch_outcome :: "http_response \<Rightarrow> api_error + response" where
  "patch_outcome resp = (if bad_code (hp_Code resp) then Inl (StatusError (patch_error resp)) else Inr OkResp)"

definition wire_attempt :: "'w wire \<Rightarrow> request \<Rightarrow> ('w, api_error + response) state" where
  "wire_attempt wi rq = do {
     t \<leftarrow> wi_token wi;
     case t of
       None \<Rightarrow> State_Monad.return (Inl (OtherError ''kube: reading token''))
     | Some raw \<Rightarrow> do {
         r \<leftarrow> wi_exchange wi (wire_request wi (trim_space raw) rq);
         State_Monad.return (case r of
             Inl e \<Rightarrow> Inl (OtherError e)
           | Inr resp \<Rightarrow> if method_of rq = ''PATCH'' then patch_outcome resp else attempt_outcome wi rq resp) } }"

definition wire_transport :: "'w wire \<Rightarrow> 'w transport" where
  "wire_transport wi = \<lparr> attempt = wire_attempt wi, sleep = wi_sleep wi \<rparr>"

section \<open>The errors of the fake server\<close>

definition status_json :: "int \<Rightarrow> string \<Rightarrow> string \<Rightarrow> json" where
  "status_json code reason msg = JObj [(''code'', JNum (itoa code)), (''kind'', JStr ''Status''), (''message'', JStr msg),
     (''reason'', JStr reason), (''status'', JStr ''Failure'')]"

text \<open>The encoder ends the text with a newline.\<close>

definition error_response :: "int \<Rightarrow> string \<Rightarrow> string \<Rightarrow> string \<Rightarrow> http_response" where
  "error_response code retry reason msg =
     \<lparr> hp_Code = code, hp_RetryAfter = retry, hp_Body = print_json (status_json code reason msg) @ [CHR 0x0A] \<rparr>"

lemma parse_object_print:
  assumes "wf_json (JObj (m # ms))" "2 * List.length (print_json (JObj (m # ms))) < n"
  shows "parse_val n (print_json (JObj (m # ms)) @ r) = Some (JObj (m # ms), r)"
proof -
  obtain k v where kv: "m = (k, v)" by (cases m)
  obtain p where p: "n = Suc p" "2 * List.length (print_json v) + 1 < p" "2 * List.length (print_members ms) < p"
    using assms(2) kv by (cases n) (auto simp: quote_str_def)
  then obtain q where q: "p = Suc q" "2 * List.length (print_json v) < q" by (cases p) auto
  have "parse_member p (quote_str k @ CHR '':'' # print_json v @ print_members ms @ r) = Some ((k, v), print_members ms @ r)"
    unfolding q(1) using assms(1) kv q(2) by (intro parse_member_print parse_print(1)) auto
  moreover have "\<not> has_prefix (skip_ws (quote_str k @ CHR '':'' # print_json v @ print_members ms @ r)) ''}''"
    by (simp add: quote_str_def)
  ultimately show ?thesis using assms(1) kv p parse_print(3) [of ms p r] by simp
qed

lemma status_fields_print:
  "status_fields (print_json (status_json code reason msg) @ [CHR 0x0A]) = (reason, msg)"
proof -
  have w: "wf_json (status_json code reason msg)" by (simp add: status_json_def)
  have "parse_val (Suc (2 * List.length (print_json (status_json code reason msg) @ [CHR 0x0A])))
      (print_json (status_json code reason msg) @ [CHR 0x0A]) = Some (status_json code reason msg, [CHR 0x0A])"
    using w unfolding status_json_def by (intro parse_object_print) simp_all
  then have "parse_json (print_json (status_json code reason msg) @ [CHR 0x0A]) = Some (status_json code reason msg)"
    by (simp add: parse_json_def skip_ws_def is_ws_def status_json_def)
  then have m: "struct_members (print_json (status_json code reason msg) @ [CHR 0x0A]) =
      Some ([(''code'', JNum (itoa code)), (''kind'', JStr ''Status''), (''message'', JStr msg),
        (''reason'', JStr reason), (''status'', JStr ''Failure'')], False)"
    by (simp add: struct_members_def status_json_def)
  have f: "fold_name ''code'' = ''code''" "fold_name ''kind'' = ''kind''" "fold_name ''message'' = ''message''"
    "fold_name ''reason'' = ''reason''" "fold_name ''status'' = ''status''" by code_simp+
  show ?thesis by (simp add: status_fields_def m field_values_def f)
qed

text \<open>The typed errors of the fake server are those a client reads from its responses, whatever the request is and
  whether the response asks to retry at once or says nothing about it.\<close>

theorem fake_errors_on_wire:
  assumes "bad_code code" "msg \<noteq> []" "retry = [] \<or> retry = ''0''"
    "List.length (print_json (status_json code reason msg)) < 4194304"
  shows "attempt_outcome wi rq (error_response code retry reason msg) = httpError code reason msg"
proof -
  have b: "body_of (error_response code retry reason msg) = print_json (status_json code reason msg) @ [CHR 0x0A]"
    using assms(4) by (simp add: body_of_def error_response_def)
  have "retry_after [] = 0" "retry_after ''0'' = 0" by code_simp+
  then have r: "retry_after retry = 0" using assms(3) by auto
  show ?thesis
    using assms(1,2) r
    by (simp add: attempt_outcome_def attempt_error_def b status_fields_print httpError_def)
       (simp add: error_response_def)
qed

text \<open>A patch reads the same code and reason, and the text of the body for a message.\<close>

theorem fake_patch_errors_on_wire:
  assumes "bad_code code" "List.length (print_json (status_json code reason msg)) < 4194304"
  shows "\<exists>se. patch_outcome (error_response code retry reason msg) = Inl (StatusError se) \<and>
    Code se = code \<and> err_Reason se = reason \<and> RetryAfter se = 0"
proof -
  have b: "body_of (error_response code retry reason msg) = print_json (status_json code reason msg) @ [CHR 0x0A]"
    using assms(2) by (simp add: body_of_def error_response_def)
  show ?thesis using assms(1)
    by (simp add: patch_outcome_def patch_error_def b status_fields_print) (simp add: error_response_def)
qed

section \<open>What is sent\<close>

text \<open>What the token file, the sleeps and the requests that the client builds keep, every attempt keeps; so do the
  verbs, by the rules of \<open>Kube_Client\<close>.\<close>

lemma wire_keeps [io_intros]:
  assumes "reflp R" "transp R" "keeps R (wi_token wi)"
    "\<And>tok rq. keeps R (wi_exchange wi (wire_request wi tok rq))" "\<And>d. keeps R (wi_sleep wi d)"
  shows "keeps R (attempt (wire_transport wi) rq)" "keeps R (sleep (wire_transport wi) d)"
  using assms by (auto simp: wire_transport_def wire_attempt_def intro!: io_intros)

text \<open>Every request goes to the endpoint and carries a token.\<close>

lemma wire_request_shape:
  "has_prefix (hq_Url (wire_request wi tok rq)) (wi_Endpoint wi) \<and>
   (''Authorization'', ''Bearer '' @ tok) \<in> set (hq_Headers (wire_request wi tok rq))"
  by (simp add: wire_request_def Let_def has_prefix_append)

text \<open>A patch is one exchange with the token of the moment, and the code of its answer decides.\<close>

theorem patch_once:
  assumes "run_state (wi_token wi) w = (Some raw, w1)"
    and "run_state (wi_exchange wi (wire_request wi (trim_space raw) (PatchNodeR name p))) w1 = (Inr resp, w2)"
  shows "run_state (PatchNode (wire_transport wi) name p) w =
    (if bad_code (hp_Code resp) then Some (StatusError (patch_error resp)) else None, w2)"
  using assms by (simp add: PatchNode_def map_st_def wire_transport_def wire_attempt_def patch_outcome_def done_of_def)

text \<open>The escaped token of a page cannot end its parameter.\<close>

lemma hex_digits_plain: "0 \<le> n \<Longrightarrow> n < 16 \<Longrightarrow> upper_hex n \<notin> set ''&=?#;''"
proof -
  assume "0 \<le> n" "n < 16"
  then have "n \<in> set [0..15]" by simp
  moreover have "\<forall>m \<in> set [0..15]. upper_hex m \<notin> set ''&=?#;''" by code_simp
  ultimately show ?thesis by blast
qed

lemma query_escape_plain: "set (query_escape s) \<inter> set ''&=?#;'' = {}"
proof -
  have "set (query_char c) \<inter> set ''&=?#;'' = {}" for c
  proof -
    have n: "0 \<le> (of_char c :: int)" "of_char c < (256 :: int)" by (simp_all add: of_char_def)
    have "c \<notin> set ''&=?#;''" if "is_digit c \<or> 65 \<le> (of_char c :: int) \<and> (of_char c :: int) \<le> 90 \<or>
        97 \<le> (of_char c :: int) \<and> (of_char c :: int) \<le> 122 \<or> c \<in> set ''-_.~''"
      using that by (auto simp: is_digit_def)
    moreover have "upper_hex (of_char c div 16) \<notin> set ''&=?#;''" using n by (intro hex_digits_plain) auto
    moreover have "upper_hex (of_char c mod 16) \<notin> set ''&=?#;''" by (intro hex_digits_plain) auto
    ultimately show ?thesis by (auto simp: query_char_def Let_def)
  qed
  then show ?thesis by (fastforce simp: query_escape_def)
qed

section \<open>The time to wait\<close>

text \<open>A number of seconds is honoured up to 292 years; beyond, the product wraps and is ignored as negative.\<close>

lemma retry_after_seconds: "0 \<le> n \<Longrightarrow> n \<le> 9223372036 \<Longrightarrow> retry_after (itoa n) = n * second"
proof -
  assume n: "0 \<le> n" "n \<le> 9223372036"
  then have "int64 n" "int64 (n * second)" by (simp_all add: int64_def)
  then show ?thesis by (simp add: retry_after_def atoi_itoa)
qed

lemma retry_after_overflow: "retry_after ''9223372037'' < 0"
  by code_simp

end
