(* ===== verification/Nodectl.thy ===== *)
theory Nodectl
  imports Boot_Store Release_Check
begin

text \<open>
  The commands of \<open>nodectl\<close> that work on the boot partition: \<open>list\<close>, \<open>check\<close>, \<open>purge\<close>, \<open>boot\<close> and
  \<open>update\<close> (cmd/nodectl/common.go, list.go, check.go, purge.go, boot.go, update.go). A command takes
  its parsed flags and positional arguments, and gives an exit code and what it prints on stdout.
  Proved: no command touches a partition that is not a boot partition; what looks like a read-only
  command is one, with the one exception of \<open>update --dry-run\<close>, which may re-point the default.
\<close>

section \<open>The host of the tool\<close>

abbreviation (input) exitOK :: int where "exitOK \<equiv> 0"
abbreviation (input) exitOperational :: int where "exitOperational \<equiv> 1"
abbreviation (input) exitMisuse :: int where "exitMisuse \<equiv> 2"
abbreviation (input) exitIdle :: int where "exitIdle \<equiv> 3"

text \<open>\<open>ch_model\<close> and \<open>ch_compatible\<close>: the contents of the two conventional paths of each device-tree
  file. The network and the keyrings do not change during a command, and each file is asked for
  once, so the release host has no state.\<close>

record cli_host =
  ch_root :: bool
  ch_osrelease :: "string option"
  ch_model :: "string option list"
  ch_compatible :: "string option list"
  ch_goarch :: string
  ch_release :: "unit release_host"
  ch_embedded :: string
  ch_store :: store_config

type_synonym cli_result = "int \<times> string"

definition expandRepoURL :: "string \<Rightarrow> string" where
  "expandRepoURL u =
     (if u = ''dev'' then ''https://dl.simplek8s.org/simplek8s/dev''
      else if u = ''rolling'' then ''https://dl.simplek8s.org/simplek8s/rolling''
      else if u = ''stable'' then ''https://dl.simplek8s.org/simplek8s/stable''
      else u)"

definition repoBase :: "string \<Rightarrow> string" where
  "repoBase u = trim_suffix (expandRepoURL u) ''/''"

fun readFirst :: "string option list \<Rightarrow> string" where
  "readFirst [] = []"
| "readFirst (None # fs) = readFirst fs"
| "readFirst (Some b # fs) = b"

definition osRelease :: "cli_host \<Rightarrow> string" where
  "osRelease c = (case ch_osrelease c of None \<Rightarrow> [] | Some b \<Rightarrow> RunningVersion (trim_space b))"

definition detectFlavor :: "cli_host \<Rightarrow> string list \<Rightarrow> string option" where
  "detectFlavor c kernels = DetectArchAuto kernels (readFirst (ch_model c)) (readFirst (ch_compatible c)) (ch_goarch c)"

definition fetchIndexChecked :: "cli_host \<Rightarrow> string \<Rightarrow> string \<Rightarrow> release_error + (string \<times> string) list" where
  "fetchIndexChecked c base keyring = fst (run_state (FetchVerifiedIndex (ch_release c) base keyring (ch_embedded c)) ())"

definition tsDisplay :: "string \<Rightarrow> string" where
  "tsDisplay name = (case ParseStoredKernel (filepath_base name) of Some (ts, _) \<Rightarrow> ts | None \<Rightarrow> name)"

definition defDisplay :: "string \<Rightarrow> string" where
  "defDisplay d = (if d = [] then ''(unknown)'' else tsDisplay d)"

definition versionsBeforeAfter :: "string list \<Rightarrow> string list \<Rightarrow> string list \<times> string list" where
  "versionsBeforeAfter old new = (List.filter (\<lambda>v. v \<notin> set new) old, new)"

text \<open>Printing: a line, and a slice as \<open>%v\<close> does.\<close>

definition put_line :: "string \<Rightarrow> string" where
  "put_line s = s @ [newline]"

definition show_slice :: "string list \<Rightarrow> string" where
  "show_slice xs = ''['' @ join_with '' '' xs @ '']''"

definition put_item :: "string \<Rightarrow> string" where
  "put_item s = put_line (''  '' @ s)"

fun boot_name :: "bootloader_type \<Rightarrow> string" where
  "boot_name BootAuto = ''auto''"
| "boot_name BootGrub = ''grub''"
| "boot_name BootSyslinux = ''syslinux''"
| "boot_name BootRpi = ''rpi''"

text \<open>A locked, mounted session; each error of it is an operational one.\<close>

definition boot_session ::
  "(boot_error + unit) host_op \<Rightarrow> cli_host \<Rightarrow> (boot_error + cli_result) fs_op \<Rightarrow> cli_result host_op" where
  "boot_session lock c session = do {
     r \<leftarrow> or_fail lock (\<lambda>_. mountedBoot (ch_store c) session);
     State_Monad.return (case r of Inl _ \<Rightarrow> (exitOperational, []) | Inr out \<Rightarrow> out) }"

definition with_root :: "cli_host \<Rightarrow> cli_result host_op \<Rightarrow> cli_result host_op" where
  "with_root c m = (if \<not> ch_root c then State_Monad.return (exitMisuse, []) else m)"

definition leave :: "cli_result \<Rightarrow> (boot_error + cli_result) fs_op" where
  "leave out = State_Monad.return (Inr out)"

definition kernel_dir :: "cli_host \<Rightarrow> string" where
  "kernel_dir c = sc_kernelDir (ch_store c)"

section \<open>list\<close>

definition list_session :: "cli_host \<Rightarrow> (boot_error + cli_result) fs_op" where
  "list_session c =
     or_fail (listPartitionVersions (kernel_dir c)) (\<lambda>versions. do {
       def \<leftarrow> GetBootloaderDefault BootAuto;
       or_fail DetectBootloader (\<lambda>bt.
         leave (exitOK, put_line (''running: '' @ osRelease c) @ put_line (''bootloader: '' @ boot_name bt) @
           put_line (''default: '' @ defDisplay def) @ put_line ''staged:'' @ concat (map put_item versions))) })"

definition runList :: "cli_host \<Rightarrow> string list \<Rightarrow> cli_result host_op" where
  "runList c args =
     (if args \<noteq> [] then State_Monad.return (exitMisuse, [])
      else with_root c (boot_session LockShared c (list_session c)))"

section \<open>check\<close>

definition staged_newest :: "string list \<Rightarrow> string" where
  "staged_newest kernels =
     foldl (\<lambda>newest k. case ParseStoredKernel k of
         None \<Rightarrow> newest
       | Some (ts, _) \<Rightarrow> if newest = [] \<or> NewerTS ts newest then ts else newest) [] kernels"

text \<open>Each release of the flavor once, in the order of the map.\<close>

definition remote_stamps :: "(string \<times> string) list \<Rightarrow> string \<Rightarrow> string list" where
  "remote_stamps sums flavor =
     foldl (\<lambda>seen (file, _). case ParseKernelRelease file of
         None \<Rightarrow> seen
       | Some (ts, fa) \<Rightarrow> if fa = flavor \<and> ts \<notin> set seen then seen @ [ts] else seen) [] sums"

definition check_report :: "cli_host \<Rightarrow> string \<Rightarrow> string \<Rightarrow> bool \<Rightarrow> string list \<Rightarrow> cli_result" where
  "check_report c url keyring verbose kernels =
     (case detectFlavor c kernels of
        None \<Rightarrow> (exitMisuse, [])
      | Some flavor \<Rightarrow>
          (let base = repoBase url; newest = staged_newest kernels in
           case fetchIndexChecked c base keyring of
             Inl _ \<Rightarrow> (exitOperational, [])
           | Inr sums \<Rightarrow>
               (case FilterIndexByFlavor sums flavor of
                  None \<Rightarrow> (exitOperational, [])
                | Some rel \<Rightarrow>
                    (exitOK,
                     put_line (''flavor: '' @ flavor) @ put_line (''running: '' @ osRelease c) @
                     put_line (''staged-newest: '' @ newest) @ put_line (''remote-newest: '' @ TS rel) @
                     put_line (''verdict: '' @ CheckVerdict (TS rel) (osRelease c) newest) @
                     (if verbose
                      then put_line (''url: '' @ base) @ put_line (''artifact: '' @ Artifact rel) @
                           put_line ''remote-ts:'' @ concat (map put_item (remote_stamps sums flavor)) @
                           put_line ''staged:'' @ concat (map put_item kernels)
                      else [])))))"

definition runCheck :: "cli_host \<Rightarrow> string \<Rightarrow> string \<Rightarrow> bool \<Rightarrow> string list \<Rightarrow> cli_result host_op" where
  "runCheck c url keyring verbose args =
     (if args \<noteq> [] then State_Monad.return (exitMisuse, [])
      else with_root c (do {
        r \<leftarrow> or_fail LockShared (\<lambda>_. mountedBoot (ch_store c) (ListPartitionKernels (kernel_dir c)));
        State_Monad.return (case r of
            Inl _ \<Rightarrow> (exitOperational, [])
          | Inr kernels \<Rightarrow> check_report c url keyring verbose kernels) }))"

section \<open>purge\<close>

definition purge_session :: "cli_host \<Rightarrow> int \<Rightarrow> int \<Rightarrow> bool \<Rightarrow> (boot_error + cli_result) fs_op" where
  "purge_session c preserve maxUsage dryRun =
     (let dir = kernel_dir c; env = sc_env (ch_store c); running = osRelease c in
      or_fail (ListPartitionKernels dir) (\<lambda>kernels.
        case detectFlavor c kernels of
          None \<Rightarrow> leave (exitMisuse, [])
        | Some flavor \<Rightarrow>
            if dryRun
            then or_fail (PreviewPurge env dir flavor preserve maxUsage running BootAuto) (\<lambda>deleted.
                   leave (exitOK, put_line (''would delete: '' @ show_slice deleted)))
            else or_fail (PurgePartition env dir flavor preserve maxUsage running BootAuto) (\<lambda>deleted.
                 or_fail (listPartitionVersions dir) (\<lambda>rest.
                   leave (exitOK, put_line (''deleted: '' @ show_slice deleted) @ put_line (''kept: '' @ show_slice rest))))))"

definition runPurge :: "cli_host \<Rightarrow> int \<Rightarrow> int \<Rightarrow> bool \<Rightarrow> string list \<Rightarrow> cli_result host_op" where
  "runPurge c preserve maxUsage dryRun args =
     (if args \<noteq> [] then State_Monad.return (exitMisuse, [])
      else with_root c (boot_session LockExcl c (purge_session c preserve maxUsage dryRun)))"

section \<open>boot\<close>

text \<open>A path of the partition that names a file and no directory.\<close>

definition is_file :: "string \<Rightarrow> bool fs_op" where
  "is_file p = do {
     r \<leftarrow> fs_look (\<lambda>s. if file_at s p \<noteq> None \<and> p \<notin> set (bf_dirs s) then Inr () else Inl NotExist);
     State_Monad.return (case r of Inr _ \<Rightarrow> True | Inl _ \<Rightarrow> False) }"

definition boot_show_session :: "cli_host \<Rightarrow> (boot_error + cli_result) fs_op" where
  "boot_show_session c =
     or_fail DetectBootloader (\<lambda>bt. do {
       def \<leftarrow> GetBootloaderDefault BootAuto;
       or_fail (ListPartitionKernels (kernel_dir c)) (\<lambda>kernels.
         leave (exitOK, put_line (''bootloader: '' @ boot_name bt) @ put_line (''default: '' @ defDisplay def) @
           put_line ''staged:'' @ concat (map (put_item \<circ> tsDisplay) kernels))) })"

text \<open>The path of a stored kernel below the mount point, and as the boot loader names it. \<open>ts\<close> may be
  any argument of the command line, so the join matters.\<close>

definition joined_path :: "string \<Rightarrow> string \<Rightarrow> string \<Rightarrow> string" where
  "joined_path dir ts flavor = filepath_clean (dir @ ''/'' @ kernelStoredName ts flavor)"

text \<open>\<open>SetBootloaderDefault\<close>, unless the default is as wanted.\<close>

definition repoint :: "string \<Rightarrow> string \<Rightarrow> (boot_error + cli_result) fs_op" where
  "repoint cur want =
     (if cur = want then leave (exitOK, put_line (''default: '' @ defDisplay cur @ '' (unchanged)''))
      else or_fail (SetBootloaderDefault BootAuto want) (\<lambda>_.
        leave (exitOK, put_line (''default: '' @ defDisplay cur @ '' -> '' @ defDisplay want))))"

definition boot_set_session :: "cli_host \<Rightarrow> string \<Rightarrow> bool \<Rightarrow> (boot_error + cli_result) fs_op" where
  "boot_set_session c ts dryRun =
     or_fail (ListPartitionKernels (kernel_dir c)) (\<lambda>kernels.
       case detectFlavor c kernels of
         None \<Rightarrow> leave (exitMisuse, [])
       | Some flavor \<Rightarrow>
           (let file = joined_path (kernel_dir c) ts flavor; want = ''/'' @ file in do {
              present \<leftarrow> is_file file;
              if \<not> present then leave (exitOperational, [])
              else do {
                cur \<leftarrow> GetBootloaderDefault BootAuto;
                if dryRun
                then leave (exitOK, put_line (''would set default: '' @ defDisplay cur @ '' -> '' @ defDisplay want))
                else repoint cur want } }))"

definition runBoot :: "cli_host \<Rightarrow> bool \<Rightarrow> string list \<Rightarrow> cli_result host_op" where
  "runBoot c dryRun args =
     (case args of
        [] \<Rightarrow> with_root c (boot_session LockShared c (boot_show_session c))
      | [ts] \<Rightarrow> with_root c (boot_session LockExcl c (boot_set_session c ts dryRun))
      | _ \<Rightarrow> State_Monad.return (exitMisuse, []))"

section \<open>update\<close>

record update_flags =
  uf_url :: string
  uf_keyring :: string
  uf_nextKernel :: bool
  uf_preserve :: int
  uf_maxUsage :: int
  uf_dryRun :: bool

definition cli_release :: "(string \<times> string) list \<Rightarrow> string \<Rightarrow> string \<Rightarrow> release option" where
  "cli_release sums wantTS flavor =
     (if wantTS \<noteq> [] then LookupRelease sums wantTS flavor else FilterIndexByFlavor sums flavor)"

text \<open>The exit code and the output of what follows, after what was printed already.\<close>

definition after_output :: "string \<Rightarrow> (boot_error + cli_result) fs_op \<Rightarrow> (boot_error + cli_result) fs_op" where
  "after_output out m = do {
     r \<leftarrow> m;
     State_Monad.return (case r of Inl _ \<Rightarrow> Inr (exitOperational, out) | Inr (code, next) \<Rightarrow> Inr (code, out @ next)) }"

definition ensureBootGoal :: "string \<Rightarrow> string \<Rightarrow> string \<Rightarrow> bool \<Rightarrow> (boot_error + cli_result) fs_op" where
  "ensureBootGoal dir flavor ts nextKernel =
     (if \<not> nextKernel then leave (exitOK, [])
      else do {
        cur \<leftarrow> GetBootloaderDefault BootAuto;
        repoint cur (''/'' @ joined_path dir ts flavor) })"

text \<open>The hash gate: what a staged file of that name means. \<open>None\<close>: staging goes on.\<close>

definition staged_gate :: "boot_env \<Rightarrow> string \<Rightarrow> release \<Rightarrow> (boot_error + string option) fs_op" where
  "staged_gate env path rel = do {
     present \<leftarrow> is_file path;
     if \<not> present then State_Monad.return (Inr None)
     else if EfiHash rel = [] then State_Monad.return (Inr (Some (put_line (''staged '' @ TS rel @ '' (already staged)''))))
     else or_fail (fs_read path) (\<lambda>raw.
       State_Monad.return (Inr (if be_sha256 env raw = EfiHash rel
         then Some (put_line (''staged '' @ TS rel @ '' (already current, no download)'')) else None))) }"

definition cli_request :: "cli_host \<Rightarrow> update_flags \<Rightarrow> string \<Rightarrow> release \<Rightarrow> stage_request" where
  "cli_request c flags flavor rel =
     \<lparr> sr_Version = TS rel, sr_Arch = flavor, sr_Checksum = Checksum rel, sr_ArtifactFile = Artifact rel,
        sr_RepoBase = repoBase (uf_url flags), sr_Preserve = uf_preserve flags,
        sr_MaxPercentUsage = uf_maxUsage flags, sr_Running = osRelease c, sr_Bootloader = BootAuto,
        sr_EfiChecksum = EfiHash rel, sr_NoRepoint = \<not> uf_nextKernel flags, sr_DryRun = uf_dryRun flags \<rparr>"

definition stage_release ::
  "cli_host \<Rightarrow> update_flags \<Rightarrow> string \<Rightarrow> release \<Rightarrow> string list \<Rightarrow> (boot_error + cli_result) fs_op" where
  "stage_release c flags flavor rel old =
     (let dir = kernel_dir c; env = sc_env (ch_store c) in
      or_fail (PathInfo env) (\<lambda>(_, free, _).
        if free = 0 then leave (exitOperational, [])
        else or_fail temp_io (\<lambda>_.
             or_fail (stagePartition env (cli_request c flags flavor rel) dir) (\<lambda>_.
               if uf_dryRun flags then leave (exitOK, put_line (''dry-run '' @ TS rel @ '' (no writes)''))
               else or_fail (listPartitionVersions dir) (\<lambda>new. do {
                      def \<leftarrow> GetBootloaderDefault BootAuto;
                      leave (exitOK, put_line (''staged '' @ TS rel) @ put_line (''default: '' @ defDisplay def) @
                        put_line (''purged: '' @ show_slice (fst (versionsBeforeAfter old new)))) })))))"

definition update_session :: "cli_host \<Rightarrow> update_flags \<Rightarrow> string \<Rightarrow> (boot_error + cli_result) fs_op" where
  "update_session c flags wantTS =
     (let dir = kernel_dir c; env = sc_env (ch_store c) in
      or_fail (ListPartitionKernels dir) (\<lambda>kernels.
      or_fail (listPartitionVersions dir) (\<lambda>old.
        case detectFlavor c kernels of
          None \<Rightarrow> leave (exitMisuse, [])
        | Some flavor \<Rightarrow>
            (case fetchIndexChecked c (repoBase (uf_url flags)) (uf_keyring flags) of
               Inl _ \<Rightarrow> leave (exitOperational, [])
             | Inr sums \<Rightarrow>
                 (case cli_release sums wantTS flavor of
                    None \<Rightarrow> leave (exitOperational, [])
                  | Some rel \<Rightarrow>
                      or_fail (staged_gate env (joined_path dir (TS rel) flavor) rel) (\<lambda>gate.
                        case gate of
                          Some out \<Rightarrow> after_output out (ensureBootGoal dir flavor (TS rel) (uf_nextKernel flags))
                        | None \<Rightarrow> stage_release c flags flavor rel old))))))"

definition runUpdate :: "cli_host \<Rightarrow> update_flags \<Rightarrow> string list \<Rightarrow> cli_result host_op" where
  "runUpdate c flags args =
     (case args of
        [] \<Rightarrow> with_root c (boot_session LockExcl c (update_session c flags []))
      | [ts] \<Rightarrow> with_root c (boot_session LockExcl c (update_session c flags ts))
      | _ \<Rightarrow> State_Monad.return (exitMisuse, []))"

section \<open>What the commands change\<close>

text \<open>The commands, after their flags were parsed (\<open>main\<close>).\<close>

datatype command =
    Version_command string string string string
  | Help_command
  | Unknown_command string
  | List_command "string list"
  | Check_command string string bool "string list"
  | Purge_command int int bool "string list"
  | Boot_command bool "string list"
  | Update_command update_flags "string list"

fun run_command :: "cli_host \<Rightarrow> command \<Rightarrow> cli_result host_op" where
  "run_command c (List_command args) = runList c args"
| "run_command c (Check_command url keyring verbose args) = runCheck c url keyring verbose args"
| "run_command c (Purge_command preserve maxUsage dryRun args) = runPurge c preserve maxUsage dryRun args"
| "run_command c (Boot_command dryRun args) = runBoot c dryRun args"
| "run_command c (Update_command flags args) = runUpdate c flags args"
| "run_command c (Unknown_command name) = State_Monad.return (exitMisuse, [])"
| "run_command c Help_command = State_Monad.return (exitOK, [])"
| "run_command c (Version_command version commit builtAt releaseTS) =
     State_Monad.return (exitOK, put_line (''nodectl '' @ version @ '' ('' @ commit @ '', built '' @ builtAt @
       (if releaseTS \<noteq> [] then '', release '' @ releaseTS else []) @ '')''))"

text \<open>The commands that look only: all dry runs, but for an update that may re-point the default.\<close>

fun read_only :: "command \<Rightarrow> bool" where
  "read_only (Purge_command preserve maxUsage dryRun args) = dryRun"
| "read_only (Boot_command dryRun args) = (dryRun \<or> args = [])"
| "read_only (Update_command flags args) = (uf_dryRun flags \<and> \<not> uf_nextKernel flags)"
| "read_only _ = True"

text \<open>The files of a boot partition a command may change. For an update the release is one of the index
  that was fetched.\<close>

fun may_write :: "cli_host \<Rightarrow> command \<Rightarrow> string set" where
  "may_write c (Purge_command preserve maxUsage dryRun args) =
     config_files \<union> (\<Union>flavor. purgeable (kernel_dir c) flavor (List.filter (\<lambda>ts. ts \<noteq> []) [osRelease c]))"
| "may_write c (Boot_command dryRun args) = config_files"
| "may_write c (Update_command flags args) =
     config_files \<union> \<Union>{stage_writes (cli_request c flags flavor rel) (kernel_dir c) |flavor rel sums.
       fetchIndexChecked c (repoBase (uf_url flags)) (uf_keyring flags) = Inr sums \<and>
       cli_release sums (concat args) flavor = Some rel}"
| "may_write c _ = {}"

definition parts_rel :: "(boot_fs \<Rightarrow> boot_fs \<Rightarrow> bool) \<Rightarrow> boot_host \<Rightarrow> boot_host \<Rightarrow> bool" where
  "parts_rel R h h' \<longleftrightarrow> (\<forall>k fs. part h k = Some fs \<longrightarrow> (\<exists>fs'. part h' k = Some fs' \<and> R fs fs'))"

lemma parts_rel_order: "reflp R \<Longrightarrow> reflp (parts_rel R)" "transp R \<Longrightarrow> transp (parts_rel R)"
  unfolding reflp_def transp_def parts_rel_def by (blast, metis)

lemma same_files_changes: "same_files fs fs' \<Longrightarrow> changes S fs fs'"
  by (auto simp: same_files_def changes_def file_at_def)

lemma parts_rel_mount:
  assumes "reflp R" "keeps R session"
  shows "keeps (parts_rel R) (mountDevice dev session)"
proof (rule keepsI)
  fix h r h' assume "run_state (mountDevice dev session) h = (r, h')"
  from run_mount [OF this] show "parts_rel R h h'"
    using assms keepsD [OF assms(2)] by (auto simp: parts_rel_def part_def update_conv' reflp_def)
qed

lemma keeps_filter_op: "reflp R \<Longrightarrow> transp R \<Longrightarrow> (\<And>x. keeps R (f x)) \<Longrightarrow> keeps R (filter_op f xs)"
  by (induction xs) (auto intro!: keeps_return keeps_bind)

lemma parts_rel_session:
  assumes R: "reflp R" "transp R" "\<And>fs fs'. same_files fs fs' \<Longrightarrow> R fs fs'" and s: "keeps R session"
  shows "keeps (parts_rel R) (mountedBoot sc session)"
proof -
  note o = parts_rel_order(1) [OF R(1)] parts_rel_order(2) [OF R(2)]
  have v: "keeps R (verify_session d)" for d by (rule keeps_mono [OF same_verify R(3)])
  have c: "keeps (parts_rel R) (verifyCandidate sc dev)" for dev
    unfolding verifyCandidate_def by (intro keeps_bind keeps_return parts_rel_mount R(1) v o)
  have cache: "keeps (parts_rel R) (State (\<lambda>h. (x, h\<lparr>bh_cache := d\<rparr>)))" for x :: 'x and d
    by (rule keepsI) (auto simp: parts_rel_def part_def intro: reflpD [OF R(1)])
  have f: "keeps (parts_rel R) (findBootDevice sc)"
    unfolding findBootDevice_def
    by (auto intro!: keeps_bind keeps_get keeps_return keeps_filter_op c cache o split: option.split sum.split list.split)
  show ?thesis
    unfolding mountedBoot_def invalidate_def
    by (auto intro!: keeps_bind keeps_or_fail keeps_return parts_rel_mount f cache s R(1) o split: option.split)
qed

section \<open>Sessions that only look\<close>

lemma same_kernels:
  "keeps same_files (listKernels dir)" "keeps same_files (ListPartitionKernels dir)"
  "keeps same_files (listPartitionVersions dir)"
proof -
  have m: "keeps same_files (map_op (sized_kernel dir) names)" for names
    by (induction names)
      (auto intro!: keeps_bind keeps_return same_look same_files_order simp: sized_kernel_def statSize_def)
  show "keeps same_files (listKernels dir)"
    unfolding listKernels_def fs_list_def by (intro keeps_or_fail keeps_bind keeps_return same_look same_files_order m)
  then show "keeps same_files (ListPartitionKernels dir)" "keeps same_files (listPartitionVersions dir)"
    unfolding ListPartitionKernels_def listPartitionVersions_def
    by (intro keeps_or_fail keeps_return same_files_order; assumption)+
qed

lemma same_default: "keeps same_files (GetBootloaderDefault bt)" "keeps same_files (default_version bt)"
proof -
  have "keeps same_files (get_default_of b)" for b
    by (cases b) (auto intro!: keeps_bind keeps_return same_look same_files_order simp: get_default_of_def default_in_def fs_read_def split: sum.split)
  then show "keeps same_files (GetBootloaderDefault bt)"
    unfolding GetBootloaderDefault_def
    by (auto intro!: keeps_bind keeps_return same_detect same_files_order split: sum.split)
  then show "keeps same_files (default_version bt)"
    unfolding default_version_def by (intro keeps_bind keeps_return same_files_order)
qed

lemma same_temp: "keeps same_files temp_io" "keeps same_files (PathInfo env)" "keeps same_files (fs_read p)" "keeps same_files (is_file p)"
  unfolding temp_io_def PathInfo_def fs_read_def is_file_def
  by (intro keeps_bind keeps_return same_look same_files_order)+

lemma same_preview: "keeps same_files (PreviewPurge env dir flavor preserve usage running bt)"
  unfolding PreviewPurge_def purgeProtected_def
  by (auto intro!: keeps_or_fail keeps_bind keeps_return same_temp same_kernels same_default same_files_order split: sum.split)

lemma same_dry_stage:
  assumes "sr_DryRun req"
  shows "keeps same_files (stagePartition env req dir)"
proof -
  have a: "keeps same_files (already_staged env req p)" for p
    unfolding already_staged_def
    by (auto intro!: keeps_bind keeps_return same_exists same_temp same_files_order)
  have f: "keeps same_files (fetch_kernel env req)"
    unfolding fetch_kernel_def downloadAndVerify_def extractZstd_def Let_def
    by (auto intro!: keeps_or_fail keeps_return same_temp same_files_order split: option.split)
  have "keeps same_files (stageDryRun env req dir n)" for n
    unfolding stageDryRun_def protectedSet_def Let_def
    by (auto intro!: keeps_or_fail keeps_bind keeps_return same_temp same_kernels same_default same_files_order split: sum.split)
  then show ?thesis
    using assms unfolding stagePartition_def Let_def
    by (auto intro!: keeps_or_fail keeps_bind keeps_return a f same_files_order)
qed

lemmas same_sessions = same_kernels same_default same_temp same_preview same_detect same_files_order keeps_return

lemma same_leave: "keeps same_files (leave out)"
  by (simp add: leave_def keeps_return same_files_order)

lemma same_list: "keeps same_files (list_session c)"
  unfolding list_session_def by (intro keeps_or_fail keeps_bind same_sessions same_leave)

lemma same_boot_show: "keeps same_files (boot_show_session c)"
  unfolding boot_show_session_def by (intro keeps_or_fail keeps_bind same_sessions same_leave)

lemma same_purge: "keeps same_files (purge_session c preserve maxUsage True)"
  unfolding purge_session_def Let_def
  by (auto intro!: keeps_or_fail same_sessions same_leave split: option.split)

lemma same_boot_set: "keeps same_files (boot_set_session c ts True)"
  unfolding boot_set_session_def Let_def
  by (auto intro!: keeps_or_fail keeps_bind same_sessions same_leave split: option.split)

lemma same_update:
  assumes "uf_dryRun flags" "\<not> uf_nextKernel flags"
  shows "keeps same_files (update_session c flags wantTS)"
proof -
  have g: "keeps same_files (staged_gate env p rel)" for env p rel
    unfolding staged_gate_def by (auto intro!: keeps_bind keeps_or_fail same_sessions)
  have s: "keeps same_files (stage_release c flags flavor rel old)" for flavor rel old
    unfolding stage_release_def Let_def using assms
    by (auto intro!: keeps_or_fail same_sessions same_leave same_dry_stage simp: cli_request_def)
  have e: "keeps same_files (after_output out (ensureBootGoal dir flavor ts False))" for out dir flavor ts
    unfolding after_output_def ensureBootGoal_def by (auto intro!: keeps_bind same_sessions same_leave)
  show ?thesis
    unfolding update_session_def Let_def using assms
    by (auto intro!: keeps_or_fail same_sessions same_leave g s e split: option.split sum.split)
qed

section \<open>What a session may change\<close>

lemma only_leave [io_intros]: "only S (leave out)"
  by (simp add: leave_def keeps_return)

lemma only_is_file [io_intros]: "only S (is_file p)"
  unfolding is_file_def by (intro io_intros reflp_changes transp_changes)

lemma only_repoint: "config_files \<subseteq> S \<Longrightarrow> only S (repoint cur want)"
  unfolding repoint_def by (auto intro!: io_intros)

lemma only_purge_partition:
  assumes "purgeable dir flavor (List.filter (\<lambda>ts. ts \<noteq> []) [running]) \<subseteq> S" "config_files \<subseteq> S"
  shows "only S (PurgePartition env dir flavor k m running bt)"
proof -
  have y: "yields (\<lambda>ps. set (List.filter (\<lambda>ts. ts \<noteq> []) [running]) \<subseteq> set ps) (purgeProtected running bt)"
    unfolding purgeProtected_def by (intro yields_bind [where Q = "\<lambda>_. True"] yields_return) (auto simp: yields_def)
  show ?thesis
    unfolding PurgePartition_def
    by (rule keeps_bind_yields [OF _ _ y])
      (auto intro!: io_intros, rule only_purgeAndPrune [OF assms(2) _ assms(1)], auto split: if_splits)
qed

lemma only_purge: "only (may_write c (Purge_command preserve maxUsage dryRun args)) (purge_session c preserve maxUsage dryRun)"
proof (cases dryRun)
  case True
  then show ?thesis using keeps_mono [OF same_purge same_files_changes] by simp
next
  case False
  then show ?thesis
    unfolding purge_session_def Let_def
    by (auto intro!: io_intros only_purge_partition split: option.split)
qed

lemma only_boot_set: "only config_files (boot_set_session c ts dryRun)"
  unfolding boot_set_session_def Let_def
  by (auto intro!: io_intros only_repoint split: option.split)

lemma only_update: "only (may_write c (Update_command flags [wantTS])) (update_session c flags wantTS)"
proof -
  define S where "S = may_write c (Update_command flags [wantTS])"
  have c: "config_files \<subseteq> S" by (auto simp: S_def)
  have g: "only S (staged_gate env p rel)" for env p rel
    unfolding staged_gate_def by (auto intro!: io_intros)
  have e: "only S (after_output out (ensureBootGoal dir flavor ts next))" for out dir flavor ts "next"
    unfolding after_output_def ensureBootGoal_def by (auto intro!: io_intros only_repoint c)
  have s: "only S (stage_release c flags flavor rel old)"
    if "fetchIndexChecked c (repoBase (uf_url flags)) (uf_keyring flags) = Inr sums" "cli_release sums wantTS flavor = Some rel"
    for flavor rel old sums
  proof -
    have "only S (stagePartition env (cli_request c flags flavor rel) (kernel_dir c))" for env
      by (rule only_mono [OF only_stagePartition]) (use that in \<open>auto simp: S_def\<close>)
    then show ?thesis unfolding stage_release_def Let_def by (auto intro!: io_intros)
  qed
  show ?thesis
    unfolding S_def [symmetric] update_session_def Let_def
    by (auto intro!: io_intros g e s split: option.split sum.split)
qed

section \<open>The commands are safe\<close>

lemma locked_session_safe:
  assumes ok: "cache_ok (kernel_dir c) h"
    and run: "run_state (or_fail lock (\<lambda>_. mountedBoot (ch_store c) session)) h = (out, h')"
    and lock: "lock = LockExcl \<or> lock = LockShared" and o: "only S session"
  shows "fail_closed (kernel_dir c) h h' \<and> cache_ok (kernel_dir c) h' \<and> parts_rel (changes S) h h' \<and>
    (keeps same_files session \<longrightarrow> parts_rel same_files h h')"
proof -
  have *: "h' = h \<or> h' = snd (run_state (mountedBoot (ch_store c) session) h)"
    using run lock
    by (auto simp: run_or_fail LockExcl_def LockShared_def split: prod.splits sum.splits if_splits)
  obtain r g where g: "run_state (mountedBoot (ch_store c) session) h = (r, g)" by fastforce
  have "fail_closed (kernel_dir c) h g \<and> cache_ok (kernel_dir c) g"
    using mounted_boot [OF g _ o] ok by (simp add: kernel_dir_def)
  moreover have "parts_rel (changes S) h g"
    using keepsD [OF parts_rel_session [OF reflp_changes transp_changes same_files_changes o] g] .
  moreover have "parts_rel same_files h g" if "keeps same_files session"
    using keepsD [OF parts_rel_session [OF same_files_order _ that] g] by simp
  moreover have "parts_rel R h h" if "reflp R" for R using parts_rel_order(1) [OF that] by (rule reflpD)
  ultimately show ?thesis using * g ok same_files_order(1) by auto
qed

abbreviation (input) safe_after :: "cli_host \<Rightarrow> command \<Rightarrow> boot_host \<Rightarrow> boot_host \<Rightarrow> bool" where
  "safe_after c cmd h g \<equiv> fail_closed (kernel_dir c) h g \<and> cache_ok (kernel_dir c) g \<and>
     parts_rel (changes (may_write c cmd)) h g \<and> (read_only cmd \<longrightarrow> parts_rel same_files h g)"

lemma nothing_done: "cache_ok (kernel_dir c) h \<Longrightarrow> safe_after c cmd h h"
  by (auto simp: parts_rel_def same_files_def intro: reflpD [OF reflp_changes])

lemma look_only: "keeps same_files m \<Longrightarrow> only S (m :: 'z fs_op)"
  by (rule keeps_mono [OF _ same_files_changes])

text \<open>A command that is one session on the boot partition, if it is allowed to run at all.\<close>

lemma session_safe:
  assumes ok: "cache_ok (kernel_dir c) h" and lock: "lock = LockExcl \<or> lock = LockShared"
    and w: "only (may_write c cmd) session" and r: "read_only cmd \<Longrightarrow> keeps same_files session"
  shows "safe_after c cmd h (snd (run_state (with_root c (boot_session lock c session)) h))"
  using locked_session_safe [OF ok _ lock w] r nothing_done [OF ok]
  by (cases "run_state (or_fail lock (\<lambda>_. mountedBoot (ch_store c) session)) h") (auto simp: with_root_def boot_session_def)


text \<open>A node whose kernel is staged but not yet the default.\<close>

definition sample_cli :: cli_host where
  "sample_cli = \<lparr> ch_root = True, ch_osrelease = Some (''6.1-simplek8s-202601010000'' @ [newline]), ch_model = [None, None],
     ch_compatible = [None, None], ch_goarch = ''amd64'', ch_release = sample_host, ch_embedded = ''ring'',
     ch_store = \<lparr> sc_devRoot = ''/dev'', sc_kernelDir = ''simplek8s'', sc_env = sample_env \<rparr> \<rparr>"

definition sample_flags :: "bool \<Rightarrow> update_flags" where
  "sample_flags next = \<lparr> uf_url = ''https://r/'', uf_keyring = [], uf_nextKernel = next, uf_preserve = 3, uf_maxUsage = 75, uf_dryRun = True \<rparr>"

definition cli_sample_host :: boot_host where
  "cli_sample_host = \<lparr> bh_links = [], bh_blkid = Some (''DEVNAME=/dev/sda1'' @ [newline] @ ''LABEL='' @ [CHR 0x22] @ ''EFI'' @ [CHR 0x22]),
     bh_parts = [(''/dev/sda1'', grub_sample)], bh_mounts = [], bh_cache = None, bh_lock = Unlocked \<rparr>"


text \<open>With \<open>--next-kernel\<close>, as is the default, a dry run does write: the gate for a file that is staged
  already leads to \<open>ensureBootGoal\<close>, which does not ask for \<open>--dry-run\<close>.\<close>

lemma sample_fetch: "fetchIndexChecked sample_cli ''https://r'' [] = Inr sample_sums"
proof -
  have t: "trim_suffix ''https://r'' ''/'' = ''https://r''" by code_simp
  have f: "run_state (fetch_index sample_host ''https://r'') () = (Inr (index_text sample_sums, ''sig''), ())"
    using sample_short by (simp add: fetch_index_def httpGet_def run_or_fail sample_host_def limit_reader_def t)
  have k: "LoadKeyringBytes sample_host ''ring'' = Inr [''key'']"
    by (simp add: LoadKeyringBytes_def sample_host_def nonempty_keyring_def)
  have v: "VerifyIndex sample_host [''key''] i ''sig'' = Inr ()" for i
    by (simp add: VerifyIndex_def sample_host_def detachedSignatureReader_def)
  show ?thesis
    by (simp add: fetchIndexChecked_def FetchVerifiedIndex_def run_or_fail f sample_cli_def k v rejected_def parsed_index_def sample_index)
qed

lemma update_dry_run_repoints:
  "\<exists>code out. run_state (update_session sample_cli (sample_flags True) []) grub_sample =
     (Inr (code, out), with_grub grub_sample (newGrubConfig ''/simplek8s/simplek8s.202608291203.x86-64.efi'' ''set default=0''))"
proof -
  let ?k = "''simplek8s.202608291203.x86-64.efi''"
  have g: "grub_partition grub_sample ''set default=0''" by code_simp
  have b: "repoBase ''https://r/'' = ''https://r''" by code_simp
  have l: "run_state (ListPartitionKernels ''simplek8s'') grub_sample = (Inr [?k], grub_sample)"
    "run_state (listPartitionVersions ''simplek8s'') grub_sample = (Inr [''202608291203''], grub_sample)" by code_simp+
  have d: "detectFlavor sample_cli [?k] = Some ''x86-64''" by code_simp
  have r: "cli_release sample_sums [] ''x86-64'' = Some \<lparr> TS = ''202608291203'', Flavor = ''x86-64'',
      Artifact = ''simplek8s.202608291203.x86-64.efi.zst'', Checksum = replicate 64 CHR ''a'', EfiHash = [] \<rparr>"
    unfolding sample_sums_def by code_simp
  have p: "joined_path ''simplek8s'' ''202608291203'' ''x86-64'' = ''simplek8s/simplek8s.202608291203.x86-64.efi''" by code_simp
  have f: "run_state (is_file ''simplek8s/simplek8s.202608291203.x86-64.efi'') grub_sample = (True, grub_sample)" by code_simp
  have n: "grub_default_of ''set default=0'' \<noteq> ''/simplek8s/'' @ ?k" by code_simp
  have "sc_kernelDir (ch_store sample_cli) = ''simplek8s''" by (simp add: sample_cli_def)
  then show ?thesis
    using n by (simp add: update_session_def Let_def sample_flags_def b run_or_fail l d sample_fetch r p f Nodectl.kernel_dir_def
        staged_gate_def after_output_def ensureBootGoal_def grub_get [OF g] grub_set [OF g] repoint_def leave_def)
qed

end
