(* ===== verification/Selfupdate.thy ===== *)
theory Selfupdate
  imports Nodectl Go_Time_Format
begin

text \<open>
  \<open>cmd/nodectl/selfupdate.go\<close>: the tool replaces its own binary by the newest one of a signed
  channel, on request or once a day before another command. The state of the machine is the
  installed binary and the file that records the last attempt; every call on them may fail. Proved:
  the binary is only ever replaced by one whose hash the verified index lists for the newest release
  of the architecture, and no check is made within a day of the last attempt.
\<close>

section \<open>The machine\<close>

text \<open>\<open>su_fetched\<close>: the channels whose index was fetched, \<open>su_locked\<close>: another process holds the lock on
  the record. A script of events decides which calls fail.\<close>

record self_host =
  su_exe :: string
  su_state :: "string option"
  su_locked :: bool
  su_now :: gtime
  su_fetched :: "string list"
  su_script :: "io_event list"

text \<open>What does not change during a run; \<open>se_get\<close> is the download of a binary.\<close>

record self_env =
  se_root :: bool
  se_optOut :: string
  se_from :: string
  se_to :: string
  se_goarch :: string
  se_releaseTS :: string
  se_channel :: string
  se_release :: "unit release_host"
  se_embedded :: string
  se_get :: "string \<Rightarrow> http_reply"
  se_sha256 :: "string \<Rightarrow> string"

datatype self_error =
    SelfIo
  | SelfHttp
  | SelfIndex release_error
  | UnsupportedArch
  | NoNodectlRelease
  | BinaryTooBig
  | BinaryMismatch

type_synonym 'a self_op = "(self_host, 'a) state"

definition self_event :: "io_event self_op" where
  "self_event = State (\<lambda>h. case su_script h of
      [] \<Rightarrow> (Io_ok, h)
    | ev # evs \<Rightarrow> (ev, h\<lparr>su_script := evs\<rparr>))"

definition self_io :: "(self_error + unit) self_op" where
  "self_io = do {
     ev \<leftarrow> self_event;
     State_Monad.return (if ev = Io_ok then Inr () else Inl SelfIo) }"

abbreviation selfStateThrottle :: duration where "selfStateThrottle \<equiv> 24 * hour"
abbreviation maxCLIBinaryBytes :: int where "maxCLIBinaryBytes \<equiv> 67108864"

definition localBuildNewer :: "string \<Rightarrow> string \<Rightarrow> bool" where
  "localBuildNewer own index \<longleftrightarrow> own \<noteq> [] \<and> NewerTS own index"

definition cliRepoBase :: "self_env \<Rightarrow> string \<Rightarrow> string" where
  "cliRepoBase env u =
     (if u = ''dev'' then ''https://dl.simplek8s.org/simplek8s-nodectl/dev''
      else if u = ''rolling'' then ''https://dl.simplek8s.org/simplek8s-nodectl/rolling''
      else if u = ''stable'' then se_channel env
      else trim_suffix u ''/'')"

section \<open>The record of the last attempt\<close>

definition readSelfState :: "gtime option self_op" where
  "readSelfState = do {
     ev \<leftarrow> self_event;
     h \<leftarrow> State_Monad.get;
     State_Monad.return (if ev \<noteq> Io_ok then None
       else (case su_state h of None \<Rightarrow> None | Some raw \<Rightarrow> parse_rfc3339 (trim_space raw))) }"

definition selfStateDue :: "gtime \<Rightarrow> gtime \<Rightarrow> bool" where
  "selfStateDue last_try now = (if last_try = zero_time then True else selfStateThrottle \<le> time_sub now last_try)"

text \<open>The lock is taken on the record itself, which it creates empty; the write truncates first.\<close>

definition refreshSelfState :: "unit self_op" where
  "refreshSelfState = do {
     opened \<leftarrow> self_io;
     if opened \<noteq> Inr () then State_Monad.return ()
     else do {
       busy \<leftarrow> State (\<lambda>h. (su_locked h, h\<lparr>su_state := Some (case su_state h of None \<Rightarrow> [] | Some raw \<Rightarrow> raw)\<rparr>));
       if busy then State_Monad.return ()
       else do {
         ev \<leftarrow> self_event;
         State (\<lambda>h. ((), let line = format_rfc3339 (su_now h) @ [newline] in
           case ev of Io_ok \<Rightarrow> h\<lparr>su_state := Some line\<rparr>
           | Io_fail \<Rightarrow> h
           | Io_torn n \<Rightarrow> h\<lparr>su_state := Some (take n line)\<rparr>)) } } }"

text \<open>\<open>hasDryRunFlag\<close>: any argument that looks like the flag, with or without a value.\<close>

definition hasDryRunFlag :: "string list \<Rightarrow> bool" where
  "hasDryRunFlag args \<longleftrightarrow>
     (\<exists>a\<in>set args. has_prefix a ''-'' \<and> fst (cut_at CHR ''='' (dropWhile (\<lambda>ch. ch = CHR ''-'') a)) = ''dry-run'')"

definition autoCheckCommand :: "string \<Rightarrow> bool" where
  "autoCheckCommand cmd \<longleftrightarrow>
     cmd \<notin> {''version'', ''-version'', ''--version'', ''help'', ''-h'', ''-help'', ''--help'', ''selfupdate''}"

section \<open>Check and installation\<close>

definition ownBinarySHA :: "self_env \<Rightarrow> (self_error + string) self_op" where
  "ownBinarySHA env =
     or_fail self_io (\<lambda>_. or_fail self_io (\<lambda>_. do {
       h \<leftarrow> State_Monad.get;
       State_Monad.return (Inr (se_sha256 env (su_exe h))) }))"

definition fetch_channel :: "self_env \<Rightarrow> string \<Rightarrow> string \<Rightarrow> release_error + (string \<times> string) list" where
  "fetch_channel env base keyring = fst (run_state (FetchVerifiedIndex (se_release env) base keyring (se_embedded env)) ())"

definition self_fetch :: "self_env \<Rightarrow> string \<Rightarrow> string \<Rightarrow> (release_error + (string \<times> string) list) self_op" where
  "self_fetch env base keyring =
     State (\<lambda>h. (fetch_channel env base keyring, h\<lparr>su_fetched := su_fetched h @ [base]\<rparr>))"

text \<open>The temporary file beside the binary is written, closed, made executable and renamed.\<close>

definition downloadAndInstall :: "self_env \<Rightarrow> string \<Rightarrow> string \<Rightarrow> string \<Rightarrow> (self_error + unit) self_op" where
  "downloadAndInstall env base file want =
     (case se_get env (base @ ''/'' @ file) of
        HttpFailed \<Rightarrow> State_Monad.return (Inl SelfHttp)
      | HttpReply code body \<Rightarrow>
          if code \<noteq> 200 then State_Monad.return (Inl SelfHttp)
          else or_fail self_io (\<lambda>_.
            case body of
              None \<Rightarrow> State_Monad.return (Inl SelfHttp)
            | Some b \<Rightarrow>
                (let got = limit_reader (maxCLIBinaryBytes + 1) b in
                 or_fail self_io (\<lambda>_.
                   if maxCLIBinaryBytes < int (List.length got) then State_Monad.return (Inl BinaryTooBig)
                   else if se_sha256 env got \<noteq> want then State_Monad.return (Inl BinaryMismatch)
                   else or_fail self_io (\<lambda>_. or_fail self_io (\<lambda>_. or_fail self_io (\<lambda>_.
                     State (\<lambda>h. (Inr (), h\<lparr>su_exe := got\<rparr>)))))))))"

text \<open>The stamp of the release a binary belongs to, or else its hash.\<close>

definition displayRelease :: "(string \<times> string) list \<Rightarrow> string \<Rightarrow> string \<Rightarrow> string" where
  "displayRelease sums arch sha =
     (case List.filter (\<lambda>(file, csum). csum = sha \<and> (\<exists>ts. ParseNodectlRelease file = Some (ts, arch))) sums of
        [] \<Rightarrow> sha
      | (file, _) # _ \<Rightarrow> (case ParseNodectlRelease file of Some (ts, _) \<Rightarrow> ts | None \<Rightarrow> sha))"

text \<open>A run ends with an exit code and output, or in the new binary, which is told what it replaced.\<close>

datatype self_outcome = Self_exit int string | Self_replaced string string

definition handoffExec :: "string \<Rightarrow> string \<Rightarrow> self_outcome self_op" where
  "handoffExec old new = do {
     ev \<leftarrow> self_event;
     State_Monad.return (if ev = Io_ok then Self_replaced old new else Self_exit exitOK []) }"

definition recorded :: "'a \<Rightarrow> 'a self_op" where
  "recorded r = do { _ \<leftarrow> refreshSelfState; State_Monad.return r }"

definition self_install ::
  "self_env \<Rightarrow> string \<Rightarrow> bool \<Rightarrow> string \<Rightarrow> (string \<times> string) list \<Rightarrow> string \<Rightarrow> self_outcome self_op" where
  "self_install env base dryRun own sums arch =
     (case FilterNodectlIndex sums arch of
        None \<Rightarrow> recorded (Self_exit exitOperational [])
      | Some (ts, file, csum) \<Rightarrow>
          if csum = own then recorded (Self_exit exitOK (put_line (''already current ('' @ ts @ '')'')))
          else if localBuildNewer (se_releaseTS env) ts
          then recorded (Self_exit exitOK (put_line
                 (''local build '' @ se_releaseTS env @ '' is newer than the index ('' @ ts @ ''); skipping update'')))
          else if dryRun
          then State_Monad.return (Self_exit exitOK (put_line (''would update '' @ displayRelease sums arch own @ '' -> '' @ ts)))
          else do {
            r \<leftarrow> downloadAndInstall env base file csum;
            case r of
              Inl _ \<Rightarrow> recorded (Self_exit exitOperational [])
            | Inr _ \<Rightarrow> do {
                _ \<leftarrow> refreshSelfState;
                handoffExec (displayRelease sums arch own) ts } })"

definition runSelfupdate :: "self_env \<Rightarrow> string \<Rightarrow> string \<Rightarrow> bool \<Rightarrow> string list \<Rightarrow> self_outcome self_op" where
  "runSelfupdate env url keyring dryRun args =
     (if args \<noteq> [] then State_Monad.return (Self_exit exitMisuse [])
      else if se_from env \<noteq> []
      then State_Monad.return (Self_exit exitOK (put_line (''updated '' @ se_from env @ '' -> '' @ se_to env)))
      else if \<not> se_root env then State_Monad.return (Self_exit exitMisuse [])
      else do {
        path \<leftarrow> self_io;
        if path \<noteq> Inr () then State_Monad.return (Self_exit exitOperational [])
        else do {
          own \<leftarrow> ownBinarySHA env;
          case own of
            Inl _ \<Rightarrow> State_Monad.return (Self_exit exitOperational [])
          | Inr own \<Rightarrow> do {
              let base = cliRepoBase env url;
              sums \<leftarrow> self_fetch env base keyring;
              case sums of
                Inl _ \<Rightarrow> recorded (Self_exit exitOperational [])
              | Inr sums \<Rightarrow>
                  (case NodectlArch (se_goarch env) of
                     None \<Rightarrow> State_Monad.return (Self_exit exitMisuse [])
                   | Some arch \<Rightarrow> self_install env base dryRun own sums arch) } } })"

text \<open>The attempt before another command. \<open>True\<close>: the new binary has taken over.\<close>

definition auto_install :: "self_env \<Rightarrow> string \<Rightarrow> (string \<times> string) list \<Rightarrow> string \<Rightarrow> (self_error + bool) self_op" where
  "auto_install env own sums arch =
     (case FilterNodectlIndex sums arch of
        None \<Rightarrow> recorded (Inl NoNodectlRelease)
      | Some (ts, file, csum) \<Rightarrow>
          if csum = own \<or> localBuildNewer (se_releaseTS env) ts then recorded (Inr False)
          else do {
            r \<leftarrow> downloadAndInstall env (se_channel env) file csum;
            case r of
              Inl e \<Rightarrow> recorded (Inl e)
            | Inr _ \<Rightarrow> do {
                _ \<leftarrow> refreshSelfState;
                or_fail self_io (\<lambda>_. State_Monad.return (Inr True)) } })"

definition autoSelfupdateAttempt :: "self_env \<Rightarrow> (self_error + bool) self_op" where
  "autoSelfupdateAttempt env =
     or_fail self_io (\<lambda>_. or_fail (ownBinarySHA env) (\<lambda>own. do {
       sums \<leftarrow> self_fetch env (se_channel env) [];
       case sums of
         Inl e \<Rightarrow> recorded (Inl (SelfIndex e))
       | Inr sums \<Rightarrow>
           (case NodectlArch (se_goarch env) of
              None \<Rightarrow> State_Monad.return (Inl UnsupportedArch)
            | Some arch \<Rightarrow> auto_install env own sums arch) }))"

definition maybeAutoSelfupdate :: "self_env \<Rightarrow> string list \<Rightarrow> bool self_op" where
  "maybeAutoSelfupdate env args =
     (if se_optOut env = ''1'' \<or> \<not> se_root env \<or> hasDryRunFlag args then State_Monad.return False
      else do {
        last_try \<leftarrow> readSelfState;
        h \<leftarrow> State_Monad.get;
        if (case last_try of Some t \<Rightarrow> \<not> selfStateDue t (su_now h) | None \<Rightarrow> False) then State_Monad.return False
        else do {
          r \<leftarrow> autoSelfupdateAttempt env;
          State_Monad.return (r = Inr True) } })"

section \<open>What replaces the binary\<close>

text \<open>A binary whose hash the channel's index lists for the newest release of this architecture, no older
  than the running build; the index was verified unless the key path switched that off.\<close>

definition installable :: "self_env \<Rightarrow> string \<Rightarrow> string \<Rightarrow> string \<Rightarrow> bool" where
  "installable env base keyring b \<longleftrightarrow>
     (\<exists>sums arch ts file. fetch_channel env base keyring = Inr sums \<and> NodectlArch (se_goarch env) = Some arch \<and>
        newest_in ParseNodectlRelease arch sums (ts, file, se_sha256 env b) \<and>
        \<not> localBuildNewer (se_releaseTS env) ts \<and> int (List.length b) \<le> maxCLIBinaryBytes \<and>
        (keyring \<noteq> ''/dev/null'' \<longrightarrow>
          (\<exists>ring index signature. trusted (se_release env) ring index signature \<and> ParseIndex index = Some sums)))"

lemma channel_trusted:
  assumes "fetch_channel env base keyring = Inr sums" "keyring \<noteq> ''/dev/null''"
  shows "\<exists>ring index signature. trusted (se_release env) ring index signature \<and> ParseIndex index = Some sums"
  using assms fetch_verified [of "se_release env" base keyring "se_embedded env" "()" sums]
  by (cases "run_state (FetchVerifiedIndex (se_release env) base keyring (se_embedded env)) ()") (fastforce simp: fetch_channel_def)

definition replaced_by :: "(string \<Rightarrow> bool) \<Rightarrow> self_host \<Rightarrow> self_host \<Rightarrow> bool" where
  "replaced_by P h h' \<longleftrightarrow> su_exe h' = su_exe h \<or> P (su_exe h')"

lemma replaced_by_order: "reflp (replaced_by P)" "transp (replaced_by P)"
  by (auto simp: reflp_def transp_def replaced_by_def)

lemma replaced_same: "(\<And>h. su_exe (snd (run_state m h)) = su_exe h) \<Longrightarrow> keeps (replaced_by P) m"
  by (auto simp: keeps_def replaced_by_def)

lemma replaced_event: "keeps (replaced_by P) self_event"
  by (rule replaced_same) (simp add: self_event_def split: list.split)

lemma replaced_io: "keeps (replaced_by P) self_io"
  unfolding self_io_def by (intro keeps_bind keeps_return replaced_event replaced_by_order)

lemma replaced_refresh: "keeps (replaced_by P) refreshSelfState"
proof -
  have "keeps (replaced_by P) (State (\<lambda>h. (f h, h\<lparr>su_state := g h\<rparr>)))" for f g by (rule replaced_same) simp
  moreover have "keeps (replaced_by P) (State (\<lambda>h. ((), let line = l h in case ev of Io_ok \<Rightarrow> h\<lparr>su_state := a line\<rparr>
      | Io_fail \<Rightarrow> h | Io_torn n \<Rightarrow> h\<lparr>su_state := b n line\<rparr>)))" for l ev a b
    by (rule replaced_same) (simp add: Let_def split: io_event.split)
  ultimately show ?thesis
    unfolding refreshSelfState_def
    by (auto intro!: keeps_bind keeps_return replaced_io replaced_event replaced_by_order)
qed

lemma replaced_recorded: "keeps (replaced_by P) (recorded r)"
  unfolding recorded_def by (intro keeps_bind keeps_return replaced_refresh replaced_by_order)

lemma replaced_sha: "keeps (replaced_by P) (ownBinarySHA env)"
  unfolding ownBinarySHA_def by (intro keeps_or_fail keeps_bind keeps_get keeps_return replaced_io replaced_by_order)

lemma replaced_fetch: "keeps (replaced_by P) (self_fetch env base keyring)"
  by (rule replaced_same) (simp add: self_fetch_def)

lemma replaced_handoff: "keeps (replaced_by P) (handoffExec old new)"
  unfolding handoffExec_def by (intro keeps_bind keeps_return replaced_event replaced_by_order)

lemmas replaced_rules = keeps_bind keeps_or_fail keeps_get keeps_return replaced_event replaced_io replaced_refresh
  replaced_recorded replaced_sha replaced_fetch replaced_handoff replaced_by_order

lemma replaced_download:
  assumes "\<And>b. se_sha256 env b = want \<Longrightarrow> int (List.length b) \<le> maxCLIBinaryBytes \<Longrightarrow> P b"
  shows "keeps (replaced_by P) (downloadAndInstall env base file want)"
proof -
  have w: "keeps (replaced_by P) (State (\<lambda>h. (Inr (), h\<lparr>su_exe := b\<rparr>)))"
    if "se_sha256 env b = want" "\<not> maxCLIBinaryBytes < int (List.length b)" for b
    using assms [of b] that by (auto simp: keeps_def replaced_by_def)
  show ?thesis
    unfolding downloadAndInstall_def Let_def
    by (cases "se_get env (base @ ''/'' @ file)") (auto intro!: replaced_rules w split: option.split simp del: of_nat_less_iff)
qed

lemma newest_found: "FilterNodectlIndex sums arch = Some (ts, file, csum) \<Longrightarrow> newest_in ParseNodectlRelease arch sums (ts, file, csum)"
  using newer_entry_fold [where parse = ParseNodectlRelease and arch = arch and sums = sums] by (simp add: FilterNodectlIndex_def)

lemma replaced_self_install:
  assumes "fetch_channel env base keyring = Inr sums" "NodectlArch (se_goarch env) = Some arch"
  shows "keeps (replaced_by (\<lambda>b. \<not> dryRun \<and> installable env base keyring b)) (self_install env base dryRun own sums arch)"
  unfolding self_install_def
  by (auto intro!: replaced_rules replaced_download split: option.split sum.split)
    (use assms newest_found channel_trusted [OF assms(1)] in \<open>fastforce simp: installable_def\<close>)

lemma replaced_auto_install:
  assumes "fetch_channel env (se_channel env) [] = Inr sums" "NodectlArch (se_goarch env) = Some arch"
  shows "keeps (replaced_by (installable env (se_channel env) [])) (auto_install env own sums arch)"
  unfolding auto_install_def
  by (auto intro!: replaced_rules replaced_download split: option.split sum.split)
    (use assms newest_found channel_trusted [OF assms(1)] in \<open>fastforce simp: installable_def\<close>)

lemma replaced_after_fetch:
  assumes "\<And>sums. sums = fetch_channel env base keyring \<Longrightarrow> keeps (replaced_by P) (k sums)"
  shows "keeps (replaced_by P) (State_Monad.bind (self_fetch env base keyring) k)"
proof (rule keepsI)
  fix h r h'
  assume "run_state (State_Monad.bind (self_fetch env base keyring) k) h = (r, h')"
  then have "run_state (k (fetch_channel env base keyring)) (h\<lparr>su_fetched := su_fetched h @ [base]\<rparr>) = (r, h')"
    by (simp add: self_fetch_def)
  from keepsD [OF assms [OF refl] this] show "replaced_by P h h'" by (simp add: replaced_by_def)
qed

lemma replaced_run:
  "keeps (replaced_by (\<lambda>b. \<not> dryRun \<and> installable env (cliRepoBase env url) keyring b)) (runSelfupdate env url keyring dryRun args)"
  unfolding runSelfupdate_def Let_def
  by (intro replaced_rules replaced_after_fetch replaced_self_install keeps_if keeps_sum keeps_option; simp)

lemma replaced_attempt: "keeps (replaced_by (installable env (se_channel env) [])) (autoSelfupdateAttempt env)"
  unfolding autoSelfupdateAttempt_def
  by (intro replaced_rules replaced_after_fetch replaced_auto_install keeps_sum keeps_option; simp)


text \<open>A machine with an outdated binary.\<close>

definition self_sums :: "(string \<times> string) list" where
  "self_sums = [(''nodectl.202608291203.x86-64'', replicate 64 CHR ''a'')]"

definition sample_self :: self_env where
  "sample_self = \<lparr> se_root = True, se_optOut = [], se_from = [], se_to = [], se_goarch = ''amd64'',
     se_releaseTS = ''202601010000'', se_channel = ''https://r'',
     se_release = sample_host\<lparr> rh_get := (\<lambda>url. State_Monad.return (if url = ''https://r/SHA256SUMS'' then HttpReply 200 (Some (index_text self_sums))
         else if url = ''https://r/SHA256SUMS.gpg'' then HttpReply 200 (Some ''sig'') else HttpReply 404 (Some []))) \<rparr>,
     se_embedded = ''ring'', se_get = (\<lambda>_. HttpReply 200 (Some ''new'')),
     se_sha256 = (\<lambda>b. if b = ''new'' then replicate 64 CHR ''a'' else replicate 64 CHR ''0'') \<rparr>"

definition sample_machine :: self_host where
  "sample_machine = \<lparr> su_exe = ''old'', su_state = None, su_locked = False, su_now = 0, su_fetched = [], su_script = [] \<rparr>"

lemma self_sample_fetch: "fetch_channel sample_self ''https://r'' [] = Inr self_sums"
proof -
  have i: "ParseIndex (index_text self_sums) = Some self_sums"
    by (rule index_reads_back)
      (simp_all add: self_sums_def index_entry_def is_hex_def to_lower_def lower_char_def list_all_iff map_replicate_const)
  have s: "limit_reader maxIndexBytes (index_text self_sums) = index_text self_sums"
    by (simp add: limit_reader_def index_text_def self_sums_def)
  have t: "trim_suffix ''https://r'' ''/'' = ''https://r''" by code_simp
  let ?H = "se_release sample_self"
  have f: "run_state (fetch_index ?H ''https://r'') () = (Inr (index_text self_sums, ''sig''), ())"
    using s by (simp add: fetch_index_def httpGet_def run_or_fail sample_self_def limit_reader_def t)
  have k: "LoadKeyringBytes ?H ''ring'' = Inr [''key'']"
    by (simp add: LoadKeyringBytes_def sample_self_def sample_host_def nonempty_keyring_def)
  have v: "VerifyIndex ?H [''key''] j ''sig'' = Inr ()" for j
    by (simp add: VerifyIndex_def sample_self_def sample_host_def detachedSignatureReader_def)
  have "se_embedded sample_self = ''ring''" by (simp add: sample_self_def)
  then show ?thesis
    by (simp add: fetch_channel_def FetchVerifiedIndex_def run_or_fail f k v rejected_def parsed_index_def i)
qed

lemma self_sample_run:
  "\<exists>r h'. run_state (runSelfupdate sample_self ''https://r/'' [] False []) sample_machine = (r, h') \<and> su_exe h' = ''new''"
proof -
  have b: "cliRepoBase sample_self ''https://r/'' = ''https://r''" by code_simp
  have n: "FilterNodectlIndex self_sums ''x86-64'' = Some (''202608291203'', ''nodectl.202608291203.x86-64'', replicate 64 CHR ''a'')"
    unfolding self_sums_def by code_simp
  have l: "\<not> localBuildNewer ''202601010000'' ''202608291203''" by code_simp
  have io: "run_state self_io h = (Inr (), h)" if "su_script h = []" for h
    using that by (simp add: self_io_def self_event_def)
  have ev: "run_state self_event h = (Io_ok, h)" if "su_script h = []" for h
    using that by (simp add: self_event_def)
  have a: "NodectlArch ''amd64'' = Some ''x86-64''" by code_simp
  have e: "se_root sample_self" "se_from sample_self = []" "se_goarch sample_self = ''amd64''"
    "se_releaseTS sample_self = ''202601010000''" "se_get sample_self = (\<lambda>_. HttpReply 200 (Some ''new''))"
    "se_sha256 sample_self ''new'' = replicate 64 CHR ''a''" "se_sha256 sample_self ''old'' = replicate 64 CHR ''0''"
    "replicate 64 CHR ''a'' \<noteq> replicate 64 CHR ''0''"
    by (simp_all add: sample_self_def replicate_eq_replicate)
  have m: "su_script sample_machine = []" "su_exe sample_machine = ''old''" "\<not> su_locked sample_machine"
    by (simp_all add: sample_machine_def)
  show ?thesis
    by (simp add: runSelfupdate_def Let_def b e m io ev ownBinarySHA_def run_or_fail self_fetch_def self_sample_fetch a
        self_install_def n l downloadAndInstall_def limit_reader_def refreshSelfState_def handoffExec_def)
qed


section \<open>At most one attempt a day\<close>

lemma format_trim: "0 \<le> civil_year (day_of t) \<Longrightarrow> civil_year (day_of t) \<le> 9999 \<Longrightarrow>
  trim_space (format_rfc3339 t @ [newline]) = format_rfc3339 t"
proof -
  have d: "\<not> is_space (digit_char n)" if "0 \<le> n" "n \<le> 9" for n
    using that by (simp add: of_char_digit_char is_space_def Let_def)
  have c: "\<not> is_space CHR ''Z''" "is_space newline" by code_simp+
  show "0 \<le> civil_year (day_of t) \<Longrightarrow> civil_year (day_of t) \<le> 9999 \<Longrightarrow> ?thesis"
    using d [of "civil_year (day_of t) div 100 div 10"] c
    by (simp add: format_rfc3339_def format_year_def four_digits_def two_digits_def trim_space_def Let_def)
qed

text \<open>An attempt that was recorded keeps the next command from another for a day (less the fraction of the
  second that the record drops).\<close>

lemma auto_throttled:
  assumes h: "su_script h = []" "\<not> su_locked h" "run_state refreshSelfState h = ((), h1)"
    and y: "0 \<le> civil_year (day_of (su_now h))" "civil_year (day_of (su_now h)) \<le> 9999"
    and now: "su_now h \<le> now" "now + second \<le> su_now h + selfStateThrottle" "zero_time < su_now h - second"
  shows "run_state (maybeAutoSelfupdate env args) (h1\<lparr>su_now := now\<rparr>) = (False, h1\<lparr>su_now := now\<rparr>)"
proof -
  let ?t = "su_now h - su_now h mod second"
  have h1: "su_state h1 = Some (format_rfc3339 (su_now h) @ [newline])" "su_script h1 = []"
    using h by (auto simp: refreshSelfState_def self_io_def self_event_def Let_def)
  have m: "0 \<le> su_now h mod second" "su_now h mod second < second" by simp_all
  have "parse_rfc3339 (trim_space (format_rfc3339 (su_now h) @ [newline])) = Some ?t"
    using format_trim [OF y] rfc3339_roundtrip [OF y] by simp
  moreover have "zero_time < ?t" "now - ?t < selfStateThrottle" using now m by linarith+
  then have "\<not> selfStateDue ?t now" by (simp add: selfStateDue_def time_sub_def)
  ultimately show ?thesis
    using h1 by (simp add: maybeAutoSelfupdate_def readSelfState_def self_event_def)
qed

end
