(* ===== verification/Crypt.thy ===== *)
theory Crypt
  imports Prelude "HOL-Library.Word"
begin

text \<open>
  Password hashes of an installation (crypt.go, and the salt of install.go): the structure of
  SHA-512-crypt around the hash function, which is a parameter, and the crypt base64 text of the
  digest. Bytes are characters. Proved: a salt that was generated is always accepted, and the text
  determines the digest.
\<close>

unbundle bit_operations_syntax

section \<open>The text of a digest\<close>

definition cryptB64 :: string where
  "cryptB64 = ''./0123456789ABCDEFGHIJKLMNOPQRSTUVWXYZabcdefghijklmnopqrstuvwxyz''"

definition cryptTriples :: "(nat \<times> nat \<times> nat) list" where
  "cryptTriples =
     [(0, 21, 42), (22, 43, 1), (44, 2, 23), (3, 24, 45), (25, 46, 4), (47, 5, 26), (6, 27, 48),
      (28, 49, 7), (50, 8, 29), (9, 30, 51), (31, 52, 10), (53, 11, 32), (12, 33, 54), (34, 55, 13),
      (56, 14, 35), (15, 36, 57), (37, 58, 16), (59, 17, 38), (18, 39, 60), (40, 61, 19), (62, 20, 41)]"

definition byte_word :: "char \<Rightarrow> 32 word" where
  "byte_word c = of_nat (of_char c)"

text \<open>The low six bits first.\<close>

fun b64_chars :: "nat \<Rightarrow> 32 word \<Rightarrow> string" where
  "b64_chars 0 w = []"
| "b64_chars (Suc n) w = cryptB64 ! unat (w AND 63) # b64_chars n (drop_bit 6 w)"

definition triple_word :: "string \<Rightarrow> nat \<times> nat \<times> nat \<Rightarrow> 32 word" where
  "triple_word digest t =
     (case t of (i, j, k) \<Rightarrow>
        push_bit 16 (byte_word (digest ! i)) OR push_bit 8 (byte_word (digest ! j)) OR byte_word (digest ! k))"

definition cryptEncode :: "string \<Rightarrow> string" where
  "cryptEncode digest =
     concat (map (\<lambda>t. b64_chars 4 (triple_word digest t)) cryptTriples) @ b64_chars 2 (byte_word (digest ! 63))"

section \<open>The hash\<close>

abbreviation (input) cryptRounds :: nat where "cryptRounds \<equiv> 5000"

text \<open>As many bytes of the digest as the password is long, sixty-four at a time.\<close>

fun b_blocks :: "string \<Rightarrow> nat \<Rightarrow> string" where
  "b_blocks b n = (if n = 0 then [] else let m = (if n < 64 then n else 64) in take m b @ b_blocks b (n - m))"

declare b_blocks.simps [simp del]

fun length_bits :: "string \<Rightarrow> string \<Rightarrow> nat \<Rightarrow> string" where
  "length_bits b pw n = (if n = 0 then [] else (if odd n then b else pw) @ length_bits b pw (n div 2))"

declare length_bits.simps [simp del]

text \<open>A digest of 64 bytes is appended until there are enough.\<close>

definition stretch :: "string \<Rightarrow> nat \<Rightarrow> string" where
  "stretch digest n = take n (concat (replicate ((n + 63) div 64) digest))"

definition crypt_round :: "(string \<Rightarrow> string) \<Rightarrow> string \<Rightarrow> string \<Rightarrow> nat \<Rightarrow> string \<Rightarrow> string" where
  "crypt_round sha pSeq sSeq i acc =
     sha ((if odd i then pSeq else acc) @ (if i mod 3 \<noteq> 0 then sSeq else []) @
          (if i mod 7 \<noteq> 0 then pSeq else []) @ (if odd i then acc else pSeq))"

definition crypt_digest :: "(string \<Rightarrow> string) \<Rightarrow> string \<Rightarrow> string \<Rightarrow> string" where
  "crypt_digest sha pw salt =
     (let bSum = sha (pw @ salt @ pw);
          aSum = sha (pw @ salt @ b_blocks bSum (List.length pw) @ length_bits bSum pw (List.length pw));
          pSeq = stretch (sha (concat (replicate (List.length pw) pw))) (List.length pw);
          sSeq = stretch (sha (concat (replicate (16 + of_char (aSum ! 0)) salt))) (List.length salt)
      in fold (crypt_round sha pSeq sSeq) [0..<cryptRounds] aSum)"

text \<open>\<open>None\<close>: the salt is refused. A character outside ASCII is not in the alphabet, nor is any of its bytes.\<close>

definition CryptSHA512 :: "(string \<Rightarrow> string) \<Rightarrow> string \<Rightarrow> string \<Rightarrow> string option" where
  "CryptSHA512 sha password salt =
     (if salt = [] \<or> 16 < List.length salt then None
      else if \<not> list_all (\<lambda>c. c \<in> set cryptB64) salt then None
      else Some (''$6$'' @ salt @ ''$'' @ cryptEncode (crypt_digest sha password salt)))"

text \<open>The salt of sixteen random bytes (install.go).\<close>

definition cryptSalt :: "string \<Rightarrow> string" where
  "cryptSalt raw = map (\<lambda>b. cryptB64 ! (of_char b mod List.length cryptB64)) raw"

definition hashRootPassword :: "(string \<Rightarrow> string) \<Rightarrow> string option \<Rightarrow> string \<Rightarrow> string option" where
  "hashRootPassword sha random password =
     (case random of None \<Rightarrow> None | Some raw \<Rightarrow> CryptSHA512 sha password (cryptSalt raw))"

section \<open>The text determines the digest\<close>

lemma cryptB64_length: "List.length cryptB64 = 64"
  by (simp add: cryptB64_def)

lemma cryptB64_distinct: "distinct cryptB64"
  by code_simp

lemma low_six: "unat (w AND 63 :: 32 word) = unat w mod 64"
proof -
  have "w AND 63 = take_bit 6 w" by (simp add: take_bit_eq_mask mask_numeral)
  then have "w AND 63 = w mod 64" by (simp add: take_bit_eq_mod)
  then show ?thesis by (simp add: unat_mod_distrib)
qed

lemma drop_six: "unat (drop_bit 6 w :: 32 word) = unat w div 64"
proof -
  have "drop_bit 6 w = w div 64" by (simp add: drop_bit_eq_div)
  then show ?thesis by (simp add: unat_div_distrib)
qed

lemma b64_chars_length [simp]: "List.length (b64_chars n w) = n"
  by (induction n arbitrary: w) auto

lemma b64_chars_set: "set (b64_chars n w) \<subseteq> set cryptB64"
proof (induction n arbitrary: w)
  case (Suc n)
  have "cryptB64 ! unat (w AND 63) \<in> set cryptB64"
    by (rule nth_mem) (simp add: low_six cryptB64_length)
  then show ?case using Suc by simp
qed simp

lemma b64_chars_inj: "b64_chars n v = b64_chars n w \<Longrightarrow> unat v < 64 ^ n \<Longrightarrow> unat w < 64 ^ n \<Longrightarrow> unat v = unat w"
proof (induction n arbitrary: v w)
  case (Suc n)
  have "unat v mod 64 = unat w mod 64"
    using Suc.prems(1) nth_eq_iff_index_eq [OF cryptB64_distinct, of "unat v mod 64" "unat w mod 64"]
    by (simp add: low_six cryptB64_length)
  moreover have "unat v div 64 = unat w div 64"
    using Suc.IH [of "drop_bit 6 v" "drop_bit 6 w"] Suc.prems
    by (simp add: drop_six div_less_iff_less_mult mult.commute)
  ultimately show ?case using div_mult_mod_eq [of "unat v" 64] div_mult_mod_eq [of "unat w" 64] by metis
qed simp


lemma of_char_less: "(of_char c :: nat) < 256"
  by (metis of_char_mod_256 mod_less_divisor zero_less_numeral)

lemma byte_word_unat: "unat (byte_word c) = of_char c"
proof -
  have "(of_char c :: nat) < 4294967296" using of_char_less [of c] by linarith
  then show ?thesis by (simp add: byte_word_def unat_of_nat)
qed

lemma byte_bits: "bit (byte_word c) n \<Longrightarrow> n < 8"
proof -
  have "unat (take_bit 8 (byte_word c)) = unat (byte_word c)"
    using of_char_less [of c] by (simp add: byte_word_unat unsigned_take_bit_eq take_bit_nat_eq_self)
  then have "take_bit 8 (byte_word c) = byte_word c" by (simp only: word_unat_eq_iff)
  then show "bit (byte_word c) n \<Longrightarrow> n < 8" by (metis bit_take_bit_iff)
qed

lemma byte_word_inj: "byte_word a = byte_word b \<Longrightarrow> a = b"
  by (metis byte_word_unat of_char_eq_iff)

lemma triple_bytes:
  "take_bit 24 (triple_word d (i, j, k)) = triple_word d (i, j, k)"
  "take_bit 8 (drop_bit 16 (triple_word d (i, j, k))) = byte_word (d ! i)"
  "take_bit 8 (drop_bit 8 (triple_word d (i, j, k))) = byte_word (d ! j)"
  "take_bit 8 (triple_word d (i, j, k)) = byte_word (d ! k)"
  by (rule bit_word_eqI; auto simp: triple_word_def bit_simps dest: byte_bits)+


lemma triple_chars_inj:
  assumes "b64_chars 4 (triple_word d (i, j, k)) = b64_chars 4 (triple_word e (i, j, k))"
  shows "d ! i = e ! i \<and> d ! j = e ! j \<and> d ! k = e ! k"
proof -
  have small: "unat (triple_word x (i, j, k)) < 64 ^ 4" for x
  proof -
    have "unat (take_bit 24 (triple_word x (i, j, k))) < 2 ^ 24"
      by (simp only: unsigned_take_bit_eq) (rule take_bit_nat_less_exp)
    then show ?thesis by (simp add: triple_bytes(1))
  qed
  have "triple_word d (i, j, k) = triple_word e (i, j, k)"
    using b64_chars_inj [OF assms small small] by (simp add: word_unat_eq_iff)
  then show ?thesis by (metis triple_bytes(2-4) byte_word_inj)
qed

lemma last_chars_inj:
  assumes "b64_chars 2 (byte_word a) = b64_chars 2 (byte_word b)"
  shows "a = b"
proof -
  have "unat (byte_word c) < 64 ^ 2" for c
  proof -
    have "(of_char c :: nat) < 4096" using of_char_less [of c] by linarith
    then show ?thesis by (simp add: byte_word_unat)
  qed
  from b64_chars_inj [OF assms this this] show ?thesis by (simp add: byte_word_unat)
qed

lemma concat_map_inj:
  "(\<And>x. length (f x) = n) \<Longrightarrow> (\<And>x. length (g x) = n) \<Longrightarrow> concat (map f xs) = concat (map g xs) \<Longrightarrow> x \<in> set xs \<Longrightarrow> f x = g x"
  by (induction xs) auto

text \<open>The table names each of the first 63 bytes.\<close>

lemma triples_cover: "list_all (\<lambda>n. list_ex (\<lambda>(i, j, k). n = i \<or> n = j \<or> n = k) cryptTriples) [0..<63]"
  by code_simp

lemma concat_length: "(\<And>x. length (f x) = n) \<Longrightarrow> length (concat (map f xs)) = n * length xs"
  by (induction xs) auto

lemma cryptEncode_length: "length (cryptEncode d) = 86"
  by (simp add: cryptEncode_def concat_length [where n = 4]) (simp add: cryptTriples_def)

lemma cryptEncode_set: "set (cryptEncode d) \<subseteq> set cryptB64"
  using b64_chars_set by (fastforce simp: cryptEncode_def)

lemma cryptEncode_inj:
  assumes "cryptEncode d = cryptEncode e" "length d = 64" "length e = 64"
  shows "d = e"
proof (rule nth_equalityI)
  let ?f = "\<lambda>d t. b64_chars 4 (triple_word d t)"
  have c: "concat (map (?f d) cryptTriples) = concat (map (?f e) cryptTriples)"
    and l: "b64_chars 2 (byte_word (d ! 63)) = b64_chars 2 (byte_word (e ! 63))"
    using assms(1) by (auto simp: cryptEncode_def concat_length [where n = 4])
  fix n assume "n < length d"
  then consider "n = 63" | "n < 63" using assms(2) by linarith
  then show "d ! n = e ! n"
  proof cases
    case 1
    then show ?thesis using last_chars_inj [OF l] by simp
  next
    case 2
    then obtain i j k where t: "(i, j, k) \<in> set cryptTriples" "n = i \<or> n = j \<or> n = k"
      using triples_cover by (fastforce simp: list_all_iff list_ex_iff)
    have "?f d (i, j, k) = ?f e (i, j, k)"
      using concat_map_inj [where f = "?f d" and g = "?f e" and n = 4, OF _ _ c t(1)] by simp
    then show ?thesis using triple_chars_inj t(2) by blast
  qed
qed (use assms in simp)

section \<open>The hash of a root password\<close>

lemma cryptSalt_chars: "list_all (\<lambda>c. c \<in> set cryptB64) (cryptSalt raw)"
  by (auto simp: cryptSalt_def list_all_iff cryptB64_length intro!: nth_mem)

lemma fold_length: "(\<And>x. length (sha x) = 64) \<Longrightarrow> length acc = 64 \<Longrightarrow> length (fold (crypt_round sha p s) ns acc) = 64"
  by (induction ns arbitrary: acc) (auto simp: crypt_round_def)

lemma crypt_digest_length: "(\<And>x. length (sha x) = 64) \<Longrightarrow> length (crypt_digest sha pw salt) = 64"
  by (simp add: crypt_digest_def Let_def fold_length)

text \<open>C23: with sixteen random bytes the hash of any password exists. It is \<open>$6$\<close>, a salt of sixteen characters, \<open>$\<close>
  and 86 characters, all of the crypt alphabet, and these 86 determine the digest: no other 64 bytes
  have this text.\<close>

theorem root_password_hash:
  assumes sha: "\<And>x. length (sha x) = 64" and raw: "length raw = 16"
  shows "\<exists>salt text. hashRootPassword sha (Some raw) pw = Some (''$6$'' @ salt @ ''$'' @ text) \<and>
    length salt = 16 \<and> length text = 86 \<and> set salt \<union> set text \<subseteq> set cryptB64 \<and>
    (\<forall>d. length d = 64 \<longrightarrow> (cryptEncode d = text \<longleftrightarrow> d = crypt_digest sha pw salt))"
proof (intro exI conjI)
  let ?salt = "cryptSalt raw" and ?text = "cryptEncode (crypt_digest sha pw (cryptSalt raw))"
  have l: "length ?salt = 16" using raw by (simp add: cryptSalt_def)
  then show "hashRootPassword sha (Some raw) pw = Some (''$6$'' @ ?salt @ ''$'' @ ?text)"
    using cryptSalt_chars by (auto simp: hashRootPassword_def CryptSHA512_def)
  show "set ?salt \<union> set ?text \<subseteq> set cryptB64"
    using cryptSalt_chars [of raw] cryptEncode_set by (auto simp: list_all_iff)
  show "\<forall>d. length d = 64 \<longrightarrow> (cryptEncode d = ?text \<longleftrightarrow> d = crypt_digest sha pw ?salt)"
    using cryptEncode_inj crypt_digest_length [of sha, OF sha] by blast
qed (use raw in \<open>simp_all add: cryptSalt_def cryptEncode_length\<close>)

theorem root_password_hash_witness:
  "\<exists>salt text. hashRootPassword (\<lambda>x. take 64 (x @ replicate 64 CHR ''0'')) (Some (replicate 16 CHR ''r'')) ''secret'' = Some (''$6$'' @ salt @ ''$'' @ text) \<and>
    length salt = 16 \<and> length text = 86"
proof -
  have l: "length (take 64 (x @ replicate 64 CHR ''0'')) = 64" for x :: string by simp
  from root_password_hash [where sha = "\<lambda>x. take 64 (x @ replicate 64 CHR ''0'')" and raw = "replicate 16 CHR ''r''" and pw = "''secret''", OF l]
  show ?thesis by auto
qed

end
