(* ===== verification/Install.thy ===== *)
theory Install
  imports Nodectl Crypt
begin

text \<open>
  \<open>cmd/nodectl/install.go\<close>: the installation of an image onto a whole disk. What the machine looks like
  (files, devices, links, sysfs) is fixed during a run; what the run changes is the content of disks,
  the configuration on the new boot partition and the commands that were executed, whose outcomes
  are a script. Proved: no disk is touched unless it is an unmounted whole disk that is large enough,
  and was confirmed; a run that succeeds has written the image of the verified index.
\<close>

section \<open>Keys of the administrator\<close>

definition ssh_types :: "string list" where
  "ssh_types = [''ssh-rsa'', ''ssh-dss'', ''ssh-ed25519'', ''ecdsa-sha2-nistp256'', ''ecdsa-sha2-nistp384'',
     ''ecdsa-sha2-nistp521'', ''sk-ssh-ed25519@openssh.com'', ''sk-ecdsa-sha2-nistp256@openssh.com'']"

definition base64_char :: "char \<Rightarrow> bool" where
  "base64_char c \<longleftrightarrow> c \<in> set ''ABCDEFGHIJKLMNOPQRSTUVWXYZabcdefghijklmnopqrstuvwxyz0123456789+/=''"

text \<open>The regular expression of an \<open>authorized_keys\<close> line; its dot does not match a newline.\<close>

definition sshKeyLine :: "string \<Rightarrow> bool" where
  "sshKeyLine s \<longleftrightarrow>
     (\<exists>t\<in>set ssh_types. has_prefix s (t @ '' '') \<and>
        (let r = drop (List.length t + 1) s; key = takeWhile base64_char r; c = dropWhile base64_char r
         in key \<noteq> [] \<and> (c = [] \<or> hd c = CHR '' '' \<and> newline \<notin> set c)))"

text \<open>\<open>None\<close>: a line that is no key.\<close>

fun key_lines :: "string list \<Rightarrow> string list option" where
  "key_lines [] = Some []"
| "key_lines (l # ls) =
     (let s = trim_space l in
      if s = [] then key_lines ls
      else if \<not> sshKeyLine s then None
      else map_option (\<lambda>ks. s # ks) (key_lines ls))"

fun flag_keys :: "string list \<Rightarrow> string list option" where
  "flag_keys [] = Some []"
| "flag_keys (k # ks) =
     (let s = trim_space k in
      if s = [] \<or> \<not> sshKeyLine s then None else map_option (\<lambda>rest. s # rest) (flag_keys ks))"

definition parseSSHPublicKeys :: "string \<Rightarrow> string list option" where
  "parseSSHPublicKeys txt = key_lines (split_on newline txt)"

text \<open>First the keys of the file, then those of the flags. \<open>read\<close> gives the content of a file.\<close>

definition collectInstallSSHKeys :: "(string \<Rightarrow> string option) \<Rightarrow> string list \<Rightarrow> string \<Rightarrow> string list option" where
  "collectInstallSSHKeys read flagKeys file =
     (case (if file = [] then Some [] else (case read file of None \<Rightarrow> None | Some raw \<Rightarrow> parseSSHPublicKeys raw)) of
        None \<Rightarrow> None
      | Some fromFile \<Rightarrow> map_option (\<lambda>ks. fromFile @ ks) (flag_keys flagKeys))"

section \<open>The image\<close>

definition selectInstallRelease :: "(string \<times> string) list \<Rightarrow> string \<Rightarrow> string \<Rightarrow> (string \<times> string \<times> string) option" where
  "selectInstallRelease sums flavor wantTS =
     (if wantTS \<noteq> []
      then (let file = ''simplek8s.'' @ wantTS @ ''.'' @ flavor @ ''.img.zst'' in
            case map_of sums file of
              None \<Rightarrow> None
            | Some csum \<Rightarrow> if csum = [] then None else Some (wantTS, file, csum))
      else FilterImgIndex sums flavor)"

section \<open>Devices\<close>

datatype file_kind = Plain_file | Directory | Block_device "64 word" | Other_device "64 word"

fun node_number :: "file_kind \<Rightarrow> 64 word" where
  "node_number (Block_device d) = d"
| "node_number (Other_device d) = d"
| "node_number _ = 0"

text \<open>Major and minor number of a device number.\<close>

definition dev_major :: "64 word \<Rightarrow> 64 word" where
  "dev_major dev = (drop_bit 8 dev AND 0xfff) OR (drop_bit 32 dev AND 0xfffff000)"

definition dev_minor :: "64 word \<Rightarrow> 64 word" where
  "dev_minor dev = (dev AND 0xff) OR (drop_bit 12 dev AND 0xffffff00)"

definition devNoOf :: "(string \<Rightarrow> file_kind option) \<Rightarrow> string \<Rightarrow> int \<times> int" where
  "devNoOf stat path =
     (case stat path of
        None \<Rightarrow> (- 1, - 1)
      | Some k \<Rightarrow> (uint (dev_major (node_number k)), uint (dev_minor (node_number k))))"

definition splitDevNo :: "string \<Rightarrow> (int \<times> int) option" where
  "splitDevNo dev =
     (if CHR '':'' \<notin> set dev then None
      else (case (atoi (fst (cut_at CHR '':'' dev)), atoi (snd (cut_at CHR '':'' dev))) of
              (Some maj, Some mnr) \<Rightarrow> Some (maj, mnr)
            | _ \<Rightarrow> None))"

definition isDigits :: "string \<Rightarrow> bool" where
  "isDigits s \<longleftrightarrow> list_all is_digit s"

definition mountSourceMatchesTarget :: "string \<Rightarrow> string \<Rightarrow> bool" where
  "mountSourceMatchesTarget src target \<longleftrightarrow>
     src = target \<or>
     has_prefix src target \<and>
       (let rest = trim_prefix src target; num = trim_prefix rest ''p'' in rest \<noteq> [] \<and> num \<noteq> [] \<and> isDigits num)"

text \<open>The numbers of the disk and of its partitions; \<open>sys base\<close>: the entries of the disk's directory
  in sysfs.\<close>

definition targetRdevSet ::
  "(string \<Rightarrow> file_kind option) \<Rightarrow> (string \<Rightarrow> string list) \<Rightarrow> string \<Rightarrow> string \<Rightarrow> (int \<times> int) list" where
  "targetRdevSet stat sys target base =
     List.filter (\<lambda>d. d \<noteq> (- 1, - 1))
       (devNoOf stat target # map (\<lambda>p. devNoOf stat (''/dev/'' @ p)) (List.filter (\<lambda>p. has_prefix p base) (sys base)))"

text \<open>A line of mountinfo is judged by its device number, one of the plain table by its source.\<close>

definition mount_line_hits :: "(int \<times> int) list \<Rightarrow> string \<Rightarrow> string \<Rightarrow> bool" where
  "mount_line_hits devs target line =
     (let fields = str_fields line in
      if fields = [] then False
      else if 2 < List.length fields \<and> CHR '':'' \<in> set (fields ! 2)
      then (case splitDevNo (fields ! 2) of Some d \<Rightarrow> d \<in> set devs | None \<Rightarrow> False)
      else mountSourceMatchesTarget (fields ! 0) target)"

definition installTargetMounted ::
  "(string \<Rightarrow> file_kind option) \<Rightarrow> (string \<Rightarrow> string list) \<Rightarrow> string \<Rightarrow> string \<Rightarrow> string \<Rightarrow> bool" where
  "installTargetMounted stat sys mounts target base =
     list_ex (mount_line_hits (targetRdevSet stat sys target base) target) (split_on newline mounts)"

definition mountinfoHitsTarget :: "string \<Rightarrow> (int \<times> int) list \<Rightarrow> bool" where
  "mountinfoHitsTarget mountinfo want =
     list_ex (\<lambda>line. let fields = str_fields line in
         2 < List.length fields \<and> CHR '':'' \<in> set (fields ! 2) \<and>
         (case splitDevNo (fields ! 2) of Some d \<Rightarrow> d \<in> set want | None \<Rightarrow> False))
       (split_on newline mountinfo)"

text \<open>A partition of a disk whose name ends in a digit is set off by a \<open>p\<close>.\<close>

definition partDevName :: "string \<Rightarrow> string \<Rightarrow> string" where
  "partDevName disk num = (if disk \<noteq> [] \<and> is_digit (List.last disk) then disk @ ''p'' @ num else disk @ num)"

definition parseDiskLabel :: "string \<Rightarrow> string" where
  "parseDiskLabel dump =
     (case List.filter (\<lambda>l. has_prefix (trim_space l) ''label:'') (split_on newline dump) of
        [] \<Rightarrow> []
      | l # _ \<Rightarrow> trim_space (trim_prefix (trim_space l) ''label:''))"

definition varPartType :: "string \<Rightarrow> string option" where
  "varPartType label =
     (if label = ''dos'' then Some ''83''
      else if label = ''gpt'' then Some ''0FC63DAF-8483-4772-8E79-3D69D8477DE4''
      else None)"

section \<open>The configuration of the new node\<close>

text \<open>The verb \<open>%q\<close> (\<open>strconv.Quote\<close>). A rune outside ASCII is taken to be printable.\<close>

definition quote_char :: "char \<Rightarrow> string" where
  "quote_char c =
     (let n = of_char c :: nat in
      if c = CHR 0x22 then [CHR 0x5C, CHR 0x22]
      else if c = CHR 0x5C then [CHR 0x5C, CHR 0x5C]
      else if n = 7 then [CHR 0x5C, CHR ''a'']
      else if n = 8 then [CHR 0x5C, CHR ''b'']
      else if n = 9 then [CHR 0x5C, CHR ''t'']
      else if n = 10 then [CHR 0x5C, CHR ''n'']
      else if n = 11 then [CHR 0x5C, CHR ''v'']
      else if n = 12 then [CHR 0x5C, CHR ''f'']
      else if n = 13 then [CHR 0x5C, CHR ''r'']
      else if n < 32 \<or> n = 127 then [CHR 0x5C, CHR ''x'', hex_digit (int n div 16), hex_digit (int n mod 16)]
      else [c])"

definition go_quote :: "string \<Rightarrow> string" where
  "go_quote s = [CHR 0x22] @ concat (map quote_char s) @ [CHR 0x22]"

definition minimalInstallYAML :: "string \<Rightarrow> string \<Rightarrow> string list \<Rightarrow> string" where
  "minimalInstallYAML ts passwordHash keys =
     put_line (''# Written by nodectl install ('' @ ts @ '').'') @
     put_line ''# See simplek8s.yaml.example for all options.'' @
     put_line ''users:'' @ put_line ''  - name: root'' @
     put_line (''    password_hash: '' @ passwordHash) @
     (if keys \<noteq> [] then put_line ''    ssh_authorized_keys:'' @ concat (map (\<lambda>k. put_line (''      - '' @ go_quote k)) keys) else []) @
     put_line ''storage:'' @ put_line ''  mounts:'' @
     put_line ''    - what: /dev/disk/by-label/var'' @ put_line ''      where: /var''"

definition installSummaryLine :: "string \<Rightarrow> string \<Rightarrow> string" where
  "installSummaryLine target ts = ''Installed SimpleK8s '' @ ts @ '' on '' @ target"

text \<open>The other devices that carry the label of the new \<open>/var\<close>, of which the tool warns.\<close>

definition foreign_labels :: "string \<Rightarrow> string \<Rightarrow> string list" where
  "foreign_labels blkid target =
     List.filter (\<lambda>dev. dev \<noteq> [] \<and> dev \<noteq> target \<and> \<not> mountSourceMatchesTarget dev target)
       (map trim_space (split_on newline blkid))"

section \<open>The machine\<close>

text \<open>\<open>Image_reply\<close>: status, the bytes that arrived, and whether the body ended well. \<open>ie_unzstd\<close>: what these
  bytes decode to, and whether their end is that of a stream. \<open>ie_sys\<close> lists the directory of a disk
  in sysfs, \<open>ie_enter\<close> is the second of the countdown in which Enter is pressed.\<close>

datatype image_reply = Image_failed | Image_reply int string bool

record install_env =
  ie_cli :: cli_host
  ie_stat :: "string \<Rightarrow> file_kind option"
  ie_resolve :: "string \<Rightarrow> string option"
  ie_sys :: "string \<Rightarrow> string list"
  ie_read :: "string \<Rightarrow> string option"
  ie_password :: string
  ie_terminal :: bool
  ie_typed :: "string option list"
  ie_enter :: "nat option"
  ie_random :: "string option"
  ie_sha512 :: "string \<Rightarrow> string"
  ie_sha256 :: "string \<Rightarrow> string"
  ie_get :: "string \<Rightarrow> image_reply"
  ie_unzstd :: "string \<Rightarrow> string \<times> bool"
  ie_udevadm :: bool
  ie_scratch :: string

text \<open>What a run changes: per disk what was written to its beginning, per boot partition its
  configuration, the commands with their input, and the output.\<close>

record install_state =
  is_disks :: "(string \<times> string) list"
  is_config :: "(string \<times> string) list"
  is_commands :: "(string list \<times> string) list"
  is_out :: string
  is_results :: "(bool \<times> string) list"
  is_script :: "io_event list"

type_synonym 'a install_op = "(install_state, int + 'a) state"

definition install_event :: "(install_state, io_event) state" where
  "install_event = State (\<lambda>s. case is_script s of
      [] \<Rightarrow> (Io_ok, s)
    | ev # evs \<Rightarrow> (ev, s\<lparr>is_script := evs\<rparr>))"

definition install_io :: "unit install_op" where
  "install_io = do {
     ev \<leftarrow> install_event;
     State_Monad.return (if ev = Io_ok then Inr () else Inl exitOperational) }"

definition print_out :: "string \<Rightarrow> unit install_op" where
  "print_out t = State (\<lambda>s. (Inr (), s\<lparr>is_out := is_out s @ t\<rparr>))"

text \<open>A command succeeds with empty output once the script is used up.\<close>

definition run_command_in :: "string list \<Rightarrow> string \<Rightarrow> (install_state, bool \<times> string) state" where
  "run_command_in argv stdin = State (\<lambda>s.
     (case is_results s of [] \<Rightarrow> (True, []) | r # _ \<Rightarrow> r,
      s\<lparr>is_commands := is_commands s @ [(argv, stdin)], is_results := tl (is_results s)\<rparr>))"

definition run_or_exit :: "string list \<Rightarrow> string \<Rightarrow> string install_op" where
  "run_or_exit argv stdin = do {
     r \<leftarrow> run_command_in argv stdin;
     State_Monad.return (if fst r then Inr (snd r) else Inl exitOperational) }"

section \<open>The target\<close>

abbreviation wizardSysBlock :: string where "wizardSysBlock \<equiv> ''/sys/block''"
abbreviation wizardMountinfo :: string where "wizardMountinfo \<equiv> ''/proc/self/mountinfo''"

definition readMountTable :: "install_env \<Rightarrow> string option" where
  "readMountTable env =
     (case ie_read env wizardMountinfo of Some t \<Rightarrow> Some t | None \<Rightarrow> ie_read env ''/proc/mounts'')"

definition isBlockDevice :: "file_kind option \<Rightarrow> bool" where
  "isBlockDevice k = (case k of Some (Block_device _) \<Rightarrow> True | _ \<Rightarrow> False)"

definition validateInstallTarget :: "install_env \<Rightarrow> string \<Rightarrow> int + string \<times> string" where
  "validateInstallTarget env device =
     (let named = (if CHR ''/'' \<in> set device then device else ''/dev/'' @ device);
          target = (case ie_resolve env named of Some p \<Rightarrow> p | None \<Rightarrow> named);
          base = filepath_base target
      in if \<not> isBlockDevice (ie_stat env target) then Inl exitMisuse
         else if ie_stat env (''/sys/block/'' @ base) \<noteq> Some Directory then Inl exitMisuse
         else (case readMountTable env of
                 None \<Rightarrow> Inl exitOperational
               | Some mounts \<Rightarrow>
                   if installTargetMounted (ie_stat env) (ie_sys env) mounts target base then Inl exitOperational
                   else Inr (target, base)))"

abbreviation installSizeFloor :: int where "installSizeFloor \<equiv> 1073741824"

text \<open>Sectors of 512 bytes, in \<open>int64\<close>.\<close>

definition installTargetSize :: "install_env \<Rightarrow> string \<Rightarrow> int option" where
  "installTargetSize env base =
     (case ie_read env (wizardSysBlock @ ''/'' @ base @ ''/size'') of
        None \<Rightarrow> None
      | Some raw \<Rightarrow> map_option (\<lambda>n. wrap64 (n * 512)) (atoi (trim_space raw)))"

section \<open>The root password\<close>

datatype password_source = From_file | From_env | From_prompt

definition installPasswordSource :: "install_env \<Rightarrow> string \<Rightarrow> password_source" where
  "installPasswordSource env passwordFile =
     (if passwordFile \<noteq> [] then From_file else if ie_password env \<noteq> [] then From_env else From_prompt)"

definition trim_newlines :: "string \<Rightarrow> string" where
  "trim_newlines s = rev (dropWhile (\<lambda>c. c = newline \<or> c = carriage_return) (rev s))"

definition hash_or_exit :: "install_env \<Rightarrow> string \<Rightarrow> int + string" where
  "hash_or_exit env password =
     (case hashRootPassword (ie_sha512 env) (ie_random env) password of None \<Rightarrow> Inl exitOperational | Some h \<Rightarrow> Inr h)"

definition hashInstallPassword :: "install_env \<Rightarrow> string \<Rightarrow> int + string" where
  "hashInstallPassword env password = (if password = [] then Inl exitMisuse else hash_or_exit env password)"

definition promptRootPassword :: "install_env \<Rightarrow> int + string" where
  "promptRootPassword env =
     (case ie_typed env of
        Some first_line # Some second_line # _ \<Rightarrow>
          (if first_line = [] then Inl exitMisuse
           else if first_line \<noteq> second_line then Inl exitMisuse
           else hash_or_exit env first_line)
      | _ \<Rightarrow> Inl exitOperational)"

definition resolveInstallPassword :: "install_env \<Rightarrow> string \<Rightarrow> int + string" where
  "resolveInstallPassword env passwordFile =
     (case installPasswordSource env passwordFile of
        From_file \<Rightarrow>
          (case ie_read env passwordFile of
             None \<Rightarrow> Inl exitOperational
           | Some raw \<Rightarrow> hashInstallPassword env (trim_newlines raw))
      | From_env \<Rightarrow> hashInstallPassword env (ie_password env)
      | From_prompt \<Rightarrow> if \<not> ie_terminal env then Inl exitMisuse else promptRootPassword env)"

section \<open>Writing the disk\<close>

definition countdown_line :: "nat \<Rightarrow> string" where
  "countdown_line n = [carriage_return] @ ''Continuing in '' @ nat_digits n @ ''s... ''"

text \<open>Enter within the ten seconds cancels.\<close>

definition confirmInstallDestroy :: "install_env \<Rightarrow> string \<Rightarrow> bool \<Rightarrow> unit install_op" where
  "confirmInstallDestroy env target assumeYes =
     (if assumeYes then State_Monad.return (Inr ())
      else if \<not> ie_terminal env then State_Monad.return (Inl exitMisuse)
      else (let warning = put_line [] @ put_line (''ALL DATA ON '' @ target @ '' WILL BE DESTROYED.'') @
                put_line ''Press Ctrl+C or Enter to cancel, or wait 10s to continue.'' in
        case ie_enter env of
          Some k \<Rightarrow>
            if k < 10
            then or_fail (print_out (warning @ concat (map (\<lambda>i. countdown_line (10 - i)) [0..<Suc k]) @ put_line [] @
                   put_line ''cancelled by user, no changes made'')) (\<lambda>_. State_Monad.return (Inl exitOperational))
            else print_out (warning @ concat (map (\<lambda>i. countdown_line (10 - i)) [0..<10]) @ put_line [])
        | None \<Rightarrow> print_out (warning @ concat (map (\<lambda>i. countdown_line (10 - i)) [0..<10]) @ put_line [])))"

definition write_disk :: "string \<Rightarrow> string \<Rightarrow> unit install_op" where
  "write_disk target content = do {
     ev \<leftarrow> install_event;
     State (\<lambda>s. (if ev = Io_ok then Inr () else Inl exitOperational,
       s\<lparr>is_disks := AList.update target (case ev of Io_ok \<Rightarrow> content | Io_fail \<Rightarrow> [] | Io_torn n \<Rightarrow> take n content) (is_disks s)\<rparr>)) }"

text \<open>The image is decoded onto the disk while it arrives; only then is its hash compared.\<close>

definition streamImageToDisk :: "install_env \<Rightarrow> string \<Rightarrow> string \<Rightarrow> string \<Rightarrow> string \<Rightarrow> unit install_op" where
  "streamImageToDisk env base file want target =
     (case ie_get env (base @ ''/'' @ file) of
        Image_failed \<Rightarrow> State_Monad.return (Inl exitOperational)
      | Image_reply code bytes complete \<Rightarrow>
          if code \<noteq> 200 then State_Monad.return (Inl exitOperational)
          else or_fail install_io (\<lambda>_. or_fail install_io (\<lambda>_.
            case ie_unzstd env bytes of (img, ended) \<Rightarrow>
              or_fail (write_disk target img) (\<lambda>_.
                if \<not> complete \<or> \<not> ended then State_Monad.return (Inl exitOperational)
                else if ie_sha256 env bytes \<noteq> want then State_Monad.return (Inl exitOperational)
                else install_io))))"

section \<open>The data partition\<close>

text \<open>The table is re-read up to six times.\<close>

fun reread_table :: "nat \<Rightarrow> string \<Rightarrow> unit install_op" where
  "reread_table 0 target = State_Monad.return (Inl exitOperational)"
| "reread_table (Suc n) target = do {
     r \<leftarrow> run_command_in [''blockdev'', ''--rereadpt'', target] [];
     if fst r then State_Monad.return (Inr ()) else reread_table n target }"

text \<open>Waiting for the node of the partition is one event: it appears before the deadline or not.\<close>

definition appendVarPartition :: "install_env \<Rightarrow> string \<Rightarrow> unit install_op" where
  "appendVarPartition env target =
     or_fail (run_or_exit [''sfdisk'', ''--dump'', target] []) (\<lambda>dump.
       case varPartType (parseDiskLabel dump) of
         None \<Rightarrow> State_Monad.return (Inl exitOperational)
       | Some partType \<Rightarrow>
           or_fail (run_or_exit [''sfdisk'', ''--force'', ''--append'', target] ('', ,'' @ partType @ [newline])) (\<lambda>_.
           or_fail (reread_table 6 target) (\<lambda>_. do {
             _ \<leftarrow> (if ie_udevadm env then run_command_in [''udevadm'', ''settle'', ''--timeout=10''] [] else State_Monad.return (True, []));
             or_fail install_io (\<lambda>_.
             or_fail (run_or_exit [''mkfs.ext4'', ''-L'', ''var'', ''-F'', ''-q'', partDevName target ''2''] []) (\<lambda>_.
               State_Monad.return (Inr ()))) })))"

section \<open>The configuration file\<close>

definition write_config :: "string \<Rightarrow> string \<Rightarrow> unit install_op" where
  "write_config esp content = do {
     ev \<leftarrow> install_event;
     State (\<lambda>s. case ev of
         Io_ok \<Rightarrow> (Inr (), s\<lparr>is_config := AList.update esp content (is_config s)\<rparr>)
       | Io_fail \<Rightarrow> (Inl exitOperational, s)
       | Io_torn n \<Rightarrow> (Inl exitOperational, s\<lparr>is_config := AList.update esp (take n content) (is_config s)\<rparr>)) }"

definition install_content :: "install_env \<Rightarrow> string \<Rightarrow> string \<Rightarrow> string \<Rightarrow> string list \<Rightarrow> int + string" where
  "install_content env config ts passwordHash keys =
     (if config \<noteq> [] then (case ie_read env config of None \<Rightarrow> Inl exitOperational | Some c \<Rightarrow> Inr c)
      else Inr (minimalInstallYAML ts passwordHash keys))"

definition writeInstallYAML :: "install_env \<Rightarrow> string \<Rightarrow> string \<Rightarrow> string \<Rightarrow> string \<Rightarrow> string list \<Rightarrow> unit install_op" where
  "writeInstallYAML env esp config ts passwordHash keys =
     or_fail install_io (\<lambda>_.
     or_fail (run_or_exit [''mount'', esp, ie_scratch env] []) (\<lambda>_. do {
       r \<leftarrow> (case install_content env config ts passwordHash keys of
               Inl e \<Rightarrow> State_Monad.return (Inl e)
             | Inr content \<Rightarrow> or_fail install_io (\<lambda>_. write_config esp content));
       _ \<leftarrow> run_command_in [''umount'', ie_scratch env] [];
       State_Monad.return r }))"

section \<open>The command\<close>

record install_flags =
  if_url :: string
  if_keyring :: string
  if_yes :: bool
  if_config :: string
  if_passwordFile :: string
  if_keys :: "string list"
  if_keysFile :: string
  if_dryRun :: bool

definition missing_file :: "install_env \<Rightarrow> string \<Rightarrow> bool" where
  "missing_file env p \<longleftrightarrow> (case ie_stat env p of None \<Rightarrow> True | Some k \<Rightarrow> k = Directory)"

text \<open>What the flags may not combine.\<close>

definition flags_misused :: "install_env \<Rightarrow> install_flags \<Rightarrow> bool" where
  "flags_misused env flags \<longleftrightarrow>
     if_config flags \<noteq> [] \<and>
       (missing_file env (if_config flags) \<or> if_keys flags \<noteq> [] \<or> if_keysFile flags \<noteq> [] \<or>
        if_passwordFile flags \<noteq> [] \<or> ie_password env \<noteq> []) \<or>
     if_passwordFile flags \<noteq> [] \<and> missing_file env (if_passwordFile flags)"

definition dry_run_plan :: "install_env \<Rightarrow> install_flags \<Rightarrow> string \<Rightarrow> string \<Rightarrow> string \<Rightarrow> string list \<Rightarrow> string" where
  "dry_run_plan env flags target ts file keys =
     put_line (''device: '' @ target) @ put_line (''img: '' @ ts @ '' ('' @ file @ '')'') @
     put_line ''layout: p1 ESP (from IMG), p2 var ext4 (rest of disk)'' @
     (if if_config flags \<noteq> [] then put_line (''config: '' @ if_config flags)
      else (let src = (case installPasswordSource env (if_passwordFile flags) of
                         From_file \<Rightarrow> ''root password from --password-file''
                       | From_env \<Rightarrow> ''root password from $NODECTL_ROOT_PASSWORD''
                       | From_prompt \<Rightarrow> ''would prompt root password'') in
            if keys \<noteq> [] then put_line (''config: minimal (mounts /var, '' @ src @ '', '' @ nat_digits (List.length keys) @ '' ssh key(s))'')
            else put_line (''config: minimal (mounts /var, '' @ src @ '')'')))"

definition root_password :: "install_env \<Rightarrow> install_flags \<Rightarrow> int + string" where
  "root_password env flags =
     (if if_config flags = [] \<and> \<not> if_dryRun flags then resolveInstallPassword env (if_passwordFile flags) else Inr [])"

text \<open>The part that destroys.\<close>

definition install_disk ::
  "install_env \<Rightarrow> install_flags \<Rightarrow> string \<Rightarrow> string \<Rightarrow> string \<Rightarrow> string \<Rightarrow> string \<Rightarrow> string list \<Rightarrow> unit install_op" where
  "install_disk env flags target ts file csum passwordHash keys =
     or_fail (confirmInstallDestroy env target (if_yes flags)) (\<lambda>_.
     or_fail (streamImageToDisk env (repoBase (if_url flags)) file csum target) (\<lambda>_.
     or_fail (appendVarPartition env target) (\<lambda>_.
     or_fail (writeInstallYAML env (partDevName target ''1'') (if_config flags) ts passwordHash keys) (\<lambda>_.
     or_fail (print_out (put_line [] @ put_line (installSummaryLine target ts))) (\<lambda>_. do {
       _ \<leftarrow> run_command_in [''blkid'', ''-o'', ''device'', ''-t'', ''LABEL=var''] [];
       State_Monad.return (Inr ()) })))))"

definition install_image :: "install_env \<Rightarrow> install_flags \<Rightarrow> string \<Rightarrow> int + string \<times> string \<times> string" where
  "install_image env flags wantTS =
     (case fetchIndexChecked (ie_cli env) (repoBase (if_url flags)) (if_keyring flags) of
        Inl _ \<Rightarrow> Inl exitOperational
      | Inr sums \<Rightarrow>
          (case InstallFlavor (readFirst (ch_model (ie_cli env))) (readFirst (ch_compatible (ie_cli env))) (ch_goarch (ie_cli env)) of
             None \<Rightarrow> Inl exitMisuse
           | Some flavor \<Rightarrow>
               (case selectInstallRelease sums flavor wantTS of None \<Rightarrow> Inl exitOperational | Some img \<Rightarrow> Inr img)))"

definition install_target :: "install_env \<Rightarrow> string \<Rightarrow> int + string" where
  "install_target env device =
     (case validateInstallTarget env device of
        Inl e \<Rightarrow> Inl e
      | Inr (target, base) \<Rightarrow>
          (case installTargetSize env base of
             None \<Rightarrow> Inl exitOperational
           | Some sz \<Rightarrow> if sz < installSizeFloor then Inl exitMisuse else Inr target))"

definition install_on :: "install_env \<Rightarrow> install_flags \<Rightarrow> string \<Rightarrow> string \<Rightarrow> unit install_op" where
  "install_on env flags wantTS device =
     (if flags_misused env flags then State_Monad.return (Inl exitMisuse)
      else (case collectInstallSSHKeys (ie_read env) (if_keys flags) (if_keysFile flags) of
        None \<Rightarrow> State_Monad.return (Inl exitMisuse)
      | Some keys \<Rightarrow>
          if \<not> ch_root (ie_cli env) then State_Monad.return (Inl exitMisuse)
          else (case install_target env device of
            Inl e \<Rightarrow> State_Monad.return (Inl e)
          | Inr target \<Rightarrow>
              (case install_image env flags wantTS of
                 Inl e \<Rightarrow> State_Monad.return (Inl e)
               | Inr (ts, file, csum) \<Rightarrow>
                   (case root_password env flags of
                      Inl e \<Rightarrow> State_Monad.return (Inl e)
                    | Inr passwordHash \<Rightarrow>
                        if if_dryRun flags then print_out (dry_run_plan env flags target ts file keys)
                        else install_disk env flags target ts file csum passwordHash keys)))))"

definition runInstall :: "install_env \<Rightarrow> install_flags \<Rightarrow> string list \<Rightarrow> unit install_op" where
  "runInstall env flags args =
     (case args of
        [device] \<Rightarrow> install_on env flags [] device
      | [wantTS, device] \<Rightarrow> install_on env flags wantTS device
      | _ \<Rightarrow> State_Monad.return (Inl exitMisuse))"

section \<open>What an installation touches\<close>

text \<open>A whole disk that carries no mounted file system and is large enough.\<close>

definition idle_disk :: "install_env \<Rightarrow> string \<Rightarrow> bool" where
  "idle_disk env target \<longleftrightarrow>
     isBlockDevice (ie_stat env target) \<and> ie_stat env (''/sys/block/'' @ filepath_base target) = Some Directory \<and>
     (\<exists>mounts. readMountTable env = Some mounts \<and>
        \<not> installTargetMounted (ie_stat env) (ie_sys env) mounts target (filepath_base target)) \<and>
     (\<exists>sz. installTargetSize env (filepath_base target) = Some sz \<and> installSizeFloor \<le> sz)"

definition confirmed :: "install_env \<Rightarrow> install_flags \<Rightarrow> bool" where
  "confirmed env flags \<longleftrightarrow> if_yes flags \<or> ie_terminal env \<and> (\<forall>k. ie_enter env = Some k \<longrightarrow> 10 \<le> k)"

lemma install_target_idle: "install_target env device = Inr target \<Longrightarrow> idle_disk env target"
  by (auto simp: install_target_def validateInstallTarget_def idle_disk_def Let_def split: sum.splits option.splits if_splits)

definition untouched :: "install_state \<Rightarrow> install_state \<Rightarrow> bool" where
  "untouched s s' \<longleftrightarrow> is_disks s' = is_disks s \<and> is_config s' = is_config s \<and> is_commands s' = is_commands s"

text \<open>At most this disk, and the configuration on its first partition.\<close>

definition touches :: "string \<Rightarrow> install_state \<Rightarrow> install_state \<Rightarrow> bool" where
  "touches target s s' \<longleftrightarrow>
     (\<forall>d. d \<noteq> target \<longrightarrow> map_of (is_disks s') d = map_of (is_disks s) d) \<and>
     (\<forall>e. e \<noteq> partDevName target ''1'' \<longrightarrow> map_of (is_config s') e = map_of (is_config s) e)"

lemma touches_order: "reflp (touches t)" "transp (touches t)"
  by (auto simp: reflp_def transp_def touches_def)

lemma touches_event: "keeps (touches t) install_event"
  by (auto simp: keeps_def install_event_def touches_def split: list.split)

lemma touches_io: "keeps (touches t) install_io"
  unfolding install_io_def by (intro keeps_bind keeps_return touches_event touches_order)

lemma touches_print: "keeps (touches t) (print_out x)"
  by (auto simp: keeps_def print_out_def touches_def)

lemma touches_command: "keeps (touches t) (run_command_in argv stdin)" "keeps (touches t) (run_or_exit argv stdin)"
proof -
  show "keeps (touches t) (run_command_in argv stdin)"
    by (auto simp: keeps_def run_command_in_def touches_def)
  then show "keeps (touches t) (run_or_exit argv stdin)"
    unfolding run_or_exit_def by (intro keeps_bind keeps_return touches_order)
qed

lemma touches_reread: "keeps (touches t) (reread_table n d)"
  by (induction n) (auto intro!: keeps_bind keeps_return touches_command touches_order)

lemma touches_disk: "keeps (touches t) (write_disk t c)"
proof -
  have "keeps (touches t) (State (\<lambda>s. (f, s\<lparr>is_disks := AList.update t x (is_disks s)\<rparr>)))" for f :: "int + unit" and x
    by (auto simp: keeps_def touches_def update_conv')
  then show ?thesis unfolding write_disk_def by (intro keeps_bind touches_event touches_order)
qed

lemma touches_config: "keeps (touches t) (write_config (partDevName t ''1'') c)"
proof -
  have "keeps (touches t) (State (\<lambda>s. case ev of
         Io_ok \<Rightarrow> (Inr (), s\<lparr>is_config := AList.update (partDevName t ''1'') c (is_config s)\<rparr>)
       | Io_fail \<Rightarrow> (Inl exitOperational, s)
       | Io_torn n \<Rightarrow> (Inl exitOperational, s\<lparr>is_config := AList.update (partDevName t ''1'') (take n c) (is_config s)\<rparr>)))" for ev
    by (auto simp: keeps_def touches_def update_conv' split: io_event.split)
  then show ?thesis unfolding write_config_def by (intro keeps_bind touches_event touches_order)
qed

lemmas touches_rules = keeps_bind keeps_or_fail keeps_return touches_event touches_io touches_print touches_command
  touches_reread touches_disk touches_config touches_order

lemma touches_parts:
  "keeps (touches target) (confirmInstallDestroy env target y)"
  "keeps (touches target) (streamImageToDisk env base file csum target)"
  "keeps (touches target) (appendVarPartition env target)"
  "keeps (touches target) (writeInstallYAML env (partDevName target ''1'') config ts h keys)"
  unfolding confirmInstallDestroy_def streamImageToDisk_def appendVarPartition_def writeInstallYAML_def Let_def
  by (auto intro!: touches_rules split: option.split image_reply.split prod.split sum.split)

lemma touches_install: "keeps (touches target) (install_disk env flags target ts file csum h keys)"
  unfolding install_disk_def by (intro touches_rules touches_parts)

lemma not_confirmed:
  "\<not> confirmed env flags \<Longrightarrow> run_state (install_disk env flags target ts file csum h keys) s = (r, s') \<Longrightarrow>
   untouched s s' \<and> (\<exists>e. r = Inl e)"
  by (auto simp: install_disk_def run_or_fail confirmInstallDestroy_def confirmed_def Let_def print_out_def untouched_def
      split: option.splits if_splits)

text \<open>A run either leaves everything alone, or it is the destructive part on an idle disk.\<close>

lemma install_on_cases:
  assumes "run_state (install_on env flags wantTS device) s = (r, s')"
  shows "untouched s s' \<and> (r = Inr () \<longrightarrow> if_dryRun flags) \<or>
    (\<exists>target ts file csum h keys. \<not> if_dryRun flags \<and> install_target env device = Inr target \<and>
       install_image env flags wantTS = Inr (ts, file, csum) \<and>
       collectInstallSSHKeys (ie_read env) (if_keys flags) (if_keysFile flags) = Some keys \<and>
       root_password env flags = Inr h \<and>
       run_state (install_disk env flags target ts file csum h keys) s = (r, s'))"
  using assms
  by (auto simp: install_on_def untouched_def print_out_def split: if_splits option.splits sum.splits)

section \<open>What a successful installation has done\<close>

text \<open>The disks stay, and commands are only added.\<close>

definition settled :: "install_state \<Rightarrow> install_state \<Rightarrow> bool" where
  "settled s s' \<longleftrightarrow> is_disks s' = is_disks s \<and> set (is_commands s) \<subseteq> set (is_commands s')"

lemma settled_order: "reflp settled" "transp settled"
  by (auto simp: reflp_def transp_def settled_def)

lemma settled_event: "keeps settled install_event"
  by (auto simp: keeps_def install_event_def settled_def split: list.split)

lemma settled_io: "keeps settled install_io"
  unfolding install_io_def by (intro keeps_bind keeps_return settled_event settled_order)

lemma settled_command: "keeps settled (run_command_in argv stdin)" "keeps settled (run_or_exit argv stdin)"
proof -
  show "keeps settled (run_command_in argv stdin)" by (auto simp: keeps_def run_command_in_def settled_def)
  then show "keeps settled (run_or_exit argv stdin)"
    unfolding run_or_exit_def by (intro keeps_bind keeps_return settled_order)
qed

lemma settled_config: "keeps settled (write_config e c)"
proof -
  have "keeps settled (State (\<lambda>s. case ev of
         Io_ok \<Rightarrow> (Inr (), s\<lparr>is_config := AList.update e c (is_config s)\<rparr>)
       | Io_fail \<Rightarrow> (Inl exitOperational, s)
       | Io_torn n \<Rightarrow> (Inl exitOperational, s\<lparr>is_config := AList.update e (take n c) (is_config s)\<rparr>)))" for ev
    by (auto simp: keeps_def settled_def split: io_event.split)
  then show ?thesis unfolding write_config_def by (intro keeps_bind settled_event settled_order)
qed

lemma settled_reread: "keeps settled (reread_table n d)"
  by (induction n) (auto intro!: keeps_bind keeps_return settled_command settled_order)

lemmas settled_rules = keeps_bind keeps_or_fail keeps_return settled_event settled_io settled_command settled_config
  settled_reread settled_order

lemma settled_yaml: "keeps settled (writeInstallYAML env esp config ts h keys)"
  unfolding writeInstallYAML_def by (auto intro!: settled_rules split: sum.split)

lemma settled_partition: "keeps settled (appendVarPartition env target)"
  unfolding appendVarPartition_def by (auto intro!: settled_rules split: option.split)

lemma confirm_done: "run_state (confirmInstallDestroy env target y) s = (Inr (), s') \<Longrightarrow> settled s s'"
  by (auto simp: confirmInstallDestroy_def Let_def run_or_fail print_out_def settled_def split: option.splits if_splits)

lemma io_done: "run_state install_io s = (Inr (), s') \<Longrightarrow> is_disks s' = is_disks s"
  using keepsD [OF settled_io] by (fastforce simp: settled_def)

lemma stream_done:
  assumes "run_state (streamImageToDisk env base file want target) s = (Inr (), s')"
  shows "\<exists>bytes. ie_get env (base @ ''/'' @ file) = Image_reply 200 bytes True \<and> ie_sha256 env bytes = want \<and>
    snd (ie_unzstd env bytes) \<and> map_of (is_disks s') target = Some (fst (ie_unzstd env bytes))"
proof (cases "ie_get env (base @ ''/'' @ file)")
  case Image_failed
  then show ?thesis using assms by (simp add: streamImageToDisk_def)
next
  case (Image_reply code bytes complete)
  obtain img ended where z: "ie_unzstd env bytes = (img, ended)" by fastforce
  have w: "map_of (is_disks u') target = Some img" if "run_state (write_disk target img) u = (Inr (), u')" for u u'
    using that by (auto simp: write_disk_def update_conv' split: prod.splits io_event.splits if_splits)
  show ?thesis
    using assms Image_reply z
    by (auto simp: streamImageToDisk_def elim!: or_fail_success split: if_splits dest!: io_done w)
qed

lemma partition_done:
  "run_state (appendVarPartition env target) s = (Inr (), s') \<Longrightarrow>
   ([''mkfs.ext4'', ''-L'', ''var'', ''-F'', ''-q'', partDevName target ''2''], []) \<in> set (is_commands s')"
  by (auto simp: appendVarPartition_def run_or_exit_def run_command_in_def elim!: or_fail_success
      split: option.splits prod.splits if_splits)

lemma yaml_done:
  assumes "run_state (writeInstallYAML env esp config ts h keys) s = (Inr (), s')"
  shows "\<exists>content. install_content env config ts h keys = Inr content \<and> map_of (is_config s') esp = Some content"
proof -
  have w: "map_of (is_config u') esp = Some c" if "run_state (write_config esp c) u = (Inr (), u')" for c u u'
    using that by (auto simp: write_config_def update_conv' split: prod.splits io_event.splits)
  show ?thesis
    using assms
    by (auto simp: writeInstallYAML_def run_command_in_def elim!: or_fail_success split: sum.splits prod.splits dest!: w)
qed

lemma print_done: "run_state (print_out x) s = (Inr (), s') \<Longrightarrow> is_disks s' = is_disks s \<and> is_config s' = is_config s \<and> is_commands s' = is_commands s"
  by (auto simp: print_out_def)

lemma install_done:
  assumes "run_state (install_disk env flags target ts file csum h keys) s = (Inr (), s')"
  shows "\<exists>bytes content. ie_get env (repoBase (if_url flags) @ ''/'' @ file) = Image_reply 200 bytes True \<and>
    ie_sha256 env bytes = csum \<and> snd (ie_unzstd env bytes) \<and>
    map_of (is_disks s') target = Some (fst (ie_unzstd env bytes)) \<and>
    ([''mkfs.ext4'', ''-L'', ''var'', ''-F'', ''-q'', partDevName target ''2''], []) \<in> set (is_commands s') \<and>
    install_content env (if_config flags) ts h keys = Inr content \<and>
    map_of (is_config s') (partDevName target ''1'') = Some content"
proof -
  from assms obtain s1 s2 s3 s4 s5 where
    2: "run_state (streamImageToDisk env (repoBase (if_url flags)) file csum target) s1 = (Inr (), s2)" and
    3: "run_state (appendVarPartition env target) s2 = (Inr (), s3)" and
    4: "run_state (writeInstallYAML env (partDevName target ''1'') (if_config flags) ts h keys) s3 = (Inr (), s4)" and
    5: "run_state (print_out (put_line [] @ put_line (installSummaryLine target ts))) s4 = (Inr (), s5)" and
    6: "run_state (do { _ \<leftarrow> run_command_in [''blkid'', ''-o'', ''device'', ''-t'', ''LABEL=var''] []; State_Monad.return (Inr ()) }) s5 = (Inr () :: int + unit, s')"
    unfolding install_disk_def by (elim or_fail_success) auto
  have "settled s2 s3" "settled s3 s4" using keepsD [OF settled_partition 3] keepsD [OF settled_yaml 4] by auto
  moreover have "is_disks s' = is_disks s4" "is_config s' = is_config s4" "set (is_commands s4) \<subseteq> set (is_commands s')"
    using print_done [OF 5] 6 by (auto simp: run_command_in_def)
  ultimately show ?thesis
    using stream_done [OF 2] partition_done [OF 3] yaml_done [OF 4] by (fastforce simp: settled_def)
qed


section \<open>An installation without failures succeeds\<close>

definition smooth :: "install_state \<Rightarrow> bool" where
  "smooth s \<longleftrightarrow> is_script s = [] \<and> is_results s = []"

definition goes :: "'a install_op \<Rightarrow> bool" where
  "goes m \<longleftrightarrow> (\<forall>s. smooth s \<longrightarrow> (\<exists>x s'. run_state m s = (Inr x, s') \<and> smooth s'))"

lemma goes_bind: "goes m \<Longrightarrow> (\<And>x. goes (k x)) \<Longrightarrow> goes (or_fail m k)"
  unfolding goes_def by (fastforce simp: run_or_fail)

lemma goes_return: "goes (State_Monad.return (Inr x))"
  by (simp add: goes_def)

lemma goes_io: "goes install_io"
  by (simp add: goes_def smooth_def install_io_def install_event_def)

lemma goes_print: "goes (print_out t)"
  by (simp add: goes_def smooth_def print_out_def)

lemma goes_command: "goes (run_or_exit argv stdin)"
  by (simp add: goes_def smooth_def run_or_exit_def run_command_in_def)

lemma goes_after_command: "goes m \<Longrightarrow> goes (do { _ \<leftarrow> run_command_in argv stdin; m })"
  by (simp add: goes_def smooth_def run_command_in_def)

lemma goes_disk: "goes (write_disk target c)"
  by (simp add: goes_def smooth_def write_disk_def install_event_def)

lemma goes_config: "goes (write_config esp c)"
  by (simp add: goes_def smooth_def write_config_def install_event_def)

lemma goes_reread: "0 < n \<Longrightarrow> goes (reread_table n d)"
  by (cases n) (simp_all add: goes_def smooth_def run_command_in_def)

lemma goes_yaml: "install_content env config ts h keys = Inr c \<Longrightarrow> goes (writeInstallYAML env esp config ts h keys)"
proof -
  assume c: "install_content env config ts h keys = Inr c"
  have "goes (or_fail install_io (\<lambda>_. write_config esp c))" by (intro goes_bind goes_io goes_config)
  then have "goes (do { r \<leftarrow> or_fail install_io (\<lambda>_. write_config esp c); _ \<leftarrow> run_command_in argv []; State_Monad.return r })" for argv
    unfolding goes_def by (fastforce simp: run_command_in_def smooth_def)
  then show ?thesis unfolding writeInstallYAML_def c by (auto intro!: goes_bind goes_io goes_command)
qed

lemma install_disk_succeeds:
  assumes s: "is_script s = []" "is_results s = [(True, dump)]" and c: "if_yes flags"
    and i: "ie_get env (repoBase (if_url flags) @ ''/'' @ file) = Image_reply 200 bytes True" "snd (ie_unzstd env bytes)"
      "ie_sha256 env bytes = csum"
    and l: "varPartType (parseDiskLabel dump) = Some ptype" and y: "install_content env (if_config flags) ts h keys = Inr content"
  shows "\<exists>s'. run_state (install_disk env flags target ts file csum h keys) s = (Inr (), s')"
proof -
  obtain img where z: "ie_unzstd env bytes = (img, True)" using i(2) by (cases "ie_unzstd env bytes") auto
  define s1 where "s1 = s\<lparr>is_disks := AList.update target img (is_disks s)\<rparr>"
  have 1: "run_state (streamImageToDisk env (repoBase (if_url flags)) file csum target) s = (Inr (), s1)"
    using s(1) i(1,3) z
    by (simp add: streamImageToDisk_def run_or_fail install_io_def install_event_def write_disk_def s1_def)
  define s2 where "s2 = s1\<lparr>is_commands := is_commands s1 @ [([''sfdisk'', ''--dump'', target], [])], is_results := []\<rparr>"
  have 2: "run_state (run_or_exit [''sfdisk'', ''--dump'', target] []) s1 = (Inr dump, s2)" "smooth s2"
    using s by (simp_all add: run_or_exit_def run_command_in_def s1_def s2_def smooth_def)
  have u: "goes (do { _ \<leftarrow> (if b then run_command_in argv stdin else State_Monad.return (True, [])); m })" if "goes m" for b argv stdin and m :: "unit install_op"
    using goes_after_command [OF that, of argv stdin] that by (cases b) simp_all
  have "goes (case varPartType (parseDiskLabel dump) of
         None \<Rightarrow> State_Monad.return (Inl exitOperational)
       | Some partType \<Rightarrow>
           or_fail (run_or_exit [''sfdisk'', ''--force'', ''--append'', target] ('', ,'' @ partType @ [newline])) (\<lambda>_.
           or_fail (reread_table 6 target) (\<lambda>_. do {
             _ \<leftarrow> (if ie_udevadm env then run_command_in [''udevadm'', ''settle'', ''--timeout=10''] [] else State_Monad.return (True, []));
             or_fail install_io (\<lambda>_.
             or_fail (run_or_exit [''mkfs.ext4'', ''-L'', ''var'', ''-F'', ''-q'', partDevName target ''2''] []) (\<lambda>_.
               State_Monad.return (Inr ()))) })))"
    by (simp only: l option.case) (intro goes_bind goes_command goes_reread u goes_io goes_return; simp)
  then obtain s3 where 3: "run_state (appendVarPartition env target) s1 = (Inr (), s3)" "smooth s3"
    using 2 unfolding goes_def appendVarPartition_def by (auto simp: run_or_fail)
  have "goes (or_fail (writeInstallYAML env (partDevName target ''1'') (if_config flags) ts h keys) (\<lambda>_.
     or_fail (print_out t) (\<lambda>_. do { _ \<leftarrow> run_command_in argv []; State_Monad.return (Inr ()) })))" for t argv
    by (intro goes_bind goes_yaml [OF y] goes_print goes_after_command goes_return)
  then show ?thesis using 1 3 c unfolding goes_def
    by (fastforce simp: install_disk_def confirmInstallDestroy_def run_or_fail)
qed

text \<open>A machine with an empty second disk.\<close>

definition image_sums :: "(string \<times> string) list" where
  "image_sums = [(''simplek8s.202608291203.x86-64.img.zst'', replicate 64 CHR ''a'')]"

definition image_cli :: cli_host where
  "image_cli = sample_cli\<lparr> ch_release := sample_host\<lparr> rh_get := (\<lambda>url. State_Monad.return
       (if url = ''https://r/SHA256SUMS'' then HttpReply 200 (Some (index_text image_sums))
        else if url = ''https://r/SHA256SUMS.gpg'' then HttpReply 200 (Some ''sig'') else HttpReply 404 (Some []))) \<rparr> \<rparr>"

definition sample_install :: install_env where
  "sample_install = \<lparr> ie_cli = image_cli,
     ie_stat = (\<lambda>p. if p = ''/dev/sda'' then Some (Block_device 0x800) else if p = ''/dev/sda1'' then Some (Block_device 0x801)
       else if p = ''/dev/sdb'' then Some (Block_device 0x810) else if p = ''/sys/block/sdb'' then Some Directory
       else if p = ''/c.yaml'' then Some Plain_file else None),
     ie_resolve = (\<lambda>p. Some p), ie_sys = (\<lambda>b. if b = ''sda'' then [''sda1'', ''size''] else [''size'']),
     ie_read = (\<lambda>p. if p = ''/proc/self/mountinfo'' then Some ''22 1 8:1 / / rw - ext4 /dev/root rw''
       else if p = ''/sys/block/sdb/size'' then Some ''4194304'' else if p = ''/c.yaml'' then Some ''users:'' else None),
     ie_password = [], ie_terminal = False, ie_typed = [], ie_enter = None, ie_random = None,
     ie_sha512 = (\<lambda>x. x), ie_sha256 = (\<lambda>x. replicate 64 CHR ''a''),
     ie_get = (\<lambda>_. Image_reply 200 ''zst'' True), ie_unzstd = (\<lambda>x. (''image'', True)), ie_udevadm = False, ie_scratch = ''/tmp/m'' \<rparr>"

definition sample_install_flags :: install_flags where
  "sample_install_flags = \<lparr> if_url = ''https://r/'', if_keyring = [], if_yes = True, if_config = ''/c.yaml'',
     if_passwordFile = [], if_keys = [], if_keysFile = [], if_dryRun = False \<rparr>"

definition sample_install_state :: install_state where
  "sample_install_state = \<lparr> is_disks = [], is_config = [], is_commands = [], is_out = [],
     is_results = [(True, ''label: gpt'')], is_script = [] \<rparr>"

lemma image_fetch: "fetchIndexChecked image_cli ''https://r'' [] = Inr image_sums"
proof -
  have i: "ParseIndex (index_text image_sums) = Some image_sums"
    by (rule index_reads_back)
      (simp_all add: image_sums_def index_entry_def is_hex_def to_lower_def lower_char_def list_all_iff map_replicate_const)
  have s: "limit_reader maxIndexBytes (index_text image_sums) = index_text image_sums"
    by (simp add: limit_reader_def index_text_def image_sums_def)
  have t: "trim_suffix ''https://r'' ''/'' = ''https://r''" by code_simp
  let ?H = "ch_release image_cli"
  have f: "run_state (fetch_index ?H ''https://r'') () = (Inr (index_text image_sums, ''sig''), ())"
    using s by (simp add: fetch_index_def httpGet_def run_or_fail image_cli_def limit_reader_def t)
  have k: "LoadKeyringBytes ?H ''ring'' = Inr [''key'']"
    by (simp add: LoadKeyringBytes_def image_cli_def sample_host_def nonempty_keyring_def)
  have v: "VerifyIndex ?H [''key''] j ''sig'' = Inr ()" for j
    by (simp add: VerifyIndex_def image_cli_def sample_host_def detachedSignatureReader_def)
  have "ch_embedded image_cli = ''ring''" by (simp add: image_cli_def sample_cli_def)
  then show ?thesis
    by (simp add: fetchIndexChecked_def FetchVerifiedIndex_def run_or_fail f k v rejected_def parsed_index_def i)
qed

lemma sample_install_runs:
  "\<exists>s'. run_state (install_on sample_install sample_install_flags [] ''sdb'') sample_install_state = (Inr (), s')"
proof -
  have b: "repoBase ''https://r/'' = ''https://r''" by code_simp
  have m: "\<not> flags_misused sample_install sample_install_flags" by code_simp
  have k: "collectInstallSSHKeys (ie_read sample_install) [] [] = Some []" by code_simp
  have t: "install_target sample_install ''sdb'' = Inr ''/dev/sdb''" by code_simp
  have v: "InstallFlavor (readFirst (ch_model image_cli)) (readFirst (ch_compatible image_cli)) (ch_goarch image_cli) = Some ''x86-64''" by code_simp
  have e: "selectInstallRelease image_sums ''x86-64'' [] = Some (''202608291203'', ''simplek8s.202608291203.x86-64.img.zst'', replicate 64 CHR ''a'')"
    unfolding image_sums_def by code_simp
  have i: "install_image sample_install sample_install_flags [] = Inr (''202608291203'', ''simplek8s.202608291203.x86-64.img.zst'', replicate 64 CHR ''a'')"
    using image_fetch v e by (simp add: install_image_def sample_install_def sample_install_flags_def b)
  have r: "root_password sample_install sample_install_flags = Inr []" by code_simp
  have l: "varPartType (parseDiskLabel ''label: gpt'') = Some ''0FC63DAF-8483-4772-8E79-3D69D8477DE4''" by code_simp
  have c: "ch_root (ie_cli sample_install)" by code_simp
  have d: "\<exists>s'. run_state (install_disk sample_install sample_install_flags ''/dev/sdb'' ''202608291203''
      ''simplek8s.202608291203.x86-64.img.zst'' (replicate 64 CHR ''a'') [] []) sample_install_state = (Inr (), s')"
    by (rule install_disk_succeeds [where dump = "''label: gpt''" and bytes = "''zst''", OF _ _ _ _ _ _ l])
      (simp_all add: sample_install_def sample_install_flags_def sample_install_state_def install_content_def)
  have f: "if_keys sample_install_flags = []" "if_keysFile sample_install_flags = []" "\<not> if_dryRun sample_install_flags"
    by (simp_all add: sample_install_flags_def)
  show ?thesis
    using d by (simp add: install_on_def m k t i r c f)
qed


section \<open>Device numbers\<close>

text \<open>A device is known by its two numbers.\<close>

lemma dev_number_injective:
  assumes "dev_major a = dev_major b" "dev_minor a = dev_minor b"
  shows "a = b"
proof (rule bit_word_eqI)
  fix n assume n: "n < LENGTH(64)"
  have m: "(0xfff :: 64 word) = mask 12" "(0xfffff000 :: 64 word) = push_bit 12 (mask 20)"
    "(0xff :: 64 word) = mask 8" "(0xffffff00 :: 64 word) = push_bit 8 (mask 24)" by code_simp+
  have major: "bit (dev_major d) k \<longleftrightarrow> k < 12 \<and> bit d (8 + k) \<or> 12 \<le> k \<and> k < 32 \<and> bit d (32 + k)" for d k
    unfolding dev_major_def m by (auto simp: bit_simps)
  have minor: "bit (dev_minor d) k \<longleftrightarrow> k < 8 \<and> bit d k \<or> 8 \<le> k \<and> k < 32 \<and> bit d (12 + k)" for d k
    unfolding dev_minor_def m by (auto simp: bit_simps)
  have n64: "n < 64" using n by simp
  then consider "n < 8" | "8 \<le> n" "n < 20" | "20 \<le> n" "n < 44" | "44 \<le> n" by linarith
  then show "bit a n = bit b n"
  proof cases
    case 1
    then show ?thesis using minor [of a n] minor [of b n] assms by simp
  next
    case 2
    then have "n - 8 < 12" by linarith
    then show ?thesis using 2 major [of a "n - 8"] major [of b "n - 8"] assms by simp
  next
    case 3
    then have "\<not> n - 12 < 8" "8 \<le> n - 12" "n - 12 < 32" by linarith+
    then show ?thesis using 3 minor [of a "n - 12"] minor [of b "n - 12"] assms by simp
  next
    case 4
    then have "\<not> n - 32 < 12" "12 \<le> n - 32" "n - 32 < 32" using n64 by linarith+
    then show ?thesis using 4 major [of a "n - 32"] major [of b "n - 32"] assms n64 by simp
  qed
qed

text \<open>On a mountinfo table the check does not depend on the names of the sources.\<close>

lemma mounted_by_number:
  assumes "\<forall>line\<in>set (split_on newline mounts). str_fields line = [] \<or>
    2 < List.length (str_fields line) \<and> CHR '':'' \<in> set (str_fields line ! 2)"
  shows "installTargetMounted stat sys mounts target base = mountinfoHitsTarget mounts (targetRdevSet stat sys target base)"
proof -
  have "mount_line_hits devs target line \<longleftrightarrow>
      2 < List.length (str_fields line) \<and> CHR '':'' \<in> set (str_fields line ! 2) \<and>
      (case splitDevNo (str_fields line ! 2) of Some d \<Rightarrow> d \<in> set devs | None \<Rightarrow> False)"
    if "line \<in> set (split_on newline mounts)" for devs line
    using assms that by (auto simp: mount_line_hits_def Let_def split: option.split)
  then show ?thesis by (simp add: installTargetMounted_def mountinfoHitsTarget_def list_ex_iff Let_def cong: bex_cong)
qed

end
