(* ===== verification/Kubeadm.thy ===== *)
theory Kubeadm
  imports Node_State Bootloader "HOL-Library.Sublist"
begin

text \<open>
  \<open>cmd/nodectl/wizard_kubeadm.go\<close>, as far as it computes: the shapes of tokens and names, the join
  configuration and the arguments made of it, the hosts file, the masking of secrets, and what is read
  from the output of \<open>kubeadm\<close>. The lookup of a port (\<open>net.LookupPort\<close>, which asks the services of the
  system) is a parameter. Proved: the configuration and the command that the wizard of a control plane
  hands out are what the wizard of the joining node accepts and runs; masked text shows no secret;
  the hosts file is edited once and otherwise kept.
\<close>

section \<open>Shapes\<close>

definition token_char :: "char \<Rightarrow> bool" where
  "token_char c \<longleftrightarrow> is_digit c \<or> (let n = of_char c :: nat in 97 \<le> n \<and> n \<le> 122)"

definition reTokenID :: "string \<Rightarrow> bool" where
  "reTokenID s \<longleftrightarrow> List.length s = 6 \<and> list_all token_char s"

definition reTokenFull :: "string \<Rightarrow> bool" where
  "reTokenFull s \<longleftrightarrow> List.length s = 23 \<and> list_all token_char (take 6 s) \<and> s ! 6 = CHR ''.'' \<and> list_all token_char (drop 7 s)"

definition reTokenDelete :: "string \<Rightarrow> bool" where
  "reTokenDelete s \<longleftrightarrow> reTokenID s \<or> reTokenFull s"

definition reCAHash :: "string \<Rightarrow> bool" where
  "reCAHash s \<longleftrightarrow> has_prefix s ''sha256:'' \<and> List.length s = 71 \<and> list_all is_hex (drop 7 s)"

definition reCertKey :: "string \<Rightarrow> bool" where
  "reCertKey s \<longleftrightarrow> List.length s = 64 \<and> list_all is_hex s"

definition reHostname :: "string \<Rightarrow> bool" where
  "reHostname s \<longleftrightarrow> s \<noteq> [] \<and> List.length s \<le> 63 \<and> list_all (\<lambda>c. token_char c \<or> c = CHR ''-'') s \<and>
     token_char (hd s) \<and> token_char (List.last s)"

section \<open>Addresses\<close>

text \<open>\<open>net.SplitHostPort\<close>: the port follows the last colon; a host with colons stands in brackets.\<close>

definition SplitHostPort :: "string \<Rightarrow> (string \<times> string) option" where
  "SplitHostPort hp =
     (if CHR '':'' \<notin> set hp then None
      else (let port = rev (takeWhile (\<lambda>c. c \<noteq> CHR '':'') (rev hp));
                front = take (List.length hp - List.length port - 1) hp in
        if hd hp = CHR ''['' then
          (let inner = takeWhile (\<lambda>c. c \<noteq> CHR '']'') (tl hp) in
           if front \<noteq> CHR ''['' # inner @ '']'' \<or> CHR ''['' \<in> set (tl hp) \<or> CHR '']'' \<in> set port then None
           else Some (inner, port))
        else if CHR '':'' \<in> set front \<or> CHR ''['' \<in> set hp \<or> CHR '']'' \<in> set hp then None
        else Some (front, port)))"

section \<open>The join configuration\<close>

record joinConfig =
  Address :: string
  Token :: string
  CACertHash :: string
  CertificateKey :: string
  Role :: string
  Hostname :: string

datatype join_error = Bad_json | Bad_address | Bad_port | Bad_token | Bad_hash | Key_forbidden | Key_required | Bad_role | Bad_hostname

text \<open>\<open>lookup\<close>: the port of a number or a service name.\<close>

definition join_valid :: "(string \<Rightarrow> int option) \<Rightarrow> joinConfig \<Rightarrow> join_error + unit" where
  "join_valid lookup jc =
     (case SplitHostPort (Address jc) of
        None \<Rightarrow> Inl Bad_address
      | Some (host, port) \<Rightarrow>
          if host = [] \<or> port = [] then Inl Bad_address
          else if (case lookup port of None \<Rightarrow> True | Some p \<Rightarrow> p < 1 \<or> 65535 < p) then Inl Bad_port
          else if \<not> reTokenFull (Token jc) then Inl Bad_token
          else if \<not> reCAHash (CACertHash jc) then Inl Bad_hash
          else if Role jc = ''worker'' \<and> CertificateKey jc \<noteq> [] then Inl Key_forbidden
          else if Role jc = ''control-plane'' \<and> \<not> reCertKey (CertificateKey jc) then Inl Key_required
          else if Role jc \<noteq> ''worker'' \<and> Role jc \<noteq> ''control-plane'' then Inl Bad_role
          else if \<not> reHostname (Hostname jc) then Inl Bad_hostname
          else Inr ())"

text \<open>Decoding that refuses unknown members; \<open>null\<close> leaves a struct as it is.\<close>

definition strict_members :: "string list \<Rightarrow> json \<Rightarrow> (string \<times> json) list option" where
  "strict_members names j =
     (case j of
        JObj ms \<Rightarrow> if list_all (\<lambda>(k, _). fold_name k \<in> set (map fold_name names)) ms then Some ms else None
      | JNull \<Rightarrow> Some []
      | _ \<Rightarrow> None)"

definition string_member :: "string \<Rightarrow> (string \<times> json) list \<Rightarrow> string option" where
  "string_member nm ms = (case dec_string [] (field_values nm ms) of (v, bad) \<Rightarrow> if bad then None else Some v)"

definition join_names :: "string list" where
  "join_names = [''address'', ''token'', ''caCertHash'', ''certificateKey'', ''role'', ''hostname'']"

definition decode_join :: "json \<Rightarrow> joinConfig option" where
  "decode_join j = do {
     ms \<leftarrow> strict_members join_names j;
     a \<leftarrow> string_member ''address'' ms;
     t \<leftarrow> string_member ''token'' ms;
     h \<leftarrow> string_member ''caCertHash'' ms;
     k \<leftarrow> string_member ''certificateKey'' ms;
     r \<leftarrow> string_member ''role'' ms;
     n \<leftarrow> string_member ''hostname'' ms;
     Some \<lparr> Address = a, Token = t, CACertHash = h, CertificateKey = k, Role = r, Hostname = n \<rparr> }"

text \<open>\<open>json.Decoder\<close> takes the first value of the text; what follows is not looked at.\<close>

definition decode_first :: "string \<Rightarrow> (json \<times> string) option" where
  "decode_first s =
     (case parse_val (Suc (2 * List.length s)) s of
        None \<Rightarrow> None
      | Some (j, r) \<Rightarrow> if json_depth j \<le> 10000 then Some (j, r) else None)"

text \<open>The configuration arrives as an object or as a string that holds one.\<close>

definition parseJoinConfig :: "(string \<Rightarrow> int option) \<Rightarrow> json \<Rightarrow> join_error + joinConfig" where
  "parseJoinConfig lookup raw =
     (case (case raw of
              JStr s \<Rightarrow> map_option fst (decode_first s)
            | JNull \<Rightarrow> None
            | _ \<Rightarrow> Some raw) of
        None \<Rightarrow> Inl Bad_json
      | Some j \<Rightarrow>
          (case decode_join j of
             None \<Rightarrow> Inl Bad_json
           | Some jc \<Rightarrow> (case join_valid lookup jc of Inl e \<Rightarrow> Inl e | Inr _ \<Rightarrow> Inr jc)))"

definition buildJoinArgs :: "joinConfig \<Rightarrow> string list" where
  "buildJoinArgs jc =
     [''join'', Address jc, ''--token'', Token jc, ''--discovery-token-ca-cert-hash'', CACertHash jc] @
     (if Role jc = ''control-plane'' then [''--control-plane'', ''--certificate-key'', CertificateKey jc] else []) @
     [''--node-name'', Hostname jc]"

abbreviation wizardPodCIDR :: string where "wizardPodCIDR \<equiv> ''10.244.0.0/16''"

definition buildInitArgs :: "string \<Rightarrow> string \<Rightarrow> string list" where
  "buildInitArgs advertiseAddr hostname =
     [''init'', ''--apiserver-advertise-address='' @ advertiseAddr, ''--control-plane-endpoint='' @ advertiseAddr @ '':6443'',
      ''--pod-network-cidr='' @ wizardPodCIDR, ''--node-name='' @ hostname]"

section \<open>The hosts file\<close>

definition own_host_line :: "string \<Rightarrow> bool" where
  "own_host_line l =
     (let t = trim_space l in
      t \<noteq> [] \<and> \<not> has_prefix t ''#'' \<and> str_fields t \<noteq> [] \<and> hd (str_fields t) = ''127.0.1.1'')"

definition host_lines :: "string \<Rightarrow> string list" where
  "host_lines content =
     (if has_suffix content [newline] then butlast (split_on newline content) else split_on newline content)"

definition editHostsContent :: "string \<Rightarrow> string \<Rightarrow> string" where
  "editHostsContent content hostname =
     (let want = ''127.0.1.1 '' @ hostname; ls = host_lines content in
      if content = [] then want @ [newline]
      else join_with [newline]
             (if list_ex own_host_line ls then map (\<lambda>l. if own_host_line l then want else l) ls else ls @ [want]) @
           (if has_suffix content [newline] then [newline] else []))"

section \<open>Secrets\<close>

text \<open>\<open>strings.ReplaceAll\<close> for a text that is not empty.\<close>

function replace_all :: "string \<Rightarrow> string \<Rightarrow> string \<Rightarrow> string" where
  "replace_all old new s =
     (if old \<noteq> [] \<and> has_prefix s old then new @ replace_all old new (drop (List.length old) s)
      else (case s of [] \<Rightarrow> [] | c # r \<Rightarrow> c # replace_all old new r))"
  by auto
termination
  by (relation "measure (\<lambda>(old, new, s). List.length s)") (auto simp: has_prefix_iff)

declare replace_all.simps [simp del]

definition maskSecrets :: "string \<Rightarrow> string list \<Rightarrow> string" where
  "maskSecrets s secrets = foldl (\<lambda>t sec. if sec \<noteq> [] then replace_all sec ''***'' t else t) s secrets"

section \<open>What kubeadm prints\<close>

definition manualSetupCommands :: "string \<Rightarrow> string \<times> string" where
  "manualSetupCommands hostname =
     (''hostnamectl set-hostname '' @ hostname,
      ''sed -i '' @ [CHR 0x27] @ ''/^127'' @ [CHR 0x5C] @ ''.0'' @ [CHR 0x5C] @ ''.1'' @ [CHR 0x5C] @ ''.1 /d'' @ [CHR 0x27] @
      '' /etc/hosts && echo '' @ [CHR 0x27] @ ''127.0.1.1 '' @ hostname @ [CHR 0x27] @ '' >> /etc/hosts'')"

fun join_flags :: "string list \<Rightarrow> string \<Rightarrow> string \<Rightarrow> string \<times> string" where
  "join_flags (a # b # r) token caHash =
     join_flags (b # r) (if a = ''--token'' then b else token) (if a = ''--discovery-token-ca-cert-hash'' then b else caHash)"
| "join_flags _ token caHash = (token, caHash)"

text \<open>The words of a line: what the line is passed over with, or what is read from it. Token and hash of a line
  that is passed over are still there for the next one.\<close>

definition join_line :: "(string \<Rightarrow> int option) \<Rightarrow> string list \<Rightarrow> string \<Rightarrow> string \<Rightarrow> string \<times> string + string \<times> string \<times> string" where
  "join_line lookup f token caHash =
     (if List.length f < 3 \<or> f ! 0 \<noteq> ''kubeadm'' \<or> f ! 1 \<noteq> ''join'' then Inl (token, caHash)
      else (case join_flags (drop 3 f) token caHash of
        (t, h) \<Rightarrow>
          if f ! 2 = [] \<or> t = [] \<or> h = [] \<or>
             join_valid lookup \<lparr> Address = f ! 2, Token = t, CACertHash = h, CertificateKey = [], Role = ''worker'', Hostname = ''x'' \<rparr> \<noteq> Inr ()
          then Inl (t, h)
          else Inr (f ! 2, t, h)))"

fun join_lines :: "(string \<Rightarrow> int option) \<Rightarrow> string list \<Rightarrow> string \<Rightarrow> string \<Rightarrow> (string \<times> string \<times> string) option" where
  "join_lines lookup [] token caHash = None"
| "join_lines lookup (l # ls) token caHash =
     (case join_line lookup (str_fields (trim_space l)) token caHash of
        Inl (t, h) \<Rightarrow> join_lines lookup ls t h
      | Inr found \<Rightarrow> Some found)"

definition parseJoinCommand :: "(string \<Rightarrow> int option) \<Rightarrow> string \<Rightarrow> (string \<times> string \<times> string) option" where
  "parseJoinCommand lookup out = join_lines lookup (split_on newline out) [] []"

record bootstrapTokenOut =
  bt_Kind :: string
  bt_Token :: string
  bt_Description :: string
  bt_Expires :: string

text \<open>Here unknown members are passed over.\<close>

definition decode_token :: "json \<Rightarrow> bootstrapTokenOut option" where
  "decode_token j = do {
     ms \<leftarrow> (case j of JObj ms \<Rightarrow> Some ms | JNull \<Rightarrow> Some [] | _ \<Rightarrow> None);
     k \<leftarrow> string_member ''kind'' ms;
     t \<leftarrow> string_member ''token'' ms;
     d \<leftarrow> string_member ''description'' ms;
     e \<leftarrow> string_member ''expires'' ms;
     Some \<lparr> bt_Kind = k, bt_Token = t, bt_Description = d, bt_Expires = e \<rparr> }"

text \<open>Every value takes at least one byte, so the length of the text is fuel enough.\<close>

fun token_stream :: "nat \<Rightarrow> string \<Rightarrow> bootstrapTokenOut list" where
  "token_stream 0 s = []"
| "token_stream (Suc n) s =
     (case decode_first s of
        None \<Rightarrow> []
      | Some (j, r) \<Rightarrow>
          (case decode_token j of
             None \<Rightarrow> []
           | Some t \<Rightarrow> if bt_Token t \<noteq> [] then t # token_stream n r else token_stream n r))"

definition decodeTokenStream :: "string \<Rightarrow> bootstrapTokenOut list" where
  "decodeTokenStream data = token_stream (Suc (List.length data)) data"

text \<open>\<open>strings.SplitN(t, ".", 2)\<close> has two parts if there is a dot.\<close>

definition parseTokenExpiry :: "string \<Rightarrow> string \<Rightarrow> string" where
  "parseTokenExpiry listJSON tokenID =
     (case List.filter (\<lambda>t. CHR ''.'' \<in> set (bt_Token t) \<and> fst (cut_at CHR ''.'' (bt_Token t)) = tokenID)
             (decodeTokenStream listJSON) of
        [] \<Rightarrow> [] | t # _ \<Rightarrow> bt_Expires t)"

section \<open>What is handed out\<close>

definition join_json :: "joinConfig \<Rightarrow> json" where
  "join_json jc = JObj [(''address'', JStr (Address jc)), (''token'', JStr (Token jc)), (''caCertHash'', JStr (CACertHash jc)),
     (''certificateKey'', JStr (CertificateKey jc)), (''role'', JStr (Role jc)), (''hostname'', JStr (Hostname jc))]"

definition worker_command :: "string \<Rightarrow> string \<Rightarrow> string \<Rightarrow> string \<Rightarrow> string" where
  "worker_command addr token caHash hostname =
     ''kubeadm join '' @ addr @ '' --token '' @ token @ '' --discovery-token-ca-cert-hash '' @ caHash @ '' --node-name '' @ hostname"

record token_reply =
  tr_role :: string
  tr_hostname :: string
  tr_expires :: string
  tr_hostnameCommand :: string
  tr_hostsCommand :: string
  tr_command :: string
  tr_joinJson :: string
  tr_workerCommand :: "string option"
  tr_workerJoinJson :: "string option"

text \<open>\<open>expires\<close> asks for the expiry of the token that was read.\<close>

definition token_reply_of ::
  "string \<Rightarrow> string \<Rightarrow> string \<Rightarrow> string \<Rightarrow> string \<Rightarrow> string \<Rightarrow> string \<Rightarrow> token_reply" where
  "token_reply_of role hostname certKey addr token caHash expires =
     (let workerCmd = worker_command addr token caHash hostname;
          worker = \<lparr> Address = addr, Token = token, CACertHash = caHash, CertificateKey = [], Role = ''worker'', Hostname = hostname \<rparr>;
          cp = worker\<lparr> CertificateKey := certKey, Role := ''control-plane'' \<rparr>;
          workerJSON = print_json (join_json worker);
          manual = manualSetupCommands hostname;
          setup = fst manual @ [newline, newline] @ snd manual @ [newline, newline]
      in if role = ''worker''
         then \<lparr> tr_role = role, tr_hostname = hostname, tr_expires = expires,
                tr_hostnameCommand = fst manual, tr_hostsCommand = snd manual,
                tr_command = setup @ workerCmd, tr_joinJson = workerJSON, tr_workerCommand = None, tr_workerJoinJson = None \<rparr>
         else \<lparr> tr_role = role, tr_hostname = hostname, tr_expires = expires,
                tr_hostnameCommand = fst manual, tr_hostsCommand = snd manual,
                tr_command = setup @ workerCmd @ '' --control-plane --certificate-key '' @ certKey,
                tr_joinJson = print_json (join_json cp), tr_workerCommand = Some workerCmd, tr_workerJoinJson = Some workerJSON \<rparr>)"

section \<open>Words of a line\<close>

lemma fields_aux_word:
  "list_all (\<lambda>c. \<not> is_space c) w \<Longrightarrow> str_fields_aux acc (w @ r) = str_fields_aux (rev w @ acc) r"
  by (induction w arbitrary: acc) simp_all

lemma fields_word:
  "w \<noteq> [] \<Longrightarrow> list_all (\<lambda>c. \<not> is_space c) w \<Longrightarrow> str_fields w = [w]"
  using fields_aux_word [of w "[]" "[]"] by (simp add: str_fields_def)

lemma fields_space [simp]: "is_space c \<Longrightarrow> str_fields (c # r) = str_fields r"
  by (simp add: str_fields_def)

lemma fields_cons:
  "w \<noteq> [] \<Longrightarrow> list_all (\<lambda>c. \<not> is_space c) w \<Longrightarrow> str_fields (w @ '' '' @ r) = w # str_fields r"
  using fields_aux_word [of w "[]" "'' '' @ r"] by (simp add: str_fields_def is_space_def)

lemma fields_aux_words:
  "list_all (\<lambda>c. \<not> is_space c) acc \<Longrightarrow> w \<in> set (str_fields_aux acc s) \<Longrightarrow> w \<noteq> [] \<and> list_all (\<lambda>c. \<not> is_space c) w"
proof (induction acc s rule: str_fields_aux.induct)
  case (1 acc)
  then show ?case by (cases "acc = []") simp_all
next
  case (2 acc c s)
  then show ?case by (cases "is_space c"; cases "acc = []") auto
qed

lemma fields_words: "w \<in> set (str_fields s) \<Longrightarrow> w \<noteq> [] \<and> list_all (\<lambda>c. \<not> is_space c) w"
  using fields_aux_words [of "[]"] by (simp add: str_fields_def)

lemma join_flags_in:
  "join_flags f t h = (t', h') \<Longrightarrow> t' \<in> insert t (set f) \<and> h' \<in> insert h (set f)"
  by (induction f t h rule: join_flags.induct) (auto split: if_splits)

definition plain :: "string \<Rightarrow> bool" where
  "plain s \<longleftrightarrow> s \<noteq> [] \<and> list_all (\<lambda>c. \<not> is_space c) s"

lemma plainD: "plain s \<Longrightarrow> c \<in> set s \<Longrightarrow> \<not> is_space c"
  by (simp add: plain_def list_all_iff)

lemma fields_plain [simp]: "plain w \<Longrightarrow> str_fields (w @ CHR '' '' # r) = w # str_fields r" "plain w \<Longrightarrow> str_fields w = [w]"
  using fields_cons [of w r] fields_word [of w] by (simp_all add: plain_def)

text \<open>What is read from the output is valid and has no spaces.\<close>

lemma join_line_valid:
  assumes "join_line lookup f t0 h0 = Inr (a, t, h)"
  shows "a \<in> set f \<and> join_valid lookup \<lparr> Address = a, Token = t, CACertHash = h, CertificateKey = [], Role = ''worker'', Hostname = ''x'' \<rparr> = Inr ()"
  using assms by (auto simp: join_line_def split: if_splits prod.splits)

lemma join_lines_valid:
  assumes "join_lines lookup ls t0 h0 = Some (a, t, h)"
  shows "plain a \<and> join_valid lookup \<lparr> Address = a, Token = t, CACertHash = h, CertificateKey = [], Role = ''worker'', Hostname = ''x'' \<rparr> = Inr ()"
  using assms
proof (induction ls arbitrary: t0 h0)
  case (Cons l ls)
  show ?case
  proof (cases "join_line lookup (str_fields (trim_space l)) t0 h0")
    case (Inl th)
    then show ?thesis using Cons by (cases th) simp
  next
    case (Inr found)
    then have "join_line lookup (str_fields (trim_space l)) t0 h0 = Inr (a, t, h)" using Cons.prems by simp
    note found = join_line_valid [OF this]
    then show ?thesis using fields_words [OF conjunct1 [OF found]] by (simp add: plain_def)
  qed
qed simp

section \<open>What is handed out is accepted\<close>

lemma join_fold_names [simp]:
  "fold_name ''address'' = ''address''" "fold_name ''token'' = ''token''" "fold_name ''caCertHash'' = ''cacerthash''"
  "fold_name ''certificateKey'' = ''certificatekey''" "fold_name ''role'' = ''role''" "fold_name ''hostname'' = ''hostname''"
  by code_simp+

lemma decode_first_print:
  "wf_json j \<Longrightarrow> json_depth j \<le> 10000 \<Longrightarrow> decode_first (print_json j) = Some (j, [])"
  using parse_print(1) [of j "[]" "Suc (2 * List.length (print_json j))"]
  by (simp add: decode_first_def ends_num_def)

lemma decode_join_json: "decode_join (join_json jc) = Some jc"
  by (simp add: decode_join_def join_json_def strict_members_def join_names_def string_member_def field_values_Cons)

lemma join_json_read_back: "parseJoinConfig lookup (JStr (print_json (join_json jc))) =
    (case join_valid lookup jc of Inl e \<Rightarrow> Inl e | Inr _ \<Rightarrow> Inr jc)"
proof -
  have "decode_first (print_json (join_json jc)) = Some (join_json jc, [])"
    by (rule decode_first_print) (simp_all add: join_json_def)
  then show ?thesis by (simp add: parseJoinConfig_def decode_join_json split: sum.splits)
qed

lemma token_char_plain: "token_char c \<Longrightarrow> \<not> is_space c \<and> c \<noteq> CHR ''*''"
  by (auto simp: token_char_def is_digit_def is_space_def Let_def)

lemma is_hex_plain: "is_hex c \<Longrightarrow> \<not> is_space c \<and> c \<noteq> CHR ''*''"
  by (auto simp: is_hex_def is_space_def Let_def)

lemma token_split: "reTokenFull s \<Longrightarrow> \<exists>a b. s = a @ CHR ''.'' # b \<and> list_all token_char a \<and> list_all token_char b"
  using id_take_nth_drop [of 6 s] by (auto simp: reTokenFull_def)

lemma shape_plain:
  "reTokenFull s \<Longrightarrow> plain s" "reCAHash s \<Longrightarrow> plain s" "reCertKey s \<Longrightarrow> plain s" "reHostname s \<Longrightarrow> plain s"
proof -
  show "reTokenFull s \<Longrightarrow> plain s"
    using token_split [of s] token_char_plain by (fastforce simp: plain_def list_all_iff is_space_def)
  show "reCAHash s \<Longrightarrow> plain s"
    using is_hex_plain by (fastforce simp: reCAHash_def plain_def has_prefix_iff list_all_iff is_space_def)
  show "reCertKey s \<Longrightarrow> plain s"
    using is_hex_plain by (auto simp: reCertKey_def plain_def list_all_iff)
  show "reHostname s \<Longrightarrow> plain s"
    using token_char_plain by (fastforce simp: reHostname_def plain_def list_all_iff is_space_def)
qed

lemma plain_newline: "plain s \<Longrightarrow> newline \<notin> set s"
  using plainD [of s newline] by (auto simp: is_space_def)

lemma join_validD:
  "join_valid lookup jc = Inr () \<Longrightarrow> reTokenFull (Token jc) \<and> reCAHash (CACertHash jc) \<and> reHostname (Hostname jc) \<and>
     (Role jc = ''worker'' \<and> CertificateKey jc = [] \<or> Role jc = ''control-plane'' \<and> reCertKey (CertificateKey jc))"
  by (auto simp: join_valid_def split: option.splits prod.splits if_splits)

text \<open>Only the address is checked against the system; the rest against shapes.\<close>

lemma join_valid_other:
  assumes "join_valid lookup jc = Inr ()" "Address jc' = Address jc" "Token jc' = Token jc" "CACertHash jc' = CACertHash jc"
    and "Role jc' = ''worker'' \<and> CertificateKey jc' = [] \<or> Role jc' = ''control-plane'' \<and> reCertKey (CertificateKey jc')"
    and "reHostname (Hostname jc')"
  shows "join_valid lookup jc' = Inr ()"
  using assms by (auto simp: join_valid_def split: option.splits prod.splits if_splits)

lemma split_on_snoc: "split_on sep (a @ sep # b) = split_on sep a @ split_on sep b"
  by (induction a) (auto split: list.splits)

lemma fields_dropWhile: "str_fields (dropWhile is_space s) = str_fields s"
  by (induction s) simp_all

lemma fields_aux_snoc: "is_space c \<Longrightarrow> str_fields_aux acc (s @ [c]) = str_fields_aux acc s"
  by (induction acc s rule: str_fields_aux.induct) simp_all

lemma fields_rdrop: "str_fields (rev (dropWhile is_space (rev s))) = str_fields s"
  by (induction s rule: rev_induct) (simp_all add: str_fields_def fields_aux_snoc)

lemma fields_trim [simp]: "str_fields (trim_space s) = str_fields s"
  by (simp add: trim_space_def fields_rdrop fields_dropWhile)

lemma join_lines_skip:
  assumes "list_all (\<lambda>l. str_fields l = [] \<or> hd (str_fields l) \<noteq> ''kubeadm'') ls"
  shows "join_lines lookup (ls @ ls') t h = join_lines lookup ls' t h"
  using assms
proof (induction ls)
  case (Cons l ls)
  have "str_fields l = [] \<or> str_fields l ! 0 \<noteq> ''kubeadm''" using Cons.prems by (cases "str_fields l") simp_all
  then have "join_line lookup (str_fields (trim_space l)) t h = Inl (t, h)" by (auto simp: join_line_def)
  with Cons show ?case by simp
qed simp

text \<open>The words of the command.\<close>

lemma fields_worker_command:
  assumes "plain addr" "plain token" "plain caHash" "plain hostname"
  shows "str_fields (worker_command addr token caHash hostname) =
      [''kubeadm'', ''join'', addr, ''--token'', token, ''--discovery-token-ca-cert-hash'', caHash, ''--node-name'', hostname]"
    and "plain certKey \<Longrightarrow> str_fields (worker_command addr token caHash hostname @ '' --control-plane --certificate-key '' @ certKey) =
      [''kubeadm'', ''join'', addr, ''--token'', token, ''--discovery-token-ca-cert-hash'', caHash, ''--node-name'', hostname,
       ''--control-plane'', ''--certificate-key'', certKey]"
proof -
  have lit: "plain ''kubeadm''" "plain ''join''" "plain ''--token''" "plain ''--discovery-token-ca-cert-hash''" "plain ''--node-name''"
      "plain ''--control-plane''" "plain ''--certificate-key''"
    by code_simp+
  have sp: "(w @ '' '' @ r) = w @ CHR '' '' # r" for w r by simp
  have a: "worker_command addr token caHash hostname @ r = ''kubeadm'' @ '' '' @ ''join'' @ '' '' @ addr @ '' '' @ ''--token'' @ '' '' @ token @ '' '' @
      ''--discovery-token-ca-cert-hash'' @ '' '' @ caHash @ '' '' @ ''--node-name'' @ '' '' @ hostname @ r" for r
    by (simp add: worker_command_def)
  show "str_fields (worker_command addr token caHash hostname) =
      [''kubeadm'', ''join'', addr, ''--token'', token, ''--discovery-token-ca-cert-hash'', caHash, ''--node-name'', hostname]"
    unfolding a [of "[]", simplified append_Nil2] sp using assms lit by (simp only: fields_plain)
  have b: "'' --control-plane --certificate-key '' @ certKey = '' '' @ ''--control-plane'' @ '' '' @ ''--certificate-key'' @ '' '' @ certKey" by simp
  show "str_fields (worker_command addr token caHash hostname @ '' --control-plane --certificate-key '' @ certKey) =
      [''kubeadm'', ''join'', addr, ''--token'', token, ''--discovery-token-ca-cert-hash'', caHash, ''--node-name'', hostname,
       ''--control-plane'', ''--certificate-key'', certKey]" if "plain certKey"
    unfolding a b sp using assms lit that by (simp only: fields_plain)
qed

lemma not_a_flag:
  "reTokenFull s \<Longrightarrow> s \<noteq> ''--token'' \<and> s \<noteq> ''--discovery-token-ca-cert-hash''"
  "reCAHash s \<Longrightarrow> s \<noteq> ''--token'' \<and> s \<noteq> ''--discovery-token-ca-cert-hash''"
  "reHostname s \<Longrightarrow> s \<noteq> ''--token'' \<and> s \<noteq> ''--discovery-token-ca-cert-hash''"
  by (auto simp: reTokenFull_def reCAHash_def reHostname_def token_char_def is_digit_def)

lemma manual_lines:
  assumes "reHostname hostname"
  shows "newline \<notin> set (fst (manualSetupCommands hostname))" "newline \<notin> set (snd (manualSetupCommands hostname))"
    and "hd (str_fields (fst (manualSetupCommands hostname))) \<noteq> ''kubeadm''"
    and "hd (str_fields (snd (manualSetupCommands hostname))) \<noteq> ''kubeadm''"
proof -
  have n: "newline \<notin> set hostname" using assms plain_newline shape_plain by blast
  then show "newline \<notin> set (fst (manualSetupCommands hostname))" "newline \<notin> set (snd (manualSetupCommands hostname))"
    by (simp_all add: manualSetupCommands_def)
  have lit: "plain ''hostnamectl''" "plain ''sed''" by code_simp+
  have "str_fields (''hostnamectl'' @ CHR '' '' # r) = ''hostnamectl'' # str_fields r"
    "str_fields (''sed'' @ CHR '' '' # r) = ''sed'' # str_fields r" for r
    using lit by (simp_all only: fields_plain)
  then show "hd (str_fields (fst (manualSetupCommands hostname))) \<noteq> ''kubeadm''"
    "hd (str_fields (snd (manualSetupCommands hostname))) \<noteq> ''kubeadm''"
    by (simp_all add: manualSetupCommands_def)
qed

lemma command_read_back:
  assumes valid: "join_valid lookup \<lparr> Address = addr, Token = token, CACertHash = caHash, CertificateKey = [],
      Role = ''worker'', Hostname = ''x'' \<rparr> = Inr ()"
    and words: "str_fields cmd = [''kubeadm'', ''join'', addr, ''--token'', token, ''--discovery-token-ca-cert-hash'', caHash,
      ''--node-name'', hostname] @ more_words"
    and "plain addr" "reHostname hostname"
    and "more_words = [] \<or> (\<exists>k. reCertKey k \<and> more_words = [''--control-plane'', ''--certificate-key'', k])"
    and skip: "list_all (\<lambda>l. str_fields l = [] \<or> hd (str_fields l) \<noteq> ''kubeadm'') ls"
  shows "join_lines lookup (ls @ [cmd]) [] [] = Some (addr, token, caHash)"
proof -
  note shape = join_validD [OF valid, simplified]
  have "join_flags (drop 3 (str_fields cmd)) [] [] = (token, caHash)"
    using assms not_a_flag shape by (auto simp: words)
  moreover have "addr \<noteq> []" "token \<noteq> []" "caHash \<noteq> []" using assms(3) shape_plain shape by (auto simp: plain_def)
  ultimately have "join_line lookup (str_fields (trim_space cmd)) [] [] = Inr (addr, token, caHash)"
    using valid by (simp add: words join_line_def)
  then show ?thesis by (subst join_lines_skip [OF skip]) simp
qed


text \<open>A control plane that prints a join command after a warning.\<close>

definition sample_lookup :: "string \<Rightarrow> int option" where
  "sample_lookup = atoi"

definition sample_token :: string where "sample_token = ''abcdef.0123456789abcdef''"
definition sample_hash :: string where "sample_hash = ''sha256:'' @ replicate 64 CHR ''a''"

definition sample_printed :: string where
  "sample_printed = ''W0101 certificates expire'' @ newline # ''kubeadm join 10.0.0.1:6443 --token '' @ sample_token @
     '' --discovery-token-ca-cert-hash '' @ sample_hash @ [newline]"

lemma sample_read: "parseJoinCommand sample_lookup sample_printed = Some (''10.0.0.1:6443'', sample_token, sample_hash)"
  by code_simp


section \<open>Masked text shows no secret\<close>

lemma replace_hit: "old \<noteq> [] \<Longrightarrow> replace_all old new (old @ r) = new @ replace_all old new r"
  by (subst replace_all.simps) simp

lemma replace_nil [simp]: "replace_all old new [] = []"
  by (subst replace_all.simps) simp

lemma replace_miss: "old = [] \<or> \<not> has_prefix (c # r) old \<Longrightarrow> replace_all old new (c # r) = c # replace_all old new r"
  by (subst replace_all.simps) auto

text \<open>The text is used up, begins with what is replaced, or passes a byte on.\<close>

lemma replace_all_induct [case_names Nil hit miss]:
  assumes "P []" and "\<And>r. old \<noteq> [] \<Longrightarrow> P r \<Longrightarrow> P (old @ r)"
    and "\<And>c r. old = [] \<or> \<not> has_prefix (c # r) old \<Longrightarrow> P r \<Longrightarrow> P (c # r)"
  shows "P s"
proof (induction s rule: List.length_induct)
  case (1 s)
  consider "s = []" | r where "old \<noteq> []" "s = old @ r" | c r where "s = c # r" "old = [] \<or> \<not> has_prefix s old"
    by (cases s) (auto simp: has_prefix_iff)
  then show ?case using 1 assms by cases auto
qed

lemma sublist_past_stars: "CHR ''*'' \<notin> set x \<Longrightarrow> x \<noteq> [] \<Longrightarrow> sublist x (''***'' @ r) \<Longrightarrow> sublist x r"
  by (cases x) (auto simp: sublist_Cons_right)

lemma replace_all_prefix:
  "CHR ''*'' \<notin> set x \<Longrightarrow> prefix x (replace_all old ''***'' s) \<Longrightarrow> prefix x s"
proof (induction s arbitrary: x rule: replace_all_induct [where old = old])
  case (hit r)
  then show ?case by (cases x) (simp_all add: replace_hit)
next
  case (miss c r)
  then show ?case by (cases x) (simp_all add: replace_miss)
qed simp

lemma replace_all_sublist:
  "CHR ''*'' \<notin> set x \<Longrightarrow> sublist x (replace_all old ''***'' s) \<Longrightarrow> sublist x s"
proof (induction s rule: replace_all_induct [where old = old])
  case (hit r)
  have "sublist x (''***'' @ replace_all old ''***'' r)"
    using hit.prems(2) unfolding replace_hit [OF hit.hyps(1)] .
  then have "x = [] \<or> sublist x (replace_all old ''***'' r)" using sublist_past_stars hit by blast
  then have "sublist x r" using hit by auto
  then show ?case by (meson sublist_append_leftI sublist_order.order_trans)
next
  case (miss c r)
  then have "prefix x (c # replace_all old ''***'' r) \<or> sublist x (replace_all old ''***'' r)"
    by (simp add: replace_miss sublist_Cons_right)
  moreover have "prefix x (c # replace_all old ''***'' r) \<Longrightarrow> prefix x (c # r)"
    using replace_all_prefix [of "tl x" old r] miss by (cases x) auto
  ultimately show ?case using miss by (auto simp: sublist_Cons_right)
qed simp

lemma replace_all_gone:
  assumes "old \<noteq> []" "CHR ''*'' \<notin> set old"
  shows "\<not> sublist old (replace_all old ''***'' s)"
proof (induction s rule: replace_all_induct [where old = old])
  case (hit r)
  then show ?case using sublist_past_stars [OF assms(2,1)] by (auto simp only: replace_hit [OF assms(1)])
next
  case (miss c r)
  have "\<not> prefix old (c # replace_all old ''***'' r)"
  proof
    assume "prefix old (c # replace_all old ''***'' r)"
    then have "prefix old (c # r)" using replace_all_prefix [of "tl old" old r] assms by (cases old) auto
    then show False using miss assms by (auto simp: prefix_def has_prefix_iff)
  qed
  then show ?case using miss by (simp add: replace_miss sublist_Cons_right)
qed (use assms in simp)

lemma mask_Cons: "maskSecrets s (x # secrets) = maskSecrets (if x \<noteq> [] then replace_all x ''***'' s else s) secrets"
  by (simp add: maskSecrets_def)

lemma mask_sublist:
  "CHR ''*'' \<notin> set x \<Longrightarrow> sublist x (maskSecrets s secrets) \<Longrightarrow> sublist x s"
proof (induction secrets arbitrary: s)
  case (Cons sec secrets)
  then have "sublist x (if sec \<noteq> [] then replace_all sec ''***'' s else s)" unfolding mask_Cons by blast
  then show ?case using replace_all_sublist [OF Cons.prems(1)] by (cases "sec = []") simp_all
qed (simp add: maskSecrets_def)

lemma masked:
  assumes "sec \<in> set secrets" "sec \<noteq> []" "CHR ''*'' \<notin> set sec"
  shows "\<not> sublist sec (maskSecrets s secrets)"
  using assms
proof (induction secrets arbitrary: s)
  case (Cons x secrets)
  show ?case
  proof (cases "sec = x")
    case True
    then show ?thesis unfolding mask_Cons using Cons.prems mask_sublist [of x] replace_all_gone [of x] by auto
  next
    case False
    then show ?thesis unfolding mask_Cons using Cons by auto
  qed
qed simp

section \<open>The hosts file is edited once\<close>

lemma host_lines_newline: "l \<in> set (host_lines content) \<Longrightarrow> newline \<notin> set l"
  by (auto simp: host_lines_def split_on_lines dest: in_set_butlastD split: if_splits)

lemma own_line: "own_host_line (''127.0.1.1 '' @ hostname)"
proof -
  let ?l = "''127.0.1.1 '' @ hostname"
  have "str_fields (''127.0.1.1'' @ CHR '' '' # hostname) = ''127.0.1.1'' # str_fields hostname"
    by (rule fields_plain) code_simp
  then have f: "str_fields (trim_space ?l) = ''127.0.1.1'' # str_fields hostname" by simp
  have d: "dropWhile is_space ?l = ?l" by (simp add: is_space_def)
  have h: "hd (rev (dropWhile is_space (rev (CHR ''1'' # s)))) = CHR ''1''" for s
    by (simp add: dropWhile_append is_space_def)
  have "hd (trim_space ?l) = CHR ''1''"
    unfolding trim_space_def d using h [of "''27.0.1.1 '' @ hostname"] by simp
  then have "\<not> has_prefix (trim_space ?l) ''#''" by (cases "trim_space ?l") auto
  moreover have "trim_space ?l \<noteq> []" using f by (cases "trim_space ?l") (auto simp: str_fields_def)
  ultimately show ?thesis unfolding own_host_line_def Let_def f by simp
qed

definition edited_lines :: "string \<Rightarrow> string list \<Rightarrow> string list" where
  "edited_lines want ls = (if list_ex own_host_line ls then map (\<lambda>l. if own_host_line l then want else l) ls else ls @ [want])"

lemma last_split_other: "x \<noteq> sep \<Longrightarrow> List.last (split_on sep (c @ [x])) \<noteq> []"
  by (induction c) (auto split: list.splits)

lemma last_split: "List.last (split_on sep s) = [] \<longleftrightarrow> s = [] \<or> List.last s = sep"
  using last_split_other [of _ sep] split_on_snoc [of sep _ "[]"] by (cases s rule: rev_cases) auto

lemma join_split: "join_with [sep] (split_on sep s) = s"
proof (induction s)
  case (Cons c s)
  have two: "join_with [sep] ((c # p) # ps) = c # join_with [sep] (p # ps)" for p ps by (cases ps) simp_all
  obtain p ps where "split_on sep s = p # ps" by (cases "split_on sep s") auto
  then show ?case using Cons two by (cases "split_on sep s") auto
qed simp

lemma suffix_single: "has_suffix s [c] \<longleftrightarrow> s \<noteq> [] \<and> List.last s = c"
  by (cases s rule: rev_cases) (simp_all add: has_suffix_def)

lemma last_join: "ls \<noteq> [] \<Longrightarrow> List.last ls \<noteq> [] \<Longrightarrow> join_with sep ls \<noteq> [] \<and> List.last (join_with sep ls) = List.last (List.last ls)"
  by (induction sep ls rule: join_with.induct) auto

lemma host_lines_join:
  assumes "ls \<noteq> []" "\<forall>l\<in>set ls. newline \<notin> set l"
  shows "List.last ls \<noteq> [] \<Longrightarrow> host_lines (join_with [newline] ls) = ls" "host_lines (join_with [newline] ls @ [newline]) = ls"
proof -
  show "host_lines (join_with [newline] ls) = ls" if "List.last ls \<noteq> []"
  proof -
    have "List.last (List.last ls) \<noteq> newline" using assms that last_in_set [of ls] last_in_set [of "List.last ls"] by metis
    then show ?thesis using last_join [OF assms(1) that, of "[newline]"] split_join [OF assms] by (simp add: host_lines_def suffix_single)
  qed
  have "split_on newline (join_with [newline] ls @ [newline]) = ls @ [[]]"
    using split_on_snoc [of newline "join_with [newline] ls" "[]"] split_join [of ls] assms by simp
  then show "host_lines (join_with [newline] ls @ [newline]) = ls" by (simp add: host_lines_def)
qed

lemma host_lines_edit:
  assumes "content \<noteq> []" "newline \<notin> set hostname"
  shows "host_lines (editHostsContent content hostname) = edited_lines (''127.0.1.1 '' @ hostname) (host_lines content)"
proof -
  let ?ls = "host_lines content" and ?want = "''127.0.1.1 '' @ hostname"
  let ?out = "edited_lines ?want ?ls"
  have e: "editHostsContent content hostname = join_with [newline] ?out @ (if has_suffix content [newline] then [newline] else [])"
    using assms by (simp add: editHostsContent_def edited_lines_def Let_def)
  have nl: "\<forall>l\<in>set ?out. newline \<notin> set l" using host_lines_newline assms(2) by (auto simp: edited_lines_def)
  have "?ls \<noteq> []"
  proof (cases content rule: rev_cases)
    case (snoc c x)
    then show ?thesis using split_on_snoc [of newline c "[]"] by (simp add: host_lines_def suffix_single)
  qed (use assms in simp)
  then have ne: "?out \<noteq> []" by (simp add: edited_lines_def)
  show ?thesis
  proof (cases "has_suffix content [newline]")
    case True
    then show ?thesis using e host_lines_join(2) [OF ne nl] by simp
  next
    case False
    then have "List.last ?ls \<noteq> []" using assms(1) last_split [of newline content] by (auto simp: host_lines_def suffix_single)
    then have "List.last ?out \<noteq> []" using \<open>?ls \<noteq> []\<close> by (auto simp: edited_lines_def last_map)
    then show ?thesis using e False host_lines_join(1) [OF ne nl] by simp
  qed
qed


text \<open>Afterwards the name stands in every line of the own address and in at least one; all other lines are
  what they were, and to edit again changes nothing.\<close>

lemma hosts_edit_correct:
  assumes "content \<noteq> []" "newline \<notin> set hostname"
  shows "List.filter own_host_line (host_lines (editHostsContent content hostname)) =
      replicate (max 1 (List.length (List.filter own_host_line (host_lines content)))) (''127.0.1.1 '' @ hostname)"
    and "List.filter (\<lambda>l. \<not> own_host_line l) (host_lines (editHostsContent content hostname)) =
      List.filter (\<lambda>l. \<not> own_host_line l) (host_lines content)"
    and "editHostsContent (editHostsContent content hostname) hostname = editHostsContent content hostname"
proof -
  let ?want = "''127.0.1.1 '' @ hostname"
  let ?put = "\<lambda>l. if own_host_line l then ?want else l"
  have own: "own_host_line ?want" by (rule own_line)
  have none: "\<not> list_ex own_host_line ls \<Longrightarrow> List.filter own_host_line ls = []" for ls
    by (induction ls) auto
  have some: "list_ex own_host_line ls \<Longrightarrow> max 1 (List.length (List.filter own_host_line ls)) = List.length (List.filter own_host_line ls)" for ls
    by (induction ls) (auto simp: max_def split: if_splits)
  have put: "List.filter own_host_line (map ?put ls) = replicate (List.length (List.filter own_host_line ls)) ?want"
    "List.filter (\<lambda>l. \<not> own_host_line l) (map ?put ls) = List.filter (\<lambda>l. \<not> own_host_line l) ls" for ls
    using own by (induction ls) auto
  note lines = host_lines_edit [OF assms]
  show "List.filter own_host_line (host_lines (editHostsContent content hostname)) =
      replicate (max 1 (List.length (List.filter own_host_line (host_lines content)))) ?want"
    unfolding lines edited_lines_def using own put(1) none some by (cases "list_ex own_host_line (host_lines content)") simp_all
  show "List.filter (\<lambda>l. \<not> own_host_line l) (host_lines (editHostsContent content hostname)) =
      List.filter (\<lambda>l. \<not> own_host_line l) (host_lines content)"
    unfolding lines edited_lines_def using own put(2) by (cases "list_ex own_host_line (host_lines content)") simp_all
  let ?e = "editHostsContent content hostname"
  have ex: "list_ex own_host_line (host_lines ?e)" and same: "map ?put (host_lines ?e) = host_lines ?e"
    unfolding lines edited_lines_def using own by (auto simp: list_ex_iff intro!: map_idI)
  have rejoin: "join_with [newline] (host_lines c) @ (if has_suffix c [newline] then [newline] else []) = c" for c
  proof (cases "has_suffix c [newline]")
    case True
    then obtain d where d: "c = d @ [newline]" by (cases c rule: rev_cases) (auto simp: suffix_single)
    then have "host_lines c = split_on newline d" using split_on_snoc [of newline d "[]"] True by (simp add: host_lines_def)
    then show ?thesis using True d join_split by simp
  next
    case False
    then show ?thesis using join_split by (simp add: host_lines_def)
  qed
  have "?e \<noteq> []"
  proof
    assume "?e = []"
    then have "host_lines ?e = [[]]" by (simp add: host_lines_def has_suffix_def)
    then show False using ex by (simp add: own_host_line_def trim_space_def)
  qed
  then show "editHostsContent ?e hostname = ?e"
    using ex rejoin [of ?e] unfolding editHostsContent_def [of ?e] Let_def by (simp only: same if_False if_True)
qed

end
