(* ===== verification/Wizard_State.thy ===== *)
theory Wizard_State
  imports Install Kubeadm
begin

text \<open>
  The memory of the setup wizard and what it is made of: sessions and the limiter of failed logins
  (\<open>cmd/nodectl/wizard_auth.go\<close>), jobs (\<open>wizard_jobs.go\<close>), the cached index (\<open>wizard_api.go\<close>) and the
  state of the node as it is seen per request (\<open>wizard.go\<close>). Operations are computations over it; the
  mutexes make each of them one step. Proved: a session is valid as long as it was used within its
  lifetime, and the delays of the limiter are one, two, four and then five minutes for any number of
  failures, although the shift that computes them overflows.
\<close>

section \<open>State\<close>

record wizardAttempt =
  wa_window :: gtime
  wa_count :: int
  wa_blocked :: gtime

datatype jobStatus = JobRunning | JobDone | JobFailed

record wizardJob =
  wj_kind :: string
  wj_owner :: string
  wj_status :: jobStatus
  wj_down :: int
  wj_written :: int
  wj_total :: int
  wj_message :: string
  wj_error :: string
  wj_log :: "string list"
  wj_finished :: gtime

text \<open>What the goroutine of a job has to do, and where it stands. \<open>ij_config\<close>: the verbatim configuration,
  if there is one. \<open>Stuck\<close> is a call that does not return.\<close>

record install_job =
  ij_target :: string
  ij_base :: string
  ij_file :: string
  ij_sum :: string
  ij_ts :: string
  ij_config :: "string option"
  ij_hash :: string
  ij_keys :: "string list"

datatype work = Install_work install_job | Init_work string string | Join_work joinConfig

datatype phase = Phase1 | Phase2 | Phase3 | Stuck | Releasing

text \<open>\<open>wz_yaml\<close>, \<open>wz_kube\<close> and \<open>wz_admin\<close>: whether \<open>simplek8s.yaml\<close>, \<open>/etc/kubernetes\<close> and \<open>admin.conf\<close> exist.\<close>

record wizard =
  wz_now :: gtime
  wz_sessions :: "(string \<times> gtime) list"
  wz_limiter :: "(string \<times> wizardAttempt) list"
  wz_jobs :: "(string \<times> wizardJob) list"
  wz_busy :: bool
  wz_threads :: "(string \<times> work \<times> phase) list"
  wz_index :: "(string \<times> gtime \<times> (string \<times> string) list) list"
  wz_machine :: install_state
  wz_hosts :: "string option"
  wz_yaml :: bool
  wz_kube :: bool
  wz_admin :: bool

type_synonym 'a wiz_op = "(wizard, 'a) state"

datatype wizardState = WizLive | WizFresh | WizWorker | WizCP

definition detectWizardState :: "wizard \<Rightarrow> wizardState" where
  "detectWizardState w =
     (if \<not> wz_yaml w then WizLive else if \<not> wz_kube w then WizFresh else if \<not> wz_admin w then WizWorker else WizCP)"

section \<open>Sessions\<close>

abbreviation wizardSessionTTL :: int where "wizardSessionTTL \<equiv> 30 * minute"

definition purgeLocked :: "gtime \<Rightarrow> (string \<times> gtime) list \<Rightarrow> (string \<times> gtime) list" where
  "purgeLocked now ss = List.filter (\<lambda>(tok, exp). \<not> exp < now) ss"

text \<open>\<open>raw\<close>: 32 random bytes, or none if the source fails.\<close>

definition mint :: "int list option \<Rightarrow> string option wiz_op" where
  "mint raw = State (\<lambda>w. case raw of
      None \<Rightarrow> (None, w)
    | Some bs \<Rightarrow>
        (let tok = hex_encode bs in
         (Some tok, w\<lparr>wz_sessions := AList.update tok (wz_now w + wizardSessionTTL) (purgeLocked (wz_now w) (wz_sessions w))\<rparr>)))"

text \<open>A use of a session makes it last longer; an expired one is removed.\<close>

definition session_valid :: "string \<Rightarrow> bool wiz_op" where
  "session_valid tok = State (\<lambda>w.
     if tok = [] then (False, w)
     else (case map_of (wz_sessions w) tok of
        None \<Rightarrow> (False, w\<lparr>wz_sessions := AList.delete tok (wz_sessions w)\<rparr>)
      | Some exp \<Rightarrow>
          if exp < wz_now w then (False, w\<lparr>wz_sessions := AList.delete tok (wz_sessions w)\<rparr>)
          else (True, w\<lparr>wz_sessions := AList.update tok (wz_now w + wizardSessionTTL) (wz_sessions w)\<rparr>)))"

definition session_drop :: "string \<Rightarrow> unit wiz_op" where
  "session_drop tok = State (\<lambda>w.
     ((), if tok = [] then w else w\<lparr>wz_sessions := AList.delete tok (wz_sessions w)\<rparr>))"

section \<open>The limiter\<close>

definition denied :: "string \<Rightarrow> bool wiz_op" where
  "denied ip = State (\<lambda>w. case map_of (wz_limiter w) ip of
      None \<Rightarrow> (False, w)
    | Some a \<Rightarrow>
        if wz_now w < wa_blocked a then (True, w)
        else if 10 * minute < time_sub (wz_now w) (wa_window a)
        then (False, w\<lparr>wz_limiter := AList.delete ip (wz_limiter w)\<rparr>)
        else (False, w))"

text \<open>The delay is shifted in \<open>int64\<close>.\<close>

definition block_delay :: "int \<Rightarrow> int" where
  "block_delay n =
     (let d = wrap64 (minute * 2 ^ nat (n - 6)) in if 5 * minute < d \<or> d \<le> 0 then 5 * minute else d)"

definition one_more :: "gtime \<Rightarrow> wizardAttempt option \<Rightarrow> wizardAttempt" where
  "one_more now old =
     (let fresh = \<lparr> wa_window = now, wa_count = 0, wa_blocked = zero_time \<rparr>;
          a = (case old of None \<Rightarrow> fresh | Some a \<Rightarrow> if 10 * minute < time_sub now (wa_window a) then fresh else a);
          b = a\<lparr>wa_count := wa_count a + 1\<rparr>
      in if 5 < wa_count b then b\<lparr>wa_blocked := now + block_delay (wa_count b)\<rparr> else b)"

definition limiter_fail :: "string \<Rightarrow> unit wiz_op" where
  "limiter_fail ip = State (\<lambda>w.
     ((), w\<lparr>wz_limiter := AList.update ip (one_more (wz_now w) (map_of (wz_limiter w) ip)) (wz_limiter w)\<rparr>))"

definition limiter_reset :: "string \<Rightarrow> unit wiz_op" where
  "limiter_reset ip = State (\<lambda>w. ((), w\<lparr>wz_limiter := AList.delete ip (wz_limiter w)\<rparr>))"

section \<open>Jobs\<close>

definition on_job :: "string \<Rightarrow> (wizardJob \<Rightarrow> wizardJob) \<Rightarrow> unit wiz_op" where
  "on_job jid f = State (\<lambda>w. ((), w\<lparr>wz_jobs := AList.map_entry jid f (wz_jobs w)\<rparr>))"

definition job_report :: "string \<Rightarrow> int \<Rightarrow> int \<Rightarrow> unit wiz_op" where
  "job_report jid down written = on_job jid (\<lambda>j. j\<lparr>wj_down := down, wj_written := written\<rparr>)"

definition setTotal :: "string \<Rightarrow> int \<Rightarrow> unit wiz_op" where
  "setTotal jid n = on_job jid (\<lambda>j. j\<lparr>wj_total := n\<rparr>)"

definition say :: "string \<Rightarrow> string \<Rightarrow> unit wiz_op" where
  "say jid line = on_job jid (\<lambda>j. if List.length (wj_log j) < 200 then j\<lparr>wj_log := wj_log j @ [line]\<rparr> else j)"

definition finish :: "string \<Rightarrow> jobStatus \<Rightarrow> string \<Rightarrow> string \<Rightarrow> unit wiz_op" where
  "finish jid status message errMsg = State (\<lambda>w.
     ((), w\<lparr>wz_jobs := AList.map_entry jid (\<lambda>j. j\<lparr>wj_status := status, wj_message := message, wj_error := errMsg,
        wj_finished := wz_now w\<rparr>) (wz_jobs w)\<rparr>))"

definition retired :: "gtime \<Rightarrow> wizardJob \<Rightarrow> bool" where
  "retired now j \<longleftrightarrow> wj_status j \<noteq> JobRunning \<and> hour < time_sub now (wj_finished j)"

text \<open>\<open>raw\<close>: the 8 random bytes of the name.\<close>

definition jobs_start :: "int list option \<Rightarrow> string \<Rightarrow> string \<Rightarrow> bool \<Rightarrow> string option wiz_op" where
  "jobs_start raw kind owner destructive = State (\<lambda>w. case raw of
      None \<Rightarrow> (None, w)
    | Some bs \<Rightarrow>
        if destructive \<and> wz_busy w then (None, w)
        else (let jid = hex_encode bs;
                  j = \<lparr> wj_kind = kind, wj_owner = owner, wj_status = JobRunning, wj_down = 0, wj_written = 0, wj_total = 0,
                        wj_message = [], wj_error = [], wj_log = [], wj_finished = zero_time \<rparr>
              in (Some jid, w\<lparr>wz_busy := destructive \<or> wz_busy w,
                   wz_jobs := List.filter (\<lambda>(_, old). \<not> retired (wz_now w) old) (AList.update jid j (wz_jobs w))\<rparr>)))"

definition jobs_release :: "unit wiz_op" where
  "jobs_release = State (\<lambda>w. ((), w\<lparr>wz_busy := False\<rparr>))"

definition jobs_get :: "wizard \<Rightarrow> string \<Rightarrow> string \<Rightarrow> wizardJob option" where
  "jobs_get w jid owner =
     (case map_of (wz_jobs w) jid of None \<Rightarrow> None | Some j \<Rightarrow> if wj_owner j \<noteq> owner then None else Some j)"

record jobSnapshot =
  js_ID :: string
  js_Kind :: string
  js_Status :: jobStatus
  js_DownMiB :: int
  js_WroteMiB :: int
  js_TotalMiB :: int
  js_Message :: string
  js_Error :: string
  js_Log :: "string list"

text \<open>A shift to the right rounds down.\<close>

definition snapshot :: "string \<Rightarrow> wizardJob \<Rightarrow> jobSnapshot" where
  "snapshot jid j =
     \<lparr> js_ID = jid, js_Kind = wj_kind j, js_Status = wj_status j, js_DownMiB = wj_down j div 1048576,
       js_WroteMiB = wj_written j div 1048576, js_TotalMiB = wj_total j div 1048576, js_Message = wj_message j,
       js_Error = wj_error j, js_Log = wj_log j \<rparr>"

section \<open>The machine behind the wizard\<close>

definition on_machine :: "(install_state, 'a) state \<Rightarrow> 'a wiz_op" where
  "on_machine m = State (\<lambda>w. case run_state m (wz_machine w) of (x, s) \<Rightarrow> (x, w\<lparr>wz_machine := s\<rparr>))"

definition get_wizard :: "wizard wiz_op" where
  "get_wizard = State (\<lambda>w. (w, w))"

section \<open>The cached index\<close>

abbreviation index_ttl :: int where "index_ttl \<equiv> 5 * minute"

definition cachedIndex :: "cli_host \<Rightarrow> string \<Rightarrow> (release_error + (string \<times> string) list) wiz_op" where
  "cachedIndex cli base = State (\<lambda>w.
     case (case map_of (wz_index w) base of
             Some (at, sums) \<Rightarrow> if time_sub (wz_now w) at < index_ttl then Some sums else None
           | None \<Rightarrow> None) of
       Some sums \<Rightarrow> (Inr sums, w)
     | None \<Rightarrow>
         (case fetchIndexChecked cli base [] of
            Inl e \<Rightarrow> (Inl e, w)
          | Inr sums \<Rightarrow> (Inr sums, w\<lparr>wz_index := AList.update base (wz_now w, sums) (wz_index w)\<rparr>)))"

definition indexFailureMessage :: "release_error \<Rightarrow> string" where
  "indexFailureMessage e =
     (case e of IndexRejected _ \<Rightarrow> ''release index rejected (signature, keyring or index invalid)''
      | _ \<Rightarrow> ''release channel unreachable'')"

section \<open>The delays of the limiter\<close>

text \<open>A minute is a multiple of \<open>2 ^ 11\<close> nanoseconds, so what the shift leaves of an overflow is a multiple of
  \<open>2 ^ 39\<close> nanoseconds, which is more than five minutes unless it is not positive.\<close>

lemma wrap64_dvd: "m dvd 2 ^ 64 \<Longrightarrow> m dvd x \<Longrightarrow> m dvd wrap64 (x :: int)"
proof -
  assume "m dvd (2 :: int) ^ 64" "m dvd x"
  moreover have "wrap64 x = x - (x + 2 ^ 63) div 2 ^ 64 * 2 ^ 64"
    using minus_div_mult_eq_mod [of "x + 2 ^ 63" "2 ^ 64"] by (simp add: wrap64_def)
  ultimately show "m dvd wrap64 x" by (simp add: dvd_diff)
qed

lemma block_delay_closed:
  assumes "6 \<le> n"
  shows "block_delay n = min (minute * 2 ^ nat (n - 6)) (5 * minute)"
proof (cases "nat (n - 6) \<le> 27")
  case True
  define p :: int where "p = 2 ^ nat (n - 6)"
  have "p \<le> 2 ^ 27" unfolding p_def using True by (intro power_increasing) simp_all
  moreover have "0 < p" by (simp add: p_def)
  ultimately have "wrap64 (minute * p) = minute * p" "0 < minute * p" by (simp_all add: int64_def)
  then show ?thesis unfolding block_delay_def p_def [symmetric] by (auto simp: Let_def min_def)
next
  case False
  then obtain k where k: "nat (n - 6) = 28 + k" using le_Suc_ex [of 28 "nat (n - 6)"] by auto
  have e: "minute * 2 ^ (28 + k) = 2 ^ 39 * (29296875 * 2 ^ k)" by (simp add: power_add)
  have "(2 :: int) ^ 39 dvd wrap64 (minute * 2 ^ (28 + k))"
    unfolding e by (rule wrap64_dvd) (simp_all add: le_imp_power_dvd)
  then have "wrap64 (minute * 2 ^ (28 + k)) \<le> 0 \<or> 2 ^ 39 \<le> wrap64 (minute * 2 ^ (28 + k))"
    using zdvd_imp_le by fastforce
  moreover have "5 < (268435456 :: int) * 2 ^ k"
  proof -
    have "(1 :: int) \<le> 2 ^ k" by simp
    then show ?thesis by linarith
  qed
  ultimately show ?thesis unfolding block_delay_def k Let_def by (auto simp: e min_def)
qed

lemma block_delays: "block_delay 6 = minute" "block_delay 7 = 2 * minute" "block_delay 8 = 4 * minute" "9 \<le> n \<Longrightarrow> block_delay n = 5 * minute"
proof -
  show "block_delay n = 5 * minute" if "9 \<le> n"
  proof -
    have "(2 :: int) ^ 3 \<le> 2 ^ nat (n - 6)" using that by (intro power_increasing) simp_all
    then show ?thesis using that by (simp add: block_delay_closed)
  qed
qed (simp_all add: block_delay_closed)

text \<open>When the failures of an address come one after the other, there are at most nine of them in the ten
  minutes from the first.\<close>

definition limiter_ok :: "gtime \<Rightarrow> wizardAttempt \<Rightarrow> bool" where
  "limiter_ok now a \<longleftrightarrow> wa_window a \<le> now \<and> 1 \<le> wa_count a \<and> wa_count a \<le> 9 \<and>
     (wa_count a = 6 \<longrightarrow> wa_window a + minute \<le> wa_blocked a) \<and>
     (wa_count a = 7 \<longrightarrow> wa_window a + 3 * minute \<le> wa_blocked a) \<and>
     (wa_count a = 8 \<longrightarrow> wa_window a + 7 * minute \<le> wa_blocked a) \<and>
     (wa_count a = 9 \<longrightarrow> wa_window a + 12 * minute \<le> wa_blocked a) \<and>
     wa_blocked a \<le> now + 5 * minute"

lemma limiter_ok_later: "limiter_ok now a \<Longrightarrow> now \<le> t \<Longrightarrow> limiter_ok t a"
  by (auto simp: limiter_ok_def)

lemma limiter_ok_more:
  assumes "\<And>a. old = Some a \<Longrightarrow> limiter_ok now a \<and> wa_blocked a \<le> now" "zero_time \<le> now"
  shows "limiter_ok now (one_more now old)"
proof -
  have fresh: "limiter_ok now \<lparr> wa_window = now, wa_count = 1, wa_blocked = zero_time \<rparr>"
    using assms(2) by (simp add: limiter_ok_def)
  show ?thesis
  proof (cases "\<exists>a. old = Some a \<and> \<not> 10 * minute < time_sub now (wa_window a)")
    case False
    then have "one_more now old = \<lparr> wa_window = now, wa_count = 1, wa_blocked = zero_time \<rparr>"
      by (auto simp: one_more_def Let_def split: option.splits)
    then show ?thesis using fresh by simp
  next
    case True
    then obtain a where a: "old = Some a" "now - wa_window a \<le> 10 * minute"
      by (auto simp: not_less time_sub_le_iff)
    have ok: "limiter_ok now a" "wa_blocked a \<le> now" using assms(1) a(1) by auto
    then have low: "wa_count a \<noteq> 9" "1 \<le> wa_count a" "wa_count a \<le> 9" using a(2) by (simp_all add: limiter_ok_def)
    have e: "one_more now old = (let b = a\<lparr>wa_count := wa_count a + 1\<rparr>
        in if 5 < wa_count b then b\<lparr>wa_blocked := now + block_delay (wa_count b)\<rparr> else b)"
      using True a by (auto simp: one_more_def Let_def)
    consider "wa_count a \<le> 4" | "wa_count a = 5" | "wa_count a = 6" | "wa_count a = 7" | "wa_count a = 8"
      using low by linarith
    then show ?thesis
      using ok low unfolding e limiter_ok_def Let_def by cases (simp_all add: block_delays)
  qed
qed

section \<open>Sessions are lost by time\<close>

lemma session_valid_iff:
  "fst (run_state (session_valid tok) w) \<longleftrightarrow> tok \<noteq> [] \<and> (\<exists>exp. map_of (wz_sessions w) tok = Some exp \<and> wz_now w \<le> exp)"
  by (auto simp: session_valid_def split: option.splits)

text \<open>A session that was just used is valid for half an hour, whatever other sessions do.\<close>

lemma session_lasts:
  assumes "fst (run_state (session_valid tok) w)" and "wz_now v \<le> wz_now w + wizardSessionTTL"
    and "map_of (wz_sessions v) tok = map_of (wz_sessions (snd (run_state (session_valid tok) w))) tok"
  shows "fst (run_state (session_valid tok) v)"
  using assms by (auto simp: session_valid_def update_conv' split: option.splits if_splits)

end
