(* ===== verification/Wizard.thy ===== *)
theory Wizard
  imports Wizard_State
begin

text \<open>
  The setup wizard (\<open>cmd/nodectl/wizard.go\<close>, \<open>wizard_api.go\<close>, \<open>wizard_auth.go\<close>, \<open>wizard_install.go\<close> and the handlers
  of \<open>wizard_kubeadm.go\<close>): what it shows of disks and network, its handlers behind the check of session,
  state and origin, and the goroutines of its jobs, which advance phase by phase between requests. A
  pattern of the multiplexer is a constructor; the JSON body of a reply is its content.
\<close>

section \<open>Environment, requests and replies\<close>

text \<open>\<open>we_host_of\<close>: the host of a URL (\<open>url.Parse\<close>), \<open>we_is_ip\<close>: \<open>net.ParseIP\<close>; \<open>we_su\<close>: the verdict of \<open>su\<close> on a
  password, or a timeout; \<open>we_random\<close>: the random bytes of this request; \<open>we_blocks\<close>: the entries of
  \<open>/sys/block\<close> in order; \<open>we_addr\<close>: the first IPv4 address of an interface that is not a loopback one;
  \<open>we_length\<close>: the length a HEAD request gives; \<open>we_clean\<close>: \<open>path.Clean\<close>; \<open>we_web\<close>: the embedded files.\<close>

record wiz_env =
  we_install :: install_env
  we_lookup :: "string \<Rightarrow> int option"
  we_host_of :: "string \<Rightarrow> string option"
  we_is_ip :: "string \<Rightarrow> bool"
  we_su :: "string \<Rightarrow> bool option"
  we_random :: "int list option"
  we_blocks :: "string list option"
  we_addr :: "string \<Rightarrow> string option"
  we_length :: "string \<Rightarrow> int"
  we_clean :: "string \<Rightarrow> string"
  we_web :: "string \<Rightarrow> bool"
  we_tmp :: string

datatype wiz_route =
    GetState | PostLogin | PostLogout | GetDisks | GetVersions | PostInstall | PostReboot | GetJob string
  | PostInit | PostJoin | GetTokens | GetNetwork | PostTokens | DeleteToken string | GetPage string

record wiz_request =
  wr_route :: wiz_route
  wr_remote :: string
  wr_host :: string
  wr_origin :: string
  wr_referer :: string
  wr_cookie :: "string option"
  wr_channel :: string
  wr_body :: string

record diskInfo =
  di_Name :: string
  di_Path :: string
  di_SizeBytes :: int
  di_Model :: string
  di_Mounted :: bool
  di_Boot :: bool
  di_Selectable :: bool
  di_Reason :: string

datatype install_error =
    Device_required | Confirm_mismatch | Password_required | Password_mismatch | Hash_failed | Key_invalid
  | Config_required | Unknown_mode

datatype wiz_body =
    ErrorText string
  | BadJoin join_error
  | BadInstall install_error
  | StateIs wizardState
  | Okay
  | JobId string
  | Snapshot jobSnapshot
  | Disks "diskInfo list"
  | Releases string "(string \<times> string) list"
  | PrimaryIP string
  | TokenReply token_reply
  | Tokens "(string \<times> string \<times> string) list"
  | Page string string
  | Never

text \<open>\<open>wp_set_cookie\<close>: the session cookie is set to a token, or cleared with the empty one. \<open>Never\<close> is no reply.\<close>

record wiz_reply =
  wp_code :: int
  wp_set_cookie :: "string option"
  wp_body :: wiz_body

definition reply_with :: "int \<Rightarrow> wiz_body \<Rightarrow> wiz_reply" where
  "reply_with code b = \<lparr> wp_code = code, wp_set_cookie = None, wp_body = b \<rparr>"

definition answer :: "int \<Rightarrow> wiz_body \<Rightarrow> wiz_reply wiz_op" where
  "answer code b = State_Monad.return (reply_with code b)"

definition apiError :: "int \<Rightarrow> string \<Rightarrow> wiz_reply wiz_op" where
  "apiError code msg = answer code (ErrorText msg)"

definition never :: "wiz_reply wiz_op" where
  "never = answer 0 Never"

text \<open>The first value of at most a megabyte.\<close>

definition readJSON :: "string \<Rightarrow> json option" where
  "readJSON body = map_option fst (decode_first (take 1048576 body))"

definition string_members :: "string list \<Rightarrow> json \<Rightarrow> string list option" where
  "string_members names j = do {
     ms \<leftarrow> strict_members names j;
     those (map (\<lambda>n. string_member n ms) names) }"

section \<open>Who asks\<close>

definition clientIP :: "wiz_request \<Rightarrow> string" where
  "clientIP r = (case SplitHostPort (wr_remote r) of None \<Rightarrow> wr_remote r | Some (host, _) \<Rightarrow> host)"

definition sameOrigin :: "wiz_env \<Rightarrow> wiz_request \<Rightarrow> bool" where
  "sameOrigin env r =
     (if wr_origin r \<noteq> [] then we_host_of env (wr_origin r) = Some (wr_host r)
      else if wr_referer r \<noteq> [] then we_host_of env (wr_referer r) = Some (wr_host r)
      else True)"

definition owner_of :: "wiz_request \<Rightarrow> string" where
  "owner_of r = (case wr_cookie r of None \<Rightarrow> [] | Some c \<Rightarrow> c)"

fun state_name :: "wizardState \<Rightarrow> string" where
  "state_name WizLive = ''live''"
| "state_name WizFresh = ''fresh''"
| "state_name WizWorker = ''worker''"
| "state_name WizCP = ''cp''"

text \<open>\<open>states = []\<close>: any state; \<open>safe\<close>: the method is GET or HEAD.\<close>

definition withSession :: "wiz_env \<Rightarrow> wizardState list \<Rightarrow> bool \<Rightarrow> wiz_request \<Rightarrow> wiz_reply wiz_op \<Rightarrow> wiz_reply wiz_op" where
  "withSession env states safe r next = do {
     ok \<leftarrow> (case wr_cookie r of None \<Rightarrow> State_Monad.return False | Some c \<Rightarrow> session_valid c);
     w \<leftarrow> get_wizard;
     if \<not> ok then apiError 401 ''login required''
     else if states \<noteq> [] \<and> detectWizardState w \<notin> set states then apiError 403 (''not available in state '' @ state_name (detectWizardState w))
     else if \<not> safe \<and> \<not> sameOrigin env r then apiError 403 ''origin mismatch''
     else next }"

definition stateHandler :: "wiz_reply wiz_op" where
  "stateHandler = do { w \<leftarrow> get_wizard; answer 200 (StateIs (detectWizardState w)) }"

definition logged_in :: "wiz_env \<Rightarrow> wiz_reply wiz_op" where
  "logged_in env = do {
     tok \<leftarrow> mint (we_random env);
     w \<leftarrow> get_wizard;
     State_Monad.return (case tok of
         None \<Rightarrow> reply_with 500 (ErrorText ''authentication unavailable'')
       | Some t \<Rightarrow> \<lparr> wp_code = 200, wp_set_cookie = Some t, wp_body = StateIs (detectWizardState w) \<rparr>) }"

definition loginHandler :: "wiz_env \<Rightarrow> wiz_request \<Rightarrow> wiz_reply wiz_op" where
  "loginHandler env r =
     (if \<not> sameOrigin env r then apiError 403 ''origin mismatch''
      else (case Option.bind (readJSON (wr_body r)) (string_members [''username'', ''password'']) of
        Some [user, pw] \<Rightarrow> do {
          limited \<leftarrow> denied (clientIP r);
          if limited then apiError 429 ''too many attempts, retry later''
          else if user \<noteq> ''root'' \<or> pw = [] then do {
            _ \<leftarrow> limiter_fail (clientIP r); apiError 401 ''invalid credentials'' }
          else (case we_su env pw of
            None \<Rightarrow> apiError 500 ''authentication unavailable''
          | Some False \<Rightarrow> do { _ \<leftarrow> limiter_fail (clientIP r); apiError 401 ''invalid credentials'' }
          | Some True \<Rightarrow> do { _ \<leftarrow> limiter_reset (clientIP r); logged_in env }) }
      | _ \<Rightarrow> apiError 400 ''invalid request''))"

definition logoutHandler :: "wiz_request \<Rightarrow> wiz_reply wiz_op" where
  "logoutHandler r = do {
     _ \<leftarrow> (case wr_cookie r of None \<Rightarrow> State_Monad.return () | Some c \<Rightarrow> session_drop c);
     State_Monad.return \<lparr> wp_code = 200, wp_set_cookie = Some [], wp_body = Okay \<rparr> }"

section \<open>Disks, releases and the network\<close>

definition virtualDisk :: "string \<Rightarrow> bool" where
  "virtualDisk base = list_ex (has_prefix base) [''loop'', ''ram'', ''dm-'', ''md'', ''zram'', ''fd'', ''sr'', ''nbd'']"

definition diskModel :: "(string \<Rightarrow> string option) \<Rightarrow> string \<Rightarrow> string" where
  "diskModel read base =
     (let dev = wizardSysBlock @ ''/'' @ base @ ''/device/'' in
      case read (dev @ ''model'') of
        None \<Rightarrow> (case read (dev @ ''vendor'') of
                   None \<Rightarrow> []
                 | Some v \<Rightarrow> if trim_space v = ''0x1af4'' then ''virtio 0x1af4'' else trim_space v)
      | Some raw \<Rightarrow>
          if trim_space raw = [] then []
          else (case read (dev @ ''rev'') of
                  None \<Rightarrow> trim_space raw
                | Some rv \<Rightarrow> if trim_space rv = [] then trim_space raw else trim_space raw @ '' (rev '' @ trim_space rv @ '')''))"

fun mountinfo_root :: "string list \<Rightarrow> (int \<times> int) option" where
  "mountinfo_root [] = None"
| "mountinfo_root (l # ls) =
     (let f = str_fields l in if List.length f < 6 \<or> f ! 4 \<noteq> ''/'' then mountinfo_root ls else splitDevNo (f ! 2))"

definition mountinfoRootDev :: "string \<Rightarrow> (int \<times> int) option" where
  "mountinfoRootDev mountinfo = mountinfo_root (split_on newline mountinfo)"

definition is_root_disk :: "install_env \<Rightarrow> int \<times> int \<Rightarrow> string \<Rightarrow> bool" where
  "is_root_disk env want base \<longleftrightarrow>
     devNoOf (ie_stat env) (''/dev/'' @ base) = want \<or>
     list_ex (\<lambda>p. has_prefix p base \<and> devNoOf (ie_stat env) (''/dev/'' @ p) = want) (ie_sys env base)"

definition rootDiskBase :: "wiz_env \<Rightarrow> string" where
  "rootDiskBase env =
     (case Option.bind (ie_read (we_install env) wizardMountinfo) mountinfoRootDev of
        None \<Rightarrow> []
      | Some want \<Rightarrow>
          (case List.filter (is_root_disk (we_install env) want) (case we_blocks env of None \<Rightarrow> [] | Some bs \<Rightarrow> bs) of
             [] \<Rightarrow> [] | b # _ \<Rightarrow> b))"

definition disk_info :: "wiz_env \<Rightarrow> string \<Rightarrow> string \<Rightarrow> string \<Rightarrow> diskInfo option" where
  "disk_info env mounts boot base =
     (let ie = we_install env; target = ''/dev/'' @ base in
      if virtualDisk base \<or> ie_stat ie (wizardSysBlock @ ''/'' @ base) \<noteq> Some Directory then None
      else (case installTargetSize ie base of
        None \<Rightarrow> None
      | Some sz \<Rightarrow>
          (let mounted = installTargetMounted (ie_stat ie) (ie_sys ie) mounts target base;
               isBoot = boot \<noteq> [] \<and> boot = base;
               reason = (if isBoot then ''running boot device'' else if mounted then ''has mounted filesystems''
                         else if sz < installSizeFloor then ''smaller than 1GiB'' else [])
           in Some \<lparr> di_Name = base, di_Path = target, di_SizeBytes = sz, di_Model = diskModel (ie_read ie) base,
                di_Mounted = mounted, di_Boot = isBoot, di_Selectable = (reason = []), di_Reason = reason \<rparr>)))"

definition disksHandler :: "wiz_env \<Rightarrow> wiz_reply wiz_op" where
  "disksHandler env =
     (case readMountTable (we_install env) of
        None \<Rightarrow> apiError 500 ''cannot list disks''
      | Some mounts \<Rightarrow>
          (case we_blocks env of
             None \<Rightarrow> apiError 500 ''cannot list disks''
           | Some bases \<Rightarrow>
               answer 200 (Disks (go_sort (\<lambda>a b. di_Name a < di_Name b)
                 (List.map_filter (disk_info env mounts (rootDiskBase env)) bases)))))"

definition wizardFlavor :: "wiz_env \<Rightarrow> string option" where
  "wizardFlavor env =
     (let cli = ie_cli (we_install env) in InstallFlavor (readFirst (ch_model cli)) (readFirst (ch_compatible cli)) (ch_goarch cli))"

definition channel_base :: "string \<Rightarrow> string" where
  "channel_base channel = repoBase (if channel = [] then ''stable'' else channel)"

definition versions_of :: "string \<Rightarrow> (string \<times> string) list \<Rightarrow> (string \<times> string) list" where
  "versions_of flavor sums =
     go_sort (\<lambda>a b. fst b < fst a)
       (List.map_filter (\<lambda>(file, _). case ParseImgRelease file of
            Some (ts, arch) \<Rightarrow> if arch = flavor then Some (ts, file) else None
          | None \<Rightarrow> None) sums)"

definition versionsHandler :: "wiz_env \<Rightarrow> wiz_request \<Rightarrow> wiz_reply wiz_op" where
  "versionsHandler env r = do {
     got \<leftarrow> cachedIndex (ie_cli (we_install env)) (channel_base (wr_channel r));
     case got of
       Inl e \<Rightarrow> apiError 502 (indexFailureMessage e)
     | Inr sums \<Rightarrow>
         (case wizardFlavor env of
            None \<Rightarrow> apiError 500 ''install flavor unresolvable''
          | Some flavor \<Rightarrow> answer 200 (Releases flavor (versions_of flavor sums))) }"

text \<open>The flags of a route are hexadecimal, in 32 bits.\<close>

definition hex_flags :: "string \<Rightarrow> int option" where
  "hex_flags s =
     (if s = [] \<or> \<not> list_all is_hex s then None
      else (let n = foldl (\<lambda>a c. 16 * a + (case hex_val c of Some v \<Rightarrow> v | None \<Rightarrow> 0)) 0 s in if n < 4294967296 then Some n else None))"

fun default_route :: "string list \<Rightarrow> string option" where
  "default_route [] = None"
| "default_route (l # ls) =
     (let f = str_fields l in
      if List.length f < 4 \<or> f ! 0 = ''Iface'' \<or> f ! 1 \<noteq> ''00000000'' then default_route ls
      else (case hex_flags (f ! 3) of
              Some n \<Rightarrow> if n div 2 mod 2 = 0 then default_route ls else Some (f ! 0)
            | None \<Rightarrow> default_route ls))"

definition defaultRouteInterface :: "string \<Rightarrow> string option" where
  "defaultRouteInterface routes = default_route (split_on newline routes)"

definition defaultEgressIP :: "wiz_env \<Rightarrow> string" where
  "defaultEgressIP env =
     (case Option.bind (Option.bind (ie_read (we_install env) ''/proc/net/route'') defaultRouteInterface) (we_addr env) of
        None \<Rightarrow> [] | Some ip \<Rightarrow> ip)"

definition networkHandler :: "wiz_env \<Rightarrow> wiz_reply wiz_op" where
  "networkHandler env = answer 200 (PrimaryIP (defaultEgressIP env))"

text \<open>Pages are never cached; unknown paths get the index page.\<close>

definition content_type :: "string \<Rightarrow> string" where
  "content_type p =
     (if has_suffix p ''.html'' then ''text/html; charset=utf-8''
      else if has_suffix p ''.js'' then ''text/javascript; charset=utf-8''
      else if has_suffix p ''.css'' then ''text/css; charset=utf-8''
      else if has_suffix p ''.svg'' then ''image/svg+xml'' else [])"

definition spaHandler :: "wiz_env \<Rightarrow> string \<Rightarrow> wiz_reply wiz_op" where
  "spaHandler env url =
     (let c = we_clean env (trim_prefix url ''/'');
          p = (if c = ''.'' \<or> c = [] then ''index.html'' else c)
      in if we_web env p then answer 200 (Page p (content_type p))
         else if we_web env ''index.html'' then answer 200 (Page ''index.html'' (content_type ''index.html''))
         else apiError 404 ''404 page not found'')"

section \<open>Jobs\<close>

definition jobHandler :: "wiz_request \<Rightarrow> string \<Rightarrow> wiz_reply wiz_op" where
  "jobHandler r jid = do {
     w \<leftarrow> get_wizard;
     (case jobs_get w jid (owner_of r) of
        None \<Rightarrow> apiError 404 (''unknown job '' @ go_quote jid)
      | Some j \<Rightarrow> answer 200 (Snapshot (snapshot jid j))) }"

text \<open>A job that has started gets its goroutine.\<close>

definition spawn :: "string \<Rightarrow> work \<Rightarrow> unit wiz_op" where
  "spawn jid todo = State (\<lambda>w. ((), w\<lparr>wz_threads := wz_threads w @ [(jid, todo, Phase1)]\<rparr>))"

definition start_job :: "wiz_env \<Rightarrow> wiz_request \<Rightarrow> string \<Rightarrow> (string \<Rightarrow> unit wiz_op) \<Rightarrow> work \<Rightarrow> wiz_reply wiz_op" where
  "start_job env r kind prepare todo = do {
     started \<leftarrow> jobs_start (we_random env) kind (owner_of r) True;
     case started of
       None \<Rightarrow> apiError 409 ''another operation is already running''
     | Some jid \<Rightarrow> do { _ \<leftarrow> prepare jid; _ \<leftarrow> spawn jid todo; answer 202 (JobId jid) } }"

section \<open>Installation\<close>

definition normalizeTS :: "string \<Rightarrow> string" where
  "normalizeTS ts = (if trim_space ts = [] \<or> ts = ''latest'' then [] else ts)"

definition exitCodeStatus :: "int \<Rightarrow> int" where
  "exitCodeStatus code = (if code = exitMisuse then 400 else 500)"

record installRequest =
  ir_Device :: string
  ir_Channel :: string
  ir_TS :: string
  ir_Mode :: string
  ir_Password :: string
  ir_PasswordConfirm :: string
  ir_SSHPublicKeys :: string
  ir_ConfigYAML :: string
  ir_ConfirmDevice :: string

definition decode_install :: "json \<Rightarrow> installRequest option" where
  "decode_install j =
     (case string_members [''device'', ''channel'', ''ts'', ''mode'', ''password'', ''passwordConfirm'', ''sshPublicKeys'',
             ''configYaml'', ''confirmDevice''] j of
        Some [d, c, t, m, p, pc, k, y, cd] \<Rightarrow>
          Some \<lparr> ir_Device = d, ir_Channel = c, ir_TS = t, ir_Mode = m, ir_Password = p, ir_PasswordConfirm = pc,
                 ir_SSHPublicKeys = k, ir_ConfigYAML = y, ir_ConfirmDevice = cd \<rparr>
      | _ \<Rightarrow> None)"

text \<open>Hash, keys and the verbatim configuration of what is to be installed.\<close>

definition parseInstallRequest :: "install_env \<Rightarrow> installRequest \<Rightarrow> install_error + string \<times> string list \<times> string option" where
  "parseInstallRequest env req =
     (let mode = (if ir_Mode req = [] then ''password'' else ir_Mode req) in
      if trim_space (ir_Device req) = [] then Inl Device_required
      else if ir_ConfirmDevice req \<noteq> ir_Device req then Inl Confirm_mismatch
      else if mode = ''password'' then
        (if ir_Password req = [] then Inl Password_required
         else if ir_Password req \<noteq> ir_PasswordConfirm req then Inl Password_mismatch
         else (case hashRootPassword (ie_sha512 env) (ie_random env) (ir_Password req) of
           None \<Rightarrow> Inl Hash_failed
         | Some h \<Rightarrow> (case parseSSHPublicKeys (ir_SSHPublicKeys req) of
                        None \<Rightarrow> Inl Key_invalid | Some keys \<Rightarrow> Inr (h, keys, None))))
      else if mode = ''config'' then
        (if trim_space (ir_ConfigYAML req) = [] then Inl Config_required else Inr ([], [], Some (ir_ConfigYAML req)))
      else Inl Unknown_mode)"

text \<open>Past the checks of the request: a release is chosen and the job starts. The words of the reply to a release that
  cannot be chosen are not those of the code.\<close>

definition install_release :: "wiz_env \<Rightarrow> wiz_request \<Rightarrow> installRequest \<Rightarrow> string \<Rightarrow> string \<Rightarrow> string list \<Rightarrow> string option \<Rightarrow> wiz_reply wiz_op" where
  "install_release env r req target hash keys config = do {
     got \<leftarrow> cachedIndex (ie_cli (we_install env)) (channel_base (ir_Channel req));
     case got of
       Inl e \<Rightarrow> apiError 502 (indexFailureMessage e)
     | Inr sums \<Rightarrow>
         (case wizardFlavor env of
            None \<Rightarrow> apiError 500 ''install flavor unresolvable''
          | Some flavor \<Rightarrow>
              (case selectInstallRelease sums flavor (normalizeTS (ir_TS req)) of
                 None \<Rightarrow> answer (if normalizeTS (ir_TS req) \<noteq> [] then 400 else 502) (ErrorText ''no such release'')
               | Some (ts, file, csum) \<Rightarrow>
                   start_job env r ''install'' (\<lambda>jid. setTotal jid (max 0 (we_length env (channel_base (ir_Channel req) @ ''/'' @ file))))
                     (Install_work \<lparr> ij_target = target, ij_base = channel_base (ir_Channel req), ij_file = file, ij_sum = csum,
                        ij_ts = ts, ij_config = config, ij_hash = hash, ij_keys = keys \<rparr>))) }"

definition installHandler :: "wiz_env \<Rightarrow> wiz_request \<Rightarrow> wiz_reply wiz_op" where
  "installHandler env r =
     (case Option.bind (readJSON (wr_body r)) decode_install of
        None \<Rightarrow> apiError 400 ''invalid request''
      | Some req \<Rightarrow>
          (case parseInstallRequest (we_install env) req of
             Inl e \<Rightarrow> answer 400 (BadInstall e)
           | Inr (hash, keys, config) \<Rightarrow>
               (case validateInstallTarget (we_install env) (ir_Device req) of
                  Inl code \<Rightarrow> apiError (exitCodeStatus code) ''target refused (see node log)''
                | Inr (target, base) \<Rightarrow>
                    (case installTargetSize (we_install env) base of
                       None \<Rightarrow> apiError 500 ''cannot size target''
                     | Some sz \<Rightarrow>
                         if sz < installSizeFloor then apiError 400 ''target too small (need at least 1GiB)''
                         else install_release env r req target hash keys config))))"

definition rebootHandler :: "wiz_request \<Rightarrow> wiz_reply wiz_op" where
  "rebootHandler r =
     (case Option.bind (readJSON (wr_body r)) (strict_members [''confirm'']) of
        None \<Rightarrow> apiError 400 ''explicit confirm required''
      | Some ms \<Rightarrow>
          (case dec_bool False (field_values ''confirm'' ms) of
             (True, False) \<Rightarrow> do {
               res \<leftarrow> on_machine (run_command_in [''reboot''] []);
               if fst res then answer 202 Okay else apiError 500 ''reboot failed'' }
           | _ \<Rightarrow> apiError 400 ''explicit confirm required''))"

section \<open>kubeadm\<close>

abbreviation wizardKubeadmPath :: string where "wizardKubeadmPath \<equiv> ''/usr/local/bin/kubeadm''"

fun say_lines :: "string \<Rightarrow> string list \<Rightarrow> unit wiz_op" where
  "say_lines jid [] = State_Monad.return ()"
| "say_lines jid (l # ls) = do { _ \<leftarrow> say jid l; say_lines jid ls }"

text \<open>The output is read line by line; a line of a megabyte ends the reader, and the run does not return
  from writing to it. \<open>jid\<close>: the job whose log gets the lines. The result: success and the output.\<close>

definition masked_lines :: "string list \<Rightarrow> string list \<Rightarrow> string list" where
  "masked_lines secrets ls = List.filter (\<lambda>l. l \<noteq> []) (map (\<lambda>l. maskSecrets (trim_space l) secrets) ls)"

definition kubeadmRun :: "string option \<Rightarrow> string list \<Rightarrow> string list \<Rightarrow> (bool \<times> string) option wiz_op" where
  "kubeadmRun job args secrets = do {
     res \<leftarrow> on_machine (run_command_in (wizardKubeadmPath # args) []);
     _ \<leftarrow> (case job of
             None \<Rightarrow> State_Monad.return ()
           | Some jid \<Rightarrow> say_lines jid (masked_lines secrets (fst (scan_lines 1048576 (snd res)))));
     State_Monad.return (if snd (scan_lines 1048576 (snd res)) then Some res else None) }"

text \<open>\<open>False\<close>: it failed.\<close>

definition write_hosts :: "string \<Rightarrow> bool wiz_op" where
  "write_hosts content = do {
     ev \<leftarrow> on_machine install_event;
     State (\<lambda>w. case ev of
         Io_ok \<Rightarrow> (True, w\<lparr>wz_hosts := Some content\<rparr>)
       | Io_fail \<Rightarrow> (False, w)
       | Io_torn n \<Rightarrow> (False, w\<lparr>wz_hosts := Some (take n content)\<rparr>)) }"

definition applyHostname :: "string \<Rightarrow> bool wiz_op" where
  "applyHostname hostname = do {
     res \<leftarrow> on_machine (run_command_in [''hostnamectl'', ''set-hostname'', hostname] []);
     w \<leftarrow> get_wizard;
     if \<not> fst res then State_Monad.return False
     else (case wz_hosts w of
             None \<Rightarrow> State_Monad.return False
           | Some raw \<Rightarrow> write_hosts (editHostsContent raw hostname)) }"

text \<open>The error of the first step that fails; waiting for the socket of containerd is one event.\<close>

definition ensureRuntimes :: "(string + unit) wiz_op" where
  "ensureRuntimes = do {
     a \<leftarrow> on_machine (run_command_in [''systemctl'', ''enable'', ''containerd''] []);
     if \<not> fst a then State_Monad.return (Inl ''enabling containerd failed'') else do {
     b \<leftarrow> on_machine (run_command_in [''systemctl'', ''enable'', ''kubelet''] []);
     if \<not> fst b then State_Monad.return (Inl ''enabling kubelet failed'') else do {
     c \<leftarrow> on_machine (run_command_in [''systemctl'', ''start'', ''containerd''] []);
     if \<not> fst c then State_Monad.return (Inl ''starting containerd failed'') else do {
     ev \<leftarrow> on_machine install_event;
     State_Monad.return (if ev = Io_ok then Inr () else Inl ''containerd socket did not appear'') } } } }"

definition kubeInitHandler :: "wiz_env \<Rightarrow> wiz_request \<Rightarrow> wiz_reply wiz_op" where
  "kubeInitHandler env r =
     (case Option.bind (readJSON (wr_body r)) (string_members [''advertiseAddress'', ''hostname'']) of
        Some [advertise, hostname] \<Rightarrow>
          if \<not> we_is_ip env (trim_space advertise) then apiError 400 ''advertiseAddress must be an IP''
          else if \<not> reHostname hostname then apiError 400 ''hostname must be lowercase alphanumeric/hyphens (RFC 1123)''
          else start_job env r ''init'' (\<lambda>_. State_Monad.return ()) (Init_work (trim_space advertise) hostname)
      | _ \<Rightarrow> apiError 400 ''invalid request'')"

definition kubeJoinHandler :: "wiz_env \<Rightarrow> wiz_request \<Rightarrow> wiz_reply wiz_op" where
  "kubeJoinHandler env r =
     (case Option.bind (readJSON (wr_body r)) (strict_members [''config'']) of
        None \<Rightarrow> apiError 400 ''config with the join JSON is required''
      | Some ms \<Rightarrow>
          (case rev (field_values ''config'' ms) of
             [] \<Rightarrow> apiError 400 ''config with the join JSON is required''
           | raw # _ \<Rightarrow>
               (case parseJoinConfig (we_lookup env) raw of
                  Inl e \<Rightarrow> answer 400 (BadJoin e)
                | Inr jc \<Rightarrow> start_job env r ''join'' (\<lambda>_. State_Monad.return ()) (Join_work jc))))"

text \<open>The expiry is asked of the list of tokens, as far as that goes.\<close>

definition tokenExpiry :: "string \<Rightarrow> string option wiz_op" where
  "tokenExpiry token =
     (if CHR ''.'' \<notin> set token \<or> \<not> reTokenID (fst (cut_at CHR ''.'' token)) then State_Monad.return (Some [])
      else do {
        res \<leftarrow> kubeadmRun None [''token'', ''list'', ''-o'', ''json''] [token];
        State_Monad.return (case res of
            None \<Rightarrow> None
          | Some (ok, out) \<Rightarrow> Some (if ok then parseTokenExpiry out (fst (cut_at CHR ''.'' token)) else [])) })"

definition create_token :: "wiz_env \<Rightarrow> string \<Rightarrow> string \<Rightarrow> string \<Rightarrow> wiz_reply wiz_op" where
  "create_token env role hostname certKey = do {
     res \<leftarrow> kubeadmRun None ([''token'', ''create'', ''--description'', ''wizard:'' @ hostname, ''--print-join-command''] @
        (if certKey \<noteq> [] then [''--certificate-key'', certKey] else [])) (if certKey \<noteq> [] then [certKey] else []);
     case res of
       None \<Rightarrow> never
     | Some (ok, out) \<Rightarrow>
         if \<not> ok then apiError 500 ''creating token failed''
         else (case parseJoinCommand (we_lookup env) out of
           None \<Rightarrow> apiError 500 ''creating token failed''
         | Some (addr, token, caHash) \<Rightarrow> do {
             expires \<leftarrow> tokenExpiry token;
             case expires of
               None \<Rightarrow> never
             | Some e \<Rightarrow> answer 200 (TokenReply (token_reply_of role hostname certKey addr token caHash e)) }) }"

text \<open>For a control plane a fresh key is made and the certificates are uploaded under it.\<close>

definition create_cp_token :: "wiz_env \<Rightarrow> string \<Rightarrow> wiz_reply wiz_op" where
  "create_cp_token env hostname = do {
     res \<leftarrow> kubeadmRun None [''certs'', ''certificate-key''] [];
     case res of
       None \<Rightarrow> never
     | Some (ok, out) \<Rightarrow>
         if \<not> ok \<or> \<not> reCertKey (trim_space out) then apiError 500 ''generating certificate key failed''
         else do {
           up \<leftarrow> kubeadmRun None [''init'', ''phase'', ''upload-certs'', ''--upload-certs'', ''--certificate-key'', trim_space out] [trim_space out];
           case up of
             None \<Rightarrow> never
           | Some (uploaded, _) \<Rightarrow>
               if \<not> uploaded then apiError 500 ''uploading certs failed''
               else create_token env ''control-plane'' hostname (trim_space out) } }"

definition kubeTokenCreateHandler :: "wiz_env \<Rightarrow> wiz_request \<Rightarrow> wiz_reply wiz_op" where
  "kubeTokenCreateHandler env r =
     (case Option.bind (readJSON (wr_body r)) (string_members [''role'', ''hostname'']) of
        Some [role, hostname] \<Rightarrow>
          if role \<noteq> ''worker'' \<and> role \<noteq> ''control-plane'' then apiError 400 ''role must be worker|control-plane''
          else if \<not> reHostname hostname then apiError 400 ''hostname must be lowercase alphanumeric/hyphens (RFC 1123)''
          else if role = ''control-plane'' then create_cp_token env hostname
          else create_token env role hostname []
      | _ \<Rightarrow> apiError 400 ''invalid request'')"

definition kubeTokenListHandler :: "wiz_reply wiz_op" where
  "kubeTokenListHandler = do {
     res \<leftarrow> kubeadmRun None [''token'', ''list'', ''-o'', ''json''] [];
     case res of
       None \<Rightarrow> never
     | Some (ok, out) \<Rightarrow>
         if \<not> ok then apiError 500 ''listing tokens failed''
         else answer 200 (Tokens (map (\<lambda>t. (fst (cut_at CHR ''.'' (bt_Token t)), bt_Description t, bt_Expires t)) (decodeTokenStream out))) }"

definition kubeTokenDeleteHandler :: "string \<Rightarrow> wiz_reply wiz_op" where
  "kubeTokenDeleteHandler tid =
     (if \<not> reTokenDelete tid then apiError 400 ''invalid token id''
      else do {
        res \<leftarrow> kubeadmRun None [''token'', ''delete'', tid] [tid];
        case res of
          None \<Rightarrow> never
        | Some (ok, _) \<Rightarrow> if \<not> ok then apiError 500 ''deleting token failed'' else answer 200 Okay })"

section \<open>The goroutines of jobs\<close>

definition to_phase :: "string \<Rightarrow> phase \<Rightarrow> unit wiz_op" where
  "to_phase jid ph = State (\<lambda>w. ((), w\<lparr>wz_threads := map (\<lambda>(k, todo, p). if k = jid then (k, todo, ph) else (k, todo, p)) (wz_threads w)\<rparr>))"

text \<open>The deferred release follows whatever ends the work.\<close>

definition fail_job :: "string \<Rightarrow> string \<Rightarrow> unit wiz_op" where
  "fail_job jid errMsg = do { _ \<leftarrow> finish jid JobFailed [] errMsg; to_phase jid Releasing }"

definition done_job :: "string \<Rightarrow> string \<Rightarrow> unit wiz_op" where
  "done_job jid message = do { _ \<leftarrow> finish jid JobDone message []; to_phase jid Releasing }"

text \<open>The scratch file for a verbatim configuration is created and written, and then read back.\<close>

definition scratch_config :: "wiz_env \<Rightarrow> string option \<Rightarrow> (install_env \<times> string) option wiz_op" where
  "scratch_config env config =
     (case config of
        None \<Rightarrow> State_Monad.return (Some (we_install env, []))
      | Some yaml \<Rightarrow> do {
          a \<leftarrow> on_machine install_io;
          b \<leftarrow> (if a = Inr () then on_machine install_io else State_Monad.return a);
          State_Monad.return (if b = Inr () then
              Some ((we_install env)\<lparr>ie_read := (ie_read (we_install env))(we_tmp env \<mapsto> yaml)\<rparr>, we_tmp env)
            else None) })"

definition runInstallJob :: "wiz_env \<Rightarrow> string \<Rightarrow> install_job \<Rightarrow> phase \<Rightarrow> unit wiz_op" where
  "runInstallJob env jid ij ph =
     (case ph of
        Phase1 \<Rightarrow> do {
          _ \<leftarrow> say jid (''streaming '' @ ij_file ij @ '' onto '' @ ij_target ij);
          res \<leftarrow> on_machine (streamImageToDisk (we_install env) (ij_base ij) (ij_file ij) (ij_sum ij) (ij_target ij));
          case res of Inl _ \<Rightarrow> fail_job jid (''install failed (target left dirty '' @ [CHR 0xE2, CHR 0x80, CHR 0x94] @ '' retry)'') | Inr _ \<Rightarrow> to_phase jid Phase2 }
      | Phase2 \<Rightarrow> do {
          res \<leftarrow> on_machine (appendVarPartition (we_install env) (ij_target ij));
          case res of Inl _ \<Rightarrow> fail_job jid ''partitioning /var failed'' | Inr _ \<Rightarrow> to_phase jid Phase3 }
      | Phase3 \<Rightarrow> do {
          cfg \<leftarrow> scratch_config env (ij_config ij);
          case cfg of
            None \<Rightarrow> fail_job jid ''writing config failed''
          | Some (ie, path) \<Rightarrow> do {
              res \<leftarrow> on_machine (writeInstallYAML ie (partDevName (ij_target ij) ''1'') path (ij_ts ij) (ij_hash ij) (ij_keys ij));
              case res of
                Inl _ \<Rightarrow> fail_job jid ''writing simplek8s.yaml failed''
              | Inr _ \<Rightarrow> done_job jid (installSummaryLine (ij_target ij) (ij_ts ij)) } }
      | _ \<Rightarrow> State_Monad.return ())"

text \<open>Init and join differ in the arguments, the secrets and the words at the end.\<close>

definition runKubeJob :: "string \<Rightarrow> string \<Rightarrow> string list \<Rightarrow> string list \<Rightarrow> string \<Rightarrow> string \<Rightarrow> phase \<Rightarrow> unit wiz_op" where
  "runKubeJob jid hostname args secrets failure message ph =
     (case ph of
        Phase1 \<Rightarrow> do {
          _ \<leftarrow> say jid (''setting hostname to '' @ hostname);
          ok \<leftarrow> applyHostname hostname;
          if ok then to_phase jid Phase2 else fail_job jid ''setting hostname failed'' }
      | Phase2 \<Rightarrow> do {
          res \<leftarrow> ensureRuntimes;
          case res of Inl e \<Rightarrow> fail_job jid e | Inr _ \<Rightarrow> to_phase jid Phase3 }
      | Phase3 \<Rightarrow> do {
          res \<leftarrow> kubeadmRun (Some jid) args secrets;
          case res of
            None \<Rightarrow> to_phase jid Stuck
          | Some (ok, _) \<Rightarrow> if ok then done_job jid message else fail_job jid failure }
      | _ \<Rightarrow> State_Monad.return ())"

definition runInitJob :: "string \<Rightarrow> string \<Rightarrow> string \<Rightarrow> phase \<Rightarrow> unit wiz_op" where
  "runInitJob jid addr hostname =
     runKubeJob jid hostname (buildInitArgs addr hostname) [addr] ''kubeadm init failed''
       ''cluster initialized (this node is a control plane)''"

definition runJoinJob :: "string \<Rightarrow> joinConfig \<Rightarrow> phase \<Rightarrow> unit wiz_op" where
  "runJoinJob jid jc =
     runKubeJob jid (Hostname jc) (buildJoinArgs jc) [Token jc, CACertHash jc, CertificateKey jc]
       (''kubeadm join failed (hostname kept: '' @ Hostname jc @ '')'') (''joined as '' @ Role jc @ '' ('' @ Hostname jc @ '')'')"

definition release_thread :: "string \<Rightarrow> unit wiz_op" where
  "release_thread jid = do {
     _ \<leftarrow> jobs_release;
     State (\<lambda>w. ((), w\<lparr>wz_threads := List.filter (\<lambda>(k, _). k \<noteq> jid) (wz_threads w)\<rparr>)) }"

definition thread_step :: "wiz_env \<Rightarrow> string \<Rightarrow> work \<Rightarrow> phase \<Rightarrow> unit wiz_op" where
  "thread_step env jid todo ph =
     (if ph = Releasing then release_thread jid
      else (case todo of
        Install_work ij \<Rightarrow> runInstallJob env jid ij ph
      | Init_work addr hostname \<Rightarrow> runInitJob jid addr hostname ph
      | Join_work jc \<Rightarrow> runJoinJob jid jc ph))"

section \<open>The multiplexer\<close>

text \<open>The states a route is open in, and whether it needs a session at all.\<close>

fun route_states :: "wiz_route \<Rightarrow> wizardState list" where
  "route_states GetDisks = [WizLive]"
| "route_states GetVersions = [WizLive]"
| "route_states PostInstall = [WizLive]"
| "route_states PostReboot = [WizLive]"
| "route_states PostInit = [WizFresh]"
| "route_states PostJoin = [WizFresh]"
| "route_states GetNetwork = [WizFresh]"
| "route_states GetTokens = [WizCP]"
| "route_states PostTokens = [WizCP]"
| "route_states (DeleteToken _) = [WizCP]"
| "route_states _ = []"

fun safe_method :: "wiz_route \<Rightarrow> bool" where
  "safe_method PostLogin = False"
| "safe_method PostLogout = False"
| "safe_method PostInstall = False"
| "safe_method PostReboot = False"
| "safe_method PostInit = False"
| "safe_method PostJoin = False"
| "safe_method PostTokens = False"
| "safe_method (DeleteToken _) = False"
| "safe_method _ = True"

fun handler_of :: "wiz_env \<Rightarrow> wiz_request \<Rightarrow> wiz_route \<Rightarrow> wiz_reply wiz_op" where
  "handler_of env r GetState = stateHandler"
| "handler_of env r PostLogin = loginHandler env r"
| "handler_of env r PostLogout = logoutHandler r"
| "handler_of env r GetDisks = disksHandler env"
| "handler_of env r GetVersions = versionsHandler env r"
| "handler_of env r PostInstall = installHandler env r"
| "handler_of env r PostReboot = rebootHandler r"
| "handler_of env r (GetJob jid) = jobHandler r jid"
| "handler_of env r PostInit = kubeInitHandler env r"
| "handler_of env r PostJoin = kubeJoinHandler env r"
| "handler_of env r GetTokens = kubeTokenListHandler"
| "handler_of env r GetNetwork = networkHandler env"
| "handler_of env r PostTokens = kubeTokenCreateHandler env r"
| "handler_of env r (DeleteToken tid) = kubeTokenDeleteHandler tid"
| "handler_of env r (GetPage url) = spaHandler env url"

fun open_route :: "wiz_route \<Rightarrow> bool" where
  "open_route GetState = True"
| "open_route PostLogin = True"
| "open_route (GetPage _) = True"
| "open_route _ = False"

definition wizardMux :: "wiz_env \<Rightarrow> wiz_request \<Rightarrow> wiz_reply wiz_op" where
  "wizardMux env r =
     (let rt = wr_route r in
      if open_route rt then handler_of env r rt
      else withSession env (route_states rt) (safe_method rt) r (handler_of env r rt))"

section \<open>Start-up\<close>

abbreviation (input) exitIdle :: int where "exitIdle \<equiv> 3"

definition wizardIssueText :: "int \<Rightarrow> string" where
  "wizardIssueText port = ''    Wizard: https://'' @ [CHR 0x5C] @ ''4:'' @ itoa port @ [newline]"

text \<open>The checks before the wizard listens: the exit code, or the port.\<close>

definition wizard_port :: "wiz_env \<Rightarrow> wizard \<Rightarrow> string \<Rightarrow> int + int" where
  "wizard_port env w listen =
     (case SplitHostPort listen of
        None \<Rightarrow> Inl exitMisuse
      | Some (host, portStr) \<Rightarrow>
          if host = [] then Inl exitMisuse
          else (case atoi portStr of
            None \<Rightarrow> Inl exitMisuse
          | Some port \<Rightarrow>
              if port < 1 \<or> 65535 < port then Inl exitMisuse
              else if \<not> ch_root (ie_cli (we_install env)) then Inl exitMisuse
              else if detectWizardState w = WizWorker then Inl exitIdle
              else Inr port))"

section \<open>The wizard as a transition system\<close>

text \<open>Requests are served and goroutines advance in any order, in any environment; a running transfer reports its
  progress; time passes; and the node changes around the wizard.\<close>

inductive wiz_step :: "wizard \<Rightarrow> wizard \<Rightarrow> bool" where
  Serve: "run_state (wizardMux env r) w = (rep, w') \<Longrightarrow> wiz_step w w'"
| Advance: "(jid, todo, ph) \<in> set (wz_threads w) \<Longrightarrow> run_state (thread_step env jid todo ph) w = ((), w') \<Longrightarrow> wiz_step w w'"
| Report: "(jid, Install_work ij, Phase1) \<in> set (wz_threads w) \<Longrightarrow> run_state (job_report jid down written) w = ((), w') \<Longrightarrow> wiz_step w w'"
| Elapse: "wz_now w \<le> t \<Longrightarrow> wiz_step w (w\<lparr>wz_now := t\<rparr>)"
| Outside: "wiz_step w (w\<lparr>wz_machine := m, wz_hosts := hosts, wz_yaml := y, wz_kube := k, wz_admin := a\<rparr>)"

definition wizard_started :: "wizard \<Rightarrow> bool" where
  "wizard_started w \<longleftrightarrow> zero_time \<le> wz_now w \<and> wz_limiter w = [] \<and> wz_index w = [] \<and> wz_jobs w = [] \<and> \<not> wz_busy w \<and> wz_threads w = []"

inductive wizard_run :: "wizard \<Rightarrow> bool" where
  "wizard_started w \<Longrightarrow> wizard_run w"
| "wizard_run w \<Longrightarrow> wiz_step w w' \<Longrightarrow> wizard_run w'"

end
