(* ===== verification/Wizard_Safety.thy ===== *)
theory Wizard_Safety
  imports Wizard
begin

text \<open>
  What the wizard guarantees: who may do what, that one destructive job runs at a time and on what, that the
  logs of joins show no secret, and how often a password can be tried. The handlers are analysed once for
  each part of the memory they leave alone, with the rules for \<open>keeps\<close>.
\<close>

section \<open>What the pieces leave alone\<close>

text \<open>\<open>steady f\<close>: the part of the memory that \<open>f\<close> selects stays as it is.\<close>

definition steady :: "(wizard \<Rightarrow> 'b) \<Rightarrow> wizard \<Rightarrow> wizard \<Rightarrow> bool" where
  "steady f w w' \<longleftrightarrow> f w' = f w"

lemma steady_order [simp, intro]: "reflp (steady f)" "transp (steady f)"
  by (auto simp: reflp_def transp_def steady_def)

named_theorems wiz_intros \<open>what keeps a relation on the memory of the wizard\<close>

lemmas [wiz_intros] = keeps_return keeps_bind keeps_if keeps_option keeps_sum keeps_prod keeps_let

lemma run_bind: "run_state (State_Monad.bind m k) w = (case run_state m w of (x, v) \<Rightarrow> run_state (k x) v)"
  by (simp add: State_Monad.bind_def)

lemma run_get [simp]: "run_state get_wizard w = (w, w)"
  by (simp add: get_wizard_def)

lemma run_answer [simp]: "run_state (answer code b) w = (reply_with code b, w)"
  by (simp add: answer_def)

lemma run_apiError [simp]: "run_state (apiError code msg) w = (reply_with code (ErrorText msg), w)"
  by (simp add: apiError_def)

lemma keeps_wiz_reply [wiz_intros]:
  assumes "reflp R"
  shows "keeps R (answer code b)" "keeps R (apiError code msg)" "keeps R never" "keeps R get_wizard"
  using assms by (simp_all add: keeps_def reflp_def never_def)

lemma keeps_bool [wiz_intros]: "(b \<Longrightarrow> keeps R m) \<Longrightarrow> (\<not> b \<Longrightarrow> keeps R n) \<Longrightarrow> keeps R (case b of True \<Rightarrow> m | False \<Rightarrow> n)"
  by (cases b) auto

text \<open>\<open>core\<close>: all but the machine, the hosts file, the cached index and what the node is. \<open>auths\<close>: who may come in.\<close>

definition core :: "wizard \<Rightarrow> gtime \<times> (string \<times> gtime) list \<times> (string \<times> wizardAttempt) list \<times> (string \<times> wizardJob) list \<times> bool \<times> (string \<times> work \<times> phase) list" where
  "core w = (wz_now w, wz_sessions w, wz_limiter w, wz_jobs w, wz_busy w, wz_threads w)"

definition auths :: "wizard \<Rightarrow> gtime \<times> (string \<times> gtime) list \<times> (string \<times> wizardAttempt) list" where
  "auths w = (wz_now w, wz_sessions w, wz_limiter w)"

lemma core_auths: "keeps (steady core) m \<Longrightarrow> keeps (steady auths) m"
  by (erule keeps_mono) (simp add: steady_def core_def auths_def)

text \<open>Whatever relation commands and a look at the index keep is kept by every handler that starts no job and no
  session.\<close>

fun plain_route :: "wiz_route \<Rightarrow> bool" where
  "plain_route PostLogin = False"
| "plain_route PostLogout = False"
| "plain_route PostInstall = False"
| "plain_route PostInit = False"
| "plain_route PostJoin = False"
| "plain_route _ = True"

locale wiz_relation =
  fixes R :: "wizard \<Rightarrow> wizard \<Rightarrow> bool"
  assumes refl: "reflp R" and trans: "transp R"
    and command: "keeps R (on_machine (run_command_in argv stdin))"
    and index: "keeps R (cachedIndex cli base)"
begin

lemmas rules = wiz_intros refl trans command index

lemma kubeadm: "keeps R (kubeadmRun None args secrets)"
  unfolding kubeadmRun_def by (auto intro!: rules)

lemma expiry: "keeps R (tokenExpiry token)"
  unfolding tokenExpiry_def by (auto intro!: rules kubeadm)

lemma create: "keeps R (create_token env role hostname certKey)"
  unfolding create_token_def by (auto intro!: rules kubeadm expiry split: prod.splits)

lemma create_cp: "keeps R (create_cp_token env hostname)"
  unfolding create_cp_token_def by (auto intro!: rules kubeadm create split: prod.splits)

lemma create_handler: "keeps R (kubeTokenCreateHandler env r)"
  unfolding kubeTokenCreateHandler_def by (auto intro!: rules create create_cp split: option.splits list.splits)

lemma plain:
  assumes "plain_route rt"
  shows "keeps R (handler_of env r rt)"
  using assms create_handler
  by (cases rt) (auto intro!: rules kubeadm split: option.splits prod.splits list.splits bool.splits
      simp: stateHandler_def disksHandler_def versionsHandler_def networkHandler_def spaHandler_def jobHandler_def
        kubeTokenListHandler_def kubeTokenDeleteHandler_def rebootHandler_def Let_def)

end

lemma core_machine: "keeps (steady core) (on_machine m)"
  by (auto simp: keeps_def steady_def core_def on_machine_def split: prod.splits)

lemma core_index: "keeps (steady core) (cachedIndex cli base)"
  by (auto simp: keeps_def steady_def core_def cachedIndex_def split: option.splits sum.splits)

interpretation core: wiz_relation "steady core"
  by unfold_locales (auto intro: core_machine core_index)

lemma auths_jobs:
  "keeps (steady auths) (jobs_start raw kind owner d)" "keeps (steady auths) (on_job jid f)" "keeps (steady auths) (spawn jid todo)"
  "keeps (steady auths) (finish jid st message errMsg)" "keeps (steady auths) (to_phase jid ph)" "keeps (steady auths) (release_thread jid)"
  by (auto simp: keeps_def steady_def auths_def jobs_start_def on_job_def spawn_def finish_def to_phase_def release_thread_def
      jobs_release_def run_bind Let_def split: option.splits)

lemma auths_start: "(\<And>jid. keeps (steady auths) (prepare jid)) \<Longrightarrow> keeps (steady auths) (start_job env r kind prepare todo)"
  unfolding start_job_def by (auto intro!: wiz_intros auths_jobs)

lemma auths_install: "keeps (steady auths) (installHandler env r)"
  unfolding installHandler_def install_release_def setTotal_def
  by (auto intro!: wiz_intros auths_start auths_jobs core_auths [OF core_index] split: option.splits sum.splits prod.splits)

lemma auths_kube: "keeps (steady auths) (kubeInitHandler env r)" "keeps (steady auths) (kubeJoinHandler env r)"
  unfolding kubeInitHandler_def kubeJoinHandler_def
  by (auto intro!: wiz_intros auths_start split: option.splits sum.splits list.splits)

lemma auths_handler:
  assumes "rt \<noteq> PostLogin" "rt \<noteq> PostLogout"
  shows "keeps (steady auths) (handler_of env r rt)"
  using assms core.plain [of rt env r, THEN core_auths] auths_install auths_kube by (cases rt) auto

section \<open>Who may do what\<close>

definition authorised :: "wiz_env \<Rightarrow> wiz_request \<Rightarrow> wizard \<Rightarrow> bool" where
  "authorised env r w \<longleftrightarrow>
     (\<exists>tok exp. wr_cookie r = Some tok \<and> tok \<noteq> [] \<and> map_of (wz_sessions w) tok = Some exp \<and> wz_now w \<le> exp) \<and>
     (route_states (wr_route r) = [] \<or> detectWizardState w \<in> set (route_states (wr_route r))) \<and>
     (safe_method (wr_route r) \<or> sameOrigin env r)"

text \<open>The login by which a token comes into being.\<close>

definition login_accepted :: "wiz_env \<Rightarrow> wiz_request \<Rightarrow> wizard \<Rightarrow> string \<Rightarrow> bool" where
  "login_accepted env r w tok \<longleftrightarrow>
     wr_route r = PostLogin \<and> sameOrigin env r \<and> \<not> fst (run_state (denied (clientIP r)) w) \<and>
     (\<exists>pw bs. Option.bind (readJSON (wr_body r)) (string_members [''username'', ''password'']) = Some [''root'', pw] \<and>
        pw \<noteq> [] \<and> we_su env pw = Some True \<and> we_random env = Some bs \<and> tok = hex_encode bs)"

text \<open>Nothing but sessions and the limiter changes, and no session is new unless \<open>P\<close> says so.\<close>

definition only_auth :: "wizard \<Rightarrow> wizard \<Rightarrow> bool" where
  "only_auth w w' \<longleftrightarrow> w'\<lparr>wz_sessions := wz_sessions w, wz_limiter := wz_limiter w\<rparr> = w"

definition new_sessions :: "(string \<Rightarrow> bool) \<Rightarrow> wizard \<Rightarrow> wizard \<Rightarrow> bool" where
  "new_sessions P w w' \<longleftrightarrow> (\<forall>tok. map_of (wz_sessions w) tok = None \<longrightarrow> map_of (wz_sessions w') tok \<noteq> None \<longrightarrow> P tok)"

lemma only_auth_order [simp, intro]: "reflp only_auth" "transp only_auth"
proof -
  show "transp only_auth"
  proof (rule transpI)
    fix u v w assume "only_auth u v" "only_auth v w"
    then have "u = w\<lparr>wz_sessions := wz_sessions v, wz_limiter := wz_limiter v\<rparr>\<lparr>wz_sessions := wz_sessions u, wz_limiter := wz_limiter u\<rparr>"
      by (simp add: only_auth_def)
    then show "only_auth u w" by (simp add: only_auth_def)
  qed
qed (simp add: reflp_def only_auth_def)

lemma new_sessions_order [simp, intro]: "reflp (new_sessions P)" "transp (new_sessions P)"
  unfolding new_sessions_def by (auto intro!: reflpI transpI) (metis option.exhaust)

lemma auth_pieces:
  "keeps only_auth (session_valid tok)" "keeps only_auth (session_drop tok)" "keeps only_auth (denied ip)"
  "keeps only_auth (limiter_fail ip)" "keeps only_auth (limiter_reset ip)" "keeps only_auth (mint raw)"
  by (auto simp: keeps_def only_auth_def session_valid_def session_drop_def denied_def limiter_fail_def limiter_reset_def mint_def Let_def
      split: option.splits)

lemma session_pieces:
  "keeps (new_sessions P) (session_valid tok)" "keeps (new_sessions P) (session_drop tok)" "keeps (new_sessions P) (denied ip)"
  "keeps (new_sessions P) (limiter_fail ip)" "keeps (new_sessions P) (limiter_reset ip)"
  by (auto simp: keeps_def new_sessions_def session_valid_def session_drop_def denied_def limiter_fail_def limiter_reset_def Let_def
      update_conv' delete_conv' split: option.splits if_splits)

lemma map_of_purge: "map_of (purgeLocked now ss) tok \<noteq> None \<Longrightarrow> map_of ss tok \<noteq> None"
  by (induction ss) (auto simp: purgeLocked_def split: if_splits)

lemma session_mint: "P (hex_encode bs) \<Longrightarrow> keeps (new_sessions P) (mint (Some bs))"
  using map_of_purge by (fastforce simp: keeps_def new_sessions_def mint_def update_conv' Let_def split: if_splits)

lemma session_mint_none: "keeps (new_sessions P) (mint None)"
  by (simp add: keeps_def new_sessions_def mint_def)

lemma login_only_auth: "keeps only_auth (loginHandler env r)"
  unfolding loginHandler_def logged_in_def by (auto intro!: wiz_intros auth_pieces split: option.splits list.splits bool.splits)

lemma denied_auths: "run_state (denied ip) w = (b, v) \<Longrightarrow> new_sessions P w v"
  using session_pieces(3) [of P ip] by (auto dest: keepsD)

lemma login_sessions:
  assumes route: "wr_route r = PostLogin" and run: "run_state (loginHandler env r) w = (rep, w')"
  shows "new_sessions (login_accepted env r w) w w'"
proof -
  let ?P = "login_accepted env r w" and ?creds = "Option.bind (readJSON (wr_body r)) (string_members [''username'', ''password''])"
  have none: "new_sessions ?P w w"  by (simp add: new_sessions_def)
  show ?thesis
  proof (cases "sameOrigin env r \<and> (\<exists>user pw. ?creds = Some [user, pw])")
    case False
    then have "w' = w" using run by (auto simp: loginHandler_def split: option.splits list.splits if_splits)
    then show ?thesis using none by simp
  next
    case True
    then obtain user pw where c: "sameOrigin env r" "?creds = Some [user, pw]" by blast
    obtain b v where d: "run_state (denied (clientIP r)) w = (b, v)" by fastforce
    note first = denied_auths [OF d, of ?P]
    let ?rest = "if user \<noteq> ''root'' \<or> pw = [] then do { _ \<leftarrow> limiter_fail (clientIP r); apiError 401 ''invalid credentials'' }
      else (case we_su env pw of
            None \<Rightarrow> apiError 500 ''authentication unavailable''
          | Some False \<Rightarrow> do { _ \<leftarrow> limiter_fail (clientIP r); apiError 401 ''invalid credentials'' }
          | Some True \<Rightarrow> do { _ \<leftarrow> limiter_reset (clientIP r); logged_in env })"
    show ?thesis
    proof (cases b)
      case True
      then have "w' = v" using run c d by (simp add: loginHandler_def run_bind)
      then show ?thesis using first by simp
    next
      case False
      have r: "run_state ?rest v = (rep, w')" using run c d False by (simp add: loginHandler_def run_bind)
      have "keeps (new_sessions ?P) ?rest"
      proof (cases "user = ''root'' \<and> pw \<noteq> [] \<and> we_su env pw = Some True")
        case True
        have "keeps (new_sessions ?P) (mint (we_random env))"
        proof (cases "we_random env")
          case (Some bs)
          have "?P (hex_encode bs)" using True c d False route Some by (auto simp: login_accepted_def)
          then show ?thesis using session_mint Some by simp
        qed (simp add: session_mint_none)
        then have "keeps (new_sessions ?P) (do { _ \<leftarrow> limiter_reset (clientIP r); logged_in env })"
          unfolding logged_in_def by (auto intro!: wiz_intros session_pieces)
        then show ?thesis using True by simp
      next
        case False
        then show ?thesis by (auto intro!: wiz_intros session_pieces split: option.splits bool.splits)
      qed
      from transpD [OF new_sessions_order(2) first keepsD [OF this r]] show ?thesis .
    qed
  qed
qed


lemma only_auth_detect: "only_auth w v \<Longrightarrow> detectWizardState v = detectWizardState w"
  by (cases w; cases v) (simp add: only_auth_def detectWizardState_def)

text \<open>Past the checks: the request was authorised, and the handler ran.\<close>

lemma withSession_cases:
  assumes run: "run_state (withSession env states safe r next) w = (rep, w')"
  obtains (refused) "only_auth w w'" "new_sessions P w w'" "wp_code rep = 401 \<or> wp_code rep = 403"
  | (passed) v tok exp where "wr_cookie r = Some tok" "tok \<noteq> []" "map_of (wz_sessions w) tok = Some exp" "wz_now w \<le> exp"
      "states = [] \<or> detectWizardState w \<in> set states" "safe \<or> sameOrigin env r"
      "only_auth w v" "new_sessions P w v" "run_state next v = (rep, w')"
proof -
  let ?check = "case wr_cookie r of None \<Rightarrow> State_Monad.return False | Some c \<Rightarrow> session_valid c"
  obtain ok v where c: "run_state ?check w = (ok, v)" by fastforce
  have "keeps only_auth ?check" "keeps (new_sessions P) ?check"
    by (auto intro!: wiz_intros auth_pieces session_pieces)
  note v = keepsD [OF this(1) c] keepsD [OF this(2) c]
  have valid: "\<exists>tok exp. wr_cookie r = Some tok \<and> tok \<noteq> [] \<and> map_of (wz_sessions w) tok = Some exp \<and> wz_now w \<le> exp" if ok
  proof (cases "wr_cookie r")
    case (Some tok)
    then have "fst (run_state (session_valid tok) w)" using c that by simp
    then show ?thesis using Some by (auto simp: session_valid_iff)
  qed (use c that in simp)
  show thesis
  proof (cases "ok \<and> (states = [] \<or> detectWizardState v \<in> set states) \<and> (safe \<or> sameOrigin env r)")
    case False
    then have "w' = v" "wp_code rep = 401 \<or> wp_code rep = 403"
      using run c by (auto simp: withSession_def run_bind reply_with_def split: if_splits)
    then show thesis using refused v by simp
  next
    case True
    then have "run_state next v = (rep, w')" using run c by (auto simp: withSession_def run_bind split: if_splits)
    then show thesis using passed valid v True only_auth_detect [OF v(1)] by auto
  qed
qed

lemma open_only_auth: "open_route rt \<Longrightarrow> keeps only_auth (handler_of env r rt)"
  using login_only_auth by (cases rt) (auto intro!: wiz_intros simp: stateHandler_def spaHandler_def Let_def)

lemma auths_new_sessions: "keeps (steady auths) m \<Longrightarrow> keeps (new_sessions P) m"
  by (erule keeps_mono) (simp add: steady_def auths_def new_sessions_def)

lemma handler_sessions:
  assumes "wr_route r \<noteq> PostLogin"
  shows "keeps (new_sessions P) (handler_of env r (wr_route r))"
proof (cases "wr_route r = PostLogout")
  case True
  then show ?thesis by (auto simp: logoutHandler_def intro!: wiz_intros session_pieces)
next
  case False
  then show ?thesis using assms by (intro auths_new_sessions auths_handler)
qed

text \<open>C17: a request that is not on an open route changes the wizard, its jobs and its machine only if it comes with a
  live session, in a state its route is open in, and from the same origin if it could change anything;
  otherwise it is refused. Open routes change nothing but sessions and the limiter. A session comes
  into being only by a login of root whose password \<open>su\<close> has accepted and that the limiter let pass.\<close>

theorem wizard_guarded:
  assumes run: "run_state (wizardMux env r) w = (rep, w')"
  shows "(only_auth w w' \<and> (open_route (wr_route r) \<or> wp_code rep = 401 \<or> wp_code rep = 403) \<or>
      \<not> open_route (wr_route r) \<and> authorised env r w) \<and>
    new_sessions (login_accepted env r w) w w'"
proof (cases "open_route (wr_route r)")
  case True
  then have run: "run_state (handler_of env r (wr_route r)) w = (rep, w')" using run by (simp add: wizardMux_def)
  have "new_sessions (login_accepted env r w) w w'"
  proof (cases "wr_route r = PostLogin")
    case True
    then show ?thesis using login_sessions run by simp
  next
    case False
    then show ?thesis using keepsD [OF handler_sessions run] by simp
  qed
  then show ?thesis using keepsD [OF open_only_auth [OF True] run] True by simp
next
  case False
  then have run: "run_state (withSession env (route_states (wr_route r)) (safe_method (wr_route r)) r (handler_of env r (wr_route r))) w = (rep, w')"
    using run by (simp add: wizardMux_def Let_def)
  from run show ?thesis
  proof (cases rule: withSession_cases [where P = "login_accepted env r w"])
    case refused
    then show ?thesis by simp
  next
    case (passed v tok exp)
    have "wr_route r \<noteq> PostLogin" using False by auto
    from transpD [OF new_sessions_order(2) passed(8) keepsD [OF handler_sessions [OF this] passed(9)]] show ?thesis
      using passed False by (auto simp: authorised_def)
  qed
qed


section \<open>One destructive job at a time\<close>

definition running :: "wizard \<Rightarrow> string \<Rightarrow> bool" where
  "running w jid \<longleftrightarrow> (\<exists>j. map_of (wz_jobs w) jid = Some j \<and> wj_status j = JobRunning)"

text \<open>Cached indexes have been verified when they were fetched.\<close>

definition index_sound :: "wizard \<Rightarrow> bool" where
  "index_sound w \<longleftrightarrow> (\<forall>base t sums. map_of (wz_index w) base = Some (t, sums) \<longrightarrow> (\<exists>cli. fetchIndexChecked cli base [] = Inr sums))"

text \<open>What a job may be about: a disk that was found idle and an image of a verified index, or a join
  configuration that was validated.\<close>

fun work_sound :: "work \<Rightarrow> bool" where
  "work_sound (Install_work ij) \<longleftrightarrow>
     (\<exists>ie. idle_disk ie (ij_target ij)) \<and>
     (\<exists>cli sums. fetchIndexChecked cli (ij_base ij) [] = Inr sums \<and> (\<exists>flavor want. selectInstallRelease sums flavor want = Some (ij_ts ij, ij_file ij, ij_sum ij)))"
| "work_sound (Init_work addr hostname) \<longleftrightarrow> reHostname hostname"
| "work_sound (Join_work jc) \<longleftrightarrow> (\<exists>lookup. join_valid lookup jc = Inr ())"

definition jobs_inv :: "wizard \<Rightarrow> bool" where
  "jobs_inv w \<longleftrightarrow>
     List.length (wz_threads w) \<le> 1 \<and> (wz_busy w \<longleftrightarrow> wz_threads w \<noteq> []) \<and>
     (\<forall>jid. running w jid \<longleftrightarrow> (\<exists>todo ph. (jid, todo, ph) \<in> set (wz_threads w) \<and> ph \<noteq> Releasing)) \<and>
     (\<forall>(jid, todo, ph) \<in> set (wz_threads w). work_sound todo) \<and>
     distinct (map fst (wz_jobs w)) \<and> index_sound w"

text \<open>What the steps within a phase keep.\<close>

definition calm :: "wizard \<Rightarrow> wizard \<Rightarrow> bool" where
  "calm w w' \<longleftrightarrow> wz_threads w' = wz_threads w \<and> wz_busy w' = wz_busy w \<and> wz_index w' = wz_index w \<and>
     map fst (wz_jobs w') = map fst (wz_jobs w) \<and> running w' = running w"

lemma calm_order [simp, intro]: "reflp calm" "transp calm"
  by (auto simp: calm_def reflp_def transp_def)

lemma calm_inv: "calm w w' \<Longrightarrow> jobs_inv w \<Longrightarrow> jobs_inv w'"
  by (simp add: calm_def jobs_inv_def index_sound_def)

lemma map_entry_keys: "map fst (AList.map_entry k f xs) = map fst xs"
  by (induction xs) auto

lemma running_entry:
  assumes "\<And>j. wj_status (f j) = wj_status j"
  shows "running (w\<lparr>wz_jobs := AList.map_entry jid f (wz_jobs w)\<rparr>) = running w"
  using assms by (auto simp: running_def map_of_map_entry fun_eq_iff split: option.splits)

lemma calm_on_job: "(\<And>j. wj_status (f j) = wj_status j) \<Longrightarrow> keeps calm (on_job jid f)"
  using running_entry [of f] by (simp add: keeps_def calm_def on_job_def map_entry_keys)

lemma calm_pieces [wiz_intros]:
  "keeps calm (say jid line)" "keeps calm (setTotal jid n)" "keeps calm (job_report jid down written)" "keeps calm (on_machine m)"
proof -
  show "keeps calm (say jid line)" "keeps calm (setTotal jid n)" "keeps calm (job_report jid down written)"
    unfolding say_def setTotal_def job_report_def by (rule calm_on_job; simp)+
  show "keeps calm (on_machine m)"
    by (auto simp: keeps_def calm_def on_machine_def running_def fun_eq_iff split: prod.splits)
qed

lemma calm_say_lines [wiz_intros]: "keeps calm (say_lines jid ls)"
  by (induction ls) (auto intro!: wiz_intros)

lemma calm_kubeadm [wiz_intros]: "keeps calm (kubeadmRun job args secrets)"
  unfolding kubeadmRun_def by (auto intro!: wiz_intros)

lemma calm_hosts [wiz_intros]: "keeps calm (write_hosts content)"
  unfolding write_hosts_def
  by (auto intro!: keeps_bind calm_pieces) (auto simp: keeps_def calm_def running_def fun_eq_iff split: io_event.splits)

lemma calm_hostname [wiz_intros]: "keeps calm (applyHostname hostname)"
  unfolding applyHostname_def by (auto intro!: wiz_intros)

lemma calm_runtimes [wiz_intros]: "keeps calm ensureRuntimes"
  unfolding ensureRuntimes_def by (auto intro!: wiz_intros)

lemma calm_scratch [wiz_intros]: "keeps calm (scratch_config env config)"
  unfolding scratch_config_def by (auto intro!: wiz_intros)


lemma map_of_filter_values:
  "distinct (map fst xs) \<Longrightarrow> map_of (List.filter (\<lambda>(_, v). P v) xs) k = (case map_of xs k of Some v \<Rightarrow> if P v then Some v else None | None \<Rightarrow> None)"
proof (induction xs)
  case (Cons x xs)
  then have "map_of (List.filter (\<lambda>(_, v). P v) xs) (fst x) = None"
    unfolding map_of_eq_None_iff by auto
  with Cons show ?case by (cases x) (auto split: option.splits)
qed simp

lemma distinct_filter_keys: "distinct (map fst xs) \<Longrightarrow> distinct (map fst (List.filter P xs))"
  by (simp add: distinct_map_filter)

text \<open>A job starts only when none is under way.\<close>

lemma start_inv:
  assumes inv: "jobs_inv w" and sound: "work_sound todo" and prepare: "\<And>jid. keeps calm (prepare jid)"
    and run: "run_state (start_job env r kind prepare todo) w = (rep, w')"
  shows "jobs_inv w'"
proof (cases "we_random env = None \<or> wz_busy w")
  case True
  then have "w' = w" using run by (auto simp: start_job_def run_bind jobs_start_def split: option.splits)
  then show ?thesis using inv by simp
next
  case False
  then obtain bs where bs: "we_random env = Some bs" "\<not> wz_busy w" by auto
  define jid where "jid = hex_encode bs"
  obtain j w1 where start: "run_state (jobs_start (Some bs) kind (owner_of r) True) w = (Some jid, w1)"
    and w1: "w1 = w\<lparr>wz_busy := True, wz_jobs := List.filter (\<lambda>(_, old). \<not> retired (wz_now w) old) (AList.update jid j (wz_jobs w))\<rparr>"
    and j: "wj_status j = JobRunning"
    using bs(2) by (simp add: jobs_start_def Let_def jid_def)
  have none: "wz_threads w = []" "\<not> running w k" for k using inv bs(2) by (auto simp: jobs_inv_def)
  have d: "distinct (map fst (wz_jobs w))" using inv by (simp add: jobs_inv_def)
  then have d': "distinct (map fst (AList.update jid j (wz_jobs w)))" by (simp add: distinct_update)
  have "running w1 k \<longleftrightarrow> k = jid" for k
    using none(2) [of k] j unfolding running_def w1
    by (auto simp: map_of_filter_values [OF d'] update_conv' retired_def split: option.splits if_splits)
  moreover obtain w2 where prep: "run_state (prepare jid) w1 = ((), w2)" by (cases "run_state (prepare jid) w1") simp
  moreover have "calm w1 w2" using keepsD [OF prepare prep] .
  moreover have "w' = w2\<lparr>wz_threads := wz_threads w2 @ [(jid, todo, Phase1)]\<rparr>"
    using run start prep bs(1) by (simp add: start_job_def run_bind spawn_def)
  moreover have "running (w2\<lparr>wz_threads := ts\<rparr>) = running w2" "index_sound (w2\<lparr>wz_threads := ts\<rparr>) = index_sound w2" for ts
    by (simp_all add: running_def fun_eq_iff index_sound_def)
  moreover have "index_sound w1 = index_sound w" "wz_index w1 = wz_index w" "wz_threads w1 = []" "wz_busy w1" "distinct (map fst (wz_jobs w1))"
    using none(1) distinct_filter_keys [OF d'] by (simp_all add: w1 index_sound_def)
  ultimately show ?thesis using inv sound unfolding jobs_inv_def calm_def by (auto simp: index_sound_def)
qed

text \<open>What the other handlers keep.\<close>

definition idle_step :: "wizard \<Rightarrow> wizard \<Rightarrow> bool" where
  "idle_step w w' \<longleftrightarrow> wz_jobs w' = wz_jobs w \<and> wz_busy w' = wz_busy w \<and> wz_threads w' = wz_threads w \<and> (index_sound w \<longrightarrow> index_sound w')"

lemma idle_order [simp, intro]: "reflp idle_step" "transp idle_step"
  by (auto simp: idle_step_def reflp_def transp_def)

lemma idle_inv:
  assumes "idle_step w w'" "jobs_inv w"
  shows "jobs_inv w'"
proof -
  have "running w' = running w" using assms(1) by (simp add: running_def fun_eq_iff idle_step_def)
  then show ?thesis using assms by (simp add: jobs_inv_def idle_step_def)
qed

lemma idle_auth: "only_auth w w' \<Longrightarrow> idle_step w w'"
  by (cases w; cases w') (simp add: only_auth_def idle_step_def index_sound_def)

lemma idle_index: "keeps idle_step (cachedIndex cli base)"
  by (auto simp: keeps_def idle_step_def cachedIndex_def index_sound_def update_conv' split: option.splits sum.splits)

lemma idle_machine: "keeps idle_step (on_machine m)"
  by (auto simp: keeps_def idle_step_def on_machine_def index_sound_def split: prod.splits)

interpretation idle: wiz_relation idle_step
  by unfold_locales (auto intro: idle_machine idle_index)

lemma cached_sound:
  assumes "run_state (cachedIndex cli base) w = (Inr sums, v)" "index_sound w"
  shows "\<exists>cli. fetchIndexChecked cli base [] = Inr sums"
  using assms by (fastforce simp: cachedIndex_def index_sound_def split: option.splits sum.splits if_splits)

lemma install_release_inv:
  assumes inv: "jobs_inv w" and idle: "idle_disk ie target"
    and run: "run_state (install_release env r req target hash keys config) w = (rep, w')"
  shows "jobs_inv w'"
proof -
  let ?base = "channel_base (ir_Channel req)"
  obtain got v where g: "run_state (cachedIndex (ie_cli (we_install env)) ?base) w = (got, v)" by fastforce
  have v: "jobs_inv v" using idle_inv [OF keepsD [OF idle_index g] inv] .
  show ?thesis
  proof (cases got)
    case (Inl e)
    then show ?thesis using run v g by (simp add: install_release_def run_bind)
  next
    case (Inr sums)
    have s: "\<exists>cli. fetchIndexChecked cli ?base [] = Inr sums" using cached_sound g inv Inr by (auto simp: jobs_inv_def)
    show ?thesis
    proof (cases "\<exists>flavor. wizardFlavor env = Some flavor \<and> selectInstallRelease sums flavor (normalizeTS (ir_TS req)) \<noteq> None")
      case False
      then show ?thesis using run v g Inr by (auto simp: install_release_def run_bind split: option.splits)
    next
      case True
      then obtain flavor ts img csum where f: "wizardFlavor env = Some flavor"
        "selectInstallRelease sums flavor (normalizeTS (ir_TS req)) = Some (ts, img, csum)" by auto
      let ?ij = "\<lparr> ij_target = target, ij_base = ?base, ij_file = img, ij_sum = csum, ij_ts = ts, ij_config = config, ij_hash = hash, ij_keys = keys \<rparr>"
      have ws: "work_sound (Install_work ?ij)" using idle s f(2) by auto
      have st: "run_state (start_job env r ''install'' (\<lambda>jid. setTotal jid (max 0 (we_length env (?base @ ''/'' @ img)))) (Install_work ?ij)) v = (rep, w')"
        using run g Inr f by (simp add: install_release_def run_bind)
      show ?thesis by (rule start_inv [OF v ws calm_pieces(2) st])
    qed
  qed
qed

lemma install_inv:
  assumes inv: "jobs_inv w" and run: "run_state (installHandler env r) w = (rep, w')"
  shows "jobs_inv w'"
proof (cases "\<exists>req hash keys config target base sz. Option.bind (readJSON (wr_body r)) decode_install = Some req \<and>
    parseInstallRequest (we_install env) req = Inr (hash, keys, config) \<and>
    validateInstallTarget (we_install env) (ir_Device req) = Inr (target, base) \<and>
    installTargetSize (we_install env) base = Some sz \<and> \<not> sz < installSizeFloor")
  case False
  then have "w' = w" using run by (auto simp: installHandler_def split: option.splits sum.splits prod.splits if_splits)
  then show ?thesis using inv by simp
next
  case True
  then obtain req hash keys config target base sz where t: "Option.bind (readJSON (wr_body r)) decode_install = Some req"
    "parseInstallRequest (we_install env) req = Inr (hash, keys, config)"
    "validateInstallTarget (we_install env) (ir_Device req) = Inr (target, base)"
    "installTargetSize (we_install env) base = Some sz" "\<not> sz < installSizeFloor" by blast
  then have "install_target (we_install env) (ir_Device req) = Inr target" by (simp add: install_target_def)
  then have "idle_disk (we_install env) target" by (rule install_target_idle)
  moreover have "run_state (install_release env r req target hash keys config) w = (rep, w')"
    using run t by (simp add: installHandler_def)
  ultimately show ?thesis using install_release_inv inv by blast
qed

lemma init_inv:
  assumes inv: "jobs_inv w" and run: "run_state (kubeInitHandler env r) w = (rep, w')"
  shows "jobs_inv w'"
proof -
  have start: "reHostname hostname \<Longrightarrow> run_state (start_job env r ''init'' (\<lambda>_. State_Monad.return ()) (Init_work addr hostname)) w = (rep, w') \<Longrightarrow> jobs_inv w'"
    for addr hostname
    using start_inv [OF inv, of "Init_work addr hostname" "\<lambda>_. State_Monad.return ()" env r "''init''" rep w']
    by (auto intro!: wiz_intros)
  show ?thesis using run inv start unfolding kubeInitHandler_def by (auto split: option.splits list.splits if_splits)
qed

lemma parsed_valid: "parseJoinConfig lookup raw = Inr jc \<Longrightarrow> join_valid lookup jc = Inr ()"
  by (auto simp: parseJoinConfig_def split: option.splits sum.splits)

lemma join_inv:
  assumes inv: "jobs_inv w" and run: "run_state (kubeJoinHandler env r) w = (rep, w')"
  shows "jobs_inv w'"
proof -
  have start: "parseJoinConfig (we_lookup env) raw = Inr jc \<Longrightarrow>
      run_state (start_job env r ''join'' (\<lambda>_. State_Monad.return ()) (Join_work jc)) w = (rep, w') \<Longrightarrow> jobs_inv w'" for raw jc
    using start_inv [OF inv, of "Join_work jc" "\<lambda>_. State_Monad.return ()" env r "''join''" rep w'] parsed_valid
    by (auto intro!: wiz_intros)
  show ?thesis using run inv start unfolding kubeJoinHandler_def by (auto split: option.splits list.splits sum.splits)
qed

lemma serve_inv:
  assumes inv: "jobs_inv w" and run: "run_state (wizardMux env r) w = (rep, w')"
  shows "jobs_inv w'"
proof (cases "open_route (wr_route r)")
  case True
  then have "run_state (handler_of env r (wr_route r)) w = (rep, w')" using run by (simp add: wizardMux_def)
  from keepsD [OF open_only_auth [OF True] this] show ?thesis using idle_auth idle_inv inv by blast
next
  case False
  then have "run_state (withSession env (route_states (wr_route r)) (safe_method (wr_route r)) r (handler_of env r (wr_route r))) w = (rep, w')"
    using run by (simp add: wizardMux_def Let_def)
  then show ?thesis
  proof (cases rule: withSession_cases [where P = "\<lambda>_. True"])
    case refused
    then show ?thesis using idle_auth idle_inv inv by blast
  next
    case (passed v tok exp)
    have v: "jobs_inv v" using idle_auth [OF passed(7)] idle_inv inv by blast
    consider "plain_route (wr_route r)" | "wr_route r = PostLogout" | "wr_route r = PostInstall" | "wr_route r = PostInit" | "wr_route r = PostJoin"
      using False by (cases "wr_route r") auto
    then show ?thesis
    proof cases
      case 1
      then show ?thesis using keepsD [OF idle.plain passed(9)] idle_inv v by blast
    next
      case 2
      have "keeps only_auth (logoutHandler r)" unfolding logoutHandler_def by (auto intro!: wiz_intros auth_pieces)
      then have "only_auth v w'" using passed(9) 2 by (auto dest: keepsD)
      then show ?thesis using idle_auth idle_inv v by blast
    next
      case 3
      then have "run_state (installHandler env r) v = (rep, w')" using passed(9) by simp
      then show ?thesis by (rule install_inv [OF v])
    next
      case 4
      then have "run_state (kubeInitHandler env r) v = (rep, w')" using passed(9) by simp
      then show ?thesis by (rule init_inv [OF v])
    next
      case 5
      then have "run_state (kubeJoinHandler env r) v = (rep, w')" using passed(9) by simp
      then show ?thesis by (rule join_inv [OF v])
    qed
  qed
qed

section \<open>The goroutine that holds the job\<close>

definition lands :: "string \<Rightarrow> 'a wiz_op \<Rightarrow> bool" where
  "lands jid m \<longleftrightarrow> (\<forall>w todo ph x w'. jobs_inv w \<longrightarrow> wz_threads w = [(jid, todo, ph)] \<longrightarrow> ph \<noteq> Releasing \<longrightarrow>
     run_state m w = (x, w') \<longrightarrow> jobs_inv w')"

lemma lands_bind:
  assumes "keeps calm m" "\<And>x. lands jid (k x)"
  shows "lands jid (State_Monad.bind m k)"
  unfolding lands_def
proof (intro allI impI)
  fix w todo ph x w'
  assume w: "jobs_inv w" "wz_threads w = [(jid, todo, ph)]" "ph \<noteq> Releasing" and run: "run_state (State_Monad.bind m k) w = (x, w')"
  obtain y v where m: "run_state m w = (y, v)" by fastforce
  have "calm w v" using keepsD [OF assms(1) m] .
  then have "jobs_inv v" "wz_threads v = [(jid, todo, ph)]" using calm_inv [OF _ w(1)] w(2) by (simp_all add: calm_def)
  then show "jobs_inv w'" using assms(2) [of y] w(3) run m by (auto simp: lands_def run_bind)
qed

lemma lands_return: "lands jid (State_Monad.return x)"
  by (simp add: lands_def)

lemma lands_if: "lands jid m \<Longrightarrow> lands jid n \<Longrightarrow> lands jid (if b then m else n)"
  by simp

lemma lands_to_phase:
  assumes "ph' \<noteq> Releasing"
  shows "lands jid (to_phase jid ph')"
proof -
  have "jobs_inv (w\<lparr>wz_threads := [(jid, todo, ph')]\<rparr>)"
    if "jobs_inv w" "wz_threads w = [(jid, todo, ph)]" "ph \<noteq> Releasing" for w todo ph
  proof -
    have "running (w\<lparr>wz_threads := [(jid, todo, ph')]\<rparr>) = running w" by (simp add: running_def fun_eq_iff)
    then show ?thesis using that assms by (auto simp: jobs_inv_def index_sound_def)
  qed
  then show ?thesis by (auto simp: lands_def to_phase_def)
qed

lemma finished_inv:
  assumes "jobs_inv w" "wz_threads w = [(jid, todo, ph)]" "st \<noteq> JobRunning"
    and "run_state (do { _ \<leftarrow> finish jid st message errMsg; to_phase jid Releasing }) w = (x, w')"
  shows "jobs_inv w'"
proof -
  have w': "w' = w\<lparr>wz_jobs := AList.map_entry jid (\<lambda>j. j\<lparr>wj_status := st, wj_message := message, wj_error := errMsg, wj_finished := wz_now w\<rparr>) (wz_jobs w),
      wz_threads := [(jid, todo, Releasing)]\<rparr>"
    using assms(2,4) by (simp add: run_bind finish_def to_phase_def)
  have "\<not> running w' k" for k
  proof (cases "k = jid")
    case True
    then show ?thesis using assms(3) by (auto simp: w' running_def map_of_map_entry split: option.splits)
  next
    case False
    then have "\<not> running w k" using assms(1,2) by (auto simp: jobs_inv_def)
    then show ?thesis using False by (auto simp: w' running_def map_of_map_entry split: option.splits)
  qed
  then show ?thesis using assms(1,2) by (auto simp: jobs_inv_def w' map_entry_keys index_sound_def)
qed

lemma lands_finished: "lands jid (fail_job jid errMsg)" "lands jid (done_job jid message)"
  unfolding lands_def fail_job_def done_job_def using finished_inv by blast+

lemma lands_install: "lands jid (runInstallJob env jid ij ph)"
  unfolding runInstallJob_def
  by (auto intro!: lands_bind lands_finished lands_to_phase lands_return calm_pieces calm_scratch
      split: phase.splits sum.splits option.splits)

lemma lands_kube: "lands jid (runKubeJob jid hostname args secrets failure message ph)"
  unfolding runKubeJob_def
  by (auto intro!: lands_bind lands_finished lands_to_phase lands_return calm_pieces calm_hostname calm_runtimes calm_kubeadm
      split: phase.splits sum.splits option.splits)

lemma one_thread: "jobs_inv w \<Longrightarrow> t \<in> set (wz_threads w) \<Longrightarrow> wz_threads w = [t]"
  by (cases "wz_threads w"; cases "tl (wz_threads w)") (auto simp: jobs_inv_def)

lemma advance_inv:
  assumes inv: "jobs_inv w" and t: "(jid, todo, ph) \<in> set (wz_threads w)"
    and run: "run_state (thread_step env jid todo ph) w = ((), w')"
  shows "jobs_inv w'"
proof (cases "ph = Releasing")
  case True
  have th: "wz_threads w = [(jid, todo, Releasing)]" using one_thread [OF inv t] True by simp
  have w': "w' = w\<lparr>wz_busy := False, wz_threads := []\<rparr>"
    using run True th by (simp add: thread_step_def release_thread_def jobs_release_def run_bind)
  have "running w' = running w" by (simp add: w' running_def fun_eq_iff)
  then show ?thesis using inv th by (auto simp: jobs_inv_def w' index_sound_def)
next
  case False
  have "lands jid (thread_step env jid todo ph)"
    using False lands_install lands_kube
    by (cases todo) (auto simp: thread_step_def runInitJob_def runJoinJob_def)
  then show ?thesis using inv one_thread [OF inv t] False run by (auto simp: lands_def)
qed

section \<open>Disks\<close>

text \<open>At most these disks change.\<close>

definition spares :: "string set \<Rightarrow> wizard \<Rightarrow> wizard \<Rightarrow> bool" where
  "spares D w w' \<longleftrightarrow> (\<forall>d. d \<notin> D \<longrightarrow> map_of (is_disks (wz_machine w')) d = map_of (is_disks (wz_machine w)) d)"

lemma spares_order [simp, intro]: "reflp (spares D)" "transp (spares D)"
  by (auto simp: spares_def reflp_def transp_def)

lemma spares_machine: "keeps (touches t) m \<Longrightarrow> keeps (spares {t}) (on_machine m)"
  by (auto simp: keeps_def spares_def on_machine_def touches_def split: prod.splits) (metis snd_conv)

lemma spares_quiet: "keeps settled m \<Longrightarrow> keeps (spares D) (on_machine m)"
  by (auto simp: keeps_def spares_def on_machine_def settled_def split: prod.splits) (metis snd_conv)

lemma spares_index: "keeps (spares D) (cachedIndex cli base)"
  by (auto simp: keeps_def spares_def cachedIndex_def split: option.splits sum.splits)

interpretation spare: wiz_relation "spares D"
  by unfold_locales (auto intro!: spares_quiet spares_index settled_command)

lemma spares_memory:
  "keeps (spares D) (jobs_start raw kind owner d)" "keeps (spares D) (on_job jid f)" "keeps (spares D) (spawn jid todo)"
  "keeps (spares D) (finish jid st message errMsg)" "keeps (spares D) (to_phase jid ph)" "keeps (spares D) (release_thread jid)"
  by (auto simp: keeps_def spares_def jobs_start_def on_job_def spawn_def finish_def to_phase_def release_thread_def
      jobs_release_def run_bind Let_def split: option.splits)

lemma spares_auth: "only_auth w w' \<Longrightarrow> spares D w w'"
  by (cases w; cases w') (simp add: only_auth_def spares_def)

lemma spares_start: "(\<And>jid. keeps (spares D) (prepare jid)) \<Longrightarrow> keeps (spares D) (start_job env r kind prepare todo)"
  unfolding start_job_def by (auto intro!: wiz_intros spares_memory)

lemma spares_jobs:
  "keeps (spares D) (installHandler env r)" "keeps (spares D) (kubeInitHandler env r)" "keeps (spares D) (kubeJoinHandler env r)"
  unfolding installHandler_def install_release_def setTotal_def kubeInitHandler_def kubeJoinHandler_def
  by (auto intro!: wiz_intros spares_start spares_memory spares_index split: option.splits sum.splits prod.splits list.splits)

lemma spares_protected:
  assumes "\<not> open_route (wr_route r)"
  shows "keeps (spares D) (handler_of env r (wr_route r))"
proof -
  have "keeps (spares D) (logoutHandler r)"
    unfolding logoutHandler_def by (auto intro!: wiz_intros keeps_mono [OF auth_pieces(2) spares_auth])
  then show ?thesis using assms spare.plain [of "wr_route r" D env r] spares_jobs by (cases "wr_route r") auto
qed

lemma serve_spares:
  assumes "run_state (wizardMux env r) w = (rep, w')"
  shows "spares D w w'"
proof (cases "open_route (wr_route r)")
  case True
  then have "run_state (handler_of env r (wr_route r)) w = (rep, w')" using assms by (simp add: wizardMux_def)
  from keepsD [OF open_only_auth [OF True] this] show ?thesis by (rule spares_auth)
next
  case False
  then have "run_state (withSession env (route_states (wr_route r)) (safe_method (wr_route r)) r (handler_of env r (wr_route r))) w = (rep, w')"
    using assms by (simp add: wizardMux_def Let_def)
  then show ?thesis
  proof (cases rule: withSession_cases [where P = "\<lambda>_. True"])
    case refused
    then show ?thesis by (intro spares_auth)
  next
    case (passed v tok exp)
    from transpD [OF spares_order(2) spares_auth [OF passed(7)] keepsD [OF spares_protected [OF False] passed(9)]] show ?thesis .
  qed
qed

lemma spares_say: "keeps (spares D) (say jid line)" "keeps (spares D) (say_lines jid ls)"
proof -
  show s: "keeps (spares D) (say jid line)" for line unfolding say_def by (rule spares_memory)
  show "keeps (spares D) (say_lines jid ls)" by (induction ls) (auto intro!: wiz_intros s)
qed

lemma spares_ends: "keeps (spares D) (fail_job jid errMsg)" "keeps (spares D) (done_job jid message)"
  unfolding fail_job_def done_job_def by (auto intro!: wiz_intros spares_memory)

lemma spares_install: "keeps (spares {ij_target ij}) (runInstallJob env jid ij ph)"
  unfolding runInstallJob_def scratch_config_def
  by (auto intro!: wiz_intros spares_ends spares_memory spares_say spares_machine touches_parts touches_io
      split: phase.splits sum.splits option.splits)

lemma spares_hosts: "keeps (spares D) (write_hosts content)"
proof -
  have "keeps (spares D) (State (\<lambda>w. case ev of
         Io_ok \<Rightarrow> (True, w\<lparr>wz_hosts := Some content\<rparr>)
       | Io_fail \<Rightarrow> (False, w)
       | Io_torn n \<Rightarrow> (False, w\<lparr>wz_hosts := Some (take n content)\<rparr>)))" for ev
    by (auto simp: keeps_def spares_def split: io_event.split)
  then show ?thesis unfolding write_hosts_def by (auto intro!: wiz_intros spares_quiet settled_event)
qed

lemma spares_kube: "keeps (spares D) (runKubeJob jid hostname args secrets failure message ph)"
  unfolding runKubeJob_def applyHostname_def ensureRuntimes_def kubeadmRun_def
  by (auto intro!: wiz_intros spares_ends spares_memory spares_say spares_hosts spares_quiet settled_command settled_event
      split: phase.splits sum.splits option.splits)

lemma advance_spares:
  assumes "run_state (thread_step env jid todo ph) w = (x, w')"
  shows "spares {d. \<exists>ij. todo = Install_work ij \<and> ij_target ij = d} w w'"
proof -
  let ?D = "{d. \<exists>ij. todo = Install_work ij \<and> ij_target ij = d}"
  have "keeps (spares ?D) (thread_step env jid todo ph)"
  proof (cases todo)
    case (Install_work ij)
    then have "?D = {ij_target ij}" by auto
    then show ?thesis using Install_work spares_install [of ij env jid ph] spares_memory(6) by (simp add: thread_step_def)
  qed (simp_all add: thread_step_def runInitJob_def runJoinJob_def spares_kube spares_memory)
  then show ?thesis using assms by (auto dest: keepsD)
qed

lemma run_inv: "wizard_run w \<Longrightarrow> jobs_inv w"
proof (induction rule: wizard_run.induct)
  case (1 w)
  then show ?case by (simp add: wizard_started_def jobs_inv_def running_def index_sound_def)
next
  case (2 w w')
  from \<open>wiz_step w w'\<close> show ?case
  proof cases
    case (Serve env r rep)
    then show ?thesis using serve_inv 2 by blast
  next
    case (Advance jid todo ph env)
    then show ?thesis using advance_inv 2 by blast
  next
    case (Report jid ij down written)
    then show ?thesis using calm_inv keepsD [OF calm_pieces(3)] 2 by blast
  next
    case (Elapse t)
    then have "calm w w'" by (simp add: calm_def running_def fun_eq_iff)
    then show ?thesis using calm_inv 2 by blast
  next
    case (Outside m hosts y k a)
    then have "calm w w'" by (simp add: calm_def running_def fun_eq_iff)
    then show ?thesis using calm_inv 2 by blast
  qed
qed

text \<open>C18: however requests, goroutines, time and changes of the node interleave, at most one job is under way, the
  wizard is busy exactly while its goroutine is, and a job is reported as running exactly as long as
  that goroutine has not come to its end. It installs an image of an index that was verified onto a
  disk that was found idle and large enough, or runs with a validated name or join configuration.\<close>

theorem one_destructive_job:
  assumes "wizard_run w"
  shows "List.length (wz_threads w) \<le> 1 \<and> (wz_busy w \<longleftrightarrow> wz_threads w \<noteq> []) \<and>
     (\<forall>jid. running w jid \<longleftrightarrow> (\<exists>todo ph. (jid, todo, ph) \<in> set (wz_threads w) \<and> ph \<noteq> Releasing)) \<and>
     (\<forall>(jid, todo, ph) \<in> set (wz_threads w). work_sound todo)"
  using run_inv [OF assms] by (simp add: jobs_inv_def)



section \<open>The log of a join\<close>

text \<open>Every new line satisfies \<open>P\<close>.\<close>

definition logs_only :: "(string \<Rightarrow> bool) \<Rightarrow> wizard \<Rightarrow> wizard \<Rightarrow> bool" where
  "logs_only P w w' \<longleftrightarrow> (\<forall>jid j' l. map_of (wz_jobs w') jid = Some j' \<longrightarrow> l \<in> set (wj_log j') \<longrightarrow>
     P l \<or> (\<exists>j. map_of (wz_jobs w) jid = Some j \<and> l \<in> set (wj_log j)))"

lemma logs_order [simp, intro]: "reflp (logs_only P)" "transp (logs_only P)"
proof -
  show "transp (logs_only P)"
    by (rule transpI) (unfold logs_only_def, blast)
qed (simp add: reflp_def logs_only_def)

lemma logs_on_job:
  assumes "\<And>j. set (wj_log (f j)) \<subseteq> set (wj_log j) \<union> {l. P l}"
  shows "keeps (logs_only P) (on_job jid f)"
  using assms by (fastforce simp: keeps_def logs_only_def on_job_def map_of_map_entry split: option.splits if_splits)

lemma logs_same: "(\<And>w. wz_jobs (snd (run_state m w)) = wz_jobs w) \<Longrightarrow> keeps (logs_only P) m"
  by (auto simp: keeps_def logs_only_def)

lemma logs_pieces:
  "keeps (logs_only P) (on_machine m)" "keeps (logs_only P) (to_phase jid ph)" "keeps (logs_only P) (release_thread jid)"
  by (rule logs_same; simp add: on_machine_def to_phase_def release_thread_def jobs_release_def run_bind split: prod.split)+

lemma logs_finish: "keeps (logs_only P) (finish jid st message errMsg)"
  by (fastforce simp: keeps_def logs_only_def finish_def map_of_map_entry split: option.splits if_splits)

lemma logs_say: "P line \<Longrightarrow> keeps (logs_only P) (say jid line)"
  unfolding say_def by (rule logs_on_job) auto

lemma logs_say_lines: "list_all P ls \<Longrightarrow> keeps (logs_only P) (say_lines jid ls)"
  by (induction ls) (auto intro!: wiz_intros logs_say)

lemma logs_ends: "keeps (logs_only P) (fail_job jid errMsg)" "keeps (logs_only P) (done_job jid message)"
  unfolding fail_job_def done_job_def by (auto intro!: wiz_intros logs_finish logs_pieces)

lemma logs_hosts: "keeps (logs_only P) (write_hosts content)"
proof -
  have "keeps (logs_only P) (State (\<lambda>w. case ev of
         Io_ok \<Rightarrow> (True, w\<lparr>wz_hosts := Some content\<rparr>)
       | Io_fail \<Rightarrow> (False, w)
       | Io_torn n \<Rightarrow> (False, w\<lparr>wz_hosts := Some (take n content)\<rparr>)))" for ev
    by (rule logs_same) (simp split: io_event.split)
  then show ?thesis unfolding write_hosts_def by (auto intro!: wiz_intros logs_pieces)
qed

lemma logs_kube:
  assumes "P (''setting hostname to '' @ hostname)" "\<And>text. P (maskSecrets text secrets)"
  shows "keeps (logs_only P) (runKubeJob jid hostname args secrets failure message ph)"
proof -
  have "list_all P (masked_lines secrets ls)" for ls using assms(2) by (auto simp: masked_lines_def list_all_iff)
  then have "keeps (logs_only P) (kubeadmRun (Some jid) args secrets)"
    unfolding kubeadmRun_def by (auto intro!: wiz_intros logs_pieces logs_say_lines)
  then show ?thesis
    unfolding runKubeJob_def applyHostname_def ensureRuntimes_def
    by (auto intro!: wiz_intros logs_ends logs_pieces logs_hosts logs_say assms(1) [simplified] split: phase.splits sum.splits option.splits)
qed

definition hides :: "joinConfig \<Rightarrow> string \<Rightarrow> bool" where
  "hides jc line \<longleftrightarrow> \<not> sublist (Token jc) line \<and> \<not> sublist (CACertHash jc) line \<and>
     (CertificateKey jc \<noteq> [] \<longrightarrow> \<not> sublist (CertificateKey jc) line)"

lemma sublist_word:
  assumes "CHR '' '' \<notin> set k" "sublist k (u @ CHR '' '' # v)"
  shows "sublist k u \<or> sublist k v"
proof -
  have "sublist k u \<or> sublist k (CHR '' '' # v) \<or> (\<exists>a b. k = a @ b \<and> suffix a u \<and> prefix b (CHR '' '' # v))"
    using assms(2) by (simp add: sublist_append)
  moreover have "sublist k u \<or> sublist k v" if "sublist k (CHR '' '' # v)"
    using that assms(1) by (cases k) (auto simp: sublist_Cons_right)
  moreover have "sublist k u" if "k = a @ b" "suffix a u" "prefix b (CHR '' '' # v)" for a b
    using that assms(1) by (cases b) (auto simp: suffix_imp_sublist)
  ultimately show ?thesis by blast
qed

lemma hostname_hides:
  assumes valid: "join_valid lookup jc = Inr ()"
  shows "hides jc (''setting hostname to '' @ Hostname jc)"
proof -
  note s = join_validD [OF valid]
  have words: "sublist k ''setting'' \<or> sublist k ''hostname'' \<or> sublist k ''to'' \<or> sublist k (Hostname jc)"
    if "CHR '' '' \<notin> set k" "sublist k (''setting hostname to '' @ Hostname jc)" for k
  proof -
    have "sublist k (''setting'' @ CHR '' '' # (''hostname'' @ CHR '' '' # (''to'' @ CHR '' '' # Hostname jc)))"
      using that(2) by simp
    from sublist_word [OF that(1) this] show ?thesis using sublist_word [OF that(1)] by blast
  qed
  have short: "List.length k \<le> 63" if "CHR '' '' \<notin> set k" "sublist k (''setting hostname to '' @ Hostname jc)" for k
    using words [OF that] s by (auto simp: reHostname_def dest!: sublist_length_le)
  have dot: "CHR ''.'' \<notin> set k" if "CHR '' '' \<notin> set k" "sublist k (''setting hostname to '' @ Hostname jc)" for k
  proof -
    have "CHR ''.'' \<notin> set (Hostname jc)" using s by (auto simp: reHostname_def list_all_iff token_char_def is_digit_def)
    then show ?thesis using words [OF that] set_mono_sublist [of k] by fastforce
  qed
  have plain: "CHR '' '' \<notin> set k" if "plain k" for k using plainD [OF that, of "CHR '' ''"] by (auto simp: is_space_def)
  let ?line = "''setting hostname to '' @ Hostname jc"
  have "\<not> sublist (Token jc) ?line"
  proof -
    have "plain (Token jc)" "CHR ''.'' \<in> set (Token jc)" using s shape_plain(1) token_split [of "Token jc"] by auto
    then show ?thesis using dot plain by blast
  qed
  moreover have "\<not> sublist (CACertHash jc) ?line"
  proof -
    have "plain (CACertHash jc)" "List.length (CACertHash jc) = 71" using s shape_plain(2) by (simp_all add: reCAHash_def)
    then show ?thesis using short [of "CACertHash jc"] plain by auto
  qed
  moreover have "\<not> sublist (CertificateKey jc) ?line" if "CertificateKey jc \<noteq> []"
  proof -
    have "reCertKey (CertificateKey jc)" using s that by auto
    then have "plain (CertificateKey jc)" "List.length (CertificateKey jc) = 64" using shape_plain(3) by (simp_all add: reCertKey_def)
    then show ?thesis using short [of "CertificateKey jc"] plain by auto
  qed
  ultimately show ?thesis unfolding hides_def by blast
qed

lemma mask_hides:
  assumes valid: "join_valid lookup jc = Inr ()"
  shows "hides jc (maskSecrets text [Token jc, CACertHash jc, CertificateKey jc])"
proof -
  note s = join_validD [OF valid]
  have star: "CHR ''*'' \<notin> set (Token jc)" "CHR ''*'' \<notin> set (CACertHash jc)" "CHR ''*'' \<notin> set (CertificateKey jc)"
    using s token_split [of "Token jc"] token_char_plain is_hex_plain
    by (fastforce simp: list_all_iff reCAHash_def has_prefix_iff reCertKey_def)+
  moreover have "Token jc \<noteq> []" "CACertHash jc \<noteq> []" using s shape_plain by (auto simp: plain_def)
  ultimately show ?thesis unfolding hides_def by (auto dest!: masked [rotated -1])
qed

text \<open>C20: in any run of the wizard, whatever the node and \<open>kubeadm\<close> do, the goroutine of a join adds no line to the log
  of a job that shows the token, the hash of the certificate authority or the certificate key.\<close>

theorem join_secrets_hidden:
  assumes run: "wizard_run w" and t: "(jid, Join_work jc, ph) \<in> set (wz_threads w)"
    and step: "run_state (thread_step env jid (Join_work jc) ph) w = ((), w')"
  shows "\<forall>k j' line. map_of (wz_jobs w') k = Some j' \<and> line \<in> set (wj_log j') \<longrightarrow>
    (\<not> sublist (Token jc) line \<and> \<not> sublist (CACertHash jc) line \<and> (CertificateKey jc \<noteq> [] \<longrightarrow> \<not> sublist (CertificateKey jc) line)) \<or>
    (\<exists>j. map_of (wz_jobs w) k = Some j \<and> line \<in> set (wj_log j))"
proof -
  obtain lookup where v: "join_valid lookup jc = Inr ()" using run_inv [OF run] t by (fastforce simp: jobs_inv_def)
  have "keeps (logs_only (hides jc)) (thread_step env jid (Join_work jc) ph)"
    unfolding thread_step_def runJoinJob_def
    by (auto intro: logs_pieces logs_kube [OF hostname_hides [OF v] mask_hides [OF v]])
  from keepsD [OF this step] show ?thesis by (auto simp: logs_only_def hides_def)
qed


section \<open>How often a password can be tried\<close>

lemma auths_hosts: "keeps (steady auths) (write_hosts content)"
proof -
  have "keeps (steady auths) (State (\<lambda>w. case ev of
         Io_ok \<Rightarrow> (True, w\<lparr>wz_hosts := Some content\<rparr>)
       | Io_fail \<Rightarrow> (False, w)
       | Io_torn n \<Rightarrow> (False, w\<lparr>wz_hosts := Some (take n content)\<rparr>)))" for ev
    by (auto simp: keeps_def steady_def auths_def split: io_event.split)
  then show ?thesis unfolding write_hosts_def by (auto intro!: wiz_intros core_auths [OF core_machine])
qed

lemma auths_say: "keeps (steady auths) (say_lines jid ls)"
proof (induction ls)
  case (Cons l ls)
  then show ?case by (auto intro!: wiz_intros simp: say_def auths_jobs)
qed (auto intro!: wiz_intros)

lemma auths_thread: "keeps (steady auths) (thread_step env jid todo ph)"
proof -
  note rules = wiz_intros auths_jobs auths_hosts auths_say core_auths [OF core_machine]
  have "keeps (steady auths) (runInstallJob env jid ij p)" for ij p
    unfolding runInstallJob_def scratch_config_def fail_job_def done_job_def say_def
    by (auto intro!: rules split: phase.splits sum.splits option.splits)
  moreover have "keeps (steady auths) (runKubeJob jid hostname args secrets failure message p)" for hostname args secrets failure message p
    unfolding runKubeJob_def applyHostname_def ensureRuntimes_def kubeadmRun_def fail_job_def done_job_def say_def
    by (auto intro!: rules split: phase.splits sum.splits option.splits)
  ultimately show ?thesis
    by (cases todo) (simp_all add: thread_step_def runInitJob_def runJoinJob_def auths_jobs)
qed

definition lim_inv :: "wizard \<Rightarrow> bool" where
  "lim_inv w \<longleftrightarrow> zero_time \<le> wz_now w \<and> (\<forall>ip a. map_of (wz_limiter w) ip = Some a \<longrightarrow> limiter_ok (wz_now w) a)"

lemma lim_auths: "steady auths w w' \<Longrightarrow> lim_inv w \<Longrightarrow> lim_inv w'"
  by (simp add: steady_def auths_def lim_inv_def)

lemma lim_delete: "lim_inv w \<Longrightarrow> lim_inv (w\<lparr>wz_limiter := AList.delete ip (wz_limiter w)\<rparr>)"
  by (auto simp: lim_inv_def delete_conv' split: if_splits)

lemma lim_sessions: "lim_inv (w\<lparr>wz_sessions := ss\<rparr>) = lim_inv w"
  by (simp add: lim_inv_def)

lemma lim_denied:
  assumes "lim_inv w" "run_state (denied ip) w = (b, v)"
  shows "lim_inv v \<and> (\<not> b \<longrightarrow> (\<forall>a. map_of (wz_limiter v) ip = Some a \<longrightarrow> wa_blocked a \<le> wz_now v))"
  using assms lim_delete [OF assms(1), of ip]
  by (auto simp: denied_def delete_conv' split: option.splits if_splits)

lemma lim_fail:
  assumes "lim_inv v" "\<forall>a. map_of (wz_limiter v) ip = Some a \<longrightarrow> wa_blocked a \<le> wz_now v"
    and "run_state (limiter_fail ip) v = (x, w')"
  shows "lim_inv w'"
proof -
  have "limiter_ok (wz_now v) (one_more (wz_now v) (map_of (wz_limiter v) ip))"
    using assms(1,2) by (intro limiter_ok_more) (auto simp: lim_inv_def)
  then show ?thesis using assms(1,3) by (auto simp: limiter_fail_def lim_inv_def update_conv' split: if_splits)
qed

lemma lim_logged_in: "run_state (logged_in env) v = (rep, w') \<Longrightarrow> lim_inv v \<Longrightarrow> lim_inv w'"
  by (auto simp: logged_in_def run_bind mint_def Let_def lim_sessions split: option.splits)

lemma login_lim:
  assumes inv: "lim_inv w" and run: "run_state (loginHandler env r) w = (rep, w')"
  shows "lim_inv w'"
proof (cases "\<exists>user pw. sameOrigin env r \<and> Option.bind (readJSON (wr_body r)) (string_members [''username'', ''password'']) = Some [user, pw]")
  case False
  then have "w' = w" using run by (auto simp: loginHandler_def split: option.splits list.splits if_splits)
  then show ?thesis using inv by simp
next
  case True
  then obtain user pw where c: "sameOrigin env r"
    "Option.bind (readJSON (wr_body r)) (string_members [''username'', ''password'']) = Some [user, pw]" by blast
  obtain b v where d: "run_state (denied (clientIP r)) w = (b, v)" by fastforce
  note v = lim_denied [OF inv d]
  obtain f where f: "run_state (limiter_fail (clientIP r)) v = ((), f)" by (cases "run_state (limiter_fail (clientIP r)) v") simp
  obtain g where g: "run_state (limiter_reset (clientIP r)) v = ((), g)" by (cases "run_state (limiter_reset (clientIP r)) v") simp
  have g': "lim_inv g" using g v lim_delete [of v "clientIP r"] by (auto simp: limiter_reset_def)
  show ?thesis
    using run v lim_fail [OF _ _ f] lim_logged_in [of env g rep w'] g' c d f g
    by (auto simp: loginHandler_def run_bind split: if_splits option.splits bool.splits)
qed

lemma lim_serve:
  assumes inv: "lim_inv w" and run: "run_state (wizardMux env r) w = (rep, w')"
  shows "lim_inv w'"
proof (cases "wr_route r = PostLogin")
  case True
  then show ?thesis using login_lim [OF inv] run by (simp add: wizardMux_def)
next
  case False
  have handler: "lim_inv v'" if "lim_inv v" "run_state (handler_of env r (wr_route r)) v = (rep, v')" for v v'
  proof (cases "wr_route r = PostLogout")
    case True
    then show ?thesis using that by (auto simp: logoutHandler_def run_bind session_drop_def lim_sessions split: option.splits)
  next
    case F: False
    then show ?thesis using lim_auths keepsD [OF auths_handler [OF False F] that(2)] that(1) by blast
  qed
  show ?thesis
  proof (cases "open_route (wr_route r)")
    case True
    then show ?thesis using handler [OF inv] run by (simp add: wizardMux_def)
  next
    case closed: False
    obtain ok v where c: "run_state (case wr_cookie r of None \<Rightarrow> State_Monad.return False | Some c \<Rightarrow> session_valid c) w = (ok, v)" by fastforce
    then have v: "lim_inv v"
      using inv by (auto simp: session_valid_def lim_sessions split: option.splits if_splits)
    show ?thesis
      using run closed c v handler [OF v]
      by (auto simp: wizardMux_def withSession_def run_bind Let_def split: if_splits)
  qed
qed

lemma lim_run: "wizard_run w \<Longrightarrow> lim_inv w"
proof (induction rule: wizard_run.induct)
  case (1 w)
  then show ?case by (simp add: wizard_started_def lim_inv_def)
next
  case (2 w w')
  from \<open>wiz_step w w'\<close> show ?case
  proof cases
    case (Serve env r rep)
    then show ?thesis using lim_serve 2 by blast
  next
    case (Advance jid todo ph env)
    then show ?thesis using lim_auths keepsD [OF auths_thread] 2 by blast
  next
    case (Report jid ij down written)
    then have "steady auths w w'" unfolding job_report_def by (auto dest: keepsD [OF auths_jobs(2)])
    then show ?thesis using lim_auths 2 by blast
  next
    case (Elapse t)
    then show ?thesis using 2 limiter_ok_later [of "wz_now w" _ t] by (auto simp: lim_inv_def)
  next
    case (Outside m hosts y k a)
    then show ?thesis using 2 by (simp add: lim_inv_def)
  qed
qed



section \<open>A fresh node that joins\<close>

definition sample_jc :: joinConfig where
  "sample_jc = \<lparr> Address = ''10.0.0.1:6443'', Token = sample_token, CACertHash = sample_hash, CertificateKey = [],
     Role = ''worker'', Hostname = ''node-1'' \<rparr>"

definition sample_wiz :: wiz_env where
  "sample_wiz = \<lparr> we_install = sample_install, we_lookup = sample_lookup, we_host_of = (\<lambda>_. None), we_is_ip = (\<lambda>_. True),
     we_su = (\<lambda>pw. Some (pw = ''secret'')), we_random = Some [1, 2, 3, 4, 5, 6, 7, 8], we_blocks = None, we_addr = (\<lambda>_. None),
     we_length = (\<lambda>_. 0), we_clean = (\<lambda>p. p), we_web = (\<lambda>_. True), we_tmp = ''/tmp/c.yaml'' \<rparr>"

definition sample_wizard :: wizard where
  "sample_wizard = \<lparr> wz_now = 0, wz_sessions = [(''s'', 1)], wz_limiter = [], wz_jobs = [], wz_busy = False, wz_threads = [],
     wz_index = [], wz_machine = sample_install_state, wz_hosts = Some (''127.0.0.1 localhost'' @ [newline]),
     wz_yaml = True, wz_kube = False, wz_admin = False \<rparr>"

definition wiz_ask :: "string option \<Rightarrow> wiz_route \<Rightarrow> json \<Rightarrow> wiz_request" where
  "wiz_ask cookie rt j = \<lparr> wr_route = rt, wr_remote = ''10.0.0.9:5000'', wr_host = ''h'', wr_origin = [], wr_referer = [],
     wr_cookie = cookie, wr_channel = [], wr_body = print_json j \<rparr>"

lemma length_quote: "List.length (quote_str s) \<le> 6 * List.length s + 2"
proof -
  have "List.length (concat (map esc_char s)) \<le> 6 * List.length s" for s
    by (induction s) (auto simp: esc_char_def Let_def)
  from this [of s] show ?thesis by (simp add: quote_str_def)
qed

lemma short_quote: "6 * List.length s + 2 \<le> n \<Longrightarrow> List.length (quote_str s) \<le> n"
  using length_quote [of s] by linarith

lemma readJSON_print:
  "wf_json j \<Longrightarrow> json_depth j \<le> 10000 \<Longrightarrow> List.length (print_json j) \<le> 1048576 \<Longrightarrow> readJSON (print_json j) = Some j"
  by (simp add: readJSON_def decode_first_print)

lemma sample_started: "wizard_run sample_wizard"
  by (rule wizard_run.intros) (simp add: wizard_started_def sample_wizard_def zero_time_def)

lemma sample_valid: "join_valid sample_lookup sample_jc = Inr ()"
  by code_simp

lemma wiz_fold_names [simp]:
  "fold_name ''config'' = ''config''" "fold_name ''username'' = ''username''" "fold_name ''password'' = ''password''"
  by code_simp+

lemma sample_join_body: "readJSON (print_json (JObj [(''config'', join_json sample_jc)])) = Some (JObj [(''config'', join_json sample_jc)])"
proof (rule readJSON_print)
  have l: "List.length sample_token = 23" "List.length sample_hash = 71" by (simp_all add: sample_token_def sample_hash_def)
  have b: "List.length (quote_str (Address sample_jc)) \<le> 1000" "List.length (quote_str (Token sample_jc)) \<le> 1000"
    "List.length (quote_str (CACertHash sample_jc)) \<le> 1000" "List.length (quote_str (CertificateKey sample_jc)) \<le> 1000"
    "List.length (quote_str (Role sample_jc)) \<le> 1000" "List.length (quote_str (Hostname sample_jc)) \<le> 1000"
    by (rule short_quote; simp add: sample_jc_def l)+
  have n: "List.length (quote_str ''config'') \<le> 1000" "List.length (quote_str ''address'') \<le> 1000" "List.length (quote_str ''token'') \<le> 1000"
    "List.length (quote_str ''caCertHash'') \<le> 1000" "List.length (quote_str ''certificateKey'') \<le> 1000"
    "List.length (quote_str ''role'') \<le> 1000" "List.length (quote_str ''hostname'') \<le> 1000"
    by (rule short_quote; simp)+
  show "List.length (print_json (JObj [(''config'', join_json sample_jc)])) \<le> 1048576"
    using b n unfolding join_json_def print_json.simps print_members.simps by (simp only: length_append list.size)
qed (simp_all add: join_json_def)

lemma sample_decoded: "parseJoinConfig sample_lookup (join_json sample_jc) = Inr sample_jc"
proof -
  obtain ms where "join_json sample_jc = JObj ms" by (simp add: join_json_def)
  then show ?thesis using decode_join_json [of sample_jc] sample_valid by (simp add: parseJoinConfig_def)
qed

abbreviation sample_join :: wiz_request where
  "sample_join \<equiv> wiz_ask (Some ''s'') PostJoin (JObj [(''config'', join_json sample_jc)])"

abbreviation sample_joining :: wizard where
  "sample_joining \<equiv> snd (run_state (wizardMux sample_wiz sample_join) sample_wizard)"

abbreviation sample_id :: string where "sample_id \<equiv> hex_encode [1, 2, 3, 4, 5, 6, 7, 8]"

lemma sample_joining_state:
  "wz_threads sample_joining = [(sample_id, Join_work sample_jc, Phase1)] \<and> list_all (\<lambda>(_, j). wj_log j = []) (wz_jobs sample_joining)"
proof -
  have "Option.bind (readJSON (wr_body sample_join)) (strict_members [''config'']) = Some [(''config'', join_json sample_jc)]"
    using sample_join_body by (simp add: wiz_ask_def strict_members_def)
  moreover have "parseJoinConfig (we_lookup sample_wiz) (join_json sample_jc) = Inr sample_jc"
    using sample_decoded by (simp add: sample_wiz_def)
  ultimately have h: "kubeJoinHandler sample_wiz sample_join =
      start_job sample_wiz sample_join ''join'' (\<lambda>_. State_Monad.return ()) (Join_work sample_jc)"
    by (simp add: kubeJoinHandler_def field_values_Cons)
  have r: "wr_route sample_join = PostJoin" "wr_cookie sample_join = Some ''s''" "sameOrigin sample_wiz sample_join"
    "we_random sample_wiz = Some [1, 2, 3, 4, 5, 6, 7, 8]"
    by (simp_all add: wiz_ask_def sameOrigin_def sample_wiz_def)
  show ?thesis
    by (simp add: wizardMux_def Let_def h r withSession_def run_bind session_valid_def sample_wizard_def
        detectWizardState_def start_job_def jobs_start_def spawn_def)
qed

lemmas sample_threads = conjunct1 [OF sample_joining_state]

lemma sample_no_logs: "map_of (wz_jobs sample_joining) k = Some j \<Longrightarrow> wj_log j = []"
  using conjunct2 [OF sample_joining_state] by (auto simp: list_all_iff dest: map_of_SomeD)

lemma sample_joining_run: "wizard_run sample_joining"
proof -
  obtain rep w where r: "run_state (wizardMux sample_wiz sample_join) sample_wizard = (rep, w)" by fastforce
  then show ?thesis using wizard_run.intros(2) [OF sample_started Serve [OF r]] by simp
qed

theorem wizard_guarded_witness:
  "wz_machine (snd (run_state (wizardMux sample_wiz (wiz_ask None PostReboot (JObj [(''confirm'', JBool True)]))) sample_wizard)) =
   wz_machine sample_wizard"
proof -
  let ?r = "wiz_ask None PostReboot (JObj [(''confirm'', JBool True)])"
  obtain rep w where r: "run_state (wizardMux sample_wiz ?r) sample_wizard = (rep, w)" by fastforce
  have "\<not> authorised sample_wiz ?r sample_wizard" by (simp add: authorised_def wiz_ask_def)
  then have o: "only_auth sample_wizard w" using wizard_guarded [OF r] by blast
  have "wz_machine w = wz_machine (w\<lparr>wz_sessions := ss, wz_limiter := ls\<rparr>)" for ss ls by simp
  then show ?thesis using o r unfolding only_auth_def by (metis snd_conv)
qed

theorem one_destructive_job_witness:
  "wz_busy sample_joining \<and> running sample_joining sample_id"
  using one_destructive_job [OF sample_joining_run] sample_threads by auto


theorem join_secrets_hidden_witness:
  "\<nexists>k j' line. map_of (wz_jobs (snd (run_state (thread_step sample_wiz sample_id (Join_work sample_jc) Phase1) sample_joining))) k = Some j' \<and>
      line \<in> set (wj_log j') \<and> sublist sample_token line"
proof -
  obtain w where r: "run_state (thread_step sample_wiz sample_id (Join_work sample_jc) Phase1) sample_joining = ((), w)"
    by (cases "run_state (thread_step sample_wiz sample_id (Join_work sample_jc) Phase1) sample_joining") simp
  have t: "(sample_id, Join_work sample_jc, Phase1) \<in> set (wz_threads sample_joining)" using sample_threads by simp
  have tok: "Token sample_jc = sample_token" by (simp add: sample_jc_def)
  have "\<not> sublist sample_token line" if "map_of (wz_jobs w) k = Some j'" "line \<in> set (wj_log j')" for k j' line
    using join_secrets_hidden [OF sample_joining_run t r] that sample_no_logs unfolding tok by force
  then show ?thesis unfolding r snd_conv by blast
qed


definition sample_guess :: json where
  "sample_guess = JObj [(''username'', JStr ''root''), (''password'', JStr ''x'')]"

abbreviation sample_failed :: wizard where
  "sample_failed \<equiv> snd (run_state (wizardMux sample_wiz (wiz_ask None PostLogin sample_guess)) sample_wizard)"

lemma sample_failed_run: "wizard_run sample_failed"
proof -
  obtain rep w where r: "run_state (wizardMux sample_wiz (wiz_ask None PostLogin sample_guess)) sample_wizard = (rep, w)" by fastforce
  then show ?thesis using wizard_run.intros(2) [OF sample_started Serve [OF r]] by simp
qed

lemma sample_failed_limiter: "\<exists>a. map_of (wz_limiter sample_failed) ''10.0.0.9'' = Some a"
proof -
  let ?r = "wiz_ask None PostLogin sample_guess"
  have q: "List.length (quote_str ''username'') \<le> 100" "List.length (quote_str ''password'') \<le> 100"
    "List.length (quote_str ''root'') \<le> 100" "List.length (quote_str ''x'') \<le> 100"
    by (rule short_quote; simp)+
  then have "List.length (print_json sample_guess) \<le> 1048576"
    unfolding sample_guess_def print_json.simps print_members.simps by (simp only: length_append list.size)
  then have b: "readJSON (wr_body ?r) = Some sample_guess"
    unfolding wiz_ask_def wiz_request.simps by (intro readJSON_print) (simp_all add: sample_guess_def)
  have m: "string_members [''username'', ''password''] sample_guess = Some [''root'', ''x'']"
    by (simp add: sample_guess_def string_members_def strict_members_def string_member_def field_values_Cons)
  have ip: "clientIP ?r = ''10.0.0.9''"
  proof -
    have "SplitHostPort ''10.0.0.9:5000'' = Some (''10.0.0.9'', ''5000'')" by code_simp
    then show ?thesis by (simp add: clientIP_def wiz_ask_def)
  qed
  have s: "sameOrigin sample_wiz ?r" "wr_route ?r = PostLogin" "we_su sample_wiz ''x'' = Some False"
    by (simp_all add: wiz_ask_def sameOrigin_def sample_wiz_def)
  show ?thesis
    by (simp add: wizardMux_def Let_def s loginHandler_def b m ip run_bind denied_def sample_wizard_def limiter_fail_def)
qed


end
