(* ===== verification/Spec2Isabelle.thy ===== *)
theory Spec2Isabelle
  imports Cron_Correct Whole_System Kube_Wire Selfupdate Wizard_Safety
begin

text \<open>
  A verification library for the simplek8s controller: a daemon that runs on every node, elects a
  leader through a lease, and drives node reboots and system updates through annotations on the
  Kubernetes nodes; and for \<open>nodectl\<close>, the command-line tool of a node.

  \<^bold>\<open>How the program works.\<close> Every component talks to the API server only
  (\<open>internal/kube/client.go\<close>). The state of a reboot lives in annotations of the node
  (\<open>internal/nodestate\<close>): a request, a lifecycle state, the executor's record and a status; the state
  of an update is a goal version, a claimed check and a marker beside them. All writes go through one
  read-modify-write, \<open>PatchTransition\<close>, which computes a patch from a fresh read and sends it with the
  version it has read. The engine (\<open>internal/engine\<close>) renews the leader lease, reads the settings from
  a ConfigMap (\<open>internal/config\<close>, with cron schedules from \<open>internal/cron\<close>) and runs the tasks: on the
  leader the reboot orchestrator (\<open>features/reboot/orchestrator.go\<close>) and the verification of updates,
  on every node the reboot executor (\<open>local.go\<close>) and the update cycle (\<open>features/update\<close>). The latter
  checks a signed index of releases, stages a kernel onto the boot partition
  (\<open>internal/updatecore\<close>), makes it the goal and requests the reboot. Requests of people come in
  through a REST API (\<open>internal/api\<close>).

  \<^bold>\<open>Theories and what they model.\<close>
  \<^item> \<open>Prelude\<close>, \<open>Go_Time\<close>, \<open>Go_Time_Format\<close>, \<open>Go_Json\<close>: what the sources use of Go and its
    standard library: 64-bit integers with wrap-around, strings, numbers in text, instants as
    nanoseconds since 1970 (unbounded), the civil calendar, RFC 3339, durations, JSON. A string is a
    list of bytes; case is folded for ASCII letters.
  \<^item> \<open>Cron\<close> (cron.go) and \<open>Cron_Correct\<close>: schedules as records, parsing with every error, the
    backward search for occurrences. \<open>Cron_Correct\<close> states what an occurrence is and proves the
    search, the windows and the parser against it.
  \<^item> \<open>Config\<close> (config.go): the settings and the resolution of a ConfigMap.
  \<^item> \<open>Kube_Types\<close> (types.go), \<open>Kube_Client\<close> (client.go): objects, selectors, instants on the wire;
    retries, verbs and paging over an abstract transport.
  \<^item> \<open>Node_State\<close> (state.go, update.go): annotations read into records and written as patches; a
    build function answers with a patch, with nothing to do, or with a panic.
  \<^item> \<open>Transition\<close> (\<open>PatchTransition\<close>): the interface \<open>api_server\<close> says what a server promises in
    the presence of other clients, and the transition is proved once against it.
  \<^item> \<open>Fake_Api\<close> (kubetest/fakeapi.go) and \<open>Fake_World\<close>: the in-memory server, and the client run
    against it while an arbitrary schedule of foreign requests is interleaved between ours; the
    interface is interpreted on it. \<open>Kube_Wire\<close>: one HTTP attempt of the client as such a transport, and that the
    typed errors of the fake server are those a client reads from its responses.
  \<^item> \<open>Handlers\<close>: computations over the memory of a component and the world, and the rules that
    compose what they add to the log of accepted patches and started reboots.
  \<^item> \<open>Lease\<close> (lease.go): the leader lease, and controllers that share one. \<open>Engine\<close> (engine.go): the
    cycle, over tasks that are parameters.
  \<^item> \<open>Reboot_Gates\<close> (pdb.go, parts of drain.go and orchestrator.go), \<open>Reboot_Feature\<close>
    (orchestrator.go, drain.go, local.go, reboot.go): the whole reboot feature as computations over
    its memory and the world. \<open>Reboot_Safety\<close> proves what it may write, in the locale
    \<open>reboot_host\<close>; \<open>Reboot_World\<close> interprets that on the fake cluster.
  \<^item> \<open>Rest_Api\<close> (api.go) and \<open>Rest_Safety\<close>: routes, authentication, admission and deletion.
    \<open>Controller\<close>: any number of controllers with the reboot feature and the API, the exact effect
    of a request and of a deletion.
  \<^item> \<open>Release\<close> (versions.go, img.go, nodectl.go, index.go, the plan of purge.go): file names, the
    index, the newest release, what a purge deletes. \<open>Boot_Fs\<close>: the boot partition as a file store
    whose every call may fail or tear, by a script of faults that is part of the state. \<open>Bootloader\<close>
    (bootloader.go), \<open>Staging\<close> (staging.go, purge.go, disk.go, download.go, extract.go), \<open>Boot_Store\<close>
    (bootstore.go and the lock): what is read from and written to the partition.
  \<^item> \<open>Release_Check\<close> (gpg.go, check.go): the index fetched, its signature verified, the newest kernel.
    \<open>Update_Feature\<close> (features/update): the cycle of the pod and the verification by the leader.
    \<open>Update_Safety\<close> proves what it may write, in the locale \<open>update_host\<close>; \<open>Update_World\<close> interprets
    that on a host with its boot partition beside the fake cluster.
  \<^item> \<open>Whole_System\<close> (main.go): pods with both features as tasks of the engine and the API, which
    cycle, serve, crash and restart in any order.
  \<^item> \<open>Nodectl\<close> (cmd/nodectl: list.go, check.go, purge.go, boot.go, update.go, common.go): the commands of
    the tool over the boot store. \<open>Selfupdate\<close> (selfupdate.go): how the tool replaces itself, and the
    throttle of doing so unasked. \<open>Crypt\<close> (updatecore/crypt.go): the hash of the root password.
    \<open>Install\<close> (install.go): the installation onto a disk, as computations over disks, commands run and
    the file written, whose every call may fail by a script.
  \<^item> \<open>Kubeadm\<close> (the computing part of wizard_kubeadm.go): tokens, names, the join configuration, the hosts
    file, masking, what is read from the output of \<open>kubeadm\<close> and what is handed out to a joining node.
    \<open>Wizard_State\<close> (wizard_auth.go, wizard_jobs.go, the cached index of wizard_api.go): the memory of the
    setup wizard and its operations. \<open>Wizard\<close> (wizard.go, wizard_api.go, wizard_install.go and the handlers of
    the other two): every handler behind the check of session, state and origin, the goroutines of
    the jobs, which advance phase by phase between requests, and the wizard as a step relation.
    \<open>Wizard_Safety\<close> proves, for all runs of it, who may change what, that one job runs at a time, which
    disk it may touch, what the log of a join may show and how the limiter counts. What a step keeps is
    proved once in the locale \<open>wiz_relation\<close>, for any relation that commands and the cached index keep.

  \<^bold>\<open>Interleaving.\<close> A world holds a schedule of what other clients do; a step of it is taken at every
  request, so a statement about all schedules is one about all interleavings at requests. Whole
  systems are step relations over such worlds, and the disk of a pod may be changed by anybody
  between its cycles.

  \<^bold>\<open>Errors\<close> are values: a sum with an error datatype, or an option; a run-time panic of Go is a
  value of its own (\<open>Panic\<close>, \<open>Panicked\<close>, \<open>BuiltinPanic\<close>, or \<open>None\<close> where the text says so). A call that never returns leaves its goroutine
  in the phase \<open>Stuck\<close>, and a request without a reply in \<open>Never\<close>.

  \<^bold>\<open>Parameters\<close> stand for what is not in the repository: the HTTP exchange, the OpenPGP check,
  SHA-256 and SHA-512, zstd, statfs, mount and blkid (scripts of the host), address and URL parsing,
  the reboot command, the verdict of \<open>su\<close> on a password, ports of service names, the files embedded in the
  wizard. The belief of the leader that the update feature consults is an arbitrary
  function, so that it may change at any moment. Maps of Go are walked in the order of a list
  that no theorem restricts, and \<open>sort.Slice\<close> is a sort whose order of equal elements is that of an
  insertion sort; no claim rests on it.

  \<^bold>\<open>Bounds and fuel.\<close> Loops over data are structural. The retry loop of the client counts its
  attempts down from the code's cap. Only \<open>listAll\<close> needs fuel, as a server may hand out continue
  tokens for ever: with more fuel than the server has pages it returns them all
  (\<open>list_nodes_all_pages\<close>); against the fake server, which has one page, two is enough. The stream of token objects takes the
  length of its text, as every object has at least one byte. The loop of
  a cron step is a \<open>while_option\<close>, and \<open>parse_terminates\<close> shows that it ends on all inputs.

  \<^bold>\<open>Not modelled.\<close> Logging and metrics; mutexes (each operation of the leaser and each handler is
  one computation, and interleaving happens at API requests); TLS, tokens and the HTTP exchange
  itself; process start-up, flags (package flag), signals and the host hooks; of the wizard its
  certificate, the listening socket, the issue file and the terminal (terminal.go); a login is one step,
  although the code does not hold the limiter while \<open>su\<close> runs. File names are case-sensitive in the
  file store, which those of FAT are not.
\<close>

end
